(* ===== verification/Prelude.thy ===== *)
theory Prelude
  imports Main "HOL-Library.Word" "HOL-Library.Monad_Syntax"
begin

text \<open>
  Shared vocabulary of the development: the integer types of the C code, the C memory model
  (an object is a list of bytes, an access outside it is undefined), and the generic lemmas
  and simp collections the components use.

  A C function that may read or write memory has a result of type \<open>_ option\<close>. \<open>None\<close> means
  that the C code does not return a defined result: it accesses memory outside an object, or
  loops for ever. A theorem that states \<open>= Some \<dots>\<close> therefore states memory safety and
  termination as well as the value.
\<close>

unbundle bit_operations_syntax

type_synonym byte = "8 word"
type_synonym bytes = "byte list"
type_synonym u8 = "8 word"
type_synonym u16 = "16 word"
type_synonym u32 = "32 word"
type_synonym u64 = "64 word"

text \<open>\<open>mem_simps\<close>: evaluation of the memory primitives inside bounds;
  \<open>word_bits\<close>: rewriting of single bits of machine words.\<close>

named_theorems mem_simps
named_theorems word_bits

section \<open>C memory: bounded loads and stores\<close>

definition ld8 :: "bytes \<Rightarrow> nat \<Rightarrow> byte option" where
  "ld8 m i = (if i < length m then Some (m ! i) else None)"

definition st8 :: "bytes \<Rightarrow> nat \<Rightarrow> byte \<Rightarrow> bytes option" where
  "st8 m i b = (if i < length m then Some (m[i := b]) else None)"

definition ldn :: "bytes \<Rightarrow> nat \<Rightarrow> nat \<Rightarrow> bytes option" where
  "ldn m off n = (if off + n \<le> length m then Some (take n (drop off m)) else None)"

definition blit :: "bytes \<Rightarrow> nat \<Rightarrow> bytes \<Rightarrow> bytes option" where
  "blit m off bs =
     (if off + length bs \<le> length m
      then Some (take off m @ bs @ drop (off + length bs) m) else None)"

lemma ld8_in [mem_simps]: "i < length m \<Longrightarrow> ld8 m i = Some (m ! i)"
  by (simp add: ld8_def)

lemma ld8_out [mem_simps]: "length m \<le> i \<Longrightarrow> ld8 m i = None"
  by (simp add: ld8_def)

lemma ld8_eq_Some_iff: "ld8 m i = Some b \<longleftrightarrow> i < length m \<and> b = m ! i"
  by (auto simp: ld8_def)

lemma st8_in [mem_simps]: "i < length m \<Longrightarrow> st8 m i b = Some (m[i := b])"
  by (simp add: st8_def)

lemma st8_eq_Some_iff: "st8 m i b = Some m' \<longleftrightarrow> i < length m \<and> m' = m[i := b]"
  by (auto simp: st8_def)

lemma st8_length: "st8 m i b = Some m' \<Longrightarrow> length m' = length m"
  by (auto simp: st8_eq_Some_iff)

lemma ldn_in [mem_simps]: "off + n \<le> length m \<Longrightarrow> ldn m off n = Some (take n (drop off m))"
  by (simp add: ldn_def)

lemma ldn_length: "ldn m off n = Some bs \<Longrightarrow> length bs = n"
  by (auto simp: ldn_def split: if_splits)

lemma blit_in [mem_simps]:
  "off + length bs \<le> length m \<Longrightarrow>
   blit m off bs = Some (take off m @ bs @ drop (off + length bs) m)"
  by (simp add: blit_def)

lemma blit_length: "blit m off bs = Some m' \<Longrightarrow> length m' = length m"
  by (auto simp: blit_def split: if_splits)

lemma blit_nth:
  assumes "blit m off bs = Some m'" and "i < length m"
  shows "m' ! i = (if off \<le> i \<and> i < off + length bs then bs ! (i - off) else m ! i)"
  using assms by (auto simp: blit_def nth_append split: if_splits)

lemma ldn_blit_same:
  assumes "blit m off bs = Some m'"
  shows "ldn m' off (length bs) = Some bs"
  using assms by (auto simp: blit_def ldn_def split: if_splits)

lemma ldn_nth: "ldn m off n = Some bs \<Longrightarrow> i < n \<Longrightarrow> bs ! i = m ! (off + i)"
  by (auto simp: ldn_def split: if_splits)

lemma ldn_eqI:
  assumes "length m' = length m" and "\<And>i. i < n \<Longrightarrow> off + i < length m \<Longrightarrow> m' ! (off + i) = m ! (off + i)"
  shows "ldn m' off n = ldn m off n"
  using assms by (auto simp: ldn_def intro!: nth_equalityI)

lemma ldn_blit_other:
  assumes "blit m off bs = Some m'" and "o2 + n \<le> off \<or> off + length bs \<le> o2"
  shows "ldn m' o2 n = ldn m o2 n"
proof (rule ldn_eqI)
  show "length m' = length m" using assms(1) by (rule blit_length)
next
  fix i
  assume "i < n" and "o2 + i < length m"
  with assms show "m' ! (o2 + i) = m ! (o2 + i)" by (auto simp: blit_nth [OF assms(1)])
qed

lemma ld8_blit_other:
  assumes "blit m off bs = Some m'" and "i < off \<or> off + length bs \<le> i"
  shows "ld8 m' i = ld8 m i"
  using assms by (auto simp: ld8_def blit_length blit_nth)

lemma blit_Nil: "blit m a [] = Some m' \<Longrightarrow> m' = m"
  by (simp add: blit_def split: if_splits)

text \<open>Two adjacent parts stored one after the other.\<close>

lemma blit_append:
  assumes "blit m a xs = Some m1" and "blit m1 (a + length xs) ys = Some m2"
  shows "blit m a (xs @ ys) = Some m2"
  using assms by (auto simp: blit_def add_ac split: if_splits)

lemma blit_exists: "off + length bs \<le> length m \<Longrightarrow> \<exists>m'. blit m off bs = Some m'"
  by (simp add: blit_in)

text \<open>\<open>rest_at m i t\<close>: the bytes of \<open>m\<close> from position \<open>i\<close> on are \<open>t\<close>. It follows a parser
  through a dataset: after a field \<open>x\<close> the position moves by its length.\<close>

definition rest_at :: "bytes \<Rightarrow> nat \<Rightarrow> bytes \<Rightarrow> bool" where
  "rest_at m i t \<longleftrightarrow> (i + length t = length m \<and> drop i m = t)"

lemma rest_at_0 [simp]: "rest_at m 0 m"
  by (simp add: rest_at_def)

lemma rest_at_step: "rest_at m i (x @ t) \<Longrightarrow> rest_at m (i + length x) t"
  unfolding rest_at_def by (metis append_eq_conv_conj drop_drop length_append add.assoc add.commute)

lemma rest_at_next: "rest_at m i (x @ t) \<Longrightarrow> j = i + length x \<Longrightarrow> rest_at m j t"
  using rest_at_step [of m i x t] by simp

lemma rest_at_split: "rest_at m i t \<Longrightarrow> m = take i m @ t \<and> length (take i m) = i"
  by (auto simp: rest_at_def)

text \<open>A zeroed buffer of \<open>n\<close> bytes of which the first are already written.\<close>

definition zpad :: "nat \<Rightarrow> bytes \<Rightarrow> bytes" where
  "zpad n pre = pre @ replicate (n - length pre) 0"

lemma length_zpad [simp]: "length pre \<le> n \<Longrightarrow> length (zpad n pre) = n"
  by (simp add: zpad_def)

lemma zpad_Nil: "replicate n 0 = zpad n []"
  by (simp add: zpad_def)

section \<open>Lists of optional values\<close>

lemma those_map_Some: "(\<And>x. x \<in> set xs \<Longrightarrow> f x = Some (g x)) \<Longrightarrow> those (map f xs) = Some (map g xs)"
  by (induction xs) auto

lemma those_Some_length: "those xs = Some ys \<Longrightarrow> length ys = length xs"
  by (induction xs arbitrary: ys) (auto split: option.splits)

lemma those_Some_nth: "those xs = Some ys \<Longrightarrow> i < length xs \<Longrightarrow> xs ! i = Some (ys ! i)"
proof (induction xs arbitrary: ys i)
  case Nil
  then show ?case by simp
next
  case (Cons x xs)
  then show ?case by (cases i) (auto split: option.splits)
qed

lemma those_eq_None_iff: "those xs = None \<longleftrightarrow> None \<in> set xs"
  by (induction xs) (auto split: option.splits)

lemma map_nth_upt: "map (\<lambda>i. f (xs ! i)) [0..<length xs] = map f xs"
  by (rule nth_equalityI) auto

section \<open>Machine integers\<close>

text \<open>\<open>wrap n\<close> is the value of an \<open>unsigned int\<close> expression whose mathematical value is \<open>n\<close>.\<close>

definition wrap :: "int \<Rightarrow> nat" where
  "wrap n = nat (n mod 2 ^ 32)"

lemma wrap_small [simp]: "0 \<le> n \<Longrightarrow> n < 2 ^ 32 \<Longrightarrow> wrap n = nat n"
  by (simp add: wrap_def)

lemma wrap_less: "wrap n < 2 ^ 32"
  by (simp add: wrap_def nat_less_iff)

text \<open>\<open>u16n\<close> and \<open>u32n\<close>: conversion of a non-negative value to \<open>uint16_t\<close>, \<open>uint32_t\<close>.\<close>

definition u16n :: "nat \<Rightarrow> nat" where
  "u16n n = n mod 2 ^ 16"

definition u32n :: "nat \<Rightarrow> nat" where
  "u32n n = n mod 2 ^ 32"

lemma u16n_small [simp]: "n < 65536 \<Longrightarrow> u16n n = n"
  by (simp add: u16n_def)

lemma u32n_small [simp]: "n < 4294967296 \<Longrightarrow> u32n n = n"
  by (simp add: u32n_def)

section \<open>Loops that may leave the defined behaviour\<close>

text \<open>\<open>ofold f xs s\<close> runs the loop body \<open>f x\<close> for the successive elements \<open>x\<close> of \<open>xs\<close>.\<close>

fun ofold :: "('a \<Rightarrow> 's \<Rightarrow> 's option) \<Rightarrow> 'a list \<Rightarrow> 's \<Rightarrow> 's option" where
  "ofold f [] s = Some s"
| "ofold f (x # xs) s = f x s \<bind> ofold f xs"

lemma ofold_append: "ofold f (xs @ ys) s = ofold f xs s \<bind> ofold f ys"
  by (induction xs arbitrary: s) (simp_all split: bind_split)

lemma ofold_upt_Suc: "ofold f [0..<Suc n] s = ofold f [0..<n] s \<bind> f n"
  by (simp add: ofold_append cong: Option.bind_cong)

lemma ofold_cong: "(\<And>x s. x \<in> set xs \<Longrightarrow> f x s = g x s) \<Longrightarrow> ofold f xs s = ofold g xs s"
  by (induction xs arbitrary: s) (auto intro!: Option.bind_cong)

text \<open>An invariant of the body is an invariant of the loop; a body that never fails under the
  invariant gives a loop that returns.\<close>

lemma ofold_invariant:
  assumes "\<And>x s s'. x \<in> set xs \<Longrightarrow> P s \<Longrightarrow> f x s = Some s' \<Longrightarrow> P s'" and "P s"
    and "ofold f xs s = Some s'"
  shows "P s'"
  using assms by (induction xs arbitrary: s) (auto split: bind_splits)

lemma ofold_prefix:
  assumes "\<And>pre x post s. xs = pre @ x # post \<Longrightarrow> P pre s \<Longrightarrow> \<exists>s'. f x s = Some s' \<and> P (pre @ [x]) s'"
    and "P [] s"
  shows "\<exists>s'. ofold f xs s = Some s' \<and> P xs s'"
  using assms
proof (induction xs rule: rev_induct)
  case (snoc x xs)
  then obtain s1 where "ofold f xs s = Some s1" and P: "P xs s1"
    by (metis append_Cons append_assoc)
  moreover from snoc.prems(1) [OF _ P, of x "[]"] obtain s2 where "f x s1 = Some s2" "P (xs @ [x]) s2"
    by auto
  ultimately show ?case by (auto simp: ofold_append)
qed simp

text \<open>Two nested loops are one loop over the pairs.\<close>

lemma ofold_nested:
  "ofold (\<lambda>y. ofold (\<lambda>x. f x y) xs) ys s =
   ofold (\<lambda>(x, y). f x y) (concat (map (\<lambda>y. map (\<lambda>x. (x, y)) xs) ys)) s"
proof (induction ys arbitrary: s)
  case (Cons y ys)
  have "ofold (\<lambda>(x, y). f x y) (map (\<lambda>x. (x, y)) xs) s = ofold (\<lambda>x. f x y) xs s" for s
    by (induction xs arbitrary: s) (auto intro!: Option.bind_cong)
  with Cons show ?case by (auto simp: ofold_append intro!: Option.bind_cong)
qed simp

lemma ofold_returns:
  assumes "\<And>x s. x \<in> set xs \<Longrightarrow> P s \<Longrightarrow> \<exists>s'. f x s = Some s' \<and> P s'" and "P s"
  shows "\<exists>s'. ofold f xs s = Some s' \<and> P s'"
  using assms
proof (induction xs arbitrary: s)
  case (Cons x xs)
  then obtain s1 where "f x s = Some s1" "P s1" by (metis list.set_intros(1))
  with Cons.IH [of s1] Cons.prems(1) show ?case by simp
qed simp

section \<open>Bits of bytes\<close>

lemma bit_byte_high [word_bits]: "8 \<le> n \<Longrightarrow> bit (b :: byte) n \<longleftrightarrow> False"
  using bit_imp_le_length [of b n] by auto

lemma less_8_cases: "n < (8 :: nat) \<longleftrightarrow>
    n = 7 \<or> n = 6 \<or> n = 5 \<or> n = 4 \<or> n = 3 \<or> n = 2 \<or> n = 1 \<or> n = 0"
  by arith

lemma unat_lt_256: "unat (b :: byte) < 256"
  using unsigned_less [of b, where ?'a = nat] by simp

lemma unat_lt_64k: "unat (w :: u16) < 65536"
  using unsigned_less [of w, where ?'a = nat] by simp

lemma unat_of_nat_u8: "n < 256 \<Longrightarrow> unat (of_nat n :: u8) = n"
  by (simp add: unat_of_nat take_bit_eq_mod)

lemma unat_of_nat_u32: "n < 4294967296 \<Longrightarrow> unat (of_nat n :: u32) = n"
  by (simp add: unat_of_nat take_bit_eq_mod)

lemma unat_word_diff:
  assumes "a \<le> b" "b < 2 ^ 32"
  shows "unat (word_of_int (int b - int a) :: u32) = b - a"
proof -
  have "word_of_int (int b - int a) = (of_nat (b - a) :: u32)"
    using assms(1) by (simp add: of_nat_diff)
  then show ?thesis using assms(2) by (simp only:) (simp add: unat_of_nat_u32)
qed

lemma sint_small:
  assumes "unat (w :: u32) < 2147483648"
  shows "sint w = int (unat w)"
proof -
  have "uint w < 2147483648" 
    using assms unfolding unat_eq_nat_uint by linarith
  moreover have "0 \<le> uint w" by (rule uint_ge_0)
  moreover from this have "- 2147483648 \<le> uint w" by linarith
  ultimately have "signed_take_bit 31 (uint w) = uint w"
    using signed_take_bit_int_eq_self [of 31 "uint w"] by simp
  moreover have "sint w = signed_take_bit 31 (uint w)"
    unfolding sint_uint by (simp only: len_num1 len_bit0 len_bit1; simp)
  ultimately show ?thesis unfolding unat_eq_nat_uint using \<open>0 \<le> uint w\<close> by linarith
qed
text \<open>What remains of \<open>bs\<close> after its beginning \<open>cs\<close> was taken.\<close>

lemma append_split:
  assumes "bs @ rest = cs @ t" and "length cs \<le> length bs"
  shows "bs = cs @ drop (length cs) bs \<and> t = drop (length cs) bs @ rest"
proof -
  have "cs = take (length cs) bs" "t = drop (length cs) bs @ rest"
    using assms append_eq_append_conv_if [of cs t bs rest] by auto
  then show ?thesis by (metis append_take_drop_id)
qed

end
