(* ===== verification/Endian.thy ===== *)
theory Endian
  imports Prelude
begin

text \<open>
  Byte order: the macros of \<open>libptp-endian.h\<close> and the \<open>htod*\<close> / \<open>dtoh*\<close> helpers at the
  top of \<open>ptp-pack.c\<close>. The host is little endian (the \<open>le*\<close> macros are the identity, as in
  the header), so a 16- or 32-bit object in host memory is its bytes, least significant first
  (\<open>mem16\<close>, \<open>mem32\<close>). The data layer's order is the field \<open>byteorder\<close> of \<open>PTPParams\<close>.
\<close>

section \<open>Host representation of integers\<close>

definition mem16 :: "u16 \<Rightarrow> bytes" where
  "mem16 v = [ucast v, ucast (drop_bit 8 v)]"

definition mem32 :: "u32 \<Rightarrow> bytes" where
  "mem32 v = [ucast v, ucast (drop_bit 8 v), ucast (drop_bit 16 v), ucast (drop_bit 24 v)]"

definition host16 :: "bytes \<Rightarrow> u16" where
  "host16 bs = ucast (bs ! 0) OR push_bit 8 (ucast (bs ! 1))"

definition host32 :: "bytes \<Rightarrow> u32" where
  "host32 bs = ucast (bs ! 0) OR push_bit 8 (ucast (bs ! 1)) OR
               push_bit 16 (ucast (bs ! 2)) OR push_bit 24 (ucast (bs ! 3))"

lemma length_mem16 [simp]: "length (mem16 v) = 2"
  by (simp add: mem16_def)

lemma length_mem32 [simp]: "length (mem32 v) = 4"
  by (simp add: mem32_def)

lemma host16_mem16 [simp]: "host16 (mem16 v) = v"
  unfolding host16_def mem16_def
  by (rule bit_word_eqI) (auto simp: bit_simps)

lemma host32_mem32 [simp]: "host32 (mem32 v) = v"
proof (rule bit_word_eqI)
  fix n
  assume "n < LENGTH(32)"
  then have "n < 8 \<or> 8 \<le> n \<and> n < 16 \<or> 16 \<le> n \<and> n < 24 \<or> 24 \<le> n \<and> n < 32"
    by auto
  then show "bit (host32 (mem32 v)) n = bit v n"
    by (elim disjE) (auto simp: host32_def mem32_def bit_simps)
qed

lemma mem16_host16 [simp]: "length bs = 2 \<Longrightarrow> mem16 (host16 bs) = bs"
proof -
  assume "length bs = 2"
  then obtain a b where bs: "bs = [a, b]"
    by (auto simp: length_Suc_conv numeral_2_eq_2)
  have "ucast (ucast a OR push_bit 8 (ucast b) :: u16) = a"
    by (rule bit_word_eqI) (auto simp: bit_simps)
  moreover have "ucast (drop_bit 8 (ucast a OR push_bit 8 (ucast b) :: u16)) = b"
    by (rule bit_word_eqI) (auto simp: bit_simps word_bits)
  ultimately show ?thesis by (simp add: bs host16_def mem16_def)
qed

lemma mem32_host32 [simp]: "length bs = 4 \<Longrightarrow> mem32 (host32 bs) = bs"
proof -
  assume "length bs = 4"
  then obtain a b c d where bs: "bs = [a, b, c, d]"
    by (auto simp: length_Suc_conv numeral_eq_Suc)
  define w where "w = host32 bs"
  have bit_w: "bit w n \<longleftrightarrow> bit a n \<or> 8 \<le> n \<and> bit b (n - 8) \<or>
      16 \<le> n \<and> bit c (n - 16) \<or> 24 \<le> n \<and> bit d (n - 24)" if "n < 32" for n
    using that by (auto simp: w_def bs host32_def bit_simps word_bits dest: bit_imp_le_length)
  have "ucast w = a" "ucast (drop_bit 8 w) = b" "ucast (drop_bit 16 w) = c"
    "ucast (drop_bit 24 w) = d"
    by (rule bit_word_eqI; auto simp: bit_simps bit_w word_bits)+
  then show ?thesis by (simp add: mem32_def w_def [symmetric]) (simp add: bs)
qed

section \<open>Byte swapping and the endian macros\<close>

text \<open>\<open>bswap_16\<close> and \<open>bswap_32\<close> (of \<open>byteswap.h\<close>) reverse the bytes of a value.\<close>

definition bswap_16 :: "u16 \<Rightarrow> u16" where
  "bswap_16 x = host16 (rev (mem16 x))"

definition bswap_32 :: "u32 \<Rightarrow> u32" where
  "bswap_32 x = host32 (rev (mem32 x))"

lemma bswap_16_involutive [simp]: "bswap_16 (bswap_16 x) = x"
  by (simp add: bswap_16_def)

lemma bswap_32_involutive [simp]: "bswap_32 (bswap_32 x) = x"
  by (simp add: bswap_32_def)

definition PTP_DL_BE :: u8 where "PTP_DL_BE = 0xF0"
definition PTP_DL_LE :: u8 where "PTP_DL_LE = 0x0F"

definition htole16 :: "u16 \<Rightarrow> u16" where "htole16 x = x"
definition htole32 :: "u32 \<Rightarrow> u32" where "htole32 x = x"
definition le16toh :: "u16 \<Rightarrow> u16" where "le16toh x = x"
definition le32toh :: "u32 \<Rightarrow> u32" where "le32toh x = x"
definition htobe16 :: "u16 \<Rightarrow> u16" where "htobe16 x = bswap_16 x"
definition htobe32 :: "u32 \<Rightarrow> u32" where "htobe32 x = bswap_32 x"
definition be16toh :: "u16 \<Rightarrow> u16" where "be16toh x = bswap_16 x"
definition be32toh :: "u32 \<Rightarrow> u32" where "be32toh x = bswap_32 x"

section \<open>Host to data layer and back\<close>

definition htod16p :: "u8 \<Rightarrow> u16 \<Rightarrow> u16" where
  "htod16p bo var = (if bo = PTP_DL_LE then htole16 var else htobe16 var)"

definition htod32p :: "u8 \<Rightarrow> u32 \<Rightarrow> u32" where
  "htod32p bo var = (if bo = PTP_DL_LE then htole32 var else htobe32 var)"

definition dtoh16p :: "u8 \<Rightarrow> u16 \<Rightarrow> u16" where
  "dtoh16p bo var = (if bo = PTP_DL_LE then le16toh var else be16toh var)"

definition dtoh32p :: "u8 \<Rightarrow> u32 \<Rightarrow> u32" where
  "dtoh32p bo var = (if bo = PTP_DL_LE then le32toh var else be32toh var)"

text \<open>The \<open>*ap\<close> helpers store to, or load from, byte \<open>a\<close> of the object \<open>m\<close>.\<close>

definition htod8a :: "bytes \<Rightarrow> nat \<Rightarrow> u8 \<Rightarrow> bytes option" where
  "htod8a m a x = st8 m a x"

definition htod16ap :: "u8 \<Rightarrow> bytes \<Rightarrow> nat \<Rightarrow> u16 \<Rightarrow> bytes option" where
  "htod16ap bo m a val =
     (if bo = PTP_DL_LE then blit m a (mem16 (htole16 val)) else blit m a (mem16 (htobe16 val)))"

definition htod32ap :: "u8 \<Rightarrow> bytes \<Rightarrow> nat \<Rightarrow> u32 \<Rightarrow> bytes option" where
  "htod32ap bo m a val =
     (if bo = PTP_DL_LE then blit m a (mem32 (htole32 val)) else blit m a (mem32 (htobe32 val)))"

definition dtoh8a :: "bytes \<Rightarrow> nat \<Rightarrow> u8 option" where
  "dtoh8a m a = ld8 m a"

definition dtoh16ap :: "u8 \<Rightarrow> bytes \<Rightarrow> nat \<Rightarrow> u16 option" where
  "dtoh16ap bo m a =
     (if bo = PTP_DL_LE then map_option (le16toh \<circ> host16) (ldn m a 2)
      else map_option (be16toh \<circ> host16) (ldn m a 2))"

definition dtoh32ap :: "u8 \<Rightarrow> bytes \<Rightarrow> nat \<Rightarrow> u32 option" where
  "dtoh32ap bo m a =
     (if bo = PTP_DL_LE then map_option (le32toh \<circ> host32) (ldn m a 4)
      else map_option (be32toh \<circ> host32) (ldn m a 4))"

lemmas endian_defs = htole16_def htole32_def le16toh_def le32toh_def
  htobe16_def htobe32_def be16toh_def be32toh_def

lemma dtoh16p_htod16p [simp]: "dtoh16p bo (htod16p bo v) = v"
  by (simp add: dtoh16p_def htod16p_def endian_defs)

lemma dtoh32p_htod32p [simp]: "dtoh32p bo (htod32p bo v) = v"
  by (simp add: dtoh32p_def htod32p_def endian_defs)

section \<open>The array helpers as codecs\<close>

text \<open>
  The contract of a fixed-width field codec: \<open>put\<close> stores a value at an offset of an object,
  \<open>get\<close> loads it, each access touches exactly \<open>width\<close> bytes. The unpackers of
  \<open>ptp-pack.c\<close> rely on it for scalars and for the counted arrays.
\<close>

locale field_codec =
  fixes put :: "bytes \<Rightarrow> nat \<Rightarrow> 'a \<Rightarrow> bytes option"
    and get :: "bytes \<Rightarrow> nat \<Rightarrow> 'a option"
    and enc :: "'a \<Rightarrow> bytes"
    and dec :: "bytes \<Rightarrow> 'a"
    and width :: nat
  assumes put_blit: "put m a v = blit m a (enc v)"
    and get_ldn: "get m a = map_option dec (ldn m a width)"
    and length_enc: "length (enc v) = width"
    and dec_enc: "dec (enc v) = v"
begin

lemma put_Some_iff: "(\<exists>m'. put m a v = Some m') \<longleftrightarrow> a + width \<le> length m"
  by (simp add: put_blit blit_def length_enc)

lemma get_Some_iff: "(\<exists>v. get m a = Some v) \<longleftrightarrow> a + width \<le> length m"
  by (simp add: get_ldn ldn_def)

lemma get_in: "a + width \<le> length m \<Longrightarrow> get m a = Some (dec (take width (drop a m)))"
  by (simp add: get_ldn mem_simps)

lemma put_in:
  "a + width \<le> length m \<Longrightarrow>
   put m a v = Some (take a m @ enc v @ drop (a + width) m)"
  by (simp add: put_blit mem_simps length_enc)

lemma put_length: "put m a v = Some m' \<Longrightarrow> length m' = length m"
  by (simp add: put_blit blit_length)

lemma get_put_same: "put m a v = Some m' \<Longrightarrow> get m' a = Some v"
  using ldn_blit_same [of m a "enc v" m'] by (simp add: put_blit get_ldn length_enc dec_enc)

lemma put_ldn_other:
  "put m a v = Some m' \<Longrightarrow> b + n \<le> a \<or> a + width \<le> b \<Longrightarrow> ldn m' b n = ldn m b n"
  using ldn_blit_other [of m a "enc v" m' b n] by (simp add: put_blit length_enc)

lemma put_ld8_other:
  "put m a v = Some m' \<Longrightarrow> b < a \<or> a + width \<le> b \<Longrightarrow> ld8 m' b = ld8 m b"
  using ld8_blit_other [of m a "enc v" m' b] by (simp add: put_blit length_enc)

lemma get_append:
  "length pre = a \<Longrightarrow> get (pre @ enc v @ post) a = Some v"
  by (simp add: get_ldn ldn_def length_enc dec_enc)

text \<open>A run of encoded elements is read back element by element.\<close>

lemma get_concat:
  assumes "i < length vs"
  shows "get (pre @ concat (map enc vs) @ post) (length pre + width * i) = Some (vs ! i)"
proof -
  let ?l = "concat (map enc (take i vs))"
  have len: "length ?l = width * i"
    using assms by (simp add: length_concat o_def length_enc sum_list_triv)
  have "vs = take i vs @ vs ! i # drop (Suc i) vs"
    using assms by (rule id_take_nth_drop)
  then have "concat (map enc vs) = ?l @ enc (vs ! i) @ concat (map enc (drop (Suc i) vs))"
    by (metis concat.simps(2) concat_append list.simps(9) map_append)
  then show ?thesis
    using get_append [of "pre @ ?l" "length pre + width * i" "vs ! i"] len by simp
qed

lemma those_get_concat:
  "those (map (\<lambda>i. get (pre @ concat (map enc vs) @ post) (length pre + width * i))
     [0..<length vs]) = Some vs"
proof -
  have "those (map (\<lambda>i. get (pre @ concat (map enc vs) @ post) (length pre + width * i))
     [0..<length vs]) = Some (map (\<lambda>i. vs ! i) [0..<length vs])"
    by (rule those_map_Some) (simp add: get_concat)
  then show ?thesis by (simp add: map_nth)
qed

text \<open>Reading at a position of which only the remaining bytes are known.\<close>

lemma get_rest: "rest_at m a (enc v @ t) \<Longrightarrow> get m a = Some v"
  by (auto simp: rest_at_def get_ldn ldn_def length_enc dec_enc)

text \<open>Filling a zeroed buffer from the front.\<close>

lemma put_zpad:
  assumes "length pre = a" and "a + width \<le> n"
  shows "put (zpad n pre) a v = Some (zpad n (pre @ enc v))"
proof -
  have "a + width \<le> length (zpad n pre)" using assms by simp
  from put_in [OF this, of v] assms show ?thesis
    by (simp add: zpad_def length_enc)
qed

text \<open>A loop that stores successive elements writes their concatenated encoding.\<close>

lemma ofold_put:
  assumes "a + width * n \<le> length m"
  shows "ofold (\<lambda>i m. put m (a + width * i) (v i)) [0..<n] m =
    Some (take a m @ concat (map (\<lambda>i. enc (v i)) [0..<n]) @ drop (a + width * n) m)"
  using assms
proof (induction n)
  case 0
  then show ?case by simp
next
  case (Suc n)
  let ?c = "concat (map (\<lambda>i. enc (v i)) [0..<n])"
  have len: "length ?c = width * n"
    by (simp add: length_concat o_def length_enc sum_list_triv)
  have "a + width * n + width \<le> length (take a m @ ?c @ drop (a + width * n) m)"
    using Suc.prems len by simp
  from put_in [OF this, of "v n"] Suc show ?case
    by (simp only: ofold_upt_Suc) (simp add: len algebra_simps)
qed

end

definition enc16 :: "u8 \<Rightarrow> u16 \<Rightarrow> bytes" where
  "enc16 bo v = mem16 (htod16p bo v)"

definition enc32 :: "u8 \<Rightarrow> u32 \<Rightarrow> bytes" where
  "enc32 bo v = mem32 (htod32p bo v)"

definition dec16 :: "u8 \<Rightarrow> bytes \<Rightarrow> u16" where
  "dec16 bo bs = dtoh16p bo (host16 bs)"

definition dec32 :: "u8 \<Rightarrow> bytes \<Rightarrow> u32" where
  "dec32 bo bs = dtoh32p bo (host32 bs)"

interpretation c16: field_codec "htod16ap bo" "dtoh16ap bo" "enc16 bo" "dec16 bo" 2
  for bo
  by unfold_locales
    (auto simp: htod16ap_def dtoh16ap_def enc16_def dec16_def htod16p_def dtoh16p_def
      endian_defs option.map_comp intro!: option.map_cong)

interpretation c32: field_codec "htod32ap bo" "dtoh32ap bo" "enc32 bo" "dec32 bo" 4
  for bo
  by unfold_locales
    (auto simp: htod32ap_def dtoh32ap_def enc32_def dec32_def htod32p_def dtoh32p_def
      endian_defs option.map_comp intro!: option.map_cong)

interpretation c8: field_codec htod8a dtoh8a "\<lambda>v. [v]" hd 1
  by unfold_locales
    (auto simp: htod8a_def dtoh8a_def st8_def ld8_def blit_def ldn_def
      hd_drop_conv_nth upd_conv_take_nth_drop)

lemmas codec_in [mem_simps] = c8.get_in c16.get_in c32.get_in

end
