(* ===== verification/Ptp_Types.thy ===== *)
theory Ptp_Types
  imports Endian
begin

text \<open>
  The vocabulary of \<open>ptp.h\<close>: operation, response, error and data type codes (named as in the
  header) and the C structures as records. A \<open>char *\<close> that may be NULL is \<open>bytes option\<close>, a
  counted array keeps its length field beside the list of elements, and the \<open>void *\<close> of a
  device property value is the datatype \<open>prop_value\<close>.
\<close>

section \<open>Codes\<close>

subsection \<open>USB container types\<close>

abbreviation (input) PTP_USB_CONTAINER_UNDEFINED :: u16 where "PTP_USB_CONTAINER_UNDEFINED \<equiv> 0x0000"
abbreviation (input) PTP_USB_CONTAINER_COMMAND :: u16 where "PTP_USB_CONTAINER_COMMAND \<equiv> 0x0001"
abbreviation (input) PTP_USB_CONTAINER_DATA :: u16 where "PTP_USB_CONTAINER_DATA \<equiv> 0x0002"
abbreviation (input) PTP_USB_CONTAINER_RESPONSE :: u16 where "PTP_USB_CONTAINER_RESPONSE \<equiv> 0x0003"
abbreviation (input) PTP_USB_CONTAINER_EVENT :: u16 where "PTP_USB_CONTAINER_EVENT \<equiv> 0x0004"

subsection \<open>PTP/IP packet types\<close>

abbreviation (input) PTPIP_TYPE_INIT_CMD :: u32 where "PTPIP_TYPE_INIT_CMD \<equiv> 0x1"
abbreviation (input) PTPIP_TYPE_INIT_CMD_ACK :: u32 where "PTPIP_TYPE_INIT_CMD_ACK \<equiv> 0x2"
abbreviation (input) PTPIP_TYPE_INIT_EVENT :: u32 where "PTPIP_TYPE_INIT_EVENT \<equiv> 0x3"
abbreviation (input) PTPIP_TYPE_INIT_EVENT_ACK :: u32 where "PTPIP_TYPE_INIT_EVENT_ACK \<equiv> 0x4"
abbreviation (input) PTPIP_TYPE_INIT_FAIL :: u32 where "PTPIP_TYPE_INIT_FAIL \<equiv> 0x5"
abbreviation (input) PTPIP_TYPE_REQ :: u32 where "PTPIP_TYPE_REQ \<equiv> 0x6"
abbreviation (input) PTPIP_TYPE_RESP :: u32 where "PTPIP_TYPE_RESP \<equiv> 0x7"
abbreviation (input) PTPIP_TYPE_START_DATA :: u32 where "PTPIP_TYPE_START_DATA \<equiv> 0x9"
abbreviation (input) PTPIP_TYPE_DATA :: u32 where "PTPIP_TYPE_DATA \<equiv> 0xa"
abbreviation (input) PTPIP_TYPE_END_DATA :: u32 where "PTPIP_TYPE_END_DATA \<equiv> 0xC"

subsection \<open>Vendor identifiers\<close>

abbreviation (input) PTP_VENDOR_EASTMAN_KODAK :: u32 where "PTP_VENDOR_EASTMAN_KODAK \<equiv> 0x00000001"
abbreviation (input) PTP_VENDOR_SEIKO_EPSON :: u32 where "PTP_VENDOR_SEIKO_EPSON \<equiv> 0x00000002"
abbreviation (input) PTP_VENDOR_AGILENT :: u32 where "PTP_VENDOR_AGILENT \<equiv> 0x00000003"
abbreviation (input) PTP_VENDOR_POLAROID :: u32 where "PTP_VENDOR_POLAROID \<equiv> 0x00000004"
abbreviation (input) PTP_VENDOR_AGFA_GEVAERT :: u32 where "PTP_VENDOR_AGFA_GEVAERT \<equiv> 0x00000005"
abbreviation (input) PTP_VENDOR_MICROSOFT :: u32 where "PTP_VENDOR_MICROSOFT \<equiv> 0x00000006"
abbreviation (input) PTP_VENDOR_EQUINOX :: u32 where "PTP_VENDOR_EQUINOX \<equiv> 0x00000007"
abbreviation (input) PTP_VENDOR_VIEWQUEST :: u32 where "PTP_VENDOR_VIEWQUEST \<equiv> 0x00000008"
abbreviation (input) PTP_VENDOR_STMICROELECTRONICS :: u32 where "PTP_VENDOR_STMICROELECTRONICS \<equiv> 0x00000009"
abbreviation (input) PTP_VENDOR_NIKON :: u32 where "PTP_VENDOR_NIKON \<equiv> 0x0000000A"
abbreviation (input) PTP_VENDOR_CANON :: u32 where "PTP_VENDOR_CANON \<equiv> 0x0000000B"

subsection \<open>Operation codes\<close>

abbreviation (input) PTP_OC_Undefined :: u16 where "PTP_OC_Undefined \<equiv> 0x1000"
abbreviation (input) PTP_OC_GetDeviceInfo :: u16 where "PTP_OC_GetDeviceInfo \<equiv> 0x1001"
abbreviation (input) PTP_OC_OpenSession :: u16 where "PTP_OC_OpenSession \<equiv> 0x1002"
abbreviation (input) PTP_OC_CloseSession :: u16 where "PTP_OC_CloseSession \<equiv> 0x1003"
abbreviation (input) PTP_OC_GetStorageIDs :: u16 where "PTP_OC_GetStorageIDs \<equiv> 0x1004"
abbreviation (input) PTP_OC_GetStorageInfo :: u16 where "PTP_OC_GetStorageInfo \<equiv> 0x1005"
abbreviation (input) PTP_OC_GetNumObjects :: u16 where "PTP_OC_GetNumObjects \<equiv> 0x1006"
abbreviation (input) PTP_OC_GetObjectHandles :: u16 where "PTP_OC_GetObjectHandles \<equiv> 0x1007"
abbreviation (input) PTP_OC_GetObjectInfo :: u16 where "PTP_OC_GetObjectInfo \<equiv> 0x1008"
abbreviation (input) PTP_OC_GetObject :: u16 where "PTP_OC_GetObject \<equiv> 0x1009"
abbreviation (input) PTP_OC_GetThumb :: u16 where "PTP_OC_GetThumb \<equiv> 0x100A"
abbreviation (input) PTP_OC_DeleteObject :: u16 where "PTP_OC_DeleteObject \<equiv> 0x100B"
abbreviation (input) PTP_OC_SendObjectInfo :: u16 where "PTP_OC_SendObjectInfo \<equiv> 0x100C"
abbreviation (input) PTP_OC_SendObject :: u16 where "PTP_OC_SendObject \<equiv> 0x100D"
abbreviation (input) PTP_OC_InitiateCapture :: u16 where "PTP_OC_InitiateCapture \<equiv> 0x100E"
abbreviation (input) PTP_OC_FormatStore :: u16 where "PTP_OC_FormatStore \<equiv> 0x100F"
abbreviation (input) PTP_OC_ResetDevice :: u16 where "PTP_OC_ResetDevice \<equiv> 0x1010"
abbreviation (input) PTP_OC_SelfTest :: u16 where "PTP_OC_SelfTest \<equiv> 0x1011"
abbreviation (input) PTP_OC_SetObjectProtection :: u16 where "PTP_OC_SetObjectProtection \<equiv> 0x1012"
abbreviation (input) PTP_OC_PowerDown :: u16 where "PTP_OC_PowerDown \<equiv> 0x1013"
abbreviation (input) PTP_OC_GetDevicePropDesc :: u16 where "PTP_OC_GetDevicePropDesc \<equiv> 0x1014"
abbreviation (input) PTP_OC_GetDevicePropValue :: u16 where "PTP_OC_GetDevicePropValue \<equiv> 0x1015"
abbreviation (input) PTP_OC_SetDevicePropValue :: u16 where "PTP_OC_SetDevicePropValue \<equiv> 0x1016"
abbreviation (input) PTP_OC_ResetDevicePropValue :: u16 where "PTP_OC_ResetDevicePropValue \<equiv> 0x1017"
abbreviation (input) PTP_OC_TerminateOpenCapture :: u16 where "PTP_OC_TerminateOpenCapture \<equiv> 0x1018"
abbreviation (input) PTP_OC_MoveObject :: u16 where "PTP_OC_MoveObject \<equiv> 0x1019"
abbreviation (input) PTP_OC_CopyObject :: u16 where "PTP_OC_CopyObject \<equiv> 0x101A"
abbreviation (input) PTP_OC_GetPartialObject :: u16 where "PTP_OC_GetPartialObject \<equiv> 0x101B"
abbreviation (input) PTP_OC_InitiateOpenCapture :: u16 where "PTP_OC_InitiateOpenCapture \<equiv> 0x101C"
abbreviation (input) PTP_OC_EK_SendFileObjectInfo :: u16 where "PTP_OC_EK_SendFileObjectInfo \<equiv> 0x9005"
abbreviation (input) PTP_OC_EK_SendFileObject :: u16 where "PTP_OC_EK_SendFileObject \<equiv> 0x9006"
abbreviation (input) PTP_OC_CANON_GetObjectSize :: u16 where "PTP_OC_CANON_GetObjectSize \<equiv> 0x9001"
abbreviation (input) PTP_OC_CANON_StartShootingMode :: u16 where "PTP_OC_CANON_StartShootingMode \<equiv> 0x9008"
abbreviation (input) PTP_OC_CANON_EndShootingMode :: u16 where "PTP_OC_CANON_EndShootingMode \<equiv> 0x9009"
abbreviation (input) PTP_OC_CANON_ViewfinderOn :: u16 where "PTP_OC_CANON_ViewfinderOn \<equiv> 0x900B"
abbreviation (input) PTP_OC_CANON_ViewfinderOff :: u16 where "PTP_OC_CANON_ViewfinderOff \<equiv> 0x900C"
abbreviation (input) PTP_OC_CANON_ReflectChanges :: u16 where "PTP_OC_CANON_ReflectChanges \<equiv> 0x900D"
abbreviation (input) PTP_OC_CANON_CheckEvent :: u16 where "PTP_OC_CANON_CheckEvent \<equiv> 0x9013"
abbreviation (input) PTP_OC_CANON_FocusLock :: u16 where "PTP_OC_CANON_FocusLock \<equiv> 0x9014"
abbreviation (input) PTP_OC_CANON_FocusUnlock :: u16 where "PTP_OC_CANON_FocusUnlock \<equiv> 0x9015"
abbreviation (input) PTP_OC_CANON_InitiateCaptureInMemory :: u16 where "PTP_OC_CANON_InitiateCaptureInMemory \<equiv> 0x901A"
abbreviation (input) PTP_OC_CANON_GetPartialObject :: u16 where "PTP_OC_CANON_GetPartialObject \<equiv> 0x901B"
abbreviation (input) PTP_OC_CANON_GetViewfinderImage :: u16 where "PTP_OC_CANON_GetViewfinderImage \<equiv> 0x901d"
abbreviation (input) PTP_OC_CANON_GetChanges :: u16 where "PTP_OC_CANON_GetChanges \<equiv> 0x9020"
abbreviation (input) PTP_OC_CANON_GetFolderEntries :: u16 where "PTP_OC_CANON_GetFolderEntries \<equiv> 0x9021"
abbreviation (input) PTP_OC_NIKON_DirectCapture :: u16 where "PTP_OC_NIKON_DirectCapture \<equiv> 0x90C0"
abbreviation (input) PTP_OC_NIKON_SetControlMode :: u16 where "PTP_OC_NIKON_SetControlMode \<equiv> 0x90C2"
abbreviation (input) PTP_OC_NIKON_CheckEvent :: u16 where "PTP_OC_NIKON_CheckEvent \<equiv> 0x90C7"
abbreviation (input) PTP_OC_NIKON_KeepAlive :: u16 where "PTP_OC_NIKON_KeepAlive \<equiv> 0x90C8"
abbreviation (input) PTP_OC_EXTENSION_MASK :: u16 where "PTP_OC_EXTENSION_MASK \<equiv> 0xF000"
abbreviation (input) PTP_OC_EXTENSION :: u16 where "PTP_OC_EXTENSION \<equiv> 0x9000"

subsection \<open>Response codes and local error codes\<close>

abbreviation (input) PTP_RC_Undefined :: u16 where "PTP_RC_Undefined \<equiv> 0x2000"
abbreviation (input) PTP_RC_OK :: u16 where "PTP_RC_OK \<equiv> 0x2001"
abbreviation (input) PTP_RC_GeneralError :: u16 where "PTP_RC_GeneralError \<equiv> 0x2002"
abbreviation (input) PTP_RC_SessionNotOpen :: u16 where "PTP_RC_SessionNotOpen \<equiv> 0x2003"
abbreviation (input) PTP_RC_InvalidTransactionID :: u16 where "PTP_RC_InvalidTransactionID \<equiv> 0x2004"
abbreviation (input) PTP_RC_OperationNotSupported :: u16 where "PTP_RC_OperationNotSupported \<equiv> 0x2005"
abbreviation (input) PTP_RC_ParameterNotSupported :: u16 where "PTP_RC_ParameterNotSupported \<equiv> 0x2006"
abbreviation (input) PTP_RC_IncompleteTransfer :: u16 where "PTP_RC_IncompleteTransfer \<equiv> 0x2007"
abbreviation (input) PTP_RC_InvalidStorageId :: u16 where "PTP_RC_InvalidStorageId \<equiv> 0x2008"
abbreviation (input) PTP_RC_InvalidObjectHandle :: u16 where "PTP_RC_InvalidObjectHandle \<equiv> 0x2009"
abbreviation (input) PTP_RC_DevicePropNotSupported :: u16 where "PTP_RC_DevicePropNotSupported \<equiv> 0x200A"
abbreviation (input) PTP_RC_InvalidObjectFormatCode :: u16 where "PTP_RC_InvalidObjectFormatCode \<equiv> 0x200B"
abbreviation (input) PTP_RC_StoreFull :: u16 where "PTP_RC_StoreFull \<equiv> 0x200C"
abbreviation (input) PTP_RC_ObjectWriteProtected :: u16 where "PTP_RC_ObjectWriteProtected \<equiv> 0x200D"
abbreviation (input) PTP_RC_StoreReadOnly :: u16 where "PTP_RC_StoreReadOnly \<equiv> 0x200E"
abbreviation (input) PTP_RC_AccessDenied :: u16 where "PTP_RC_AccessDenied \<equiv> 0x200F"
abbreviation (input) PTP_RC_NoThumbnailPresent :: u16 where "PTP_RC_NoThumbnailPresent \<equiv> 0x2010"
abbreviation (input) PTP_RC_SelfTestFailed :: u16 where "PTP_RC_SelfTestFailed \<equiv> 0x2011"
abbreviation (input) PTP_RC_PartialDeletion :: u16 where "PTP_RC_PartialDeletion \<equiv> 0x2012"
abbreviation (input) PTP_RC_StoreNotAvailable :: u16 where "PTP_RC_StoreNotAvailable \<equiv> 0x2013"
abbreviation (input) PTP_RC_SpecificationByFormatUnsupported :: u16 where "PTP_RC_SpecificationByFormatUnsupported \<equiv> 0x2014"
abbreviation (input) PTP_RC_NoValidObjectInfo :: u16 where "PTP_RC_NoValidObjectInfo \<equiv> 0x2015"
abbreviation (input) PTP_RC_InvalidCodeFormat :: u16 where "PTP_RC_InvalidCodeFormat \<equiv> 0x2016"
abbreviation (input) PTP_RC_UnknownVendorCode :: u16 where "PTP_RC_UnknownVendorCode \<equiv> 0x2017"
abbreviation (input) PTP_RC_CaptureAlreadyTerminated :: u16 where "PTP_RC_CaptureAlreadyTerminated \<equiv> 0x2018"
abbreviation (input) PTP_RC_DeviceBusy :: u16 where "PTP_RC_DeviceBusy \<equiv> 0x2019"
abbreviation (input) PTP_RC_InvalidParentObject :: u16 where "PTP_RC_InvalidParentObject \<equiv> 0x201A"
abbreviation (input) PTP_RC_InvalidDevicePropFormat :: u16 where "PTP_RC_InvalidDevicePropFormat \<equiv> 0x201B"
abbreviation (input) PTP_RC_InvalidDevicePropValue :: u16 where "PTP_RC_InvalidDevicePropValue \<equiv> 0x201C"
abbreviation (input) PTP_RC_InvalidParameter :: u16 where "PTP_RC_InvalidParameter \<equiv> 0x201D"
abbreviation (input) PTP_RC_SessionAlreadyOpened :: u16 where "PTP_RC_SessionAlreadyOpened \<equiv> 0x201E"
abbreviation (input) PTP_RC_TransactionCanceled :: u16 where "PTP_RC_TransactionCanceled \<equiv> 0x201F"
abbreviation (input) PTP_RC_SpecificationOfDestinationUnsupported :: u16 where "PTP_RC_SpecificationOfDestinationUnsupported \<equiv> 0x2020"
abbreviation (input) PTP_RC_EK_FilenameRequired :: u16 where "PTP_RC_EK_FilenameRequired \<equiv> 0xA001"
abbreviation (input) PTP_RC_EK_FilenameConflicts :: u16 where "PTP_RC_EK_FilenameConflicts \<equiv> 0xA002"
abbreviation (input) PTP_RC_EK_FilenameInvalid :: u16 where "PTP_RC_EK_FilenameInvalid \<equiv> 0xA003"
abbreviation (input) PTP_RC_NIKON_PropertyReadOnly :: u16 where "PTP_RC_NIKON_PropertyReadOnly \<equiv> 0xA005"
abbreviation (input) PTP_RC_EXTENSION_MASK :: u16 where "PTP_RC_EXTENSION_MASK \<equiv> 0xF000"
abbreviation (input) PTP_RC_EXTENSION :: u16 where "PTP_RC_EXTENSION \<equiv> 0xA000"
abbreviation (input) PTP_ERROR_IO :: u16 where "PTP_ERROR_IO \<equiv> 0x02FF"
abbreviation (input) PTP_ERROR_DATA_EXPECTED :: u16 where "PTP_ERROR_DATA_EXPECTED \<equiv> 0x02FE"
abbreviation (input) PTP_ERROR_RESP_EXPECTED :: u16 where "PTP_ERROR_RESP_EXPECTED \<equiv> 0x02FD"
abbreviation (input) PTP_ERROR_BADPARAM :: u16 where "PTP_ERROR_BADPARAM \<equiv> 0x02FC"
abbreviation (input) PTP_ERROR_NOMEM :: u16 where "PTP_ERROR_NOMEM \<equiv> 0x02FB"
abbreviation (input) PTP_ERROR_NOT_CONNECTED :: u16 where "PTP_ERROR_NOT_CONNECTED \<equiv> 0x02FA"

subsection \<open>Data type codes\<close>

abbreviation (input) PTP_DTC_UNDEF :: u16 where "PTP_DTC_UNDEF \<equiv> 0x0000"
abbreviation (input) PTP_DTC_INT8 :: u16 where "PTP_DTC_INT8 \<equiv> 0x0001"
abbreviation (input) PTP_DTC_UINT8 :: u16 where "PTP_DTC_UINT8 \<equiv> 0x0002"
abbreviation (input) PTP_DTC_INT16 :: u16 where "PTP_DTC_INT16 \<equiv> 0x0003"
abbreviation (input) PTP_DTC_UINT16 :: u16 where "PTP_DTC_UINT16 \<equiv> 0x0004"
abbreviation (input) PTP_DTC_INT32 :: u16 where "PTP_DTC_INT32 \<equiv> 0x0005"
abbreviation (input) PTP_DTC_UINT32 :: u16 where "PTP_DTC_UINT32 \<equiv> 0x0006"
abbreviation (input) PTP_DTC_INT64 :: u16 where "PTP_DTC_INT64 \<equiv> 0x0007"
abbreviation (input) PTP_DTC_UINT64 :: u16 where "PTP_DTC_UINT64 \<equiv> 0x0008"
abbreviation (input) PTP_DTC_INT128 :: u16 where "PTP_DTC_INT128 \<equiv> 0x0009"
abbreviation (input) PTP_DTC_UINT128 :: u16 where "PTP_DTC_UINT128 \<equiv> 0x000A"
abbreviation (input) PTP_DTC_AINT8 :: u16 where "PTP_DTC_AINT8 \<equiv> 0x4001"
abbreviation (input) PTP_DTC_AUINT8 :: u16 where "PTP_DTC_AUINT8 \<equiv> 0x4002"
abbreviation (input) PTP_DTC_AINT16 :: u16 where "PTP_DTC_AINT16 \<equiv> 0x4003"
abbreviation (input) PTP_DTC_AUINT16 :: u16 where "PTP_DTC_AUINT16 \<equiv> 0x4004"
abbreviation (input) PTP_DTC_AINT32 :: u16 where "PTP_DTC_AINT32 \<equiv> 0x4005"
abbreviation (input) PTP_DTC_AUINT32 :: u16 where "PTP_DTC_AUINT32 \<equiv> 0x4006"
abbreviation (input) PTP_DTC_AINT64 :: u16 where "PTP_DTC_AINT64 \<equiv> 0x4007"
abbreviation (input) PTP_DTC_AUINT64 :: u16 where "PTP_DTC_AUINT64 \<equiv> 0x4008"
abbreviation (input) PTP_DTC_AINT128 :: u16 where "PTP_DTC_AINT128 \<equiv> 0x4009"
abbreviation (input) PTP_DTC_AUINT128 :: u16 where "PTP_DTC_AUINT128 \<equiv> 0x400A"
abbreviation (input) PTP_DTC_STR :: u16 where "PTP_DTC_STR \<equiv> 0xFFFF"

subsection \<open>Form flags of a device property\<close>

abbreviation (input) PTP_DPFF_None :: u8 where "PTP_DPFF_None \<equiv> 0x00"
abbreviation (input) PTP_DPFF_Range :: u8 where "PTP_DPFF_Range \<equiv> 0x01"
abbreviation (input) PTP_DPFF_Enumeration :: u8 where "PTP_DPFF_Enumeration \<equiv> 0x02"

subsection \<open>The CHDK extension (\<open>chdk_headers/core/ptp.h\<close>)\<close>

abbreviation (input) PTP_OC_CHDK :: u16 where "PTP_OC_CHDK \<equiv> 0x9999"

datatype ptp_chdk_command =
    PTP_CHDK_Version | PTP_CHDK_GetMemory | PTP_CHDK_SetMemory | PTP_CHDK_CallFunction
  | PTP_CHDK_TempData | PTP_CHDK_UploadFile | PTP_CHDK_DownloadFile | PTP_CHDK_ExecuteScript
  | PTP_CHDK_ScriptStatus | PTP_CHDK_ScriptSupport | PTP_CHDK_ReadScriptMsg
  | PTP_CHDK_WriteScriptMsg | PTP_CHDK_GetDisplayData | PTP_CHDK_RemoteCaptureIsReady
  | PTP_CHDK_RemoteCaptureGetData

fun chdk_cmd :: "ptp_chdk_command \<Rightarrow> u32" where
  "chdk_cmd PTP_CHDK_Version = 0"
| "chdk_cmd PTP_CHDK_GetMemory = 1"
| "chdk_cmd PTP_CHDK_SetMemory = 2"
| "chdk_cmd PTP_CHDK_CallFunction = 3"
| "chdk_cmd PTP_CHDK_TempData = 4"
| "chdk_cmd PTP_CHDK_UploadFile = 5"
| "chdk_cmd PTP_CHDK_DownloadFile = 6"
| "chdk_cmd PTP_CHDK_ExecuteScript = 7"
| "chdk_cmd PTP_CHDK_ScriptStatus = 8"
| "chdk_cmd PTP_CHDK_ScriptSupport = 9"
| "chdk_cmd PTP_CHDK_ReadScriptMsg = 10"
| "chdk_cmd PTP_CHDK_WriteScriptMsg = 11"
| "chdk_cmd PTP_CHDK_GetDisplayData = 12"
| "chdk_cmd PTP_CHDK_RemoteCaptureIsReady = 13"
| "chdk_cmd PTP_CHDK_RemoteCaptureGetData = 14"

abbreviation (input) PTP_CHDK_TD_DOWNLOAD :: u32 where "PTP_CHDK_TD_DOWNLOAD \<equiv> 0x1"
abbreviation (input) PTP_CHDK_TD_CLEAR :: u32 where "PTP_CHDK_TD_CLEAR \<equiv> 0x2"
abbreviation (input) PTP_CHDK_SL_LUA :: u32 where "PTP_CHDK_SL_LUA \<equiv> 0"
abbreviation (input) PTP_CHDK_SL_MASK :: u32 where "PTP_CHDK_SL_MASK \<equiv> 0xFF"

section \<open>Structures\<close>

record PTPContainer =
  Code :: u16
  SessionID :: u32
  Transaction_ID :: u32
  Param1 :: u32
  Param2 :: u32
  Param3 :: u32
  Param4 :: u32
  Param5 :: u32
  Nparam :: u8

text \<open>\<open>PTP_CNT_INIT\<close>: a container with every field zero.\<close>

definition PTP_CNT_INIT :: PTPContainer where
  "PTP_CNT_INIT =
     \<lparr> Code = 0, SessionID = 0, Transaction_ID = 0, Param1 = 0, Param2 = 0, Param3 = 0,
       Param4 = 0, Param5 = 0, Nparam = 0 \<rparr>"

record PTPUSBEventContainer =
  ev_length :: u32
  ev_type :: u16
  ev_code :: u16
  ev_trans_id :: u32
  ev_param1 :: u32
  ev_param2 :: u32
  ev_param3 :: u32

record PTPDeviceInfo =
  StandardVersion :: u16
  VendorExtensionID :: u32
  VendorExtensionVersion :: u16
  VendorExtensionDesc :: "bytes option"
  FunctionalMode :: u16
  OperationsSupported_len :: u32
  OperationsSupported :: "u16 list"
  EventsSupported_len :: u32
  EventsSupported :: "u16 list"
  DevicePropertiesSupported_len :: u32
  DevicePropertiesSupported :: "u16 list"
  CaptureFormats_len :: u32
  CaptureFormats :: "u16 list"
  ImageFormats_len :: u32
  ImageFormats :: "u16 list"
  Manufacturer :: "bytes option"
  Model :: "bytes option"
  DeviceVersion :: "bytes option"
  SerialNumber :: "bytes option"

record PTPStorageIDs =
  sids_n :: u32
  Storage :: "u32 list"

record PTPStorageInfo =
  StorageType :: u16
  FilesystemType :: u16
  AccessCapability :: u16
  MaxCapability :: u64
  FreeSpaceInBytes :: u64
  FreeSpaceInImages :: u32
  StorageDescription :: "bytes option"
  VolumeLabel :: "bytes option"

record PTPObjectHandles =
  oh_n :: u32
  Handler :: "u32 list"

text \<open>\<open>time_t\<close> is a signed integer, \<open>CaptureDate\<close> and \<open>ModificationDate\<close> are values of it.\<close>

record PTPObjectInfo =
  StorageID :: u32
  ObjectFormat :: u16
  ProtectionStatus :: u16
  ObjectCompressedSize :: u32
  ThumbFormat :: u16
  ThumbCompressedSize :: u32
  ThumbPixWidth :: u32
  ThumbPixHeight :: u32
  ImagePixWidth :: u32
  ImagePixHeight :: u32
  ImageBitDepth :: u32
  ParentObject :: u32
  AssociationType :: u16
  AssociationDesc :: u32
  SequenceNumber :: u32
  Filename :: "bytes option"
  CaptureDate :: int
  ModificationDate :: int

text \<open>
  What a \<open>void *\<close> property value points to, by the data type it was allocated for. Signed
  values are kept as the bits the code stores. \<open>PV_STR None\<close> is a NULL string.
\<close>

datatype prop_value =
    PV_INT8 u8 | PV_UINT8 u8 | PV_INT16 u16 | PV_UINT16 u16 | PV_INT32 u32 | PV_UINT32 u32
  | PV_STR "bytes option"

datatype prop_form =
    Form_Unset
  | Form_Range "prop_value option" "prop_value option" "prop_value option"
  | Form_Enum u16 "prop_value option list"

record PTPDevicePropDesc =
  DevicePropertyCode :: u16
  DataType :: u16
  GetSet :: u8
  FactoryDefaultValue :: "prop_value option"
  CurrentValue :: "prop_value option"
  FormFlag :: u8
  FORM :: prop_form

record PTPCANONFolderEntry =
  cfe_ObjectHandle :: u32
  cfe_ObjectFormatCode :: u16
  cfe_Flags :: u8
  cfe_ObjectSize :: u32
  cfe_Time :: u32
  cfe_Filename :: bytes

end
