(* ===== verification/Pack.thy ===== *)
theory Pack
  imports Ptp_Types
begin

text \<open>
  The dataset packers and unpackers of \<open>ptp-pack.c\<close>. A dataset is the list of its bytes. The
  C functions get no length: a field that lies outside the received bytes makes the unpacker
  read outside the buffer, which is the result \<open>None\<close> here. \<open>malloc\<close> is taken to succeed.
  Beside the C functions stand reference encodings of the datasets (\<open>ptp_string\<close>,
  \<open>ptp_array16\<close>, \<open>di_dataset\<close>, \<dots>), the format the standard prescribes.
\<close>

section \<open>Strings\<close>

text \<open>\<open>strlen\<close> of a C string; without a terminating zero it reads past the object.\<close>

definition strlen :: "bytes \<Rightarrow> nat option" where
  "strlen s = (if 0 \<in> set s then Some (length (takeWhile (\<lambda>c. c \<noteq> 0) s)) else None)"

definition PTP_MAXSTRLEN :: nat where "PTP_MAXSTRLEN = 255"

definition ptp_unpack_string :: "u8 \<Rightarrow> bytes \<Rightarrow> nat \<Rightarrow> (bytes option \<times> u8) option" where
  "ptp_unpack_string bo data offset = do {
     len \<leftarrow> dtoh8a data offset;
     if len \<noteq> 0 then do {
       string \<leftarrow> those (map (\<lambda>i. if i < PTP_MAXSTRLEN
                     then map_option ucast (dtoh16ap bo data (offset + i * 2 + 1))
                     else Some 0) [0..<unat len]);
       Some (Some (string[unat len - 1 := 0]), len)
     } else Some (None, len)
   }"

definition ptp_pack_string :: "u8 \<Rightarrow> bytes \<Rightarrow> bytes \<Rightarrow> nat \<Rightarrow> (bytes \<times> u8) option" where
  "ptp_pack_string bo string data offset = do {
     n \<leftarrow> strlen string;
     let len = (of_nat n :: u8);
     data \<leftarrow> htod8a data offset (len + 1);
     data \<leftarrow> ofold (\<lambda>i data. htod16ap bo data (offset + i * 2 + 1) (scast (string ! i)))
               [0..<min (unat len) PTP_MAXSTRLEN] data;
     Some (data, len)
   }"

text \<open>The wire format of a string: a count byte, then that many 16-bit characters.\<close>

definition ptp_string :: "u8 \<Rightarrow> bytes option \<Rightarrow> bytes" where
  "ptp_string bo so =
     (case so of None \<Rightarrow> [0]
      | Some s \<Rightarrow> of_nat (length s) # concat (map (\<lambda>c. enc16 bo (ucast c)) s))"

definition ptp_string_size :: "bytes option \<Rightarrow> nat" where
  "ptp_string_size so = (case so of None \<Rightarrow> 1 | Some s \<Rightarrow> length s * 2 + 1)"

text \<open>A string as the unpacker builds it: NULL, or a buffer of at most 255 bytes that ends in
  a zero byte.\<close>

definition wf_string :: "bytes option \<Rightarrow> bool" where
  "wf_string so =
     (case so of None \<Rightarrow> True | Some s \<Rightarrow> s \<noteq> [] \<and> length s \<le> 255 \<and> last s = 0)"

definition string_len :: "bytes option \<Rightarrow> u8" where
  "string_len so = (case so of None \<Rightarrow> 0 | Some s \<Rightarrow> of_nat (length s))"

lemma length_enc16 [simp]: "length (enc16 bo v) = 2"
  by (simp add: enc16_def)

lemma length_enc32 [simp]: "length (enc32 bo v) = 4"
  by (simp add: enc32_def)

lemma length_concat_enc16 [simp]: "length (concat (map (\<lambda>x. enc16 bo (f x)) xs)) = length xs * 2"
  by (induction xs) simp_all

lemma length_concat_enc32 [simp]: "length (concat (map (\<lambda>x. enc32 bo (f x)) xs)) = length xs * 4"
  by (induction xs) simp_all

lemma length_ptp_string [simp]: "length (ptp_string bo so) = ptp_string_size so"
  by (simp add: ptp_string_def ptp_string_size_def split: option.split)

lemma string_size_len: "wf_string so \<Longrightarrow> ptp_string_size so = unat (string_len so) * 2 + 1"
  by (auto simp: ptp_string_size_def string_len_def wf_string_def unat_of_nat_u8
      split: option.splits)

lemma ucast_ucast_u8 [simp]: "(ucast (ucast (c :: u8) :: u16) :: u8) = c"
  by (rule bit_word_eqI) (auto simp: bit_simps)

lemma ucast_scast_u8 [simp]: "(ucast (scast (c :: u8) :: u16) :: u8) = c"
  by (rule bit_word_eqI) (auto simp: bit_simps)

lemma unpack_string_chars:
  assumes "length pre = off" and "cs \<noteq> []" and "length cs \<le> 255"
  shows "ptp_unpack_string bo (pre @ of_nat (length cs) # concat (map (enc16 bo) cs) @ post) off =
    Some (Some ((map ucast cs)[length cs - 1 := 0]), of_nat (length cs))"
proof -
  let ?d = "pre @ of_nat (length cs) # concat (map (enc16 bo) cs) @ post"
  have ne: "(of_nat (length cs) :: u8) \<noteq> 0"
    using assms unat_of_nat_u8 [of "length cs"] by auto
  have head: "dtoh8a ?d off = Some (of_nat (length cs))"
    using assms(1) by (simp add: dtoh8a_def ld8_def nth_append)
  have char: "dtoh16ap bo ?d (off + i * 2 + 1) = Some (cs ! i)" if "i < length cs" for i
    using c16.get_concat [of i cs bo "pre @ [of_nat (length cs)]" post] that assms(1)
    by (simp add: algebra_simps)
  have chars: "those (map (\<lambda>i. if i < PTP_MAXSTRLEN
        then map_option ucast (dtoh16ap bo ?d (off + i * 2 + 1)) else Some 0) [0..<length cs])
      = Some (map (\<lambda>i. ucast (cs ! i) :: u8) [0..<length cs])"
    using assms(3) by (intro those_map_Some) (auto simp: char [simplified] PTP_MAXSTRLEN_def)
  from head chars [unfolded map_nth_upt] ne assms(3) show ?thesis
    by (simp add: ptp_unpack_string_def unat_of_nat_u8)
qed

lemma unpack_string_at:
  assumes "length pre = off" and "wf_string so"
  shows "ptp_unpack_string bo (pre @ ptp_string bo so @ post) off = Some (so, string_len so)"
proof (cases so)
  case None
  then show ?thesis
    using assms by (simp add: ptp_unpack_string_def ptp_string_def dtoh8a_def ld8_def nth_append
        string_len_def)
next
  case (Some s)
  with assms have s: "s \<noteq> []" "length s \<le> 255" "last s = 0"
    by (auto simp: wf_string_def)
  have "(map ucast (map ucast s :: u16 list))[length s - 1 := 0] = s"
    using s by (simp add: o_def) (metis last_conv_nth list_update_id One_nat_def)
  with unpack_string_chars [of pre off "map ucast s" bo post] assms(1) s Some show ?thesis
    by (simp add: ptp_string_def string_len_def o_def)
qed

subsection \<open>Packing, and the round trip\<close>

lemma takeWhile_short: "\<exists>x \<in> set s. \<not> P x \<Longrightarrow> length (takeWhile P s) < length s"
  by (induction s) auto

lemma strlen_Some: "strlen s = Some n \<Longrightarrow> 0 \<in> set s \<and> n = length (takeWhile (\<lambda>c. c \<noteq> 0) s)"
  by (simp add: strlen_def split: if_splits)

lemma strlen_less: "strlen s = Some n \<Longrightarrow> n < length s"
  using takeWhile_short [of s "\<lambda>c. c \<noteq> 0"] strlen_Some [of s n] by blast

lemma strlen_zero:
  assumes "strlen s = Some n"
  shows "s ! n = 0"
  using nth_length_takeWhile [of "\<lambda>c. c \<noteq> 0" s] strlen_less [OF assms] strlen_Some [OF assms]
  by metis

lemma strlen_append:
  assumes "0 \<notin> set s"
  shows "strlen (s @ 0 # t) = Some (length s)"
proof -
  have "takeWhile (\<lambda>c. c \<noteq> 0) (s @ 0 # t) = s"
    using assms by (induction s) auto
  then show ?thesis by (simp add: strlen_def)
qed

lemma pack_string_eq:
  assumes n: "strlen string = Some n" and k: "k = n mod 256"
    and room: "offset + 1 + 2 * k \<le> length data"
  shows "ptp_pack_string bo string data offset =
    Some (take offset data @ of_nat (n + 1) #
            concat (map (\<lambda>i. enc16 bo (scast (string ! i))) [0..<k]) @
            drop (offset + 1 + 2 * k) data, of_nat n)"
proof -
  have k': "unat (of_nat n :: u8) = k"
    by (simp add: k unat_of_nat take_bit_eq_mod)
  have kmax: "min k PTP_MAXSTRLEN = k"
    using mod_less_divisor [of 256 n] by (simp add: k PTP_MAXSTRLEN_def)
  have idx: "offset + i * 2 + 1 = offset + 1 + 2 * i" for i
    by simp
  let ?d = "take offset data @ (of_nat n + 1) # drop (offset + 1) data"
  have b: "htod8a data offset (of_nat n + 1) = Some ?d"
    using room by (simp add: htod8a_def st8_def upd_conv_take_nth_drop)
  have "offset + 1 + 2 * k \<le> length ?d" using room by simp
  note loop = c16.ofold_put [OF this, of bo "\<lambda>i. scast (string ! i)"]
  have t: "take (offset + 1) ?d = take offset data @ [of_nat n + 1]"
    and r: "drop (offset + 1 + 2 * k) ?d = drop (offset + 1 + 2 * k) data"
    using room by (simp_all add: algebra_simps)
  from loop show ?thesis
    unfolding ptp_pack_string_def n Let_def b idx k' kmax t r
    by (simp add: n b k' kmax)
qed

lemma enc16_dec16 [simp]: "length bs = 2 \<Longrightarrow> enc16 bo (dec16 bo bs) = bs"
  by (simp add: enc16_def dec16_def htod16p_def dtoh16p_def endian_defs)

text \<open>A packed string is read back, byte for byte, if it is shorter than 255 characters; a longer
  one is cut to its length modulo 256, and 255 characters give a NULL string.\<close>

lemma string_roundtrip:
  assumes n: "strlen string = Some n" and k: "k = n mod 256"
    and room: "offset + 3 + 2 * k \<le> length data"
  obtains data' where "ptp_pack_string bo string data offset = Some (data', of_nat n)"
    and "length data' = length data"
    and "ptp_unpack_string bo data' offset =
      Some (if k = 255 then (None, 0) else (Some (take k string @ [0]), of_nat (k + 1)))"
proof -
  let ?cs = "map (\<lambda>i. scast (string ! i)) [0..<k] :: u16 list"
  let ?rest = "drop (offset + 1 + 2 * k) data"
  let ?d = "take offset data @ of_nat (n + 1) # concat (map (enc16 bo) ?cs) @ ?rest"
  have pack: "ptp_pack_string bo string data offset = Some (?d, of_nat n)"
    using pack_string_eq [OF n k, of offset data bo] room by (simp add: o_def)
  have len: "length ?d = length data" using room by (simp add: o_def)
  have kn: "k \<le> n" and kl: "k < 256" by (simp_all add: k)
  have count: "(of_nat (n + 1) :: u8) = of_nat (k + 1)"
    by (simp add: k word_of_nat_eq_iff take_bit_eq_mod)
  show thesis
  proof (cases "k = 255")
    case True
    then have "(of_nat (n + 1) :: u8) = 0" using count by simp
    then have "ptp_unpack_string bo ?d offset = Some (None, 0)"
      using room by (simp add: ptp_unpack_string_def dtoh8a_def ld8_def nth_append)
    with that [OF pack len] True show thesis by simp
  next
    case False
    let ?last = "dec16 bo (take 2 ?rest)"
    have "length (take 2 ?rest) = 2" using room by simp
    then have "enc16 bo ?last @ drop 2 ?rest = ?rest"
      by (simp only: enc16_dec16 append_take_drop_id)
    then have deq: "?d = take offset data @ of_nat (length (?cs @ [?last])) #
        concat (map (enc16 bo) (?cs @ [?last])) @ drop 2 ?rest"
      using count by (simp del: drop_drop)
    have "ptp_unpack_string bo ?d offset =
        Some (Some ((map ucast (?cs @ [?last]))[length (?cs @ [?last]) - 1 := 0]),
          of_nat (length (?cs @ [?last])))"
      unfolding deq using room kl False by (intro unpack_string_chars) simp_all
    moreover have "map (\<lambda>i. string ! i) [0..<k] = take k string"
      using strlen_less [OF n] kn by (intro nth_equalityI) auto
    moreover have "k \<le> length string"
      using strlen_less [OF n] kn by simp
    ultimately show thesis
      using that [OF pack len] False count by (simp add: o_def list_update_append)
  qed
qed

section \<open>Counted arrays\<close>

definition ptp_unpack_uint32_t_array :: "u8 \<Rightarrow> bytes \<Rightarrow> nat \<Rightarrow> (u32 \<times> u32 list) option" where
  "ptp_unpack_uint32_t_array bo data offset = do {
     n \<leftarrow> dtoh32ap bo data offset;
     array \<leftarrow> those (map (\<lambda>i. dtoh32ap bo data (offset + 4 * (i + 1))) [0..<unat n]);
     Some (n, array)
   }"

definition ptp_unpack_uint16_t_array :: "u8 \<Rightarrow> bytes \<Rightarrow> nat \<Rightarrow> (u32 \<times> u16 list) option" where
  "ptp_unpack_uint16_t_array bo data offset = do {
     n \<leftarrow> dtoh32ap bo data offset;
     array \<leftarrow> those (map (\<lambda>i. dtoh16ap bo data (offset + 2 * (i + 2))) [0..<unat n]);
     Some (n, array)
   }"

definition ptp_array32 :: "u8 \<Rightarrow> u32 list \<Rightarrow> bytes" where
  "ptp_array32 bo xs = enc32 bo (of_nat (length xs)) @ concat (map (enc32 bo) xs)"

definition ptp_array16 :: "u8 \<Rightarrow> u16 list \<Rightarrow> bytes" where
  "ptp_array16 bo xs = enc32 bo (of_nat (length xs)) @ concat (map (enc16 bo) xs)"

lemma length_ptp_array16 [simp]: "length (ptp_array16 bo xs) = 4 + length xs * 2"
  using length_concat_enc16 [of bo "\<lambda>x. x" xs] by (simp add: ptp_array16_def)

lemma length_ptp_array32 [simp]: "length (ptp_array32 bo xs) = 4 + length xs * 4"
  using length_concat_enc32 [of bo "\<lambda>x. x" xs] by (simp add: ptp_array32_def)

lemma unpack_array16_at:
  assumes "length pre = off" and "length xs < 2 ^ 32"
  shows "ptp_unpack_uint16_t_array bo (pre @ ptp_array16 bo xs @ post) off =
    Some (of_nat (length xs), xs)"
proof -
  have "dtoh32ap bo (pre @ ptp_array16 bo xs @ post) off = Some (of_nat (length xs))"
    using c32.get_append [OF assms(1), of bo] by (simp add: ptp_array16_def)
  moreover have "off + 2 * (i + 2) = length (pre @ enc32 bo (of_nat (length xs))) + 2 * i" for i
    using assms(1) by simp
  then have "those (map (\<lambda>i. dtoh16ap bo (pre @ ptp_array16 bo xs @ post)
      (off + 2 * (i + 2))) [0..<length xs]) = Some xs"
    using c16.those_get_concat [of bo "pre @ enc32 bo (of_nat (length xs))" xs post]
    by (simp only: ptp_array16_def append_assoc)
  ultimately show ?thesis
    using assms(2) by (simp add: ptp_unpack_uint16_t_array_def unat_of_nat_u32)
qed

lemma unpack_array32_at:
  assumes "length pre = off" and "length xs < 2 ^ 32"
  shows "ptp_unpack_uint32_t_array bo (pre @ ptp_array32 bo xs @ post) off =
    Some (of_nat (length xs), xs)"
proof -
  have "dtoh32ap bo (pre @ ptp_array32 bo xs @ post) off = Some (of_nat (length xs))"
    using c32.get_append [OF assms(1), of bo] by (simp add: ptp_array32_def)
  moreover have "those (map (\<lambda>i. dtoh32ap bo (pre @ ptp_array32 bo xs @ post)
      (off + 4 * (i + 1))) [0..<length xs]) = Some xs"
    using c32.those_get_concat [of bo "pre @ enc32 bo (of_nat (length xs))" xs post] assms(1)
    by (simp add: ptp_array32_def algebra_simps)
  ultimately show ?thesis
    using assms(2) by (simp add: ptp_unpack_uint32_t_array_def unat_of_nat_u32)
qed

section \<open>DeviceInfo\<close>

definition ptp_unpack_DI :: "u8 \<Rightarrow> bytes \<Rightarrow> PTPDeviceInfo option" where
  "ptp_unpack_DI bo data = do {
     stdver \<leftarrow> dtoh16ap bo data 0;
     vendor \<leftarrow> dtoh32ap bo data 2;
     vendorver \<leftarrow> dtoh16ap bo data 6;
     (desc, len) \<leftarrow> ptp_unpack_string bo data 8;
     let totallen = unat len * 2 + 1;
     funmode \<leftarrow> dtoh16ap bo data (8 + totallen);
     (ops_len, ops) \<leftarrow> ptp_unpack_uint16_t_array bo data (u16n (10 + totallen));
     let totallen = u32n (totallen + unat ops_len * 2 + 4);
     (evs_len, evs) \<leftarrow> ptp_unpack_uint16_t_array bo data (u16n (10 + totallen));
     let totallen = u32n (totallen + unat evs_len * 2 + 4);
     (props_len, props) \<leftarrow> ptp_unpack_uint16_t_array bo data (u16n (10 + totallen));
     let totallen = u32n (totallen + unat props_len * 2 + 4);
     (cap_len, cap) \<leftarrow> ptp_unpack_uint16_t_array bo data (u16n (10 + totallen));
     let totallen = u32n (totallen + unat cap_len * 2 + 4);
     (img_len, img) \<leftarrow> ptp_unpack_uint16_t_array bo data (u16n (10 + totallen));
     let totallen = u32n (totallen + unat img_len * 2 + 4);
     (manu, len) \<leftarrow> ptp_unpack_string bo data (u16n (10 + totallen));
     let totallen = u32n (totallen + (unat len * 2 + 1));
     (mdl, len) \<leftarrow> ptp_unpack_string bo data (u16n (10 + totallen));
     let totallen = u32n (totallen + (unat len * 2 + 1));
     (devver, len) \<leftarrow> ptp_unpack_string bo data (u16n (10 + totallen));
     let totallen = u32n (totallen + (unat len * 2 + 1));
     (serial, len) \<leftarrow> ptp_unpack_string bo data (u16n (10 + totallen));
     Some \<lparr> StandardVersion = stdver, VendorExtensionID = vendor,
            VendorExtensionVersion = vendorver, VendorExtensionDesc = desc,
            FunctionalMode = funmode,
            OperationsSupported_len = ops_len, OperationsSupported = ops,
            EventsSupported_len = evs_len, EventsSupported = evs,
            DevicePropertiesSupported_len = props_len, DevicePropertiesSupported = props,
            CaptureFormats_len = cap_len, CaptureFormats = cap,
            ImageFormats_len = img_len, ImageFormats = img,
            Manufacturer = manu, Model = mdl, DeviceVersion = devver,
            SerialNumber = serial \<rparr>
   }"

text \<open>The DeviceInfo dataset of the standard: the fields one after the other.\<close>

definition di_dataset :: "u8 \<Rightarrow> PTPDeviceInfo \<Rightarrow> bytes" where
  "di_dataset bo di =
     enc16 bo (StandardVersion di) @ enc32 bo (VendorExtensionID di) @
     enc16 bo (VendorExtensionVersion di) @ ptp_string bo (VendorExtensionDesc di) @
     enc16 bo (FunctionalMode di) @
     ptp_array16 bo (OperationsSupported di) @ ptp_array16 bo (EventsSupported di) @
     ptp_array16 bo (DevicePropertiesSupported di) @ ptp_array16 bo (CaptureFormats di) @
     ptp_array16 bo (ImageFormats di) @
     ptp_string bo (Manufacturer di) @ ptp_string bo (Model di) @
     ptp_string bo (DeviceVersion di) @ ptp_string bo (SerialNumber di)"

definition wf_di :: "PTPDeviceInfo \<Rightarrow> bool" where
  "wf_di di \<longleftrightarrow>
     list_all wf_string [VendorExtensionDesc di, Manufacturer di, Model di, DeviceVersion di,
       SerialNumber di] \<and>
     OperationsSupported_len di = of_nat (length (OperationsSupported di)) \<and>
     EventsSupported_len di = of_nat (length (EventsSupported di)) \<and>
     DevicePropertiesSupported_len di = of_nat (length (DevicePropertiesSupported di)) \<and>
     CaptureFormats_len di = of_nat (length (CaptureFormats di)) \<and>
     ImageFormats_len di = of_nat (length (ImageFormats di)) \<and>
     length (di_dataset PTP_DL_LE di) < 65536"

lemma unpack_string_rest:
  "rest_at m i (ptp_string bo so @ t) \<Longrightarrow> wf_string so \<Longrightarrow>
   ptp_unpack_string bo m i = Some (so, string_len so)"
  using unpack_string_at [of "take i m" i so bo t] rest_at_split [of m i] by metis

text \<open>\<open>x\<close> is a string field that the unpacker reads as \<open>so\<close>, wherever it stands.\<close>

definition string_enc :: "u8 \<Rightarrow> bytes option \<Rightarrow> bytes \<Rightarrow> bool" where
  "string_enc bo so x \<longleftrightarrow>
     (\<forall>m i t. rest_at m i (x @ t) \<longrightarrow> ptp_unpack_string bo m i = Some (so, string_len so)) \<and>
     unat (string_len so) * 2 + 1 = length x"

lemma string_enc_ptp_string: "wf_string so \<Longrightarrow> string_enc bo so (ptp_string bo so)"
  using unpack_string_rest [of _ _ bo so] string_size_len [of so] by (auto simp: string_enc_def)

lemma string_enc_rest:
  "string_enc bo so x \<Longrightarrow> rest_at m i (x @ t) \<Longrightarrow>
   ptp_unpack_string bo m i = Some (so, string_len so)"
  by (auto simp: string_enc_def)

lemma string_enc_length: "string_enc bo so x \<Longrightarrow> unat (string_len so) * 2 + 1 = length x"
  by (simp add: string_enc_def)

lemma string_enc_chars:
  assumes "length cs < 255"
  shows "string_enc bo (Some (map ucast cs @ [0]))
    (of_nat (length cs + 1) # concat (map (enc16 bo) cs) @ enc16 bo c)"
    (is "string_enc _ _ ?x")
  unfolding string_enc_def
proof (intro conjI allI impI)
  fix m i t
  assume "rest_at m i (?x @ t)"
  then have m: "m = take i m @ ?x @ t" and i: "length (take i m) = i"
    using rest_at_split by blast+
  have "(map ucast (cs @ [c]))[length (cs @ [c]) - 1 := 0] = map ucast cs @ [0 :: u8]"
    by (simp add: list_update_append)
  then show "ptp_unpack_string bo m i =
      Some (Some (map ucast cs @ [0]), string_len (Some (map ucast cs @ [0])))"
    using unpack_string_chars [OF i, of "cs @ [c]" bo t] assms
    by (subst m) (simp add: string_len_def)
next
  show "unat (string_len (Some (map ucast cs @ [0]))) * 2 + 1 = length ?x"
    using assms unat_of_nat_u8 [of "Suc (length cs)"] length_concat_enc16 [of bo "\<lambda>x. x" cs]
    by (simp add: string_len_def)
qed

lemma unpack_array16_rest:
  "rest_at m i (ptp_array16 bo xs @ t) \<Longrightarrow> length xs < 2 ^ 32 \<Longrightarrow>
   ptp_unpack_uint16_t_array bo m i = Some (of_nat (length xs), xs)"
  using unpack_array16_at [of "take i m" i xs bo t] rest_at_split [of m i] by metis

lemma unpack_array32_rest:
  "rest_at m i (ptp_array32 bo xs @ t) \<Longrightarrow> length xs < 2 ^ 32 \<Longrightarrow>
   ptp_unpack_uint32_t_array bo m i = Some (of_nat (length xs), xs)"
  using unpack_array32_at [of "take i m" i xs bo t] rest_at_split [of m i] by metis

text \<open>One array, one string of the variable part; \<open>t\<close> is the code's \<open>totallen\<close>.\<close>

lemma DI_array:
  assumes "rest_at m (10 + t) (ptp_array16 bo xs @ r)"
    and "10 + (t + length (ptp_array16 bo xs)) < 65536"
  shows "ptp_unpack_uint16_t_array bo m (u16n (10 + t)) = Some (of_nat (length xs), xs)"
    and "u32n (t + unat (of_nat (length xs) :: u32) * 2 + 4) = t + length (ptp_array16 bo xs)"
    and "rest_at m (10 + (t + length (ptp_array16 bo xs))) r"
  using assms unpack_array16_rest [OF assms(1)] rest_at_step [OF assms(1)]
  by (simp_all add: unat_of_nat_u32 add.assoc)

lemma DI_string:
  assumes "rest_at m (10 + t) (ptp_string bo so @ r)" and "wf_string so"
    and "10 + (t + length (ptp_string bo so)) < 65536"
  shows "ptp_unpack_string bo m (u16n (10 + t)) = Some (so, string_len so)"
    and "u32n (t + (unat (string_len so) * 2 + 1)) = t + length (ptp_string bo so)"
    and "rest_at m (10 + (t + length (ptp_string bo so))) r"
  using assms unpack_string_rest [OF assms(1,2)] rest_at_step [OF assms(1)]
  by (simp_all add: string_size_len [OF assms(2)] add.assoc)

lemma unpack_DI_dataset:
  assumes wf: "wf_di di"
  shows "ptp_unpack_DI bo (di_dataset bo di @ rest) = Some di"
proof (cases di)
  case (fields A B C S0 F n1 A1 n2 A2 n3 A3 n4 A4 n5 A5 S1 S2 S3 S4)
  let ?D = "di_dataset bo di @ rest" and ?l = "\<lambda>xs. length (ptp_array16 bo xs)"
  let ?s = "\<lambda>so. length (ptp_string bo so)"
  have n: "n1 = of_nat (length A1)" "n2 = of_nat (length A2)" "n3 = of_nat (length A3)"
    "n4 = of_nat (length A4)" "n5 = of_nat (length A5)"
    and s: "wf_string S0" "wf_string S1" "wf_string S2" "wf_string S3" "wf_string S4"
    and small: "10 + (?s S0 + ?l A1 + ?l A2 + ?l A3 + ?l A4 + ?l A5 + ?s S1 + ?s S2 + ?s S3
      + ?s S4) < 65536"
    using wf by (simp_all add: wf_di_def di_dataset_def fields)
  have r0: "rest_at ?D 0 (enc16 bo A @ enc32 bo B @ enc16 bo C @ ptp_string bo S0 @
      enc16 bo F @ ptp_array16 bo A1 @ ptp_array16 bo A2 @ ptp_array16 bo A3 @
      ptp_array16 bo A4 @ ptp_array16 bo A5 @ ptp_string bo S1 @ ptp_string bo S2 @
      ptp_string bo S3 @ ptp_string bo S4 @ rest)"
    by (simp add: rest_at_def di_dataset_def fields)
  note r1 = rest_at_next [OF r0, of 2, simplified] note r2 = rest_at_next [OF r1, of 6, simplified]
  note r3 = rest_at_next [OF r2, of 8, simplified]
  have t1: "unat (string_len S0) * 2 + 1 = ?s S0" using string_size_len [OF s(1)] by simp
  have r4: "rest_at ?D (8 + ?s S0) (enc16 bo F @ ptp_array16 bo A1 @ ptp_array16 bo A2 @
      ptp_array16 bo A3 @ ptp_array16 bo A4 @ ptp_array16 bo A5 @ ptp_string bo S1 @
      ptp_string bo S2 @ ptp_string bo S3 @ ptp_string bo S4 @ rest)"
    by (rule rest_at_next [OF r3 refl])
  have "10 + ?s S0 = 8 + ?s S0 + length (enc16 bo F)" by simp
  note r5 = rest_at_next [OF r4 this]
  have b: "10 + (?s S0 + ?l A1) < 65536" "10 + (?s S0 + ?l A1 + ?l A2) < 65536"
    "10 + (?s S0 + ?l A1 + ?l A2 + ?l A3) < 65536"
    "10 + (?s S0 + ?l A1 + ?l A2 + ?l A3 + ?l A4) < 65536"
    "10 + (?s S0 + ?l A1 + ?l A2 + ?l A3 + ?l A4 + ?l A5) < 65536"
    "10 + (?s S0 + ?l A1 + ?l A2 + ?l A3 + ?l A4 + ?l A5 + ?s S1) < 65536"
    "10 + (?s S0 + ?l A1 + ?l A2 + ?l A3 + ?l A4 + ?l A5 + ?s S1 + ?s S2) < 65536"
    "10 + (?s S0 + ?l A1 + ?l A2 + ?l A3 + ?l A4 + ?l A5 + ?s S1 + ?s S2 + ?s S3) < 65536"
    using small by simp_all
  note a1 = DI_array [OF r5 b(1)] note a2 = DI_array [OF a1(3) b(2)]
  note a3 = DI_array [OF a2(3) b(3)] note a4 = DI_array [OF a3(3) b(4)]
  note a5 = DI_array [OF a4(3) b(5)]
  note s1 = DI_string [OF a5(3) s(2) b(6)] note s2 = DI_string [OF s1(3) s(3) b(7)]
  note s3 = DI_string [OF s2(3) s(4) b(8)] note s4 = DI_string [OF s3(3) s(5) small]
  note e = c16.get_rest [OF r0] c32.get_rest [OF r1] c16.get_rest [OF r2]
    unpack_string_rest [OF r3 s(1)] c16.get_rest [OF r4]
  show ?thesis
    unfolding ptp_unpack_DI_def Let_def
    by (simp only: e t1 a1 a2 a3 a4 a5 s1 s2 s3 s4 Option.bind.bind_lunit prod.case)
      (simp only: fields n)
qed

section \<open>Object handles, storage identifiers, StorageInfo\<close>

definition ptp_unpack_OH :: "u8 \<Rightarrow> bytes \<Rightarrow> PTPObjectHandles option" where
  "ptp_unpack_OH bo data = do {
     (n, handler) \<leftarrow> ptp_unpack_uint32_t_array bo data 0;
     Some \<lparr> oh_n = n, Handler = handler \<rparr>
   }"

definition ptp_unpack_SIDs :: "u8 \<Rightarrow> bytes \<Rightarrow> PTPStorageIDs option" where
  "ptp_unpack_SIDs bo data = do {
     (n, storage) \<leftarrow> ptp_unpack_uint32_t_array bo data 0;
     Some \<lparr> sids_n = n, Storage = storage \<rparr>
   }"

text \<open>The two 64-bit capacities are skipped by the code: they keep the values \<open>si\<close> had.\<close>

definition ptp_unpack_SI :: "u8 \<Rightarrow> bytes \<Rightarrow> PTPStorageInfo \<Rightarrow> PTPStorageInfo option" where
  "ptp_unpack_SI bo data si = do {
     styp \<leftarrow> dtoh16ap bo data 0;
     fstyp \<leftarrow> dtoh16ap bo data 2;
     cap \<leftarrow> dtoh16ap bo data 4;
     free \<leftarrow> dtoh32ap bo data 22;
     (desc, storagedescriptionlen) \<leftarrow> ptp_unpack_string bo data 26;
     (lbl, storagedescriptionlen) \<leftarrow>
       ptp_unpack_string bo data (26 + unat storagedescriptionlen * 2 + 1);
     Some (si \<lparr> StorageType := styp, FilesystemType := fstyp, AccessCapability := cap,
                FreeSpaceInImages := free, StorageDescription := desc, VolumeLabel := lbl \<rparr>)
   }"

text \<open>StorageInfo as the standard lays it out, \<open>maxcap\<close> and \<open>freecap\<close> being the bytes of the two
  64-bit fields.\<close>

definition si_dataset :: "u8 \<Rightarrow> bytes \<Rightarrow> bytes \<Rightarrow> PTPStorageInfo \<Rightarrow> bytes" where
  "si_dataset bo maxcap freecap si =
     enc16 bo (StorageType si) @ enc16 bo (FilesystemType si) @ enc16 bo (AccessCapability si) @
     maxcap @ freecap @ enc32 bo (FreeSpaceInImages si) @
     ptp_string bo (StorageDescription si) @ ptp_string bo (VolumeLabel si)"

lemma unpack_OH_dataset:
  "length hs < 2 ^ 32 \<Longrightarrow>
   ptp_unpack_OH bo (ptp_array32 bo hs @ rest) =
     Some \<lparr> oh_n = of_nat (length hs), Handler = hs \<rparr>"
  using unpack_array32_at [of "[]" 0 hs bo rest] by (simp add: ptp_unpack_OH_def)

lemma unpack_SIDs_dataset:
  "length ids < 2 ^ 32 \<Longrightarrow>
   ptp_unpack_SIDs bo (ptp_array32 bo ids @ rest) =
     Some \<lparr> sids_n = of_nat (length ids), Storage = ids \<rparr>"
  using unpack_array32_at [of "[]" 0 ids bo rest] by (simp add: ptp_unpack_SIDs_def)

text \<open>A counted array is read outside the received bytes exactly when the count is not there or
  promises more elements than were received.\<close>

lemma those_fields_None:
  assumes "\<And>i. (f i = None) = (len < base + w * i + w)"
  shows "those (map f [0..<n]) = None \<longleftrightarrow> n \<noteq> 0 \<and> len < base + w * (n :: nat)"
proof -
  have "(\<exists>i < n. len < base + w * i + w) \<longleftrightarrow> n \<noteq> 0 \<and> len < base + w * n"
  proof
    assume "\<exists>i < n. len < base + w * i + w"
    then obtain i where "i < n" "len < base + w * i + w" by blast
    moreover have "w * i + w \<le> w * n" using \<open>i < n\<close> mult_le_mono2 [of "i + 1" n w] by simp
    ultimately show "n \<noteq> 0 \<and> len < base + w * n" by auto
  next
    assume "n \<noteq> 0 \<and> len < base + w * n"
    then show "\<exists>i < n. len < base + w * i + w"
      by (intro exI [of _ "n - 1"]) (cases n; simp)
  qed
  moreover have "None \<in> set (map f [0..<n]) \<longleftrightarrow> (\<exists>i < n. f i = None)"
    by (auto simp: image_iff) (metis atLeastLessThan_iff le0)
  ultimately show ?thesis by (simp only: those_eq_None_iff assms)
qed

lemma unpack_array32_None:
  "ptp_unpack_uint32_t_array bo data off = None \<longleftrightarrow>
     (case dtoh32ap bo data off of None \<Rightarrow> True
      | Some n \<Rightarrow> length data < off + 4 + 4 * unat n)"
proof (cases "dtoh32ap bo data off")
  case (Some n)
  then have len: "off + 4 \<le> length data" by (simp add: c32.get_ldn ldn_def split: if_splits)
  have "(dtoh32ap bo data (off + 4 * (i + 1)) = None) = (length data < off + 4 + 4 * i + 4)" for i
    by (auto simp: c32.get_ldn ldn_def)
  note those_fields_None [OF this, of "unat n"]
  with Some len show ?thesis
    by (simp add: ptp_unpack_uint32_t_array_def bind_eq_None_conv del: upt_Suc) linarith
qed (simp add: ptp_unpack_uint32_t_array_def)

lemma unpack_array16_None:
  "ptp_unpack_uint16_t_array bo data off = None \<longleftrightarrow>
     (case dtoh32ap bo data off of None \<Rightarrow> True
      | Some n \<Rightarrow> length data < off + 4 + 2 * unat n)"
proof (cases "dtoh32ap bo data off")
  case (Some n)
  then have len: "off + 4 \<le> length data" by (simp add: c32.get_ldn ldn_def split: if_splits)
  have "(dtoh16ap bo data (off + 2 * (i + 2)) = None) = (length data < off + 4 + 2 * i + 2)" for i
    by (auto simp: c16.get_ldn ldn_def)
  note those_fields_None [OF this, of "unat n"]
  with Some len show ?thesis
    by (simp add: ptp_unpack_uint16_t_array_def bind_eq_None_conv del: upt_Suc) linarith
qed (simp add: ptp_unpack_uint16_t_array_def)

lemma unpack_SI_dataset:
  assumes "length maxcap = 8" "length freecap = 8"
    and wf: "wf_string (StorageDescription si)" "wf_string (VolumeLabel si)"
  shows "ptp_unpack_SI bo (si_dataset bo maxcap freecap si @ rest) si = Some si"
proof (cases si)
  case (fields a b c mc fc f d l)
  let ?D = "si_dataset bo maxcap freecap si @ rest"
  have r0: "rest_at ?D 0 (enc16 bo a @ enc16 bo b @ enc16 bo c @ (maxcap @ freecap) @
      enc32 bo f @ ptp_string bo d @ ptp_string bo l @ rest)"
    by (simp add: rest_at_def si_dataset_def fields)
  note r1 = rest_at_next [OF r0, of 2, simplified] note r2 = rest_at_next [OF r1, of 4, simplified]
  have r3: "rest_at ?D 6 ((maxcap @ freecap) @ enc32 bo f @ ptp_string bo d @ ptp_string bo l @ rest)"
    using rest_at_next [OF r2, of 6] by simp
  have r4: "rest_at ?D 22 (enc32 bo f @ ptp_string bo d @ ptp_string bo l @ rest)"
    using rest_at_next [OF r3, of 22] assms by simp
  note r5 = rest_at_next [OF r4, of 26, simplified]
  have w: "wf_string d" "wf_string l" using wf by (simp_all add: fields)
  have t: "26 + unat (string_len d) * 2 + 1 = 26 + length (ptp_string bo d)"
    using string_size_len [OF w(1)] by simp
  note r6 = rest_at_next [OF r5 refl]
  note e = c16.get_rest [OF r0] c16.get_rest [OF r1] c16.get_rest [OF r2] c32.get_rest [OF r4]
    unpack_string_rest [OF r5 w(1)] unpack_string_rest [OF r6 w(2)]
  show ?thesis
    unfolding ptp_unpack_SI_def
    by (simp only: e t Option.bind.bind_lunit prod.case) (simp add: fields)
qed

section \<open>What the packers promise\<close>

text \<open>C25: strings. A string packed with \<open>ptp_pack_string\<close> into a dataset with room for it and read
  back with \<open>ptp_unpack_string\<close> is itself when it has fewer than 255 characters. The length is
  kept in a byte: of a longer string only its length modulo 256 counts, and a string of 255
  characters is read back as NULL.\<close>

theorem string_survives:
  assumes "strlen string = Some n" and "offset + 3 + 2 * (n mod 256) \<le> length data"
  shows "\<exists>data'. ptp_pack_string bo string data offset = Some (data', of_nat n) \<and>
    length data' = length data \<and>
    ptp_unpack_string bo data' offset =
      Some (if n mod 256 = 255 then (None, 0)
            else (Some (take (n mod 256) string @ [0]), of_nat (n mod 256 + 1)))"
  using string_roundtrip [OF assms(1) refl assms(2), of bo] by metis

theorem string_survives_witness:
  "\<exists>data'. ptp_pack_string PTP_DL_LE [65, 66, 0] (replicate 7 0) 0 = Some (data', 2) \<and>
     ptp_unpack_string PTP_DL_LE data' 0 = Some (Some [65, 66, 0], 3)"
  using string_survives [of "[65, 66, 0]" 2 0 "replicate 7 0" PTP_DL_LE]
  by (auto simp: strlen_def)

text \<open>C20: the device information. From the dataset of any well-formed device information, with
  whatever bytes behind it, \<open>ptp_unpack_DI\<close> gets back that device information: every string and
  every array at its place, in both byte orders.\<close>

theorem device_info_unpacks:
  "wf_di di \<Longrightarrow> ptp_unpack_DI bo (di_dataset bo di @ rest) = Some di"
  by (rule unpack_DI_dataset)

definition ex_di :: PTPDeviceInfo where
  "ex_di = \<lparr> StandardVersion = 100, VendorExtensionID = 11, VendorExtensionVersion = 1,
     VendorExtensionDesc = Some [65, 0], FunctionalMode = 0,
     OperationsSupported_len = 2, OperationsSupported = [0x1001, 0x9999],
     EventsSupported_len = 0, EventsSupported = [],
     DevicePropertiesSupported_len = 1, DevicePropertiesSupported = [0xD001],
     CaptureFormats_len = 0, CaptureFormats = [],
     ImageFormats_len = 1, ImageFormats = [0x3801],
     Manufacturer = Some [67, 0], Model = Some [68, 69, 0], DeviceVersion = None,
     SerialNumber = None \<rparr>"

lemma wf_ex_di: "wf_di ex_di"
  by (simp add: wf_di_def ex_di_def wf_string_def di_dataset_def ptp_string_size_def
      length_ptp_array16)

theorem device_info_unpacks_witness:
  "ptp_unpack_DI PTP_DL_BE (di_dataset PTP_DL_BE ex_di @ [1, 2, 3]) = Some ex_di"
  by (rule device_info_unpacks [OF wf_ex_di])

text \<open>C32: arrays. The unpackers of arrays trust the count they read: they leave the received bytes
  exactly when the count is not there or when it promises more elements than were received.\<close>

theorem unpack_array_overread:
  "(ptp_unpack_uint32_t_array bo data off = None \<longleftrightarrow>
      (case dtoh32ap bo data off of None \<Rightarrow> True
       | Some n \<Rightarrow> length data < off + 4 + 4 * unat n)) \<and>
   (ptp_unpack_uint16_t_array bo data off = None \<longleftrightarrow>
      (case dtoh32ap bo data off of None \<Rightarrow> True
       | Some n \<Rightarrow> length data < off + 4 + 2 * unat n))"
  by (simp add: unpack_array32_None unpack_array16_None)


definition ex_si :: PTPStorageInfo where
  "ex_si = \<lparr> StorageType = 4, FilesystemType = 3, AccessCapability = 0, MaxCapability = 0,
     FreeSpaceInBytes = 0, FreeSpaceInImages = 9, StorageDescription = Some [83, 0],
     VolumeLabel = None \<rparr>"


end
