(* ===== verification/Pack_Object.thy ===== *)
theory Pack_Object
  imports Pack
begin

text \<open>
  The ObjectInfo dataset of \<open>ptp-pack.c\<close>: \<open>ptp_pack_OI\<close> and \<open>ptp_unpack_OI\<close>. The unpacker
  turns the two ISO 8601 dates into a \<open>time_t\<close> with \<open>mktime\<close>, whose result depends on the time
  zone of the host: it is a parameter that maps a broken-down time to the \<open>time_t\<close> and to the
  normalised broken-down time it leaves behind.
\<close>

section \<open>Dates\<close>

record tm =
  tm_sec :: int
  tm_min :: int
  tm_hour :: int
  tm_mday :: int
  tm_mon :: int
  tm_year :: int
  tm_wday :: int
  tm_yday :: int
  tm_isdst :: int

definition tm0 :: tm where
  "tm0 = \<lparr> tm_sec = 0, tm_min = 0, tm_hour = 0, tm_mday = 0, tm_mon = 0, tm_year = 0,
          tm_wday = 0, tm_yday = 0, tm_isdst = 0 \<rparr>"

text \<open>\<open>atoi\<close> of the C library: white space, a sign, then decimal digits.\<close>

definition isdigit8 :: "byte \<Rightarrow> bool" where
  "isdigit8 c \<longleftrightarrow> 48 \<le> c \<and> c \<le> 57"

definition isspace8 :: "byte \<Rightarrow> bool" where
  "isspace8 c \<longleftrightarrow> c = 32 \<or> 9 \<le> c \<and> c \<le> 13"

fun atoi_digits :: "int \<Rightarrow> bytes \<Rightarrow> int" where
  "atoi_digits n [] = n"
| "atoi_digits n (c # cs) =
     (if isdigit8 c then atoi_digits (n * 10 + (uint c - 48)) cs else n)"

definition atoi :: "bytes \<Rightarrow> int" where
  "atoi s =
     (case dropWhile isspace8 s of
        [] \<Rightarrow> 0
      | c # cs \<Rightarrow> if c = 45 then - atoi_digits 0 cs
                 else if c = 43 then atoi_digits 0 cs
                 else atoi_digits 0 (c # cs))"

text \<open>\<open>strncpy (tmp, date + off, n); tmp[n] = 0; atoi (tmp)\<close>\<close>

definition date_field :: "bytes \<Rightarrow> nat \<Rightarrow> nat \<Rightarrow> int" where
  "date_field date off n = atoi (takeWhile (\<lambda>c. c \<noteq> 0) (take n (drop off date)))"

definition parse_date :: "bytes \<Rightarrow> tm \<Rightarrow> tm" where
  "parse_date date t =
     t \<lparr> tm_year := date_field date 0 4 - 1900, tm_mon := date_field date 4 2 - 1,
         tm_mday := date_field date 6 2, tm_hour := date_field date 9 2,
         tm_min := date_field date 11 2, tm_sec := date_field date 13 2 \<rparr>"

section \<open>The packer and the unpacker\<close>

definition ptp_pack_OI :: "u8 \<Rightarrow> PTPObjectInfo \<Rightarrow> (bytes \<times> u32) option" where
  "ptp_pack_OI bo oi = do {
     filename \<leftarrow> Filename oi;
     n \<leftarrow> strlen filename;
     let oidata = replicate (53 + (n + 1) * 2 + 4) 0;
     oidata \<leftarrow> htod32ap bo oidata 0 (StorageID oi);
     oidata \<leftarrow> htod16ap bo oidata 4 (ObjectFormat oi);
     oidata \<leftarrow> htod16ap bo oidata 6 (ProtectionStatus oi);
     oidata \<leftarrow> htod32ap bo oidata 8 (ObjectCompressedSize oi);
     oidata \<leftarrow> htod16ap bo oidata 12 (ThumbFormat oi);
     oidata \<leftarrow> htod32ap bo oidata 14 (ThumbCompressedSize oi);
     oidata \<leftarrow> htod32ap bo oidata 18 (ThumbPixWidth oi);
     oidata \<leftarrow> htod32ap bo oidata 22 (ThumbPixHeight oi);
     oidata \<leftarrow> htod32ap bo oidata 26 (ImagePixWidth oi);
     oidata \<leftarrow> htod32ap bo oidata 30 (ImagePixHeight oi);
     oidata \<leftarrow> htod32ap bo oidata 34 (ImageBitDepth oi);
     oidata \<leftarrow> htod32ap bo oidata 38 (ParentObject oi);
     oidata \<leftarrow> htod16ap bo oidata 42 (AssociationType oi);
     oidata \<leftarrow> htod32ap bo oidata 44 (AssociationDesc oi);
     oidata \<leftarrow> htod32ap bo oidata 48 (SequenceNumber oi);
     (oidata, filenamelen) \<leftarrow> ptp_pack_string bo filename oidata 52;
     Some (oidata, of_nat (53 + (unat filenamelen + 1) * 2 + (0 + 1) * 4))
   }"

definition ptp_unpack_OI ::
  "(tm \<Rightarrow> int \<times> tm) \<Rightarrow> u8 \<Rightarrow> bytes \<Rightarrow> PTPObjectInfo \<Rightarrow> PTPObjectInfo option" where
  "ptp_unpack_OI mktime bo data oi = do {
     storage \<leftarrow> dtoh32ap bo data 0;
     objfmt \<leftarrow> dtoh16ap bo data 4;
     prot \<leftarrow> dtoh16ap bo data 6;
     objsize \<leftarrow> dtoh32ap bo data 8;
     tfmt \<leftarrow> dtoh16ap bo data 12;
     tsize \<leftarrow> dtoh32ap bo data 14;
     tw \<leftarrow> dtoh32ap bo data 18;
     th \<leftarrow> dtoh32ap bo data 22;
     iw \<leftarrow> dtoh32ap bo data 26;
     ih \<leftarrow> dtoh32ap bo data 30;
     depth \<leftarrow> dtoh32ap bo data 34;
     parent \<leftarrow> dtoh32ap bo data 38;
     atype \<leftarrow> dtoh16ap bo data 42;
     adesc \<leftarrow> dtoh32ap bo data 44;
     seq \<leftarrow> dtoh32ap bo data 48;
     (name, filenamelen) \<leftarrow> ptp_unpack_string bo data 52;
     let oi = oi \<lparr> StorageID := storage, ObjectFormat := objfmt, ProtectionStatus := prot,
                ObjectCompressedSize := objsize, ThumbFormat := tfmt,
                ThumbCompressedSize := tsize, ThumbPixWidth := tw, ThumbPixHeight := th,
                ImagePixWidth := iw, ImagePixHeight := ih, ImageBitDepth := depth,
                ParentObject := parent, AssociationType := atype, AssociationDesc := adesc,
                SequenceNumber := seq, Filename := name \<rparr>;
     (capture_date, capturedatelen) \<leftarrow>
       ptp_unpack_string bo data (52 + unat filenamelen * 2 + 1);
     let (oi, t) =
       (case capture_date of
          Some date \<Rightarrow>
            if unat capturedatelen > 15
            then let (time, t) = mktime (parse_date date tm0)
                 in (oi \<lparr> CaptureDate := time \<rparr>, t)
            else (oi, tm0)
        | None \<Rightarrow> (oi, tm0));
     (capture_date, capturedatelen) \<leftarrow>
       ptp_unpack_string bo data (52 + unat filenamelen * 2 + unat capturedatelen * 2 + 2);
     (case capture_date of
        Some date \<Rightarrow>
          if unat capturedatelen > 15
          then Some (oi \<lparr> ModificationDate := fst (mktime (parse_date date t)) \<rparr>)
          else Some oi
      | None \<Rightarrow> Some oi)
   }"

text \<open>The fixed part of the dataset, and the dataset with its three strings.\<close>

definition oi_header :: "u8 \<Rightarrow> PTPObjectInfo \<Rightarrow> bytes" where
  "oi_header bo oi =
     enc32 bo (StorageID oi) @ enc16 bo (ObjectFormat oi) @ enc16 bo (ProtectionStatus oi) @
     enc32 bo (ObjectCompressedSize oi) @ enc16 bo (ThumbFormat oi) @
     enc32 bo (ThumbCompressedSize oi) @ enc32 bo (ThumbPixWidth oi) @
     enc32 bo (ThumbPixHeight oi) @ enc32 bo (ImagePixWidth oi) @ enc32 bo (ImagePixHeight oi) @
     enc32 bo (ImageBitDepth oi) @ enc32 bo (ParentObject oi) @ enc16 bo (AssociationType oi) @
     enc32 bo (AssociationDesc oi) @ enc32 bo (SequenceNumber oi)"

definition oi_dataset :: "u8 \<Rightarrow> PTPObjectInfo \<Rightarrow> bytes option \<Rightarrow> bytes option \<Rightarrow> bytes" where
  "oi_dataset bo oi cdate mdate =
     oi_header bo oi @ ptp_string bo (Filename oi) @ ptp_string bo cdate @ ptp_string bo mdate"

lemma length_oi_header [simp]: "length (oi_header bo oi) = 52"
  by (simp add: oi_header_def)

lemma pack_OI_eq:
  assumes name: "Filename oi = Some filename" and n: "strlen filename = Some n"
    and k: "k = n mod 256"
  shows "ptp_pack_OI bo oi =
    Some (zpad (59 + 2 * n) (oi_header bo oi @ of_nat (n + 1) #
            concat (map (\<lambda>i. enc16 bo (scast (filename ! i))) [0..<k])),
          of_nat (59 + 2 * k))"
proof -
  let ?N = "59 + 2 * n" and ?h = "oi_header bo oi"
  have kn: "k \<le> n" by (simp add: k)
  have k': "unat (of_nat n :: u8) = k" by (simp add: k unat_of_nat take_bit_eq_mod)
  then have k'': "(ucast (of_nat n :: u8) :: u32) = of_nat k"
    by (simp flip: k')
  have "53 + 2 * k \<le> length (zpad ?N ?h)" using kn by simp
  then have s: "ptp_pack_string bo filename (zpad ?N ?h) 52 =
      Some (zpad ?N (?h @ of_nat (n + 1) #
            concat (map (\<lambda>i. enc16 bo (scast (filename ! i))) [0..<k])), of_nat n)"
    using pack_string_eq [OF n k, of 52 "zpad ?N ?h" bo] kn by (simp add: zpad_def)
  show ?thesis
    unfolding ptp_pack_OI_def zpad_Nil Let_def
    using s by (simp add: name n c32.put_zpad c16.put_zpad oi_header_def k'' algebra_simps)
qed

text \<open>The returned size never exceeds the allocation. It equals it, that is the whole dataset is
  sent, exactly for names of at most 255 characters.\<close>

lemma pack_OI_size:
  assumes name: "Filename oi = Some filename" and n: "strlen filename = Some n"
    and small: "n < 2 ^ 30" and pack: "ptp_pack_OI bo oi = Some (buf, len)"
  shows "unat len \<le> length buf" and "unat len = length buf \<longleftrightarrow> n < 256"
proof -
  let ?k = "n mod 256"
  have kn: "?k \<le> n" and k: "?k < 256" by simp_all
  have blen: "length buf = 59 + 2 * n" and sz: "len = of_nat (59 + 2 * ?k)"
    using pack pack_OI_eq [OF name n refl, of bo] kn by auto
  have "unat len = 59 + 2 * ?k"
    using k unfolding sz by (subst unat_of_nat_u32) simp_all
  with blen show "unat len \<le> length buf" and "unat len = length buf \<longleftrightarrow> n < 256"
    by (auto simp: mod_eq_self_iff_div_eq_0)
qed

text \<open>The unpacker on a dataset that has the standard's layout.\<close>

definition date_time :: "(tm \<Rightarrow> int \<times> tm) \<Rightarrow> bytes option \<Rightarrow> tm \<Rightarrow> (int \<times> tm) option" where
  "date_time mktime so t =
     (case so of Some date \<Rightarrow> if length date > 15 then Some (mktime (parse_date date t)) else None
      | None \<Rightarrow> None)"

lemma unpack_OI_fields:
  assumes wf: "string_enc bo (Filename oi) x" "string_enc bo cdate y" "string_enc bo mdate z"
    and date: "\<And>s. cdate = Some s \<or> mdate = Some s \<Longrightarrow> wf_string (Some s)"
  shows "ptp_unpack_OI mktime bo (oi_header bo oi @ x @ y @ z @ rest) oi0 =
    (let c = date_time mktime cdate tm0;
         m = date_time mktime mdate (case c of Some (_, t) \<Rightarrow> t | None \<Rightarrow> tm0)
     in Some (oi \<lparr> CaptureDate := (case c of Some (v, _) \<Rightarrow> v | None \<Rightarrow> CaptureDate oi0),
                  ModificationDate :=
                    (case m of Some (v, _) \<Rightarrow> v | None \<Rightarrow> ModificationDate oi0) \<rparr>))"
proof (cases oi)
  case (fields a b c d e f g h i j k l m n p name cd md)
  let ?D = "oi_header bo oi @ x @ y @ z @ rest" and ?T = "x @ y @ z @ rest"
  have r0: "rest_at ?D 0 (enc32 bo a @ enc16 bo b @ enc16 bo c @ enc32 bo d @ enc16 bo e @
      enc32 bo f @ enc32 bo g @ enc32 bo h @ enc32 bo i @ enc32 bo j @ enc32 bo k @ enc32 bo l @
      enc16 bo m @ enc32 bo n @ enc32 bo p @ ?T)"
    by (simp add: rest_at_def oi_header_def fields)
  note r1 = rest_at_next [OF r0, of 4, simplified] note r2 = rest_at_next [OF r1, of 6, simplified]
  note r3 = rest_at_next [OF r2, of 8, simplified] note r4 = rest_at_next [OF r3, of 12, simplified]
  note r5 = rest_at_next [OF r4, of 14, simplified] note r6 = rest_at_next [OF r5, of 18, simplified]
  note r7 = rest_at_next [OF r6, of 22, simplified] note r8 = rest_at_next [OF r7, of 26, simplified]
  note r9 = rest_at_next [OF r8, of 30, simplified] note r10 = rest_at_next [OF r9, of 34, simplified]
  note r11 = rest_at_next [OF r10, of 38, simplified]
  note r12 = rest_at_next [OF r11, of 42, simplified]
  note r13 = rest_at_next [OF r12, of 44, simplified]
  note r14 = rest_at_next [OF r13, of 48, simplified]
  have s0: "rest_at ?D 52 ?T" using rest_at_next [OF r14, of 52] by simp
  note w = wf [unfolded fields, simplified]
  have t1: "52 + unat (string_len name) * 2 + 1 = 52 + length x"
    using string_enc_length [OF w(1)] by simp
  note s1 = rest_at_next [OF s0 refl, folded t1]
  have t2: "52 + unat (string_len name) * 2 + unat (string_len cdate) * 2 + 2 =
      52 + unat (string_len name) * 2 + 1 + length y"
    using string_enc_length [OF w(2)] by simp
  note s2 = rest_at_next [OF s1 refl, folded t2]
  note e = c32.get_rest [OF r0] c16.get_rest [OF r1] c16.get_rest [OF r2] c32.get_rest [OF r3]
    c16.get_rest [OF r4] c32.get_rest [OF r5] c32.get_rest [OF r6] c32.get_rest [OF r7]
    c32.get_rest [OF r8] c32.get_rest [OF r9] c32.get_rest [OF r10] c32.get_rest [OF r11]
    c16.get_rest [OF r12] c32.get_rest [OF r13] c32.get_rest [OF r14]
    string_enc_rest [OF w(1) s0] string_enc_rest [OF w(2) s1] string_enc_rest [OF w(3) s2]
  have l: "unat (string_len (Some s)) = length s" if "wf_string (Some s)" for s
    using that by (simp add: string_len_def wf_string_def unat_of_nat_u8)
  show ?thesis
    unfolding ptp_unpack_OI_def Let_def
    apply (simp only: e Option.bind.bind_lunit prod.case)
    using date l by (cases cdate; cases mdate) (auto simp: fields date_time_def split: prod.split)
qed

lemma unpack_OI_dataset:
  assumes "wf_string (Filename oi)" "wf_string cdate" "wf_string mdate"
  shows "ptp_unpack_OI mktime bo (oi_dataset bo oi cdate mdate @ rest) oi0 =
    (let c = date_time mktime cdate tm0;
         m = date_time mktime mdate (case c of Some (_, t) \<Rightarrow> t | None \<Rightarrow> tm0)
     in Some (oi \<lparr> CaptureDate := (case c of Some (v, _) \<Rightarrow> v | None \<Rightarrow> CaptureDate oi0),
                  ModificationDate :=
                    (case m of Some (v, _) \<Rightarrow> v | None \<Rightarrow> ModificationDate oi0) \<rparr>))"
  using unpack_OI_fields [OF string_enc_ptp_string [OF assms(1), of bo]
      string_enc_ptp_string [OF assms(2), of bo] string_enc_ptp_string [OF assms(3), of bo],
      of mktime rest oi0] assms(2,3)
  by (auto simp: oi_dataset_def)

text \<open>What is packed is unpacked again, if the name has at most 254 characters; the dates are
  not part of the packed dataset.\<close>

lemma pack_unpack_OI:
  assumes name: "Filename oi = Some filename" and n: "strlen filename = Some n" and "n < 255"
  obtains buf where "ptp_pack_OI bo oi = Some (buf, of_nat (59 + 2 * n))"
    and "length buf = 59 + 2 * n"
    and "ptp_unpack_OI mktime bo buf oi0 =
      Some (oi \<lparr> Filename := Some (take n filename @ [0]),
                 CaptureDate := CaptureDate oi0, ModificationDate := ModificationDate oi0 \<rparr>)"
proof -
  let ?cs = "map (\<lambda>i. scast (filename ! i)) [0..<n] :: u16 list"
  let ?x = "of_nat (n + 1) # concat (map (enc16 bo) ?cs) @ enc16 bo 0"
  let ?oi = "oi \<lparr> Filename := Some (take n filename @ [0]) \<rparr>"
  let ?buf = "oi_header bo ?oi @ ?x @ [0] @ [0] @ [0, 0]"
  have mod: "n mod 256 = n" using assms(3) by simp
  have z: "enc16 bo 0 = [0, 0]"
    by (simp add: enc16_def mem16_def htod16p_def endian_defs bswap_16_def host16_def)
  have h: "oi_header bo ?oi = oi_header bo oi" by (simp add: oi_header_def)
  let ?c = "concat (map (\<lambda>i. enc16 bo (scast (filename ! i))) [0..<n])"
  have "59 + 2 * n - length (oi_header bo oi @ of_nat (n + 1) # ?c) = 6" by simp
  moreover have "replicate 6 0 = [0, 0, 0, 0, 0, 0 :: byte]" by (simp add: numeral_eq_Suc)
  ultimately have "zpad (59 + 2 * n) (oi_header bo oi @ of_nat (n + 1) # ?c) = ?buf"
    unfolding zpad_def h by (simp only: append_assoc append_Cons append_Nil z length_map length_upt
        diff_zero map_map o_def)
  then have buf: "ptp_pack_OI bo oi = Some (?buf, of_nat (59 + 2 * n))"
    using pack_OI_eq [OF name n refl, of bo] by (simp only: mod)
  have "map ucast ?cs = take n filename"
    using strlen_less [OF n] by (intro nth_equalityI) auto
  then have enc: "string_enc bo (Filename ?oi) ?x"
    using string_enc_chars [of ?cs bo 0] assms(3) by simp
  have none: "string_enc bo None [0]"
    using string_enc_ptp_string [of None bo] by (simp add: wf_string_def ptp_string_def)
  have "ptp_unpack_OI mktime bo ?buf oi0 =
      Some (?oi \<lparr> CaptureDate := CaptureDate oi0, ModificationDate := ModificationDate oi0 \<rparr>)"
    by (subst unpack_OI_fields [OF enc none none]) (simp_all add: date_time_def)
  with that [OF buf] show thesis by (simp add: o_def)
qed

text \<open>A well-formed date (\<open>YYYYMMDDThhmmss\<close>) gives the broken-down time it denotes.\<close>

definition digits2 :: "nat \<Rightarrow> bytes" where
  "digits2 n = [of_nat (48 + n div 10), of_nat (48 + n mod 10)]"

definition iso_date :: "nat \<Rightarrow> nat \<Rightarrow> nat \<Rightarrow> nat \<Rightarrow> nat \<Rightarrow> nat \<Rightarrow> bytes" where
  "iso_date y mo d h mi s =
     digits2 (y div 100) @ digits2 (y mod 100) @ digits2 mo @ digits2 d @ [84] @
     digits2 h @ digits2 mi @ digits2 s @ [0]"

lemma digit_cases: "k < (10 :: nat) \<Longrightarrow>
    k = 0 \<or> k = 1 \<or> k = 2 \<or> k = 3 \<or> k = 4 \<or> k = 5 \<or> k = 6 \<or> k = 7 \<or> k = 8 \<or> k = 9"
  by arith

lemma digit_byte:
  assumes "k < 10"
  shows "isdigit8 (of_nat (48 + k))" and "uint (of_nat (48 + k) :: byte) - 48 = int k"
    and "\<not> isspace8 (of_nat (48 + k))" and "(of_nat (48 + k) :: byte) \<notin> {0, 43, 45}"
  using digit_cases [OF assms]
  by (elim disjE; simp add: isdigit8_def isspace8_def)+

lemma atoi_2:
  assumes "a < 10" "b < 10"
  shows "atoi [of_nat (48 + a), of_nat (48 + b)] = int (10 * a + b)"
  using digit_byte [OF assms(1)] digit_byte [OF assms(2)]
  by (simp add: atoi_def del: of_nat_add)

lemma atoi_4:
  assumes "a < 10" "b < 10" "c < 10" "d < 10"
  shows "atoi [of_nat (48 + a), of_nat (48 + b), of_nat (48 + c), of_nat (48 + d)] =
    int (1000 * a + 100 * b + 10 * c + d)"
  using digit_byte [OF assms(1)] digit_byte [OF assms(2)] digit_byte [OF assms(3)]
    digit_byte [OF assms(4)]
  by (simp add: atoi_def del: of_nat_add)

lemma parse_iso_date:
  assumes "y < 10000" "mo < 100" "d < 100" "h < 100" "mi < 100" "s < 100"
  shows "parse_date (iso_date y mo d h mi s) t =
    t \<lparr> tm_year := int y - 1900, tm_mon := int mo - 1, tm_mday := int d, tm_hour := int h,
        tm_min := int mi, tm_sec := int s \<rparr>"
proof -
  let ?a = "y div 100" and ?b = "y mod 100"
  have ab: "?a div 10 < 10" "?a mod 10 < 10" "?b div 10 < 10" "?b mod 10 < 10"
    using assms(1) by simp_all
  have dig: "n div 10 < 10" "n mod 10 < 10" if "n < 100" for n :: nat
    using that by simp_all
  have num: "10 * (n div 10) + n mod 10 = n" for n :: nat by simp
  have f2: "atoi (digits2 n) = int n" if "n < 100" for n
    using atoi_2 [OF dig [OF that]] by (simp add: digits2_def num)
  have "1000 * (?a div 10) + 100 * (?a mod 10) + 10 * (?b div 10) + ?b mod 10 = y"
    using num [of ?a] num [of ?b] div_mult_mod_eq [of y 100] by linarith
  with atoi_4 [OF ab] have f4: "atoi (digits2 ?a @ digits2 ?b) = int y"
    by (simp add: digits2_def del: of_nat_add)
  have nz: "takeWhile (\<lambda>c. c \<noteq> 0) (digits2 n @ xs) = digits2 n @ takeWhile (\<lambda>c. c \<noteq> 0) xs"
    if "n < 100" for n xs
    using digit_byte(4) [OF dig(1) [OF that]] digit_byte(4) [OF dig(2) [OF that]]
    by (simp add: digits2_def del: of_nat_add)
  have nz0: "takeWhile (\<lambda>c. c \<noteq> 0) (digits2 n) = digits2 n" if "n < 100" for n
    using nz [OF that, of "[]"] by (simp only: append_Nil2 takeWhile.simps)
  have len: "length (digits2 n) = 2" for n by (simp add: digits2_def)
  have "?a < 100" "?b < 100" using assms(1) by simp_all
  with assms show ?thesis
    by (simp add: parse_date_def date_field_def iso_date_def len nz nz0 f2 f4)
qed

section \<open>What the object information promises\<close>

text \<open>C21: object information sent and read back. With a file name of fewer than 255 characters
  \<open>ptp_pack_OI\<close> fills its allocation exactly and \<open>ptp_unpack_OI\<close> finds every field again; the
  two dates are not sent, the reader's own stay.\<close>

theorem object_info_roundtrip:
  assumes "Filename oi = Some filename" and "strlen filename = Some n" and "n < 255"
  shows "\<exists>buf. ptp_pack_OI bo oi = Some (buf, of_nat (59 + 2 * n)) \<and> length buf = 59 + 2 * n \<and>
    ptp_unpack_OI mktime bo buf oi0 =
      Some (oi \<lparr> Filename := Some (take n filename @ [0]),
                 CaptureDate := CaptureDate oi0, ModificationDate := ModificationDate oi0 \<rparr>)"
  using pack_unpack_OI [OF assms, of bo mktime oi0] by metis

definition ex_oi :: PTPObjectInfo where
  "ex_oi = \<lparr> StorageID = 0x00010001, ObjectFormat = 0x3801, ProtectionStatus = 0,
     ObjectCompressedSize = 12345, ThumbFormat = 0x3808, ThumbCompressedSize = 77,
     ThumbPixWidth = 160, ThumbPixHeight = 120, ImagePixWidth = 4000, ImagePixHeight = 3000,
     ImageBitDepth = 24, ParentObject = 3, AssociationType = 0, AssociationDesc = 0,
     SequenceNumber = 1, Filename = Some [73, 77, 71, 0], CaptureDate = 5, ModificationDate = 6 \<rparr>"

theorem object_info_roundtrip_witness:
  "\<exists>buf. ptp_pack_OI PTP_DL_LE ex_oi = Some (buf, 65) \<and>
     ptp_unpack_OI (\<lambda>t. (0, t)) PTP_DL_LE buf ex_oi = Some ex_oi"
  using object_info_roundtrip
    [of ex_oi "[73, 77, 71, 0]" 3 PTP_DL_LE "\<lambda>t. (0, t)" ex_oi]
  by (auto simp: ex_oi_def strlen_def)

text \<open>C27: the size of packed object information. What \<open>ptp_pack_OI\<close> returns never exceeds what it
  allocated, and equals it, so that all of the name is sent, exactly for names of fewer than 256
  characters.\<close>

theorem pack_OI_size_safe:
  assumes "Filename oi = Some filename" and "strlen filename = Some n"
    and "n < 2 ^ 30" and "ptp_pack_OI bo oi = Some (buf, len)"
  shows "unat len \<le> length buf \<and> (unat len = length buf \<longleftrightarrow> n < 256)"
  using pack_OI_size [OF assms] by blast

theorem pack_OI_size_safe_witness:
  "\<exists>buf. ptp_pack_OI PTP_DL_LE ex_oi = Some (buf, 65) \<and> length buf = 65"
proof -
  have oi: "Filename ex_oi = Some [73, 77, 71, 0]" "strlen [73, 77, 71, 0] = Some 3"
    by (simp_all add: ex_oi_def strlen_def)
  obtain buf where "ptp_pack_OI PTP_DL_LE ex_oi = Some (buf, 65)"
    using pack_OI_eq [OF oi refl, of PTP_DL_LE] by simp
  with pack_OI_size_safe [OF oi _ this] show ?thesis by simp
qed



end
