(* ===== verification/Pack_Prop.thy ===== *)
theory Pack_Prop
  imports Pack
begin

text \<open>
  Device property values and descriptions, and the event records of \<open>ptp-pack.c\<close>:
  \<open>ptp_unpack_DPV\<close>, \<open>ptp_unpack_DPD\<close>, \<open>ptp_pack_DPV\<close>, \<open>ptp_unpack_EC\<close>,
  \<open>ptp_unpack_Canon_FE\<close>, \<open>ptp_nikon_unpack_EC\<close>. A \<open>void *\<close> that the code may leave NULL is a
  \<open>prop_value option\<close>.
\<close>

section \<open>Property values\<close>

definition val_size :: "u16 \<Rightarrow> nat" where
  "val_size dt =
     (if dt = PTP_DTC_INT8 \<or> dt = PTP_DTC_UINT8 then 1
      else if dt = PTP_DTC_INT16 \<or> dt = PTP_DTC_UINT16 then 2
      else if dt = PTP_DTC_INT32 \<or> dt = PTP_DTC_UINT32 then 4 else 0)"

definition load_val :: "u8 \<Rightarrow> u16 \<Rightarrow> bytes \<Rightarrow> nat \<Rightarrow> prop_value option" where
  "load_val bo dt data a =
     (if dt = PTP_DTC_INT8 then map_option PV_INT8 (dtoh8a data a)
      else if dt = PTP_DTC_UINT8 then map_option PV_UINT8 (dtoh8a data a)
      else if dt = PTP_DTC_INT16 then map_option PV_INT16 (dtoh16ap bo data a)
      else if dt = PTP_DTC_UINT16 then map_option PV_UINT16 (dtoh16ap bo data a)
      else if dt = PTP_DTC_INT32 then map_option PV_INT32 (dtoh32ap bo data a)
      else map_option PV_UINT32 (dtoh32ap bo data a))"

text \<open>For another data type than these the code leaves \<open>*value\<close> as it was.\<close>

definition ptp_unpack_DPV ::
  "u8 \<Rightarrow> bytes \<Rightarrow> prop_value option \<Rightarrow> u16 \<Rightarrow> prop_value option option" where
  "ptp_unpack_DPV bo data value datatype =
     (if val_size datatype \<noteq> 0 then map_option Some (load_val bo datatype data 0)
      else if datatype = PTP_DTC_STR
      then do { (s, len) \<leftarrow> ptp_unpack_string bo data 0; Some (Some (PV_STR s)) }
      else Some value)"

text \<open>The result is the allocated dataset (NULL for an unsupported type) and its size.\<close>

definition ptp_pack_DPV :: "u8 \<Rightarrow> prop_value \<Rightarrow> u16 \<Rightarrow> (bytes option \<times> u32) option" where
  "ptp_pack_DPV bo value datatype =
     (if datatype = PTP_DTC_INT8 then
        (case value of PV_INT8 x \<Rightarrow>
           do { dpv \<leftarrow> htod8a (replicate 1 0) 0 x; Some (Some dpv, 1) } | _ \<Rightarrow> None)
      else if datatype = PTP_DTC_UINT8 then
        (case value of PV_UINT8 x \<Rightarrow>
           do { dpv \<leftarrow> htod8a (replicate 1 0) 0 x; Some (Some dpv, 1) } | _ \<Rightarrow> None)
      else if datatype = PTP_DTC_INT16 then
        (case value of PV_INT16 x \<Rightarrow>
           do { dpv \<leftarrow> htod16ap bo (replicate 2 0) 0 x; Some (Some dpv, 2) } | _ \<Rightarrow> None)
      else if datatype = PTP_DTC_UINT16 then
        (case value of PV_UINT16 x \<Rightarrow>
           do { dpv \<leftarrow> htod16ap bo (replicate 2 0) 0 x; Some (Some dpv, 2) } | _ \<Rightarrow> None)
      else if datatype = PTP_DTC_INT32 then
        (case value of PV_INT32 x \<Rightarrow>
           do { dpv \<leftarrow> htod32ap bo (replicate 4 0) 0 x; Some (Some dpv, 4) } | _ \<Rightarrow> None)
      else if datatype = PTP_DTC_UINT32 then
        (case value of PV_UINT32 x \<Rightarrow>
           do { dpv \<leftarrow> htod32ap bo (replicate 4 0) 0 x; Some (Some dpv, 4) } | _ \<Rightarrow> None)
      else if datatype = PTP_DTC_STR then
        (case value of PV_STR (Some s) \<Rightarrow> do {
             n \<leftarrow> strlen s;
             (dpv, len) \<leftarrow> ptp_pack_string bo s (replicate (n * 2 + 3) 0) 0;
             Some (Some dpv, of_nat (n * 2 + 3)) } | _ \<Rightarrow> None)
      else Some (None, 0))"

section \<open>Property descriptions\<close>

text \<open>One value of type \<open>dt\<close> at \<open>PTP_dpd_FactoryDefaultValue + totallen\<close>: the value and the new
  \<open>totallen\<close>. An offset handed to \<open>ptp_unpack_string\<close> is cut to 16 bits.\<close>

definition CTVA :: "u8 \<Rightarrow> u16 \<Rightarrow> bytes \<Rightarrow> nat \<Rightarrow> (prop_value \<times> nat) option" where
  "CTVA bo dt data totallen =
     (if val_size dt \<noteq> 0
      then map_option (\<lambda>v. (v, totallen + val_size dt)) (load_val bo dt data (5 + totallen))
      else do {
        (s, len) \<leftarrow> ptp_unpack_string bo data (u16n (5 + totallen));
        Some (PV_STR s, totallen + (unat len * 2 + 1))
      })"

fun MCTVA :: "u8 \<Rightarrow> u16 \<Rightarrow> bytes \<Rightarrow> nat \<Rightarrow> nat \<Rightarrow> (prop_value option list \<times> nat) option" where
  "MCTVA bo dt data totallen 0 = Some ([], totallen)"
| "MCTVA bo dt data totallen (Suc n) = do {
     (v, totallen) \<leftarrow> CTVA bo dt data totallen;
     (vs, totallen) \<leftarrow> MCTVA bo dt data totallen n;
     Some (Some v # vs, totallen)
   }"

text \<open>The form part, from \<open>FormFlag\<close> on.\<close>

definition ptp_unpack_DPD_form ::
  "u8 \<Rightarrow> bytes \<Rightarrow> PTPDevicePropDesc \<Rightarrow> nat \<Rightarrow> PTPDevicePropDesc option" where
  "ptp_unpack_DPD_form bo data dpd totallen = do {
     ff \<leftarrow> dtoh8a data (5 + totallen);
     let dpd = dpd \<lparr> FormFlag := ff \<rparr>;
     let totallen = totallen + 1;
     if ff = PTP_DPFF_Range then
       (if val_size (DataType dpd) \<noteq> 0 then do {
          (mn, totallen) \<leftarrow> CTVA bo (DataType dpd) data totallen;
          (mx, totallen) \<leftarrow> CTVA bo (DataType dpd) data totallen;
          (st, totallen) \<leftarrow> CTVA bo (DataType dpd) data totallen;
          Some (dpd \<lparr> FORM := Form_Range (Some mn) (Some mx) (Some st) \<rparr>)
        } else Some dpd)
     else if ff = PTP_DPFF_Enumeration then do {
       n \<leftarrow> dtoh16ap bo data (5 + totallen);
       let totallen = totallen + 2;
       (vs, totallen) \<leftarrow> MCTVA bo (DataType dpd) data totallen (unat n);
       Some (dpd \<lparr> FORM := Form_Enum n vs \<rparr>)
     } else Some dpd
   }"

definition ptp_unpack_DPD ::
  "u8 \<Rightarrow> bytes \<Rightarrow> PTPDevicePropDesc \<Rightarrow> PTPDevicePropDesc option" where
  "ptp_unpack_DPD bo data dpd = do {
     code \<leftarrow> dtoh16ap bo data 0;
     dt \<leftarrow> dtoh16ap bo data 2;
     gs \<leftarrow> dtoh8a data 4;
     let dpd = dpd \<lparr> DevicePropertyCode := code, DataType := dt, GetSet := gs,
                 FactoryDefaultValue := None, CurrentValue := None \<rparr>;
     (dpd, totallen) \<leftarrow>
       (if val_size dt \<noteq> 0 \<or> dt = PTP_DTC_STR then do {
          (fv, totallen) \<leftarrow> CTVA bo dt data 0;
          (cv, totallen) \<leftarrow> CTVA bo dt data totallen;
          Some (dpd \<lparr> FactoryDefaultValue := Some fv, CurrentValue := Some cv \<rparr>, totallen)
        } else Some (dpd, 0));
     let dpd = dpd \<lparr> FormFlag := PTP_DPFF_None \<rparr>;
     if totallen = 0 then Some dpd else ptp_unpack_DPD_form bo data dpd totallen
   }"

section \<open>Events and folder entries\<close>

definition ptp_unpack_EC ::
  "u8 \<Rightarrow> bytes option \<Rightarrow> PTPUSBEventContainer \<Rightarrow> PTPUSBEventContainer option" where
  "ptp_unpack_EC bo dataptr ec =
     (case dataptr of None \<Rightarrow> Some ec | Some data \<Rightarrow> do {
        len \<leftarrow> dtoh32ap bo data 0;
        type \<leftarrow> dtoh16ap bo data 4;
        code \<leftarrow> dtoh16ap bo data 6;
        trans \<leftarrow> dtoh32ap bo data 8;
        p1 \<leftarrow> (if len \<ge> 16 then dtoh32ap bo data 12 else Some 0);
        p2 \<leftarrow> (if len \<ge> 20 then dtoh32ap bo data 16 else Some 0);
        p3 \<leftarrow> (if len \<ge> 24 then dtoh32ap bo data 20 else Some 0);
        Some \<lparr> ev_length = len, ev_type = type, ev_code = code, ev_trans_id = trans,
               ev_param1 = p1, ev_param2 = p2, ev_param3 = p3 \<rparr>
      })"

definition PTP_CANON_FilenameBufferLen :: nat where
  "PTP_CANON_FilenameBufferLen = 13"

definition ptp_unpack_Canon_FE ::
  "u8 \<Rightarrow> bytes option \<Rightarrow> PTPCANONFolderEntry \<Rightarrow> PTPCANONFolderEntry option" where
  "ptp_unpack_Canon_FE bo dataptr fe =
     (case dataptr of None \<Rightarrow> Some fe | Some data \<Rightarrow> do {
        h \<leftarrow> dtoh32ap bo data 0;
        fmt \<leftarrow> dtoh16ap bo data 4;
        fl \<leftarrow> dtoh8a data 6;
        sz \<leftarrow> dtoh32ap bo data 7;
        time \<leftarrow> dtoh32ap bo data 11;
        name \<leftarrow> those (map (\<lambda>i. dtoh8a data (15 + i)) [0..<PTP_CANON_FilenameBufferLen]);
        Some \<lparr> cfe_ObjectHandle = h, cfe_ObjectFormatCode = fmt, cfe_Flags = fl,
               cfe_ObjectSize = sz, cfe_Time = time, cfe_Filename = name \<rparr>
      })"

definition ptp_nikon_unpack_EC ::
  "u8 \<Rightarrow> bytes \<Rightarrow> (PTPUSBEventContainer list \<times> u16) option" where
  "ptp_nikon_unpack_EC bo evdata = do {
     evnum \<leftarrow> dtoh16ap bo evdata 0;
     events \<leftarrow> those (map (\<lambda>i. do {
         code \<leftarrow> dtoh16ap bo evdata (2 + 6 * i);
         p1 \<leftarrow> dtoh32ap bo evdata (4 + 6 * i);
         Some \<lparr> ev_length = 0, ev_type = 0, ev_code = code, ev_trans_id = 0,
                ev_param1 = p1, ev_param2 = 0, ev_param3 = 0 \<rparr> }) [0..<unat evnum]);
     Some (events, evnum)
   }"

section \<open>Wire format of values, and the round trips\<close>

fun enc_val :: "u8 \<Rightarrow> prop_value \<Rightarrow> bytes" where
  "enc_val bo (PV_INT8 x) = [x]"
| "enc_val bo (PV_UINT8 x) = [x]"
| "enc_val bo (PV_INT16 x) = enc16 bo x"
| "enc_val bo (PV_UINT16 x) = enc16 bo x"
| "enc_val bo (PV_INT32 x) = enc32 bo x"
| "enc_val bo (PV_UINT32 x) = enc32 bo x"
| "enc_val bo (PV_STR s) = ptp_string bo s"

fun val_type :: "prop_value \<Rightarrow> u16" where
  "val_type (PV_INT8 x) = PTP_DTC_INT8"
| "val_type (PV_UINT8 x) = PTP_DTC_UINT8"
| "val_type (PV_INT16 x) = PTP_DTC_INT16"
| "val_type (PV_UINT16 x) = PTP_DTC_UINT16"
| "val_type (PV_INT32 x) = PTP_DTC_INT32"
| "val_type (PV_UINT32 x) = PTP_DTC_UINT32"
| "val_type (PV_STR s) = PTP_DTC_STR"

fun wf_val :: "u16 \<Rightarrow> prop_value \<Rightarrow> bool" where
  "wf_val dt (PV_STR s) = (dt = PTP_DTC_STR \<and> wf_string s)"
| "wf_val dt v = (dt = val_type v)"

lemma wf_val_type: "wf_val dt v \<Longrightarrow> dt = val_type v"
  by (cases v) auto

lemma load_val_rest:
  assumes "rest_at m a (enc_val bo v @ r)" and "val_size (val_type v) \<noteq> 0"
  shows "load_val bo (val_type v) m a = Some v"
  using assms c8.get_rest [of m a] c16.get_rest [of m a bo] c32.get_rest [of m a bo]
  by (cases v) (simp_all add: load_val_def val_size_def)

lemma length_enc_val:
  "val_size (val_type v) \<noteq> 0 \<Longrightarrow> length (enc_val bo v) = val_size (val_type v)"
  by (cases v) (simp_all add: val_size_def)

lemma unpack_DPV_rest:
  assumes "wf_val dt v"
  shows "ptp_unpack_DPV bo (enc_val bo v @ r) old dt = Some (Some v)"
proof (cases v)
  case (PV_STR s)
  then show ?thesis
    using assms unpack_string_rest [of "enc_val bo v @ r" 0 bo s r]
    by (simp add: ptp_unpack_DPV_def val_size_def)
next
qed (use assms load_val_rest [of "enc_val bo v @ r" 0 bo v r] in
    \<open>simp_all add: ptp_unpack_DPV_def val_size_def\<close>)

text \<open>Every value of a supported integer type survives \<open>ptp_pack_DPV\<close> and \<open>ptp_unpack_DPV\<close>; so
  does a string of fewer than 255 characters.\<close>

lemma pack_unpack_DPV_int:
  assumes "val_size (val_type v) \<noteq> 0"
  shows "ptp_pack_DPV bo v (val_type v) =
      Some (Some (enc_val bo v), of_nat (val_size (val_type v)))"
    and "ptp_unpack_DPV bo (enc_val bo v) old (val_type v) = Some (Some v)"
proof -
  have "htod8a [0] 0 x = Some [x]" for x
    using c8.put_in [of 0 "[0]" x] by simp
  moreover have "htod16ap bo (replicate 2 0) 0 x = Some (enc16 bo x)" for x
    using c16.put_in [of 0 "replicate 2 0" bo x] by simp
  moreover have "htod32ap bo (replicate 4 0) 0 x = Some (enc32 bo x)" for x
    using c32.put_in [of 0 "replicate 4 0" bo x] by simp
  ultimately show "ptp_pack_DPV bo v (val_type v) =
      Some (Some (enc_val bo v), of_nat (val_size (val_type v)))"
    using assms by (cases v) (simp_all add: ptp_pack_DPV_def val_size_def)
  have "wf_val (val_type v) v" using assms by (cases v) (simp_all add: val_size_def)
  from unpack_DPV_rest [OF this, of bo "[]"]
  show "ptp_unpack_DPV bo (enc_val bo v) old (val_type v) = Some (Some v)" by simp
qed

lemma pack_unpack_DPV_str:
  assumes "strlen s = Some n" and "n < 255"
  obtains dpv where "ptp_pack_DPV bo (PV_STR (Some s)) PTP_DTC_STR =
      Some (Some dpv, of_nat (n * 2 + 3))"
    and "length dpv = n * 2 + 3"
    and "ptp_unpack_DPV bo dpv old PTP_DTC_STR = Some (Some (PV_STR (Some (take n s @ [0]))))"
proof -
  have mod: "n = n mod 256" using assms(2) by simp
  have "0 + 3 + 2 * n \<le> length (replicate (n * 2 + 3) (0 :: byte))" by simp
  then obtain d where "ptp_pack_string bo s (replicate (n * 2 + 3) 0) 0 = Some (d, of_nat n)"
    and "length d = length (replicate (n * 2 + 3) (0 :: byte))"
    and "ptp_unpack_string bo d 0 =
      Some (if n = 255 then (None, 0) else (Some (take n s @ [0]), of_nat (n + 1)))"
    by (rule string_roundtrip [OF assms(1) mod])
  with that [of d] assms show thesis
    by (simp add: ptp_pack_DPV_def ptp_unpack_DPV_def val_size_def)
qed

text \<open>A description, field by field.\<close>

fun dpd_form :: "u8 \<Rightarrow> prop_form \<Rightarrow> bytes" where
  "dpd_form bo (Form_Range (Some mn) (Some mx) (Some st)) =
     enc_val bo mn @ enc_val bo mx @ enc_val bo st"
| "dpd_form bo (Form_Enum n vs) = enc16 bo n @ concat (map (enc_val bo \<circ> the) vs)"
| "dpd_form bo _ = []"

definition dpd_dataset :: "u8 \<Rightarrow> PTPDevicePropDesc \<Rightarrow> bytes" where
  "dpd_dataset bo d =
     enc16 bo (DevicePropertyCode d) @ enc16 bo (DataType d) @ [GetSet d] @
     enc_val bo (the (FactoryDefaultValue d)) @ enc_val bo (the (CurrentValue d)) @
     [FormFlag d] @ dpd_form bo (FORM d)"

fun wf_form :: "u16 \<Rightarrow> u8 \<Rightarrow> prop_form \<Rightarrow> bool" where
  "wf_form dt ff (Form_Range (Some mn) (Some mx) (Some st)) =
     (ff = PTP_DPFF_Range \<and> val_size dt \<noteq> 0 \<and> wf_val dt mn \<and> wf_val dt mx \<and> wf_val dt st)"
| "wf_form dt ff (Form_Enum n vs) =
     (ff = PTP_DPFF_Enumeration \<and> n = of_nat (length vs) \<and> length vs < 65536 \<and>
      list_all (\<lambda>v. v \<noteq> None \<and> wf_val dt (the v)) vs)"
| "wf_form dt ff Form_Unset =
     (ff \<noteq> PTP_DPFF_Enumeration \<and> (ff = PTP_DPFF_Range \<longrightarrow> val_size dt = 0))"
| "wf_form dt ff _ = False"

definition wf_dpd :: "PTPDevicePropDesc \<Rightarrow> bool" where
  "wf_dpd d \<longleftrightarrow>
     (case (FactoryDefaultValue d, CurrentValue d) of
        (Some f, Some c) \<Rightarrow> wf_val (DataType d) f \<and> wf_val (DataType d) c | _ \<Rightarrow> False) \<and>
     wf_form (DataType d) (FormFlag d) (FORM d) \<and> length (dpd_dataset PTP_DL_LE d) < 65536"

lemma length_enc_val_bo: "length (enc_val bo v) = length (enc_val PTP_DL_LE v)"
  by (cases v) simp_all

lemma CTVA_rest:
  assumes "rest_at m (5 + t) (enc_val bo v @ r)" and "wf_val dt v"
    and "5 + (t + length (enc_val bo v)) < 65536"
  shows "CTVA bo dt m t = Some (v, t + length (enc_val bo v))"
    and "rest_at m (5 + (t + length (enc_val bo v))) r"
proof -
  show "rest_at m (5 + (t + length (enc_val bo v))) r"
    using rest_at_step [OF assms(1)] by (simp add: add.assoc)
  show "CTVA bo dt m t = Some (v, t + length (enc_val bo v))"
  proof (cases "val_size dt = 0")
    case True
    with assms(2) obtain s where v: "v = PV_STR s" and "wf_string s" and "dt = PTP_DTC_STR"
      by (cases v) (auto simp: val_size_def)
    with assms True unpack_string_rest [of m "5 + t" bo s r] string_size_len [of s]
    show ?thesis by (simp add: CTVA_def)
  next
    case False
    then show ?thesis
      using wf_val_type [OF assms(2)] load_val_rest [OF assms(1)] length_enc_val [of v]
      by (simp add: CTVA_def)
  qed
qed

lemma MCTVA_rest:
  assumes "rest_at m (5 + t) (concat (map (enc_val bo) vs) @ r)" and "list_all (wf_val dt) vs"
    and "5 + (t + length (concat (map (enc_val bo) vs))) < 65536"
  shows "MCTVA bo dt m t (length vs) =
    Some (map Some vs, t + length (concat (map (enc_val bo) vs)))"
  using assms
proof (induction vs arbitrary: t)
  case Nil
  then show ?case by simp
next
  case (Cons v vs)
  have "rest_at m (5 + t) (enc_val bo v @ concat (map (enc_val bo) vs) @ r)"
    and "wf_val dt v" and "5 + (t + length (enc_val bo v)) < 65536"
    using Cons.prems by simp_all
  note c = CTVA_rest [OF this]
  with Cons.IH [OF c(2)] Cons.prems show ?case by (simp add: add.assoc)
qed

lemma wf_val_supported: "wf_val dt v \<Longrightarrow> val_size dt \<noteq> 0 \<or> dt = PTP_DTC_STR"
  by (cases v) (simp_all add: val_size_def)

lemma length_enc_val_pos: "0 < length (enc_val bo v)"
  by (cases v) (simp_all add: ptp_string_size_def split: option.split)

lemma length_dpd_form_bo: "length (dpd_form bo form) = length (dpd_form PTP_DL_LE form)"
proof -
  have "length (concat (map (enc_val bo \<circ> the) vs)) =
      length (concat (map (enc_val PTP_DL_LE \<circ> the) vs))" for vs
    by (induction vs) (simp_all add: length_enc_val_bo [of bo])
  then show ?thesis
    by (induction PTP_DL_LE form rule: dpd_form.induct) (simp_all add: length_enc_val_bo [of bo])
qed

lemma unpack_DPD_form_rest:
  assumes r: "rest_at m (5 + t) ([ff] @ dpd_form bo form @ rest)"
    and form: "wf_form dt ff form" and dt: "DataType d = dt" and unset: "FORM d = Form_Unset"
    and small: "5 + (t + 1 + length (dpd_form bo form)) < 65536"
  shows "ptp_unpack_DPD_form bo m d t = Some (d \<lparr> FormFlag := ff, FORM := form \<rparr>)"
proof (cases form)
  case Form_Unset
  with form unset dt c8.get_rest [OF r] show ?thesis
    by (cases d) (auto simp: ptp_unpack_DPD_form_def Let_def)
next
  case (Form_Range mno mxo sto)
  with form obtain mn mx st where o: "mno = Some mn" "mxo = Some mx" "sto = Some st"
    and w: "ff = PTP_DPFF_Range" "val_size dt \<noteq> 0" "wf_val dt mn" "wf_val dt mx" "wf_val dt st"
    by (cases mno; cases mxo; cases sto) auto
  have r1: "rest_at m (5 + (t + 1)) (enc_val bo mn @ enc_val bo mx @ enc_val bo st @ rest)"
    using rest_at_step [OF r] Form_Range o by (simp add: add.assoc)
  let ?l = "\<lambda>v. length (enc_val bo v)"
  have b: "5 + (t + 1 + ?l mn) < 65536" "5 + (t + 1 + ?l mn + ?l mx) < 65536"
    "5 + (t + 1 + ?l mn + ?l mx + ?l st) < 65536"
    using small Form_Range o by simp_all
  note c1 = CTVA_rest [OF r1 w(3) b(1)] note c2 = CTVA_rest [OF c1(2) w(4) b(2)]
  note c3 = CTVA_rest [OF c2(2) w(5) b(3)]
  show ?thesis
    unfolding ptp_unpack_DPD_form_def Let_def c8.get_rest [OF r]
    using w(1,2) by (simp add: dt c1(1) [simplified] c2(1) [simplified] c3(1) [simplified] Form_Range o)
next
  case (Form_Enum n vs)
  with form have w: "ff = PTP_DPFF_Enumeration" "n = of_nat (length vs)" "length vs < 65536"
    "list_all (wf_val dt) (map the vs)" and vs: "map Some (map the vs) = vs"
    by (auto simp: list_all_iff intro!: map_idI)
  have "rest_at m (5 + (t + 1)) (enc16 bo n @ concat (map (enc_val bo) (map the vs)) @ rest)"
    using rest_at_step [OF r] Form_Enum by (simp add: add.assoc)
  note r1 = c16.get_rest [OF this] and r2 = rest_at_step [OF this]
  then have "rest_at m (5 + (t + 1 + 2)) (concat (map (enc_val bo) (map the vs)) @ rest)"
    by (simp add: add.assoc)
  from MCTVA_rest [OF this w(4)] small Form_Enum
  have e: "MCTVA bo dt m (t + 1 + 2) (length vs) =
      Some (vs, t + 1 + 2 + length (concat (map (enc_val bo) (map the vs))))"
    by (simp only: vs) (simp add: o_def vs [simplified])
  have "unat n = length vs" using w(2,3) by (simp add: unat_of_nat take_bit_eq_mod)
  then show ?thesis
    unfolding ptp_unpack_DPD_form_def Let_def c8.get_rest [OF r]
    using r1 e w(1) by (simp add: dt Form_Enum)
qed

text \<open>A well-formed description is decoded to itself, whatever follows it.\<close>

lemma unpack_DPD_dataset:
  assumes wf: "wf_dpd d" and unset: "FORM d0 = Form_Unset"
  shows "ptp_unpack_DPD bo (dpd_dataset bo d @ rest) d0 = Some d"
proof (cases d)
  case (fields code dt gs fo co ff form)
  let ?D = "dpd_dataset bo d @ rest" and ?l = "\<lambda>v. length (enc_val bo v)"
  from wf fields obtain f c where fc: "fo = Some f" "co = Some c" "wf_val dt f" "wf_val dt c"
    and form: "wf_form dt ff form"
    and "length (dpd_dataset PTP_DL_LE d) < 65536"
    by (auto simp: wf_dpd_def split: option.splits)
  then have small: "5 + (0 + ?l f + ?l c + 1 + length (dpd_form bo form)) < 65536"
    by (simp add: dpd_dataset_def fields length_enc_val_bo [of bo] length_dpd_form_bo [of bo])
  have r0: "rest_at ?D 0 (enc16 bo code @ enc16 bo dt @ [gs] @ enc_val bo f @ enc_val bo c @
      [ff] @ dpd_form bo form @ rest)"
    by (simp add: rest_at_def dpd_dataset_def fields fc)
  note r1 = rest_at_next [OF r0, of 2, simplified]
  have r2: "rest_at ?D 4 ([gs] @ enc_val bo f @ enc_val bo c @ [ff] @ dpd_form bo form @ rest)"
    using rest_at_next [OF r1, of 4] by simp
  have r3: "rest_at ?D (5 + 0) (enc_val bo f @ enc_val bo c @ [ff] @ dpd_form bo form @ rest)"
    by (rule rest_at_next [OF r2]) simp
  have b: "5 + (0 + ?l f) < 65536" "5 + (0 + ?l f + ?l c) < 65536"
    using small by simp_all
  note v1 = CTVA_rest [OF r3 fc(3) b(1)] note v2 = CTVA_rest [OF v1(2) fc(4) b(2)]
  have r4: "rest_at ?D (5 + (0 + ?l f + ?l c)) ([ff] @ dpd_form bo form @ rest)"
    using v2(2) by simp
  have t: "enc_val bo f \<noteq> []" using length_enc_val_pos [of bo f] by simp
  show ?thesis
    unfolding ptp_unpack_DPD_def Let_def
    using c16.get_rest [OF r0] c16.get_rest [OF r1] c8.get_rest [OF r2] v1(1) v2(1) t
      wf_val_supported [OF fc(3)] unpack_DPD_form_rest [OF r4 form _ _ small]
    by (simp add: unset) (simp add: fields fc)
qed

text \<open>The comment before the form part says that \<open>totallen\<close> is zero for a string property with
  two empty strings, so that no form flag is read. It is 2 then, and the flag is read.\<close>

lemma empty_strings_have_form:
  assumes "dtoh16ap bo data 0 = Some code" "dtoh16ap bo data 2 = Some PTP_DTC_STR"
    "dtoh8a data 4 = Some gs" "dtoh8a data 5 = Some 0" "dtoh8a data 6 = Some 0"
  shows "ptp_unpack_DPD bo data d =
    ptp_unpack_DPD_form bo data
      (d \<lparr> DevicePropertyCode := code, DataType := PTP_DTC_STR, GetSet := gs,
           FactoryDefaultValue := Some (PV_STR None), CurrentValue := Some (PV_STR None),
           FormFlag := PTP_DPFF_None \<rparr>) 2"
  using assms
  by (simp add: ptp_unpack_DPD_def CTVA_def val_size_def ptp_unpack_string_def)
    (simp add: numeral_2_eq_2)

section \<open>Events\<close>

text \<open>The event record as the device sends it: only the parameters the length covers.\<close>

definition event_dataset :: "u8 \<Rightarrow> PTPUSBEventContainer \<Rightarrow> bytes" where
  "event_dataset bo ev =
     enc32 bo (ev_length ev) @ enc16 bo (ev_type ev) @ enc16 bo (ev_code ev) @
     enc32 bo (ev_trans_id ev) @
     (if ev_length ev \<ge> 16 then enc32 bo (ev_param1 ev) else []) @
     (if ev_length ev \<ge> 20 then enc32 bo (ev_param2 ev) else []) @
     (if ev_length ev \<ge> 24 then enc32 bo (ev_param3 ev) else [])"

definition wf_event :: "PTPUSBEventContainer \<Rightarrow> bool" where
  "wf_event ev \<longleftrightarrow>
     (ev_length ev < 16 \<longrightarrow> ev_param1 ev = 0) \<and> (ev_length ev < 20 \<longrightarrow> ev_param2 ev = 0) \<and>
     (ev_length ev < 24 \<longrightarrow> ev_param3 ev = 0)"

lemma unpack_EC_dataset:
  assumes "wf_event ev"
  shows "ptp_unpack_EC bo (Some (event_dataset bo ev @ rest)) ec = Some ev"
proof (cases ev)
  case (fields len ty code tr p1 p2 p3)
  let ?D = "event_dataset bo ev @ rest"
  let ?q1 = "if len \<ge> 16 then enc32 bo p1 else []" and ?q2 = "if len \<ge> 20 then enc32 bo p2 else []"
    and ?q3 = "if len \<ge> 24 then enc32 bo p3 else []"
  have r0: "rest_at ?D 0 (enc32 bo len @ enc16 bo ty @ enc16 bo code @ enc32 bo tr @
      ?q1 @ ?q2 @ ?q3 @ rest)"
    by (simp add: rest_at_def event_dataset_def fields)
  note r1 = rest_at_next [OF r0, of 4, simplified] note r2 = rest_at_next [OF r1, of 6, simplified]
  note r3 = rest_at_next [OF r2, of 8, simplified] note r4 = rest_at_next [OF r3, of 12, simplified]
  have p1: "(if 16 \<le> len then dtoh32ap bo ?D 12 else Some 0) = Some p1"
    using assms c32.get_rest [of ?D 12 bo p1] r4 by (auto simp: wf_event_def fields not_le)
  have p2: "(if 20 \<le> len then dtoh32ap bo ?D 16 else Some 0) = Some p2"
  proof (cases "20 \<le> len")
    case True
    then have "16 \<le> len" by (rule order_trans [rotated]) simp
    with True have "rest_at ?D 12 (enc32 bo p1 @ enc32 bo p2 @ ?q3 @ rest)" using r4 by simp
    from c32.get_rest [OF rest_at_next [OF this, of 16]] True show ?thesis by simp
  qed (use assms in \<open>auto simp: wf_event_def fields not_le\<close>)
  have p3: "(if 24 \<le> len then dtoh32ap bo ?D 20 else Some 0) = Some p3"
  proof (cases "24 \<le> len")
    case True
    then have "16 \<le> len" "20 \<le> len" by (auto intro: order_trans [rotated])
    with True have "rest_at ?D 12 ((enc32 bo p1 @ enc32 bo p2) @ enc32 bo p3 @ rest)"
      using r4 by simp
    from c32.get_rest [OF rest_at_next [OF this, of 20]] True show ?thesis by simp
  qed (use assms in \<open>auto simp: wf_event_def fields not_le\<close>)
  show ?thesis
    using c32.get_rest [OF r0] c16.get_rest [OF r1] c16.get_rest [OF r2] c32.get_rest [OF r3] p1 p2 p3
    by (simp add: ptp_unpack_EC_def) (simp add: fields)
qed

section \<open>What the property unpackers promise\<close>

text \<open>C24: property values. Every value of an integer type that \<open>ptp_pack_DPV\<close> supports, and every
  string of fewer than 255 characters, is what \<open>ptp_unpack_DPV\<close> reads from the packed bytes; the
  size returned is the number of bytes packed.\<close>

theorem property_value_roundtrip:
  assumes "case v of PV_STR so \<Rightarrow> so = Some (cs @ [0]) \<and> 0 \<notin> set cs \<and> length cs < 255 | _ \<Rightarrow> True"
  shows "\<exists>dpv. ptp_pack_DPV bo v (val_type v) = Some (Some dpv, of_nat (length dpv)) \<and>
    ptp_unpack_DPV bo dpv old (val_type v) = Some (Some v)"
proof (cases v)
  case (PV_STR so)
  with assms have cs: "so = Some (cs @ [0])" "0 \<notin> set cs" "length cs < 255" by simp_all
  then have "strlen (cs @ [0]) = Some (length cs)"
    by (auto simp: strlen_def) (subst takeWhile_append2; auto)
  from pack_unpack_DPV_str [OF this cs(3), of bo old] obtain dpv
    where "ptp_pack_DPV bo (PV_STR (Some (cs @ [0]))) PTP_DTC_STR =
        Some (Some dpv, of_nat (length cs * 2 + 3))"
      and "length dpv = length cs * 2 + 3"
      and "ptp_unpack_DPV bo dpv old PTP_DTC_STR = Some (Some (PV_STR (Some (cs @ [0]))))"
    by auto
  then show ?thesis by (simp add: PV_STR cs(1) del: of_nat_add of_nat_mult)
qed (use pack_unpack_DPV_int(1) [of v bo] pack_unpack_DPV_int(2) [of v bo old] in
    \<open>simp_all add: val_size_def\<close>)

theorem property_value_roundtrip_witness:
  "\<exists>dpv. ptp_pack_DPV PTP_DL_LE (PV_STR (Some [79, 75, 0])) PTP_DTC_STR =
      Some (Some dpv, of_nat (length dpv)) \<and>
    ptp_unpack_DPV PTP_DL_LE dpv None PTP_DTC_STR = Some (Some (PV_STR (Some [79, 75, 0])))"
  using property_value_roundtrip
    [where v = "PV_STR (Some [79, 75, 0])" and cs = "[79, 75]" and bo = PTP_DL_LE and old = None]
  by simp

text \<open>C23: property descriptions. From the dataset of a well-formed description, with range or
  enumeration form or none, \<open>ptp_unpack_DPD\<close> gets every part of it: the code, the type, the
  default, the current value and the form.\<close>

theorem property_description_unpacks:
  assumes "wf_dpd d" and "FORM d0 = Form_Unset"
  shows "ptp_unpack_DPD bo (dpd_dataset bo d @ rest) d0 = Some d"
  by (rule unpack_DPD_dataset [OF assms])

definition ex_dpd :: PTPDevicePropDesc where
  "ex_dpd = \<lparr> DevicePropertyCode = 0xD005, DataType = PTP_DTC_INT16, GetSet = 1,
     FactoryDefaultValue = Some (PV_INT16 5), CurrentValue = Some (PV_INT16 6),
     FormFlag = PTP_DPFF_Enumeration, FORM = Form_Enum 2 [Some (PV_INT16 5), Some (PV_INT16 6)] \<rparr>"

theorem property_description_unpacks_witness:
  "ptp_unpack_DPD PTP_DL_BE (dpd_dataset PTP_DL_BE ex_dpd @ [9])
     (ex_dpd \<lparr> FORM := Form_Unset \<rparr>) = Some ex_dpd"
proof -
  have "wf_dpd ex_dpd" by (simp add: wf_dpd_def ex_dpd_def dpd_dataset_def)
  from property_description_unpacks [OF this, of "ex_dpd \<lparr> FORM := Form_Unset \<rparr>"]
  show ?thesis by simp
qed

text \<open>C39: descriptions of empty strings. The comment in \<open>ptp_unpack_DPD\<close> says a string property
  whose default and current values are empty may have no form flag and relies on \<open>totallen\<close> being
  zero then; two empty strings make \<open>totallen\<close> two, so the form is read nevertheless, beyond the
  received bytes if they end there.\<close>

theorem empty_strings_read_form:
  assumes "dtoh16ap bo data 0 = Some code" and "dtoh16ap bo data 2 = Some PTP_DTC_STR"
    and "dtoh8a data 4 = Some gs" and "dtoh8a data 5 = Some 0" and "dtoh8a data 6 = Some 0"
    and "length data = 7"
  shows "ptp_unpack_DPD bo data d = None"
  using assms(6) by (simp add: empty_strings_have_form [OF assms(1-5)] ptp_unpack_DPD_form_def
      c8.get_ldn ldn_def)

theorem empty_strings_read_form_witness:
  "ptp_unpack_DPD PTP_DL_LE [5, 0xD0, 0xFF, 0xFF, 0, 0, 0] ex_dpd = None"
proof -
  let ?data = "[5, 0xD0, 0xFF, 0xFF, 0, 0, 0] :: bytes"
  have "dtoh16ap PTP_DL_LE ?data 0 = Some 0xD005" "dtoh16ap PTP_DL_LE ?data 2 = Some PTP_DTC_STR"
    "dtoh8a ?data 4 = Some 0" "dtoh8a ?data 5 = Some 0" "dtoh8a ?data 6 = Some 0" "length ?data = 7"
    by code_simp+
  then show ?thesis by (rule empty_strings_read_form)
qed

text \<open>Events. An event container whose length says how many parameters it has is unpacked to
  those parameters; the others are zero.\<close>

theorem event_unpacks:
  assumes "wf_event ev"
  shows "ptp_unpack_EC bo (Some (event_dataset bo ev @ rest)) ec = Some ev"
  by (rule unpack_EC_dataset [OF assms])

definition ex_event :: PTPUSBEventContainer where
  "ex_event = \<lparr> ev_length = 16, ev_type = 4, ev_code = 0x4002, ev_trans_id = 1,
     ev_param1 = 77, ev_param2 = 0, ev_param3 = 0 \<rparr>"

theorem event_unpacks_witness:
  "ptp_unpack_EC PTP_DL_LE (Some (event_dataset PTP_DL_LE ex_event @ [1])) ex_event = Some ex_event"
proof -
  have "wf_event ex_event" by (simp add: wf_event_def ex_event_def)
  from event_unpacks [OF this] show ?thesis .
qed

end
