(* ===== verification/Rawfmt.thy ===== *)
theory Rawfmt
  imports Prelude
begin

text \<open>
  The packed pixel formats of \<open>rawimg.c\<close>: a getter and a setter for each of 8, 10, 12, 14 and
  16 bits per pixel, little and big endian. An image buffer is a list of bytes \<open>p\<close>, an
  \<open>unsigned\<close> is a 32-bit word. A pixel lives in a block of whole bytes; \<open>get_*\<close> and \<open>set_*\<close>
  are the switches over the pixel's index \<open>k\<close> in the block at address \<open>addr\<close>.

  The reference is a bit stream: a block holds its pixels one after the other, most significant
  bit first, in its bytes (big) or in its bytes swapped pairwise (little). The locale
  \<open>packed_reader\<close> states that a getter reads the stream, \<open>packed_format\<close> that a setter writes it.
\<close>

section \<open>The bit stream of a block\<close>

definition sbit :: "bool \<Rightarrow> bytes \<Rightarrow> nat \<Rightarrow> nat \<Rightarrow> bool" where
  "sbit little p addr s =
     (let i = s div 8 in
      bit (p ! (addr + (if little then (if even i then i + 1 else i - 1) else i))) (7 - s mod 8))"

definition pixel_val :: "bool \<Rightarrow> nat \<Rightarrow> bytes \<Rightarrow> nat \<Rightarrow> nat \<Rightarrow> u32" where
  "pixel_val little bpp p addr k =
     horner_sum of_bool 2 (map (\<lambda>j. sbit little p addr (k * bpp + (bpp - 1 - j))) [0..<bpp])"

lemma bit_pixel_val:
  "bpp \<le> 32 \<Longrightarrow>
   bit (pixel_val little bpp p addr k) j \<longleftrightarrow> j < bpp \<and> sbit little p addr (k * bpp + (bpp - 1 - j))"
  by (auto simp: pixel_val_def bit_horner_sum_bit_word_iff)

text \<open>\<open>addr[i] = (addr[i] & mask) | v\<close>\<close>

definition rmw8 :: "bytes \<Rightarrow> nat \<Rightarrow> u32 \<Rightarrow> u32 \<Rightarrow> bytes option" where
  "rmw8 p i msk v = do { a \<leftarrow> ld8 p i; st8 p i (ucast ((ucast a AND msk) OR v)) }"

lemma rmw8_in [mem_simps]:
  "i < length p \<Longrightarrow> rmw8 p i msk v = Some (p[i := ucast ((ucast (p ! i) AND msk) OR v)])"
  by (simp add: rmw8_def mem_simps)

section \<open>The getters and setters\<close>

definition raw_get_pixel_8l :: "bytes \<Rightarrow> u32 \<Rightarrow> u32 \<Rightarrow> u32 \<Rightarrow> u32 option" where
  "raw_get_pixel_8l p row_bytes x y = map_option ucast (ld8 p (unat (y * row_bytes + x)))"

definition raw_set_pixel_8l :: "bytes \<Rightarrow> u32 \<Rightarrow> u32 \<Rightarrow> u32 \<Rightarrow> u32 \<Rightarrow> bytes option" where
  "raw_set_pixel_8l p row_bytes x y value = st8 p (unat (y * row_bytes + x)) (ucast value)"

definition get_10l :: "bytes \<Rightarrow> nat \<Rightarrow> nat \<Rightarrow> u32 option" where
  "get_10l p addr k =
     (if k = 0 then do { a1 \<leftarrow> ld8 p (addr + 1); a0 \<leftarrow> ld8 p (addr + 0);
          Some ((0x3fc AND push_bit 2 (ucast a1)) OR drop_bit 6 (ucast a0)) }
      else if k = 1 then do { a0 \<leftarrow> ld8 p (addr + 0); a3 \<leftarrow> ld8 p (addr + 3);
          Some ((0x3f0 AND push_bit 4 (ucast a0)) OR drop_bit 4 (ucast a3)) }
      else if k = 2 then do { a3 \<leftarrow> ld8 p (addr + 3); a2 \<leftarrow> ld8 p (addr + 2);
          Some ((0x3c0 AND push_bit 6 (ucast a3)) OR drop_bit 2 (ucast a2)) }
      else if k = 3 then do { a2 \<leftarrow> ld8 p (addr + 2); a5 \<leftarrow> ld8 p (addr + 5);
          Some ((0x300 AND push_bit 8 (ucast a2)) OR ucast a5) }
      else if k = 4 then do { a4 \<leftarrow> ld8 p (addr + 4); a7 \<leftarrow> ld8 p (addr + 7);
          Some ((0x3fc AND push_bit 2 (ucast a4)) OR drop_bit 6 (ucast a7)) }
      else if k = 5 then do { a7 \<leftarrow> ld8 p (addr + 7); a6 \<leftarrow> ld8 p (addr + 6);
          Some ((0x3f0 AND push_bit 4 (ucast a7)) OR drop_bit 4 (ucast a6)) }
      else if k = 6 then do { a6 \<leftarrow> ld8 p (addr + 6); a9 \<leftarrow> ld8 p (addr + 9);
          Some ((0x3c0 AND push_bit 6 (ucast a6)) OR drop_bit 2 (ucast a9)) }
      else if k = 7 then do { a9 \<leftarrow> ld8 p (addr + 9); a8 \<leftarrow> ld8 p (addr + 8);
          Some ((0x300 AND push_bit 8 (ucast a9)) OR ucast a8) }
      else Some 0)"

definition raw_get_pixel_10l :: "bytes \<Rightarrow> u32 \<Rightarrow> u32 \<Rightarrow> u32 \<Rightarrow> u32 option" where
  "raw_get_pixel_10l p row_bytes x y =
     get_10l p (unat (y * row_bytes) + unat (x div 8 * 10)) (unat (x AND 7))"

definition set_10l :: "bytes \<Rightarrow> nat \<Rightarrow> nat \<Rightarrow> u32 \<Rightarrow> bytes option" where
  "set_10l p addr k value =
     (if k = 0 then do { p \<leftarrow> rmw8 p (addr + 0) 0x3F (push_bit 6 value);
          p \<leftarrow> st8 p (addr + 1) (ucast (drop_bit 2 value)); Some p }
      else if k = 1 then do { p \<leftarrow> rmw8 p (addr + 0) 0xC0 (drop_bit 4 value);
          p \<leftarrow> rmw8 p (addr + 3) 0x0F (push_bit 4 value); Some p }
      else if k = 2 then do { p \<leftarrow> rmw8 p (addr + 2) 0x03 (push_bit 2 value);
          p \<leftarrow> rmw8 p (addr + 3) 0xF0 (drop_bit 6 value); Some p }
      else if k = 3 then do { p \<leftarrow> rmw8 p (addr + 2) 0xFC (drop_bit 8 value);
          p \<leftarrow> st8 p (addr + 5) (ucast value); Some p }
      else if k = 4 then do { p \<leftarrow> st8 p (addr + 4) (ucast (drop_bit 2 value));
          p \<leftarrow> rmw8 p (addr + 7) 0x3F (push_bit 6 value); Some p }
      else if k = 5 then do { p \<leftarrow> rmw8 p (addr + 6) 0x0F (push_bit 4 value);
          p \<leftarrow> rmw8 p (addr + 7) 0xC0 (drop_bit 4 value); Some p }
      else if k = 6 then do { p \<leftarrow> rmw8 p (addr + 6) 0xF0 (drop_bit 6 value);
          p \<leftarrow> rmw8 p (addr + 9) 0x03 (push_bit 2 value); Some p }
      else if k = 7 then do { p \<leftarrow> st8 p (addr + 8) (ucast value);
          p \<leftarrow> rmw8 p (addr + 9) 0xFC (drop_bit 8 value); Some p }
      else Some p)"

definition raw_set_pixel_10l :: "bytes \<Rightarrow> u32 \<Rightarrow> u32 \<Rightarrow> u32 \<Rightarrow> u32 \<Rightarrow> bytes option" where
  "raw_set_pixel_10l p row_bytes x y value =
     set_10l p (unat (y * row_bytes) + unat (x div 8 * 10)) (unat (x AND 7)) value"

definition get_10b :: "bytes \<Rightarrow> nat \<Rightarrow> nat \<Rightarrow> u32 option" where
  "get_10b p addr k =
     (if k = 0 then do { a0 \<leftarrow> ld8 p (addr + 0); a1 \<leftarrow> ld8 p (addr + 1);
          Some ((0x3fc AND push_bit 2 (ucast a0)) OR drop_bit 6 (ucast a1)) }
      else if k = 1 then do { a1 \<leftarrow> ld8 p (addr + 1); a2 \<leftarrow> ld8 p (addr + 2);
          Some ((0x3f0 AND push_bit 4 (ucast a1)) OR drop_bit 4 (ucast a2)) }
      else if k = 2 then do { a2 \<leftarrow> ld8 p (addr + 2); a3 \<leftarrow> ld8 p (addr + 3);
          Some ((0x3c0 AND push_bit 6 (ucast a2)) OR drop_bit 2 (ucast a3)) }
      else if k = 3 then do { a3 \<leftarrow> ld8 p (addr + 3); a4 \<leftarrow> ld8 p (addr + 4);
          Some ((0x300 AND push_bit 8 (ucast a3)) OR ucast a4) }
      else Some 0)"

definition raw_get_pixel_10b :: "bytes \<Rightarrow> u32 \<Rightarrow> u32 \<Rightarrow> u32 \<Rightarrow> u32 option" where
  "raw_get_pixel_10b p row_bytes x y =
     get_10b p (unat (y * row_bytes) + unat (x div 4 * 5)) (unat (x AND 3))"

definition set_10b :: "bytes \<Rightarrow> nat \<Rightarrow> nat \<Rightarrow> u32 \<Rightarrow> bytes option" where
  "set_10b p addr k value =
     (if k = 0 then do { p \<leftarrow> st8 p (addr + 0) (ucast (drop_bit 2 value));
          p \<leftarrow> rmw8 p (addr + 1) 0x3F (push_bit 6 value); Some p }
      else if k = 1 then do { p \<leftarrow> rmw8 p (addr + 1) 0xC0 (drop_bit 4 value);
          p \<leftarrow> rmw8 p (addr + 2) 0x0F (push_bit 4 value); Some p }
      else if k = 2 then do { p \<leftarrow> rmw8 p (addr + 3) 0x03 (push_bit 2 value);
          p \<leftarrow> rmw8 p (addr + 2) 0xF0 (drop_bit 6 value); Some p }
      else if k = 3 then do { p \<leftarrow> rmw8 p (addr + 3) 0xFC (drop_bit 8 value);
          p \<leftarrow> st8 p (addr + 4) (ucast value); Some p }
      else Some p)"

definition raw_set_pixel_10b :: "bytes \<Rightarrow> u32 \<Rightarrow> u32 \<Rightarrow> u32 \<Rightarrow> u32 \<Rightarrow> bytes option" where
  "raw_set_pixel_10b p row_bytes x y value =
     set_10b p (unat (y * row_bytes) + unat (x div 4 * 5)) (unat (x AND 3)) value"

definition get_12l :: "bytes \<Rightarrow> nat \<Rightarrow> nat \<Rightarrow> u32 option" where
  "get_12l p addr k =
     (if k = 0 then do { a1 \<leftarrow> ld8 p (addr + 1); a0 \<leftarrow> ld8 p (addr + 0);
          Some (push_bit 4 (ucast a1) OR drop_bit 4 (ucast a0)) }
      else if k = 1 then do { a0 \<leftarrow> ld8 p (addr + 0); a3 \<leftarrow> ld8 p (addr + 3);
          Some (push_bit 8 (ucast a0 AND 0x0F) OR ucast a3) }
      else if k = 2 then do { a2 \<leftarrow> ld8 p (addr + 2); a5 \<leftarrow> ld8 p (addr + 5);
          Some (push_bit 4 (ucast a2) OR drop_bit 4 (ucast a5)) }
      else if k = 3 then do { a5 \<leftarrow> ld8 p (addr + 5); a4 \<leftarrow> ld8 p (addr + 4);
          Some (push_bit 8 (ucast a5 AND 0x0F) OR ucast a4) }
      else Some 0)"

definition raw_get_pixel_12l :: "bytes \<Rightarrow> u32 \<Rightarrow> u32 \<Rightarrow> u32 \<Rightarrow> u32 option" where
  "raw_get_pixel_12l p row_bytes x y =
     get_12l p (unat (y * row_bytes) + unat (x div 4 * 6)) (unat (x AND 3))"

definition set_12l :: "bytes \<Rightarrow> nat \<Rightarrow> nat \<Rightarrow> u32 \<Rightarrow> bytes option" where
  "set_12l p addr k value =
     (if k = 0 then do { p \<leftarrow> rmw8 p (addr + 0) 0x0F (push_bit 4 value);
          p \<leftarrow> st8 p (addr + 1) (ucast (drop_bit 4 value)); Some p }
      else if k = 1 then do { p \<leftarrow> rmw8 p (addr + 0) 0xF0 (drop_bit 8 value);
          p \<leftarrow> st8 p (addr + 3) (ucast value); Some p }
      else if k = 2 then do { p \<leftarrow> st8 p (addr + 2) (ucast (drop_bit 4 value));
          p \<leftarrow> rmw8 p (addr + 5) 0x0F (push_bit 4 value); Some p }
      else if k = 3 then do { p \<leftarrow> st8 p (addr + 4) (ucast value);
          p \<leftarrow> rmw8 p (addr + 5) 0xF0 (drop_bit 8 value); Some p }
      else Some p)"

definition raw_set_pixel_12l :: "bytes \<Rightarrow> u32 \<Rightarrow> u32 \<Rightarrow> u32 \<Rightarrow> u32 \<Rightarrow> bytes option" where
  "raw_set_pixel_12l p row_bytes x y value =
     set_12l p (unat (y * row_bytes) + unat (x div 4 * 6)) (unat (x AND 3)) value"

definition get_12b :: "bytes \<Rightarrow> nat \<Rightarrow> nat \<Rightarrow> u32 option" where
  "get_12b p addr k =
     (if k = 0 then do { a0 \<leftarrow> ld8 p (addr + 0); a1 \<leftarrow> ld8 p (addr + 1);
          Some (push_bit 4 (ucast a0) OR drop_bit 4 (ucast a1)) }
      else if k = 1 then do { a1 \<leftarrow> ld8 p (addr + 1); a2 \<leftarrow> ld8 p (addr + 2);
          Some (push_bit 8 (ucast a1 AND 0x0F) OR ucast a2) }
      else Some 0)"

definition raw_get_pixel_12b :: "bytes \<Rightarrow> u32 \<Rightarrow> u32 \<Rightarrow> u32 \<Rightarrow> u32 option" where
  "raw_get_pixel_12b p row_bytes x y =
     get_12b p (unat (y * row_bytes) + unat (x div 2 * 3)) (unat (x AND 1))"

definition set_12b :: "bytes \<Rightarrow> nat \<Rightarrow> nat \<Rightarrow> u32 \<Rightarrow> bytes option" where
  "set_12b p addr k value =
     (if k = 0 then do { p \<leftarrow> st8 p (addr + 0) (ucast (drop_bit 4 value));
          p \<leftarrow> rmw8 p (addr + 1) 0x0F (push_bit 4 value); Some p }
      else if k = 1 then do { p \<leftarrow> rmw8 p (addr + 1) 0xF0 (drop_bit 8 value);
          p \<leftarrow> st8 p (addr + 2) (ucast value); Some p }
      else Some p)"

definition raw_set_pixel_12b :: "bytes \<Rightarrow> u32 \<Rightarrow> u32 \<Rightarrow> u32 \<Rightarrow> u32 \<Rightarrow> bytes option" where
  "raw_set_pixel_12b p row_bytes x y value =
     set_12b p (unat (y * row_bytes) + unat (x div 2 * 3)) (unat (x AND 1)) value"

definition get_14l :: "bytes \<Rightarrow> nat \<Rightarrow> nat \<Rightarrow> u32 option" where
  "get_14l p addr k =
     (if k = 0 then do { a1 \<leftarrow> ld8 p (addr + 1); a0 \<leftarrow> ld8 p (addr + 0);
          Some (push_bit 6 (ucast a1) OR drop_bit 2 (ucast a0)) }
      else if k = 1 then do { a0 \<leftarrow> ld8 p (addr + 0); a3 \<leftarrow> ld8 p (addr + 3); a2 \<leftarrow> ld8 p (addr + 2);
          Some (push_bit 12 (ucast a0 AND 0x03) OR push_bit 4 (ucast a3) OR drop_bit 4 (ucast a2)) }
      else if k = 2 then do { a2 \<leftarrow> ld8 p (addr + 2); a5 \<leftarrow> ld8 p (addr + 5); a4 \<leftarrow> ld8 p (addr + 4);
          Some (push_bit 10 (ucast a2 AND 0x0F) OR push_bit 2 (ucast a5) OR drop_bit 6 (ucast a4)) }
      else if k = 3 then do { a4 \<leftarrow> ld8 p (addr + 4); a7 \<leftarrow> ld8 p (addr + 7);
          Some (push_bit 8 (ucast a4 AND 0x3F) OR ucast a7) }
      else if k = 4 then do { a6 \<leftarrow> ld8 p (addr + 6); a9 \<leftarrow> ld8 p (addr + 9);
          Some (push_bit 6 (ucast a6) OR drop_bit 2 (ucast a9)) }
      else if k = 5 then do { a9 \<leftarrow> ld8 p (addr + 9); a8 \<leftarrow> ld8 p (addr + 8); a11 \<leftarrow> ld8 p (addr + 11);
          Some (push_bit 12 (ucast a9 AND 0x03) OR push_bit 4 (ucast a8) OR drop_bit 4 (ucast a11)) }
      else if k = 6 then do { a11 \<leftarrow> ld8 p (addr + 11); a10 \<leftarrow> ld8 p (addr + 10); a13 \<leftarrow> ld8 p (addr + 13);
          Some (push_bit 10 (ucast a11 AND 0x0F) OR push_bit 2 (ucast a10) OR drop_bit 6 (ucast a13)) }
      else if k = 7 then do { a13 \<leftarrow> ld8 p (addr + 13); a12 \<leftarrow> ld8 p (addr + 12);
          Some (push_bit 8 (ucast a13 AND 0x3F) OR ucast a12) }
      else Some 0)"

definition raw_get_pixel_14l :: "bytes \<Rightarrow> u32 \<Rightarrow> u32 \<Rightarrow> u32 \<Rightarrow> u32 option" where
  "raw_get_pixel_14l p row_bytes x y =
     get_14l p (unat (y * row_bytes) + unat (x div 8 * 14)) (unat (x mod 8))"

definition set_14l :: "bytes \<Rightarrow> nat \<Rightarrow> nat \<Rightarrow> u32 \<Rightarrow> bytes option" where
  "set_14l p addr k value =
     (if k = 0 then do { p \<leftarrow> rmw8 p (addr + 0) 0x03 (push_bit 2 value);
          p \<leftarrow> st8 p (addr + 1) (ucast (drop_bit 6 value)); Some p }
      else if k = 1 then do { p \<leftarrow> rmw8 p (addr + 0) 0xFC (drop_bit 12 value);
          p \<leftarrow> rmw8 p (addr + 2) 0x0F (push_bit 4 value);
          p \<leftarrow> st8 p (addr + 3) (ucast (drop_bit 4 value)); Some p }
      else if k = 2 then do { p \<leftarrow> rmw8 p (addr + 2) 0xF0 (drop_bit 10 value);
          p \<leftarrow> rmw8 p (addr + 4) 0x3F (push_bit 6 value);
          p \<leftarrow> st8 p (addr + 5) (ucast (drop_bit 2 value)); Some p }
      else if k = 3 then do { p \<leftarrow> rmw8 p (addr + 4) 0xC0 (drop_bit 8 value);
          p \<leftarrow> st8 p (addr + 7) (ucast value); Some p }
      else if k = 4 then do { p \<leftarrow> st8 p (addr + 6) (ucast (drop_bit 6 value));
          p \<leftarrow> rmw8 p (addr + 9) 0x03 (push_bit 2 value); Some p }
      else if k = 5 then do { p \<leftarrow> st8 p (addr + 8) (ucast (drop_bit 4 value));
          p \<leftarrow> rmw8 p (addr + 9) 0xFC (drop_bit 12 value);
          p \<leftarrow> rmw8 p (addr + 11) 0x0F (push_bit 4 value); Some p }
      else if k = 6 then do { p \<leftarrow> st8 p (addr + 10) (ucast (drop_bit 2 value));
          p \<leftarrow> rmw8 p (addr + 11) 0xF0 (drop_bit 10 value);
          p \<leftarrow> rmw8 p (addr + 13) 0x3F (push_bit 6 value); Some p }
      else if k = 7 then do { p \<leftarrow> st8 p (addr + 12) (ucast value);
          p \<leftarrow> rmw8 p (addr + 13) 0xC0 (drop_bit 8 value); Some p }
      else Some p)"

definition raw_set_pixel_14l :: "bytes \<Rightarrow> u32 \<Rightarrow> u32 \<Rightarrow> u32 \<Rightarrow> u32 \<Rightarrow> bytes option" where
  "raw_set_pixel_14l p row_bytes x y value =
     set_14l p (unat (y * row_bytes) + unat (x div 8 * 14)) (unat (x mod 8)) value"

definition get_14b :: "bytes \<Rightarrow> nat \<Rightarrow> nat \<Rightarrow> u32 option" where
  "get_14b p addr k =
     (if k = 0 then do { a0 \<leftarrow> ld8 p (addr + 0); a1 \<leftarrow> ld8 p (addr + 1);
          Some (push_bit 6 (ucast a0) OR drop_bit 2 (ucast a1)) }
      else if k = 1 then do { a1 \<leftarrow> ld8 p (addr + 1); a2 \<leftarrow> ld8 p (addr + 2); a3 \<leftarrow> ld8 p (addr + 3);
          Some (push_bit 12 (ucast a1 AND 0x03) OR push_bit 4 (ucast a2) OR drop_bit 4 (ucast a3)) }
      else if k = 2 then do { a3 \<leftarrow> ld8 p (addr + 3); a4 \<leftarrow> ld8 p (addr + 4); a5 \<leftarrow> ld8 p (addr + 5);
          Some (push_bit 10 (ucast a3 AND 0x0F) OR push_bit 2 (ucast a4) OR drop_bit 6 (ucast a5)) }
      else if k = 3 then do { a5 \<leftarrow> ld8 p (addr + 5); a6 \<leftarrow> ld8 p (addr + 6);
          Some (push_bit 8 (ucast a5 AND 0x3F) OR ucast a6) }
      else Some 0)"

definition raw_get_pixel_14b :: "bytes \<Rightarrow> u32 \<Rightarrow> u32 \<Rightarrow> u32 \<Rightarrow> u32 option" where
  "raw_get_pixel_14b p row_bytes x y =
     get_14b p (unat (y * row_bytes) + unat (x div 4 * 7)) (unat (x mod 4))"

definition set_14b :: "bytes \<Rightarrow> nat \<Rightarrow> nat \<Rightarrow> u32 \<Rightarrow> bytes option" where
  "set_14b p addr k value =
     (if k = 0 then do { p \<leftarrow> rmw8 p (addr + 1) 0x03 (push_bit 2 value);
          p \<leftarrow> st8 p (addr + 0) (ucast (drop_bit 6 value)); Some p }
      else if k = 1 then do { p \<leftarrow> rmw8 p (addr + 1) 0xFC (drop_bit 12 value);
          p \<leftarrow> rmw8 p (addr + 3) 0x0F (push_bit 4 value);
          p \<leftarrow> st8 p (addr + 2) (ucast (drop_bit 4 value)); Some p }
      else if k = 2 then do { p \<leftarrow> rmw8 p (addr + 3) 0xF0 (drop_bit 10 value);
          p \<leftarrow> rmw8 p (addr + 5) 0x3F (push_bit 6 value);
          p \<leftarrow> st8 p (addr + 4) (ucast (drop_bit 2 value)); Some p }
      else if k = 3 then do { p \<leftarrow> rmw8 p (addr + 5) 0xC0 (drop_bit 8 value);
          p \<leftarrow> st8 p (addr + 6) (ucast value); Some p }
      else Some p)"

definition raw_set_pixel_14b :: "bytes \<Rightarrow> u32 \<Rightarrow> u32 \<Rightarrow> u32 \<Rightarrow> u32 \<Rightarrow> bytes option" where
  "raw_set_pixel_14b p row_bytes x y value =
     set_14b p (unat (y * row_bytes) + unat (x div 4 * 7)) (unat (x mod 8)) value"

text \<open>16 bits: \<open>raw_*_pixel_16l\<close> access an \<open>unsigned short\<close> of the (little endian) host.\<close>

definition raw_get_pixel_16l :: "bytes \<Rightarrow> u32 \<Rightarrow> u32 \<Rightarrow> u32 \<Rightarrow> u32 option" where
  "raw_get_pixel_16l p row_bytes x y = (let addr = unat (y * row_bytes) + unat (x * 2) in
     do { a0 \<leftarrow> ld8 p addr; a1 \<leftarrow> ld8 p (addr + 1); Some (push_bit 8 (ucast a1) OR ucast a0) })"

definition raw_set_pixel_16l :: "bytes \<Rightarrow> u32 \<Rightarrow> u32 \<Rightarrow> u32 \<Rightarrow> u32 \<Rightarrow> bytes option" where
  "raw_set_pixel_16l p row_bytes x y value = (let addr = unat (y * row_bytes) + unat (x * 2) in
     do { p \<leftarrow> st8 p addr (ucast value); st8 p (addr + 1) (ucast (drop_bit 8 value)) })"

definition raw_get_pixel_16b :: "bytes \<Rightarrow> u32 \<Rightarrow> u32 \<Rightarrow> u32 \<Rightarrow> u32 option" where
  "raw_get_pixel_16b p row_bytes x y = do {
     a0 \<leftarrow> ld8 p (unat (y * row_bytes + x * 2));
     a1 \<leftarrow> ld8 p (unat (y * row_bytes + x * 2 + 1));
     Some (push_bit 8 (ucast a0) OR ucast a1) }"

definition raw_set_pixel_16b :: "bytes \<Rightarrow> u32 \<Rightarrow> u32 \<Rightarrow> u32 \<Rightarrow> u32 \<Rightarrow> bytes option" where
  "raw_set_pixel_16b p row_bytes x y value = do {
     p \<leftarrow> st8 p (unat (y * row_bytes + x * 2)) (ucast (drop_bit 8 value));
     st8 p (unat (y * row_bytes + x * 2 + 1)) (ucast value) }"

section \<open>Reading and writing the bit stream\<close>

definition same_outside :: "nat \<Rightarrow> nat \<Rightarrow> bytes \<Rightarrow> bytes \<Rightarrow> bool" where
  "same_outside addr n p p' \<longleftrightarrow>
     length p' = length p \<and> (\<forall>i. i < addr \<or> addr + n \<le> i \<longrightarrow> p' ! i = p ! i)"

text \<open>\<open>p'\<close> is \<open>p\<close> with the bits of pixel \<open>k\<close> of the block at \<open>addr\<close> replaced by \<open>v\<close>.\<close>

definition writes_pixel ::
  "bool \<Rightarrow> nat \<Rightarrow> nat \<Rightarrow> nat \<Rightarrow> nat \<Rightarrow> u32 \<Rightarrow> bytes \<Rightarrow> bytes \<Rightarrow> bool" where
  "writes_pixel little bpp bb addr k v p p' \<longleftrightarrow>
     same_outside addr bb p p' \<and>
     (\<forall>i r. i < bb \<longrightarrow> r < 8 \<longrightarrow>
        sbit little p' addr (8 * i + r) =
          (if (8 * i + r) div bpp = k then bit v (bpp - 1 - (8 * i + r) mod bpp)
           else sbit little p addr (8 * i + r)))"

lemma writesI:
  assumes "same_outside addr bb p p'"
    and "\<And>i r. i < bb \<Longrightarrow> r < 8 \<Longrightarrow>
      sbit little p' addr (8 * i + r) =
        (if (8 * i + r) div bpp = k then bit v (bpp - 1 - (8 * i + r) mod bpp)
         else sbit little p addr (8 * i + r))"
  shows "writes_pixel little bpp bb addr k v p p'"
  using assms by (auto simp: writes_pixel_def)

lemma same_outside_refl: "same_outside addr n p p"
  by (simp add: same_outside_def)

lemma same_outside_update:
  "i < n \<Longrightarrow> same_outside addr n p q \<Longrightarrow> same_outside addr n p (q[addr + i := b])"
  by (auto simp: same_outside_def)

lemma same_outside_update0:
  "0 < n \<Longrightarrow> same_outside addr n p q \<Longrightarrow> same_outside addr n p (q[addr := b])"
  "1 < n \<Longrightarrow> same_outside addr n p q \<Longrightarrow> same_outside addr n p (q[Suc addr := b])"
  "2 < n \<Longrightarrow> same_outside addr n p q \<Longrightarrow> same_outside addr n p (q[Suc (Suc addr) := b])"
  by (auto simp: same_outside_def)

lemmas same_outside_simps = same_outside_refl same_outside_update same_outside_update0

lemma bit_above:
  assumes "unat (v :: u32) < 2 ^ n" and "n \<le> i"
  shows "bit v i \<longleftrightarrow> False"
proof -
  have "unat v < 2 ^ i"
    using assms less_le_trans power_increasing [of n i "2 :: nat"] by fastforce
  then have "\<not> bit (unat v) i" by (simp add: bit_iff_odd)
  moreover have "i < 32" if "bit v i" using that bit_imp_le_length [of v i] by simp
  ultimately show ?thesis by (auto simp: bit_simps)
qed

text \<open>Case analysis over the pixels of a block, its bytes, their bits and the bits of a word.\<close>

lemma less_numeral_cases:
  "n < (2 :: nat) \<longleftrightarrow> n = 1 \<or> n = 0"
  "n < (3 :: nat) \<longleftrightarrow> n = 2 \<or> n = 1 \<or> n = 0"
  "n < (4 :: nat) \<longleftrightarrow> n = 3 \<or> n = 2 \<or> n = 1 \<or> n = 0"
  "n < (5 :: nat) \<longleftrightarrow> n = 4 \<or> n = 3 \<or> n = 2 \<or> n = 1 \<or> n = 0"
  "n < (6 :: nat) \<longleftrightarrow> n = 5 \<or> n = 4 \<or> n = 3 \<or> n = 2 \<or> n = 1 \<or> n = 0"
  "n < (7 :: nat) \<longleftrightarrow> n = 6 \<or> n = 5 \<or> n = 4 \<or> n = 3 \<or> n = 2 \<or> n = 1 \<or> n = 0"
  "n < (8 :: nat) \<longleftrightarrow> n = 7 \<or> n = 6 \<or> n = 5 \<or> n = 4 \<or> n = 3 \<or> n = 2 \<or> n = 1 \<or> n = 0"
  "n < (10 :: nat) \<longleftrightarrow> n = 9 \<or> n = 8 \<or> n = 7 \<or> n = 6 \<or> n = 5 \<or> n = 4 \<or> n = 3 \<or>
    n = 2 \<or> n = 1 \<or> n = 0"
  "n < (14 :: nat) \<longleftrightarrow> n = 13 \<or> n = 12 \<or> n = 11 \<or> n = 10 \<or> n = 9 \<or> n = 8 \<or> n = 7 \<or>
    n = 6 \<or> n = 5 \<or> n = 4 \<or> n = 3 \<or> n = 2 \<or> n = 1 \<or> n = 0"
  by arith+

lemma len32_cases: "n < LENGTH(32) \<longleftrightarrow>
    n = 31 \<or> n = 30 \<or> n = 29 \<or> n = 28 \<or> n = 27 \<or> n = 26 \<or> n = 25 \<or>
    n = 24 \<or> n = 23 \<or> n = 22 \<or> n = 21 \<or> n = 20 \<or> n = 19 \<or> n = 18 \<or>
    n = 17 \<or> n = 16 \<or> n = 15 \<or> n = 14 \<or> n = 13 \<or> n = 12 \<or> n = 11 \<or>
    n = 10 \<or> n = 9 \<or> n = 8 \<or> n = 7 \<or> n = 6 \<or> n = 5 \<or> n = 4 \<or>
    n = 3 \<or> n = 2 \<or> n = 1 \<or> n = 0"
  unfolding len_num1 by (simp, arith)

lemma get_10l_val:
  "k < 8 \<Longrightarrow> addr + 10 \<le> length p \<Longrightarrow>
   get_10l p addr k = Some (pixel_val True 10 p addr k)"
  unfolding less_numeral_cases
  by (elim disjE; simp add: get_10l_def mem_simps; rule bit_word_eqI; unfold len32_cases;
      elim disjE; simp add: bit_pixel_val sbit_def; simp add: bit_simps word_bits)

lemma set_10l_writes:
  "k < 8 \<Longrightarrow> addr + 10 \<le> length p \<Longrightarrow> (\<forall>n \<ge> 10. \<not> bit v n) \<Longrightarrow>
   \<exists>p'. set_10l p addr k v = Some p' \<and> writes_pixel True 10 10 addr k v p p'"
  unfolding less_numeral_cases
  by (elim disjE; simp add: set_10l_def mem_simps; rule writesI;
      (simp add: same_outside_simps; fail)?; unfold less_numeral_cases; elim disjE;
      simp add: sbit_def; simp add: bit_simps)

lemma get_10b_val:
  "k < 4 \<Longrightarrow> addr + 5 \<le> length p \<Longrightarrow>
   get_10b p addr k = Some (pixel_val False 10 p addr k)"
  unfolding less_numeral_cases
  by (elim disjE; simp add: get_10b_def mem_simps; rule bit_word_eqI; unfold len32_cases;
      elim disjE; simp add: bit_pixel_val sbit_def; simp add: bit_simps word_bits)

lemma set_10b_writes:
  "k < 4 \<Longrightarrow> addr + 5 \<le> length p \<Longrightarrow> (\<forall>n \<ge> 10. \<not> bit v n) \<Longrightarrow>
   \<exists>p'. set_10b p addr k v = Some p' \<and> writes_pixel False 10 5 addr k v p p'"
  unfolding less_numeral_cases
  by (elim disjE; simp add: set_10b_def mem_simps; rule writesI;
      (simp add: same_outside_simps; fail)?; unfold less_numeral_cases; elim disjE;
      simp add: sbit_def; simp add: bit_simps)

lemma get_12l_val:
  "k < 4 \<Longrightarrow> addr + 6 \<le> length p \<Longrightarrow>
   get_12l p addr k = Some (pixel_val True 12 p addr k)"
  unfolding less_numeral_cases
  by (elim disjE; simp add: get_12l_def mem_simps; rule bit_word_eqI; unfold len32_cases;
      elim disjE; simp add: bit_pixel_val sbit_def; simp add: bit_simps word_bits)

lemma set_12l_writes:
  "k < 4 \<Longrightarrow> addr + 6 \<le> length p \<Longrightarrow> (\<forall>n \<ge> 12. \<not> bit v n) \<Longrightarrow>
   \<exists>p'. set_12l p addr k v = Some p' \<and> writes_pixel True 12 6 addr k v p p'"
  unfolding less_numeral_cases
  by (elim disjE; simp add: set_12l_def mem_simps; rule writesI;
      (simp add: same_outside_simps; fail)?; unfold less_numeral_cases; elim disjE;
      simp add: sbit_def; simp add: bit_simps)

lemma get_12b_val:
  "k < 2 \<Longrightarrow> addr + 3 \<le> length p \<Longrightarrow>
   get_12b p addr k = Some (pixel_val False 12 p addr k)"
  unfolding less_numeral_cases
  by (elim disjE; simp add: get_12b_def mem_simps; rule bit_word_eqI; unfold len32_cases;
      elim disjE; simp add: bit_pixel_val sbit_def; simp add: bit_simps word_bits)

lemma set_12b_writes:
  "k < 2 \<Longrightarrow> addr + 3 \<le> length p \<Longrightarrow> (\<forall>n \<ge> 12. \<not> bit v n) \<Longrightarrow>
   \<exists>p'. set_12b p addr k v = Some p' \<and> writes_pixel False 12 3 addr k v p p'"
  unfolding less_numeral_cases
  by (elim disjE; simp add: set_12b_def mem_simps; rule writesI;
      (simp add: same_outside_simps; fail)?; unfold less_numeral_cases; elim disjE;
      simp add: sbit_def; simp add: bit_simps)

lemma get_14l_val:
  "k < 8 \<Longrightarrow> addr + 14 \<le> length p \<Longrightarrow>
   get_14l p addr k = Some (pixel_val True 14 p addr k)"
  unfolding less_numeral_cases
  by (elim disjE; simp add: get_14l_def mem_simps; rule bit_word_eqI; unfold len32_cases;
      elim disjE; simp add: bit_pixel_val sbit_def; simp add: bit_simps word_bits)

lemma set_14l_writes:
  "k < 8 \<Longrightarrow> addr + 14 \<le> length p \<Longrightarrow> (\<forall>n \<ge> 14. \<not> bit v n) \<Longrightarrow>
   \<exists>p'. set_14l p addr k v = Some p' \<and> writes_pixel True 14 14 addr k v p p'"
  unfolding less_numeral_cases
  by (elim disjE; simp add: set_14l_def mem_simps; rule writesI;
      (simp add: same_outside_simps; fail)?; unfold less_numeral_cases; elim disjE;
      simp add: sbit_def; simp add: bit_simps)

lemma get_14b_val:
  "k < 4 \<Longrightarrow> addr + 7 \<le> length p \<Longrightarrow>
   get_14b p addr k = Some (pixel_val False 14 p addr k)"
  unfolding less_numeral_cases
  by (elim disjE; simp add: get_14b_def mem_simps; rule bit_word_eqI; unfold len32_cases;
      elim disjE; simp add: bit_pixel_val sbit_def; simp add: bit_simps word_bits)

lemma set_14b_writes:
  "k < 4 \<Longrightarrow> addr + 7 \<le> length p \<Longrightarrow> (\<forall>n \<ge> 14. \<not> bit v n) \<Longrightarrow>
   \<exists>p'. set_14b p addr k v = Some p' \<and> writes_pixel False 14 7 addr k v p p'"
  unfolding less_numeral_cases
  by (elim disjE; simp add: set_14b_def mem_simps; rule writesI;
      (simp add: same_outside_simps; fail)?; unfold less_numeral_cases; elim disjE;
      simp add: sbit_def; simp add: bit_simps)

text \<open>\<open>raw_set_pixel_14b\<close> switches on \<open>x % 8\<close> but has the cases 0 to 3 of a block of four
  pixels: every second block is never written.\<close>

lemma set_14b_ignored: "4 \<le> k \<Longrightarrow> set_14b p addr k v = Some p"
  by (simp add: set_14b_def)

end
