(* ===== verification/Rawpix.thy ===== *)
theory Rawpix
  imports Rawfmt
begin

text \<open>
  The pixel accessors of \<open>rawimg.c\<close> as implementations of one interface. A format has \<open>bpp\<close>
  bits per pixel and blocks of \<open>bb\<close> bytes that hold \<open>bp\<close> pixels. \<open>packed_reader\<close> is the
  contract of a getter, \<open>packed_format\<close> adds the one of a setter; the lemmas on reading back a
  written pixel, and on the other pixels of the image, are proved once from the contracts.
\<close>

section \<open>Positions\<close>

text \<open>The address of the block of pixel (\<open>x\<close>, \<open>y\<close>), in unbounded arithmetic, and the condition
  that the block lies in the buffer.\<close>

definition blk :: "nat \<Rightarrow> nat \<Rightarrow> u32 \<Rightarrow> u32 \<Rightarrow> u32 \<Rightarrow> nat" where
  "blk bb bp rb x y = unat y * unat rb + unat x div bp * bb"

definition in_data :: "nat \<Rightarrow> nat \<Rightarrow> bytes \<Rightarrow> u32 \<Rightarrow> u32 \<Rightarrow> u32 \<Rightarrow> bool" where
  "in_data bb bp p rb x y \<longleftrightarrow> blk bb bp rb x y + bb \<le> length p \<and> length p < 2 ^ 32"

text \<open>Two pixels do not share bits: they are different pixels of the same block, or their blocks
  are disjoint.\<close>

definition apart :: "nat \<Rightarrow> nat \<Rightarrow> u32 \<Rightarrow> u32 \<Rightarrow> u32 \<Rightarrow> u32 \<Rightarrow> u32 \<Rightarrow> bool" where
  "apart bb bp rb x y x' y' \<longleftrightarrow>
     blk bb bp rb x y = blk bb bp rb x' y' \<and> unat x mod bp \<noteq> unat x' mod bp \<or>
     blk bb bp rb x y + bb \<le> blk bb bp rb x' y' \<or> blk bb bp rb x' y' + bb \<le> blk bb bp rb x y"

lemma in_data_length: "in_data bb bp p rb x y \<Longrightarrow> length p' = length p \<Longrightarrow> in_data bb bp p' rb x y"
  by (simp add: in_data_def)

text \<open>In a grid of rows of \<open>w\<close> pixels, with whole blocks, different pixels are apart.\<close>

lemma grid_apart:
  assumes "unat x < w" "unat x' < w" "w mod bp = 0" "0 < bp" "w div bp * bb \<le> unat rb"
    and "(x, y) \<noteq> (x', y')"
  shows "apart bb bp rb x y x' y'"
proof -
  let ?c = "unat x div bp" and ?c' = "unat x' div bp"
  have col: "unat z div bp * bb + bb \<le> unat rb" if "unat z < w" for z :: u32
  proof -
    have "unat z div bp < w div bp"
      using that assms(3,4) by (metis div_less_mono mod_0_imp_dvd dvd_def less_mult_imp_div_less
          mult.commute nonzero_mult_div_cancel_left not_gr_zero)
    then have "(unat z div bp + 1) * bb \<le> w div bp * bb" by (intro mult_le_mono1) simp
    with assms(5) show ?thesis by simp
  qed
  have rows: "unat z * unat rb + unat rb \<le> unat z' * unat rb" if "unat z < unat z'" for z z' :: u32
    using mult_le_mono1 [of "unat z + 1" "unat z'" "unat rb"] that by simp
  have cols: "c * bb + bb \<le> c' * bb" if "c < c'" for c c'
    using mult_le_mono1 [of "c + 1" c' bb] that by simp
  consider "unat y < unat y'" | "unat y' < unat y" | "unat y = unat y'" by linarith
  then show ?thesis
  proof cases
    case 3
    then have "unat x \<noteq> unat x'" using assms(6) by (auto simp: word_unat_eq_iff)
    moreover have "unat x = ?c * bp + unat x mod bp" "unat x' = ?c' * bp + unat x' mod bp" by simp_all
    ultimately consider "?c < ?c'" | "?c' < ?c" | "?c = ?c'" "unat x mod bp \<noteq> unat x' mod bp"
      by (metis linorder_less_linear)
    then show ?thesis using 3 cols by cases (auto simp: apart_def blk_def add.assoc)
  qed (use rows col [OF assms(1)] col [OF assms(2)] in
      \<open>fastforce simp: apart_def blk_def\<close>)+
qed

section \<open>The contracts\<close>

lemma pixel_val_cong:
  assumes "\<And>j. j < bpp \<Longrightarrow> sbit little p' addr (k * bpp + (bpp - 1 - j)) =
      sbit little p addr (k * bpp + (bpp - 1 - j))"
  shows "pixel_val little bpp p' addr k = pixel_val little bpp p addr k"
proof -
  have "map (\<lambda>j. sbit little p' addr (k * bpp + (bpp - 1 - j))) [0..<bpp] =
      map (\<lambda>j. sbit little p addr (k * bpp + (bpp - 1 - j))) [0..<bpp]"
    by (rule map_cong [OF refl]) (simp only: assms set_upt atLeastLessThan_iff)
  then show ?thesis by (simp only: pixel_val_def)
qed

locale packed_reader =
  fixes get :: "bytes \<Rightarrow> u32 \<Rightarrow> u32 \<Rightarrow> u32 \<Rightarrow> u32 option"
    and bpp bb bp :: nat and little :: bool
  assumes geometry: "bb * 8 = bp * bpp" and bpp_pos: "0 < bpp" and bpp_max: "bpp \<le> 16"
    and pairs: "little \<Longrightarrow> even bb"
    and get_law: "in_data bb bp p rb x y \<Longrightarrow>
      get p rb x y = Some (pixel_val little bpp p (blk bb bp rb x y) (unat x mod bp))"
begin

text \<open>A pixel value has \<open>bpp\<close> bits.\<close>

lemma get_bound:
  assumes "in_data bb bp p rb x y" and "get p rb x y = Some v"
  shows "unat v < 2 ^ bpp"
proof -
  have "v = pixel_val little bpp p (blk bb bp rb x y) (unat x mod bp)"
    using assms get_law by simp
  then have "take_bit bpp v = v"
    using bpp_max by (intro bit_word_eqI) (auto simp: bit_pixel_val bit_simps)
  then have "unat v = take_bit bpp (unat v)" by (metis unsigned_take_bit_eq)
  then show ?thesis using take_bit_nat_less_exp [of bpp "unat v"] by simp
qed

text \<open>The value depends on the bytes of the block only.\<close>

lemma sbit_block:
  assumes "s < 8 * bb" and "\<And>i. i < bb \<Longrightarrow> p' ! (addr + i) = p ! (addr + i)"
  shows "sbit little p' addr s = sbit little p addr s"
proof -
  have i: "s div 8 < bb" using assms(1) by simp
  moreover have "s div 8 + 1 < bb" if "little" "even (s div 8)"
    using i pairs [OF that(1)] that(2) by (metis Suc_eq_plus1 Suc_lessI even_Suc)
  ultimately show ?thesis
    using assms(2) [of "s div 8"] assms(2) [of "s div 8 + 1"] assms(2) [of "s div 8 - 1"]
    by (auto simp: sbit_def Let_def)
qed

lemma stream_index: "k < bp \<Longrightarrow> j < bpp \<Longrightarrow> k * bpp + (bpp - 1 - j) < 8 * bb"
proof -
  assume "k < bp" "j < bpp"
  then have "(k + 1) * bpp \<le> bp * bpp" by (intro mult_le_mono1) simp
  with \<open>j < bpp\<close> geometry show ?thesis by simp
qed

lemma stream_pos:
  "j < bpp \<Longrightarrow> (k * bpp + (bpp - 1 - j)) div bpp = k"
  "j < bpp \<Longrightarrow> (k * bpp + (bpp - 1 - j)) mod bpp = bpp - 1 - j"
proof -
  assume "j < bpp"
  then have "bpp - 1 - j < bpp" "bpp \<noteq> 0" by simp_all
  then show "(k * bpp + (bpp - 1 - j)) div bpp = k"
    and "(k * bpp + (bpp - 1 - j)) mod bpp = bpp - 1 - j"
    by (simp_all only: div_mult_self3 mod_mult_self3 div_less mod_less add_0_right not_False_eq_True)
qed

lemma get_cong:
  assumes "in_data bb bp p rb x y" and "length p' = length p" and "0 < bp"
    and "\<And>i. i < bb \<Longrightarrow> p' ! (blk bb bp rb x y + i) = p ! (blk bb bp rb x y + i)"
  shows "get p' rb x y = get p rb x y"
proof -
  have "unat x mod bp < bp" using assms(3) by simp
  then have "pixel_val little bpp p' (blk bb bp rb x y) (unat x mod bp) =
      pixel_val little bpp p (blk bb bp rb x y) (unat x mod bp)"
    by (rule pixel_val_cong [OF sbit_block [OF stream_index assms(4)]])
  then show ?thesis
    using get_law [OF assms(1)] get_law [OF in_data_length [OF assms(1,2)]] by simp
qed

end

locale packed_format = packed_reader +
  fixes set :: "bytes \<Rightarrow> u32 \<Rightarrow> u32 \<Rightarrow> u32 \<Rightarrow> u32 \<Rightarrow> bytes option"
  assumes bp_nonzero: "0 < bp"
    and set_law: "in_data bb bp p rb x y \<Longrightarrow> unat v < 2 ^ bpp \<Longrightarrow>
      \<exists>p'. set p rb x y v = Some p' \<and>
           writes_pixel little bpp bb (blk bb bp rb x y) (unat x mod bp) v p p'"
begin

lemma set_returns:
  assumes "in_data bb bp p rb x y" and "unat v < 2 ^ bpp"
  shows "\<exists>p'. set p rb x y v = Some p' \<and> length p' = length p"
  using set_law [OF assms] by (auto simp: writes_pixel_def same_outside_def)

lemma set_length:
  assumes "in_data bb bp p rb x y" and "unat v < 2 ^ bpp" and "set p rb x y v = Some p'"
  shows "length p' = length p"
  using set_returns [OF assms(1,2)] assms(3) by simp

lemma set_stream:
  assumes "in_data bb bp p rb x y" and "unat v < 2 ^ bpp" and "set p rb x y v = Some p'"
    and "s < 8 * bb"
  shows "sbit little p' (blk bb bp rb x y) s =
    (if s div bpp = unat x mod bp then bit v (bpp - 1 - s mod bpp)
     else sbit little p (blk bb bp rb x y) s)"
proof -
  have "writes_pixel little bpp bb (blk bb bp rb x y) (unat x mod bp) v p p'"
    using set_law [OF assms(1,2)] assms(3) by simp
  moreover have "s div 8 < bb" "s mod 8 < 8" using assms(4) by simp_all
  ultimately have "sbit little p' (blk bb bp rb x y) (8 * (s div 8) + s mod 8) =
      (if (8 * (s div 8) + s mod 8) div bpp = unat x mod bp
       then bit v (bpp - 1 - (8 * (s div 8) + s mod 8) mod bpp)
       else sbit little p (blk bb bp rb x y) (8 * (s div 8) + s mod 8))"
    unfolding writes_pixel_def by blast
  then show ?thesis by simp
qed

text \<open>A pixel that is written is read back.\<close>

lemma get_set_same:
  assumes "in_data bb bp p rb x y" and "unat v < 2 ^ bpp" and "set p rb x y v = Some p'"
  shows "get p' rb x y = Some v"
proof -
  let ?k = "unat x mod bp" and ?a = "blk bb bp rb x y"
  have "in_data bb bp p' rb x y"
    by (rule in_data_length [OF assms(1) set_length [OF assms]])
  then have "get p' rb x y = Some (pixel_val little bpp p' ?a ?k)" by (rule get_law)
  moreover have "pixel_val little bpp p' ?a ?k = v"
  proof (rule bit_word_eqI)
    fix j
    have "sbit little p' ?a (?k * bpp + (bpp - 1 - j)) = bit v j" if "j < bpp"
    proof -
      have "?k * bpp + (bpp - 1 - j) < 8 * bb"
        using stream_index [OF _ that, of ?k] bp_nonzero by simp
      from set_stream [OF assms this] that show ?thesis
        by (simp only: stream_pos if_True) simp
    qed
    then show "bit (pixel_val little bpp p' ?a ?k) j = bit v j"
      using bpp_max bit_above [OF assms(2), of j] by (cases "j < bpp") (auto simp: bit_pixel_val)
  qed
  ultimately show ?thesis by simp
qed

text \<open>Every other pixel keeps its value.\<close>

lemma get_set_other:
  assumes "in_data bb bp p rb x y" and "unat v < 2 ^ bpp" and "set p rb x y v = Some p'"
    and "in_data bb bp p rb x' y'" and "apart bb bp rb x y x' y'"
  shows "get p' rb x' y' = get p rb x' y'"
proof (cases "blk bb bp rb x y = blk bb bp rb x' y'")
  case True
  let ?k' = "unat x' mod bp" and ?a = "blk bb bp rb x' y'"
  have len: "length p' = length p" using set_length [OF assms(1-3)] .
  have "bb \<noteq> 0" using geometry bpp_pos bp_nonzero by (cases bb) auto
  with True assms(5) have k: "unat x mod bp \<noteq> ?k'" by (auto simp: apart_def)
  have "pixel_val little bpp p' ?a ?k' = pixel_val little bpp p ?a ?k'"
  proof (rule pixel_val_cong)
    fix j
    assume "j < bpp"
    then have "?k' * bpp + (bpp - 1 - j) < 8 * bb"
      using stream_index [of ?k' j] bp_nonzero by simp
    from set_stream [OF assms(1-3) this] \<open>j < bpp\<close> k
    show "sbit little p' ?a (?k' * bpp + (bpp - 1 - j)) =
        sbit little p ?a (?k' * bpp + (bpp - 1 - j))"
      by (simp only: True stream_pos) simp
  qed
  then show ?thesis
    using get_law [OF assms(4)] get_law [OF in_data_length [OF assms(4) len]] by simp
next
  case False
  have "same_outside (blk bb bp rb x y) bb p p'"
    using set_law [OF assms(1,2)] assms(3) by (simp add: writes_pixel_def)
  with False assms(5) have "p' ! (blk bb bp rb x' y' + i) = p ! (blk bb bp rb x' y' + i)"
    and "length p' = length p" if "i < bb" for i
    using that by (auto simp: apart_def same_outside_def)
  moreover have "0 < bb" using geometry bpp_pos bp_nonzero by (cases bb) auto
  ultimately show ?thesis by (intro get_cong assms(4) bp_nonzero) auto
qed

end

section \<open>The accessors keep the contracts\<close>

text \<open>The 32-bit address arithmetic of the accessors does not wrap for a pixel in the buffer.\<close>

lemma in_data_bounds:
  assumes "in_data bb bp p rb x y"
  shows "unat y * unat rb + unat x div bp * bb + bb \<le> length p" and "length p < 4294967296"
  using assms by (simp_all add: in_data_def blk_def)

lemma addr_blk:
  assumes "in_data bb bp p rb x y" and "unat c = bp" and "unat d = bb"
  shows "unat (y * rb) + unat (x div c * d) = blk bb bp rb x y"
proof -
  note b = in_data_bounds [OF assms(1)]
  then have "unat (y * rb) = unat y * unat rb" by (intro unat_mult_lem [THEN iffD1]) simp
  moreover have "unat (x div c * d) = unat (x div c) * unat d"
    using b assms(2,3) by (intro unat_mult_lem [THEN iffD1]) (simp add: unat_div)
  ultimately show ?thesis using assms(2,3) by (simp add: blk_def unat_div)
qed

lemma unat_and_mask: "unat (x AND mask n :: u32) = unat x mod 2 ^ n"
proof -
  have "unat (take_bit n x) = take_bit n (unat x)"
    by (rule unsigned_take_bit_eq)
  also have "\<dots> = unat x mod 2 ^ n"
    by (rule take_bit_eq_mod)
  finally show ?thesis by (simp only: take_bit_eq_mask)
qed

lemma unat_and:
  "unat (x AND 7 :: u32) = unat x mod 8" "unat (x AND 3 :: u32) = unat x mod 4"
  "unat (x AND 1 :: u32) = unat x mod 2"
  using unat_and_mask [of x 3] unat_and_mask [of x 2] unat_and_mask [of x 1]
  by (simp_all add: mask_eq_exp_minus_1)

lemma value_bits: "unat (v :: u32) < 2 ^ n \<Longrightarrow> \<forall>i \<ge> n. \<not> bit v i"
  using bit_above [of v n] by simp

text \<open>A getter and a setter that switch on the pixel's index in its block keep the contracts if
  the block functions do.\<close>

lemma packed_readerI:
  assumes "bb * 8 = bp * bpp" "0 < bpp" "bpp \<le> 16" "0 < bp" "little \<Longrightarrow> even bb"
    and c: "unat c = bp" "unat d = bb"
    and rget: "\<And>p rb x y. rget p rb x y = bget p (unat (y * rb) + unat (x div c * d)) (unat x mod bp)"
    and bget: "\<And>p addr k. k < bp \<Longrightarrow> addr + bb \<le> length p \<Longrightarrow>
      bget p addr k = Some (pixel_val little bpp p addr k)"
  shows "packed_reader rget bpp bb bp little"
proof unfold_locales
  fix p rb x y
  assume d: "in_data bb bp p rb x y"
  then have "blk bb bp rb x y + bb \<le> length p" by (simp add: in_data_def)
  with assms(4) show "rget p rb x y = Some (pixel_val little bpp p (blk bb bp rb x y) (unat x mod bp))"
    by (simp add: rget addr_blk [OF d c] bget)
qed (use assms in auto)

lemma packed_formatI:
  assumes reader: "packed_reader rget bpp bb bp little" and "0 < bp"
    and c: "unat c = bp" "unat d = bb"
    and rset: "\<And>p rb x y v. rset p rb x y v =
      bset p (unat (y * rb) + unat (x div c * d)) (unat x mod bp) v"
    and bset: "\<And>p addr k v. k < bp \<Longrightarrow> addr + bb \<le> length p \<Longrightarrow> (\<forall>n \<ge> bpp. \<not> bit v n) \<Longrightarrow>
      \<exists>p'. bset p addr k v = Some p' \<and> writes_pixel little bpp bb addr k v p p'"
  shows "packed_format rget bpp bb bp little rset"
proof (rule packed_format.intro [OF reader], rule packed_format_axioms.intro)
    fix p rb x y and v :: u32
    assume d: "in_data bb bp p rb x y" and v: "unat v < 2 ^ bpp"
    from d have l: "blk bb bp rb x y + bb \<le> length p" by (simp add: in_data_def)
    have "unat x mod bp < bp" using assms(2) by simp
    from bset [OF this l value_bits [OF v]]
    show "\<exists>p'. rset p rb x y v = Some p' \<and>
        writes_pixel little bpp bb (blk bb bp rb x y) (unat x mod bp) v p p'"
      by (simp add: rset addr_blk [OF d c])
qed (rule assms)

lemmas accessor_simps = unat_and unat_mod

interpretation p10l: packed_format raw_get_pixel_10l 10 10 8 True raw_set_pixel_10l
  by (rule packed_formatI [OF packed_readerI, where c1 = 8 and d1 = 10 and c = 8 and d = 10
        and bget1 = get_10l and bset = set_10l])
    (simp_all add: raw_get_pixel_10l_def raw_set_pixel_10l_def accessor_simps
      get_10l_val set_10l_writes)

interpretation p10b: packed_format raw_get_pixel_10b 10 5 4 False raw_set_pixel_10b
  by (rule packed_formatI [OF packed_readerI, where c1 = 4 and d1 = 5 and c = 4 and d = 5
        and bget1 = get_10b and bset = set_10b])
    (simp_all add: raw_get_pixel_10b_def raw_set_pixel_10b_def accessor_simps
      get_10b_val set_10b_writes)

interpretation p12l: packed_format raw_get_pixel_12l 12 6 4 True raw_set_pixel_12l
  by (rule packed_formatI [OF packed_readerI, where c1 = 4 and d1 = 6 and c = 4 and d = 6
        and bget1 = get_12l and bset = set_12l])
    (simp_all add: raw_get_pixel_12l_def raw_set_pixel_12l_def accessor_simps
      get_12l_val set_12l_writes)

interpretation p12b: packed_format raw_get_pixel_12b 12 3 2 False raw_set_pixel_12b
  by (rule packed_formatI [OF packed_readerI, where c1 = 2 and d1 = 3 and c = 2 and d = 3
        and bget1 = get_12b and bset = set_12b])
    (simp_all add: raw_get_pixel_12b_def raw_set_pixel_12b_def accessor_simps
      get_12b_val set_12b_writes)

interpretation p14l: packed_format raw_get_pixel_14l 14 14 8 True raw_set_pixel_14l
  by (rule packed_formatI [OF packed_readerI, where c1 = 8 and d1 = 14 and c = 8 and d = 14
        and bget1 = get_14l and bset = set_14l])
    (simp_all add: raw_get_pixel_14l_def raw_set_pixel_14l_def accessor_simps
      get_14l_val set_14l_writes)

interpretation p14b: packed_reader raw_get_pixel_14b 14 7 4 False
  by (rule packed_readerI [where c = 4 and d = 7 and bget = get_14b])
    (simp_all add: raw_get_pixel_14b_def accessor_simps get_14b_val)

text \<open>For the first block of every eight pixels the setter of the 14 bit big endian format is
  correct as well; for the second it does nothing.\<close>

lemma set_14b_first:
  assumes d: "in_data 7 4 p rb x y" and x: "unat x mod 8 < 4" and v: "unat v < 2 ^ 14"
  shows "\<exists>p'. raw_set_pixel_14b p rb x y v = Some p' \<and>
    writes_pixel False 14 7 (blk 7 4 rb x y) (unat x mod 4) v p p'"
proof -
  have l: "blk 7 4 rb x y + 7 \<le> length p" using d by (simp add: in_data_def)
  have m: "unat x mod 8 = unat x mod 4"
    using x mod_mod_cancel [of 4 8 "unat x"] by simp
  show ?thesis
    using set_14b_writes [OF _ l value_bits [OF v], of "unat x mod 4"]
    by (simp add: raw_set_pixel_14b_def addr_blk [OF d] unat_mod m)
qed

lemma set_14b_second:
  "4 \<le> unat x mod 8 \<Longrightarrow> raw_set_pixel_14b p rb x y v = Some p"
  by (simp add: raw_set_pixel_14b_def unat_mod set_14b_ignored)

text \<open>8 and 16 bits: a block is one pixel.\<close>

lemma pixel_val_8: "pixel_val False 8 p addr 0 = ucast (p ! addr)"
  by (rule bit_word_eqI; unfold len32_cases; elim disjE; simp add: bit_pixel_val sbit_def;
      simp add: bit_simps word_bits)

lemma pixel_val_16b: "pixel_val False 16 p addr 0 = push_bit 8 (ucast (p ! addr)) OR ucast (p ! (addr + 1))"
  by (rule bit_word_eqI; unfold len32_cases; elim disjE; simp add: bit_pixel_val sbit_def;
      simp add: bit_simps word_bits)

lemma pixel_val_16l: "pixel_val True 16 p addr 0 = push_bit 8 (ucast (p ! (addr + 1))) OR ucast (p ! addr)"
  by (rule bit_word_eqI; unfold len32_cases; elim disjE; simp add: bit_pixel_val sbit_def;
      simp add: bit_simps word_bits)

lemma writes_8:
  "writes_pixel False 8 1 addr 0 v p (p[addr := ucast v])" if "addr < length p"
  using that
  by (intro writesI; (simp add: same_outside_simps; fail)?; unfold less_numeral_cases;
      auto simp: sbit_def bit_simps)

lemma writes_16b:
  "addr + 1 < length p \<Longrightarrow>
   writes_pixel False 16 2 addr 0 v p (p[addr := ucast (drop_bit 8 v), Suc addr := ucast v])"
  by (rule writesI; (simp add: same_outside_simps; fail)?; unfold less_numeral_cases;
      elim disjE; simp add: sbit_def; simp add: bit_simps)

lemma writes_16l:
  "addr + 1 < length p \<Longrightarrow>
   writes_pixel True 16 2 addr 0 v p (p[addr := ucast v, Suc addr := ucast (drop_bit 8 v)])"
  by (rule writesI; (simp add: same_outside_simps; fail)?; unfold less_numeral_cases;
      elim disjE; simp add: sbit_def; simp add: bit_simps)

lemma in_data_8:
  assumes "in_data 1 1 p rb x y"
  shows "unat (y * rb + x) = blk 1 1 rb x y" and "blk 1 1 rb x y < length p"
proof -
  have b: "unat y * unat rb + unat x + 1 \<le> length p" "length p < 4294967296"
    using in_data_bounds [OF assms] by simp_all
  then have "unat (y * rb) = unat y * unat rb" by (intro unat_mult_lem [THEN iffD1]) simp
  with b show "unat (y * rb + x) = blk 1 1 rb x y"
    by (subst unat_add_lem [THEN iffD1]) (simp_all add: blk_def)
  show "blk 1 1 rb x y < length p" using b by (simp add: blk_def)
qed

lemma in_data_16:
  assumes "in_data 2 1 p rb x y"
  shows "unat (y * rb) + unat (x * 2) = blk 2 1 rb x y"
    and "unat (y * rb + x * 2) = blk 2 1 rb x y" and "unat (y * rb + x * 2 + 1) = blk 2 1 rb x y + 1"
    and "blk 2 1 rb x y + 1 < length p"
proof -
  have b: "unat y * unat rb + unat x * 2 + 2 \<le> length p" "length p < 4294967296"
    using in_data_bounds [OF assms] by simp_all
  then have m: "unat (y * rb) = unat y * unat rb" "unat (x * 2) = unat x * 2"
    by (auto intro!: unat_mult_lem [THEN iffD1] simp: unat_mult_lem [of x 2, simplified, symmetric])
  then show "unat (y * rb) + unat (x * 2) = blk 2 1 rb x y" by (simp add: blk_def)
  have s: "unat (y * rb + x * 2) = unat y * unat rb + unat x * 2"
    using b m by (subst unat_add_lem [THEN iffD1]) simp_all
  then show "unat (y * rb + x * 2) = blk 2 1 rb x y" by (simp add: blk_def)
  have "unat (y * rb + x * 2 + 1) = unat (y * rb + x * 2) + unat (1 :: u32)"
    using b s by (intro unat_add_lem [THEN iffD1]) simp
  with s show "unat (y * rb + x * 2 + 1) = blk 2 1 rb x y + 1" by (simp add: blk_def)
  show "blk 2 1 rb x y + 1 < length p" using b by (simp add: blk_def)
qed

interpretation p8l: packed_format raw_get_pixel_8l 8 1 1 False raw_set_pixel_8l
proof unfold_locales
  fix p rb x y
  assume "in_data 1 1 p rb x y"
  note i = in_data_8 [OF this]
  show "raw_get_pixel_8l p rb x y = Some (pixel_val False 8 p (blk 1 1 rb x y) (unat x mod 1))"
    by (simp add: raw_get_pixel_8l_def i [simplified] mem_simps pixel_val_8)
  fix v :: u32
  show "\<exists>p'. raw_set_pixel_8l p rb x y v = Some p' \<and>
      writes_pixel False 8 1 (blk 1 1 rb x y) (unat x mod 1) v p p'"
    by (simp add: raw_set_pixel_8l_def i [simplified] mem_simps writes_8 [simplified])
qed simp_all

interpretation p16l: packed_format raw_get_pixel_16l 16 2 1 True raw_set_pixel_16l
proof unfold_locales
  fix p rb x y
  assume "in_data 2 1 p rb x y"
  note i = in_data_16 [OF this]
  show "raw_get_pixel_16l p rb x y = Some (pixel_val True 16 p (blk 2 1 rb x y) (unat x mod 1))"
    using i(4) by (simp add: raw_get_pixel_16l_def Let_def i(1) mem_simps pixel_val_16l)
  fix v :: u32
  show "\<exists>p'. raw_set_pixel_16l p rb x y v = Some p' \<and>
      writes_pixel True 16 2 (blk 2 1 rb x y) (unat x mod 1) v p p'"
    using i(4) by (simp add: raw_set_pixel_16l_def Let_def i(1) mem_simps writes_16l)
qed simp_all

interpretation p16b: packed_format raw_get_pixel_16b 16 2 1 False raw_set_pixel_16b
proof unfold_locales
  fix p rb x y
  assume "in_data 2 1 p rb x y"
  note i = in_data_16 [OF this]
  show "raw_get_pixel_16b p rb x y = Some (pixel_val False 16 p (blk 2 1 rb x y) (unat x mod 1))"
    using i(4) by (simp add: raw_get_pixel_16b_def i(2,3) mem_simps pixel_val_16b)
  fix v :: u32
  show "\<exists>p'. raw_set_pixel_16b p rb x y v = Some p' \<and>
      writes_pixel False 16 2 (blk 2 1 rb x y) (unat x mod 1) v p p'"
    using i(4) by (simp add: raw_set_pixel_16b_def i(2,3) mem_simps writes_16b)
qed simp_all

end
