(* ===== verification/Rawimg.thy ===== *)
theory Rawimg
  imports Rawpix
begin

text \<open>
  Raw images (\<open>rawimg.c\<close>): the table of formats, the image record, and the operations the
  library offers to Lua: binding an image to a buffer, pixel access, defect patching, thumbnail
  and format conversion. The arguments of the Lua functions appear as the C values the code
  computes from them; a Lua error is an \<open>Inl\<close> with the message. The buffer of an image is
  \<open>img_data\<close>, the bytes of the lbuf from the image's first byte on.
\<close>

section \<open>Formats\<close>

record raw_format_t =
  bpp :: u32
  endian :: u32
  block_bytes :: u32
  block_pixels :: u32
  get_pixel :: "bytes \<Rightarrow> u32 \<Rightarrow> u32 \<Rightarrow> u32 \<Rightarrow> u32 option"
  set_pixel :: "bytes \<Rightarrow> u32 \<Rightarrow> u32 \<Rightarrow> u32 \<Rightarrow> u32 \<Rightarrow> bytes option"

definition RAW_ENDIAN_l :: u32 where "RAW_ENDIAN_l = 0"
definition RAW_ENDIAN_b :: u32 where "RAW_ENDIAN_b = 1"

text \<open>\<open>FMT_DEF_SINGLE\<close>: the number of pixels of a block follows from its bytes.\<close>

definition FMT_DEF_SINGLE where
  "FMT_DEF_SINGLE BPP ENDIAN BYTES getf setf =
     \<lparr> bpp = BPP, endian = ENDIAN, block_bytes = BYTES, block_pixels = BYTES * 8 div BPP,
       get_pixel = getf, set_pixel = setf \<rparr>"

definition raw_formats :: "raw_format_t list" where
  "raw_formats =
     [FMT_DEF_SINGLE 8 RAW_ENDIAN_l 1 raw_get_pixel_8l raw_set_pixel_8l,
      FMT_DEF_SINGLE 10 RAW_ENDIAN_l 10 raw_get_pixel_10l raw_set_pixel_10l,
      FMT_DEF_SINGLE 10 RAW_ENDIAN_b 5 raw_get_pixel_10b raw_set_pixel_10b,
      FMT_DEF_SINGLE 12 RAW_ENDIAN_l 6 raw_get_pixel_12l raw_set_pixel_12l,
      FMT_DEF_SINGLE 12 RAW_ENDIAN_b 3 raw_get_pixel_12b raw_set_pixel_12b,
      FMT_DEF_SINGLE 14 RAW_ENDIAN_l 14 raw_get_pixel_14l raw_set_pixel_14l,
      FMT_DEF_SINGLE 14 RAW_ENDIAN_b 7 raw_get_pixel_14b raw_set_pixel_14b,
      FMT_DEF_SINGLE 16 RAW_ENDIAN_l 2 raw_get_pixel_16l raw_set_pixel_16l,
      FMT_DEF_SINGLE 16 RAW_ENDIAN_b 2 raw_get_pixel_16b raw_set_pixel_16b]"

definition rawimg_find_format :: "u32 \<Rightarrow> u32 \<Rightarrow> raw_format_t option" where
  "rawimg_find_format b e = find (\<lambda>fmt. bpp fmt = b \<and> (b = 8 \<or> endian fmt = e)) raw_formats"

text \<open>The bit order of a format; 8 bit pixels have none.\<close>

definition little_fmt :: "raw_format_t \<Rightarrow> bool" where
  "little_fmt fmt \<longleftrightarrow> endian fmt = RAW_ENDIAN_l \<and> bpp fmt \<noteq> 8"

definition reads_pixels :: "raw_format_t \<Rightarrow> bool" where
  "reads_pixels fmt \<longleftrightarrow>
     packed_reader (get_pixel fmt) (unat (bpp fmt)) (unat (block_bytes fmt))
       (unat (block_pixels fmt)) (little_fmt fmt)"

definition writes_pixels :: "raw_format_t \<Rightarrow> bool" where
  "writes_pixels fmt \<longleftrightarrow>
     packed_format (get_pixel fmt) (unat (bpp fmt)) (unat (block_bytes fmt))
       (unat (block_pixels fmt)) (little_fmt fmt) (set_pixel fmt)"

lemmas fmt_simps = FMT_DEF_SINGLE_def little_fmt_def RAW_ENDIAN_l_def RAW_ENDIAN_b_def

lemma writes_reads: "writes_pixels fmt \<Longrightarrow> reads_pixels fmt"
  by (simp add: writes_pixels_def reads_pixels_def packed_format_def)

text \<open>Every getter of the table reads the bit stream, every setter but the one of 14 bit big
  endian writes it.\<close>

lemma raw_formats_contracts:
  "\<forall>fmt \<in> set raw_formats. reads_pixels fmt \<and>
     (writes_pixels fmt \<or> bpp fmt = 14 \<and> endian fmt = RAW_ENDIAN_b)"
  by (simp add: raw_formats_def reads_pixels_def writes_pixels_def fmt_simps
      p8l.packed_reader_axioms p10l.packed_reader_axioms p10b.packed_reader_axioms
      p12l.packed_reader_axioms p12b.packed_reader_axioms p14l.packed_reader_axioms
      p14b.packed_reader_axioms p16l.packed_reader_axioms p16b.packed_reader_axioms
      p8l.packed_format_axioms p10l.packed_format_axioms p10b.packed_format_axioms
      p12l.packed_format_axioms p12b.packed_format_axioms p14l.packed_format_axioms
      p16l.packed_format_axioms p16b.packed_format_axioms
      p8l.packed_format_axioms [simplified] p8l.packed_reader_axioms [simplified]
      p16l.packed_format_axioms [simplified] p16l.packed_reader_axioms [simplified]
      p16b.packed_format_axioms [simplified] p16b.packed_reader_axioms [simplified])

section \<open>Images\<close>

record raw_image_t =
  fmt :: raw_format_t
  row_bytes :: u32
  width :: u32
  height :: u32
  cfa_pattern :: bytes
  active_top :: u32
  active_left :: u32
  active_bottom :: u32
  active_right :: u32
  black_level :: u32
  img_data :: bytes

text \<open>The fields of the table \<open>bind_lbuf\<close> reads; \<open>im_endian\<close> is the index of the option string.\<close>

record imgspec =
  im_data :: bytes
  im_data_offset :: u32
  im_width :: u32
  im_height :: u32
  im_bpp :: u32
  im_endian :: u32
  im_black_level :: u32
  im_cfa_pattern :: "bytes option"
  im_active_area :: "(u32 \<times> u32 \<times> u32 \<times> u32) option"

datatype raw_error =
    Unknown_cfa_pattern | Active_top_ge_bottom | Active_left_ge_right | Active_right_gt_width
  | Active_bottom_gt_height | Unknown_format | Width_not_multiple | Size_larger_than_data
  | Thumb_larger | Zero_dimensions | Lbuf_size_mismatched

definition guard_err :: "bool \<Rightarrow> 'e \<Rightarrow> 'e + 'a \<Rightarrow> 'e + 'a" where
  "guard_err bad e k = (if bad then Inl e else k)"

definition rawimg_lua_bind_lbuf :: "imgspec \<Rightarrow> raw_error + raw_image_t" where
  "rawimg_lua_bind_lbuf s =
     guard_err (case im_cfa_pattern s of None \<Rightarrow> False | Some c \<Rightarrow> length c \<noteq> 4) Unknown_cfa_pattern
     (let cfa = (case im_cfa_pattern s of None \<Rightarrow> [0, 0, 0, 0] | Some c \<Rightarrow> c);
          w = im_width s; h = im_height s;
          (top, left, bottom, right) =
            (case im_active_area s of None \<Rightarrow> (0, 0, h, w) | Some area \<Rightarrow> area);
          given = (im_active_area s \<noteq> None)
      in
      guard_err (given \<and> top \<ge> bottom) Active_top_ge_bottom (
      guard_err (given \<and> left \<ge> right) Active_left_ge_right (
      guard_err (given \<and> left > w) Active_right_gt_width (
      guard_err (given \<and> bottom > h) Active_bottom_gt_height (
      case rawimg_find_format (im_bpp s) (im_endian s) of
        None \<Rightarrow> Inl Unknown_format
      | Some f \<Rightarrow>
          guard_err (w mod block_pixels f \<noteq> 0) Width_not_multiple
          (let rb = (w * bpp f) div 8 in
           guard_err (im_data_offset s + rb * h > of_nat (length (im_data s))) Size_larger_than_data
           (Inr \<lparr> fmt = f, row_bytes = rb, width = w, height = h, cfa_pattern = cfa,
                  active_top = top, active_left = left, active_bottom = bottom,
                  active_right = right, black_level = im_black_level s,
                  img_data = drop (unat (im_data_offset s)) (im_data s) \<rparr>)))))))"

section \<open>Pixels\<close>

text \<open>\<open>img:get_pixel(x,y)\<close>: \<open>Some None\<close> is Lua's nil.\<close>

definition rawimg_lua_get_pixel :: "raw_image_t \<Rightarrow> u32 \<Rightarrow> u32 \<Rightarrow> u32 option option" where
  "rawimg_lua_get_pixel img x y =
     (if x \<ge> width img \<or> y \<ge> height img then Some None
      else map_option Some (get_pixel (fmt img) (img_data img) (row_bytes img) x y))"

definition rawimg_lua_set_pixel :: "raw_image_t \<Rightarrow> u32 \<Rightarrow> u32 \<Rightarrow> u32 \<Rightarrow> raw_image_t option" where
  "rawimg_lua_set_pixel img x y val =
     (if x < width img \<or> y < height img
      then map_option (\<lambda>d. img \<lparr> img_data := d \<rparr>)
             (set_pixel (fmt img) (img_data img) (row_bytes img) x y val)
      else Some img)"

definition rawimg_lua_get_width :: "raw_image_t \<Rightarrow> u32" where
  "rawimg_lua_get_width img = width img"

definition rawimg_lua_get_height :: "raw_image_t \<Rightarrow> u32" where
  "rawimg_lua_get_height img = height img"

definition rawimg_lua_get_bpp :: "raw_image_t \<Rightarrow> u32" where
  "rawimg_lua_get_bpp img = bpp (fmt img)"

text \<open>The Lua strings, or None for the error \<open>invalid endian\<close>.\<close>

definition rawimg_lua_get_endian :: "raw_image_t \<Rightarrow> string option" where
  "rawimg_lua_get_endian img =
     (if endian (fmt img) = RAW_ENDIAN_l then Some ''little''
      else if endian (fmt img) = RAW_ENDIAN_b then Some ''big'' else None)"

definition rawimg_lua_get_cfa_pattern :: "raw_image_t \<Rightarrow> bytes" where
  "rawimg_lua_get_cfa_pattern img = take 4 (cfa_pattern img)"

definition CFA_RED :: byte where "CFA_RED = 0"
definition CFA_GREEN :: byte where "CFA_GREEN = 1"
definition CFA_BLUE :: byte where "CFA_BLUE = 2"

definition cfa_color :: "raw_image_t \<Rightarrow> u32 \<Rightarrow> u32 \<Rightarrow> byte option" where
  "cfa_color img x y = ld8 (cfa_pattern img) (unat ((x AND 1) + (y AND 1) * 2))"

definition rawimg_get_pixel_safe :: "raw_image_t \<Rightarrow> u32 \<Rightarrow> u32 \<Rightarrow> u32 option" where
  "rawimg_get_pixel_safe img x y =
     (if x \<ge> width img \<or> y \<ge> height img then Some 0
      else get_pixel (fmt img) (img_data img) (row_bytes img) x y)"

section \<open>Patching\<close>

definition rawimg_patch_pixel :: "raw_image_t \<Rightarrow> u32 \<Rightarrow> u32 \<Rightarrow> (raw_image_t \<times> u32) option" where
  "rawimg_patch_pixel img x y = do {
     c \<leftarrow> cfa_color img x y;
     neigh \<leftarrow> those
       (if c = CFA_GREEN then
          [rawimg_get_pixel_safe img (x - 1) (y - 1), rawimg_get_pixel_safe img (x + 1) (y - 1),
           rawimg_get_pixel_safe img (x - 1) (y + 1), rawimg_get_pixel_safe img (x + 1) (y + 1)]
        else
          [rawimg_get_pixel_safe img (x - 2) y, rawimg_get_pixel_safe img (x + 2) y,
           rawimg_get_pixel_safe img x (y - 2), rawimg_get_pixel_safe img x (y + 2)]);
     let good = filter (\<lambda>v. v > black_level img) neigh;
     let total = sum_list good;
     let count = (of_nat (length good) :: u32);
     if count \<noteq> 0 then do {
       d \<leftarrow> set_pixel (fmt img) (img_data img) (row_bytes img) x y (total div count);
       Some (img \<lparr> img_data := d \<rparr>, 1)
     } else Some (img, 0)
   }"

text \<open>The values of a loop \<open>for (i = a; i < b; i++)\<close> over \<open>unsigned\<close>.\<close>

definition urange :: "u32 \<Rightarrow> u32 \<Rightarrow> u32 list" where
  "urange a b = map of_nat [unat a..<unat b]"

definition rawimg_lua_patch_pixels :: "raw_image_t \<Rightarrow> u32 \<Rightarrow> (raw_image_t \<times> u32) option" where
  "rawimg_lua_patch_pixels img badval =
     ofold (\<lambda>y. ofold (\<lambda>x (img, count). do {
         val \<leftarrow> get_pixel (fmt img) (img_data img) (row_bytes img) x y;
         if val \<le> badval then do {
           (img, n) \<leftarrow> rawimg_patch_pixel img x y;
           Some (img, count + n)
         } else Some (img, count)
       }) (urange (active_left img) (active_right img)))
       (urange (active_top img) (active_bottom img)) (img, 0)"

section \<open>Thumbnails\<close>

text \<open>The offsets of a colour in the 2x2 pattern: the last entry with that colour.\<close>

definition cfa_offsets :: "bytes \<Rightarrow> byte \<Rightarrow> u32 \<times> u32" where
  "cfa_offsets cfa c =
     foldl (\<lambda>acc i. if cfa ! i = c then (of_nat (i mod 2), of_nat (i div 2)) else acc)
       (0, 0) [0..<4]"

definition rawimg_lua_make_rgb_thumb ::
  "raw_image_t \<Rightarrow> u32 \<Rightarrow> u32 \<Rightarrow> (raw_error + bytes) option" where
  "rawimg_lua_make_rgb_thumb img w h =
     (let iw = active_right img - active_left img; ih = active_bottom img - active_top img in
      if w > iw \<or> h > ih then Some (Inl Thumb_larger)
      else if w = 0 \<or> h = 0 then Some (Inl Zero_dimensions)
      else if length (cfa_pattern img) \<noteq> 4 then None
      else
        (let (rx, ry) = cfa_offsets (cfa_pattern img) CFA_RED;
             (gx, gy) = cfa_offsets (cfa_pattern img) CFA_GREEN;
             (bx, by) = cfa_offsets (cfa_pattern img) CFA_BLUE;
             shift = unat (bpp (fmt img) - 8);
             get = get_pixel (fmt img) (img_data img) (row_bytes img)
         in map_option (\<lambda>(thumb, p). Inr thumb)
           (ofold (\<lambda>ty. ofold (\<lambda>tx (thumb, p). do {
              let ix = (active_left img + tx * iw div w) AND NOT 1;
              let iy = (active_top img + ty * ih div h) AND NOT 1;
              r \<leftarrow> get (ix + rx) (iy + ry);
              thumb \<leftarrow> st8 thumb p (ucast (drop_bit shift r));
              g \<leftarrow> get (ix + gx) (iy + gy);
              thumb \<leftarrow> st8 thumb (p + 1) (ucast (drop_bit shift g));
              b \<leftarrow> get (bx + gx) (iy + by);
              thumb \<leftarrow> st8 thumb (p + 2) (ucast (drop_bit shift b));
              Some (thumb, p + 3)
            }) (urange 0 w)) (urange 0 h) (replicate (unat (w * h * 3)) 0, 0))))"

section \<open>Conversion\<close>

definition valshift :: "u32 \<Rightarrow> u32 \<Rightarrow> bool \<Rightarrow> bool \<Rightarrow> int" where
  "valshift old new up down =
     (if old > new then (if down then uint old - uint new else 0)
      else (if up then uint old - uint new else 0))"

definition convert_value :: "int \<Rightarrow> u32 \<Rightarrow> u32" where
  "convert_value shift v = (if shift < 0 then push_bit (nat (- shift)) v else drop_bit (nat shift) v)"

text \<open>The pixel loops of \<open>convert\<close>: from the image into the buffer \<open>dst\<close> of the new one.\<close>

definition convert_pixels ::
  "raw_image_t \<Rightarrow> raw_format_t \<Rightarrow> u32 \<Rightarrow> int \<Rightarrow> bytes \<Rightarrow> bytes option" where
  "convert_pixels img newfmt rb shift dst =
     ofold (\<lambda>y. ofold (\<lambda>x dst. do {
         v \<leftarrow> get_pixel (fmt img) (img_data img) (row_bytes img) x y;
         set_pixel newfmt dst rb x y (convert_value shift v)
       }) (urange 0 (width img))) (urange 0 (height img)) dst"

text \<open>
  \<open>newimg, obj = img:convert(options)\<close>. \<open>lbuf\<close> is the optional destination buffer, which is not
  the one that holds the image; \<open>fresh n\<close> is what \<open>malloc(n)\<close> returns. The result is the new
  image, the second value returned, and the entry added to the registry of live buffers (key,
  value). A shift of the black level by a negative amount is undefined in C.
\<close>

datatype lua_obj = L_img | L_lbuf | L_options

definition rawimg_lua_convert ::
  "(nat \<Rightarrow> bytes) \<Rightarrow> raw_image_t \<Rightarrow> u32 \<Rightarrow> u32 \<Rightarrow> bool \<Rightarrow> bool \<Rightarrow> bytes option \<Rightarrow>
   (raw_error + raw_image_t \<times> lua_obj \<times> lua_obj \<times> lua_obj) option" where
  "rawimg_lua_convert fresh img newbpp newendian up down lbuf =
     (let new_size = width img * height img * newbpp div 8;
          shift = valshift (bpp (fmt img)) newbpp up down
      in case rawimg_find_format newbpp newendian of
           None \<Rightarrow> Some (Inl Unknown_format)
         | Some newfmt \<Rightarrow>
             if shift < 0 then None
             else
               (let rb = width img * newbpp div 8;
                    black = drop_bit (nat shift) (black_level img)
                in case (case lbuf of None \<Rightarrow> Some (fresh (unat new_size), L_lbuf)
                         | Some b \<Rightarrow> if of_nat (length b) \<noteq> new_size then None
                                    else Some (b, L_options)) of
                     None \<Rightarrow> Some (Inl Lbuf_size_mismatched)
                   | Some (dst, ret2) \<Rightarrow> do {
                       d \<leftarrow> convert_pixels img newfmt rb shift dst;
                       Some (Inr (img \<lparr> fmt := newfmt, row_bytes := rb, black_level := black,
                                        img_data := d \<rparr>, ret2, ret2, L_img))
                     }))"

section \<open>Well-formed images\<close>

text \<open>The rows hold whole blocks and lie in the buffer, with no arithmetic wrap.\<close>

definition grid_ok :: "raw_format_t \<Rightarrow> u32 \<Rightarrow> u32 \<Rightarrow> u32 \<Rightarrow> nat \<Rightarrow> bool" where
  "grid_ok f rb w h len \<longleftrightarrow>
     unat w mod unat (block_pixels f) = 0 \<and>
     unat rb = unat w div unat (block_pixels f) * unat (block_bytes f) \<and>
     unat rb * unat h \<le> len \<and> len < 2 ^ 32"

definition img_wf :: "raw_image_t \<Rightarrow> bool" where
  "img_wf img \<longleftrightarrow>
     fmt img \<in> set raw_formats \<and>
     grid_ok (fmt img) (row_bytes img) (width img) (height img) (length (img_data img)) \<and>
     length (cfa_pattern img) = 4 \<and>
     active_top img \<le> active_bottom img \<and> active_bottom img \<le> height img \<and>
     active_left img \<le> active_right img"

lemma writes_pixelsD:
  assumes "writes_pixels f"
  shows "packed_format (get_pixel f) (unat (bpp f)) (unat (block_bytes f)) (unat (block_pixels f))
    (little_fmt f) (set_pixel f)"
  using assms by (simp add: writes_pixels_def)

lemma raw_formats_geometry:
  "\<forall>f \<in> set raw_formats. 0 < unat (block_pixels f) \<and> 0 < unat (bpp f) \<and> unat (bpp f) \<le> 16 \<and>
     unat (block_bytes f) * 8 = unat (block_pixels f) * unat (bpp f)"
  by (simp add: raw_formats_def FMT_DEF_SINGLE_def)

text \<open>Inside a well-formed grid every pixel lies in the buffer, and two pixels are apart.\<close>

lemma grid_in_data:
  assumes "grid_ok f rb w h (length p)" "x < w" "y < h" "0 < unat (block_pixels f)"
  shows "in_data (unat (block_bytes f)) (unat (block_pixels f)) p rb x y"
proof -
  let ?bp = "unat (block_pixels f)" and ?bb = "unat (block_bytes f)"
  have w: "unat w mod ?bp = 0" and rb: "unat rb = unat w div ?bp * ?bb"
    and len: "unat rb * unat h \<le> length p" "length p < 2 ^ 32"
    using assms(1) unfolding grid_ok_def by blast+
  have "unat x < unat w" "unat y < unat h" using assms(2,3) by (simp_all add: word_less_nat_alt)
  have "unat w = unat w div ?bp * ?bp" using w by (simp add: mod_eq_0_iff_dvd)
  with \<open>unat x < unat w\<close> have "unat x div ?bp < unat w div ?bp"
    by (metis less_mult_imp_div_less)
  then have "(unat x div ?bp + 1) * ?bb \<le> unat w div ?bp * ?bb" by (intro mult_le_mono1) simp
  then have "unat x div ?bp * ?bb + ?bb \<le> unat rb" by (simp add: rb)
  moreover have "unat y * unat rb + unat rb \<le> unat h * unat rb"
    using mult_le_mono1 [of "unat y + 1" "unat h" "unat rb"] \<open>unat y < unat h\<close> by simp
  ultimately show ?thesis using len by (simp add: in_data_def blk_def mult.commute)
qed

lemma grid_apart':
  assumes "grid_ok f rb w h len" "x < w" "x' < w" "0 < unat (block_pixels f)" "(x, y) \<noteq> (x', y')"
  shows "apart (unat (block_bytes f)) (unat (block_pixels f)) rb x y x' y'"
  using assms by (intro grid_apart [of _ "unat w"]) (auto simp: grid_ok_def word_less_nat_alt)

lemma set_urange0: "x \<in> set (urange 0 w) \<longleftrightarrow> x < w"
proof
  assume "x < w"
  then have "unat x < unat w" by (simp add: word_less_nat_alt)
  then have "of_nat (unat x) \<in> set (urange 0 w)"
    unfolding urange_def set_map by (intro imageI) simp
  then show "x \<in> set (urange 0 w)" by simp
next
  assume "x \<in> set (urange 0 w)"
  then obtain n where "x = of_nat n" "n < unat w" by (auto simp: urange_def)
  then show "x < w"
    using le_less_trans [OF _ \<open>n < unat w\<close>, of "unat x"]
    by (simp add: word_less_nat_alt unat_of_nat take_bit_eq_mod)
qed

text \<open>A getter returns a value of \<open>bpp\<close> bits on every pixel of the grid.\<close>

lemma grid_get:
  assumes "f \<in> set raw_formats" "grid_ok f rb w h (length p)" "x < w" "y < h"
  shows "\<exists>v. get_pixel f p rb x y = Some v \<and> unat v < 2 ^ unat (bpp f)"
proof -
  have "reads_pixels f" and bp: "0 < unat (block_pixels f)"
    using assms(1) raw_formats_contracts raw_formats_geometry by auto
  then have r: "packed_reader (get_pixel f) (unat (bpp f)) (unat (block_bytes f))
      (unat (block_pixels f)) (little_fmt f)" by (simp add: reads_pixels_def)
  note d = grid_in_data [OF assms(2-4) bp]
  from packed_reader.get_law [OF r d] obtain v where "get_pixel f p rb x y = Some v" by blast
  with packed_reader.get_bound [OF r d] show ?thesis by blast
qed

text \<open>After a pixel is written it has the new value, all others of the grid keep theirs.\<close>

lemma grid_set:
  assumes "writes_pixels f" "0 < unat (block_pixels f)" "grid_ok f rb w h (length p)" "x < w" "y < h"
    and "unat v < 2 ^ unat (bpp f)"
  obtains p' where "set_pixel f p rb x y v = Some p'" and "length p' = length p"
    and "\<And>x' y'. x' < w \<Longrightarrow> y' < h \<Longrightarrow>
      get_pixel f p' rb x' y' = (if (x', y') = (x, y) then Some v else get_pixel f p rb x' y')"
proof -
  note l = writes_pixelsD [OF assms(1)]
  note d = grid_in_data [OF assms(3-5,2)]
  from packed_format.set_returns [OF l d assms(6)]
  obtain p' where p': "set_pixel f p rb x y v = Some p'" "length p' = length p" by blast
  show thesis
  proof (rule that [OF p'])
    fix x' y'
    assume "x' < w" "y' < h"
    then show "get_pixel f p' rb x' y' = (if (x', y') = (x, y) then Some v else get_pixel f p rb x' y')"
      using packed_format.get_set_same [OF l d assms(6) p'(1)]
        packed_format.get_set_other [OF l d assms(6) p'(1)
          grid_in_data [OF assms(3) \<open>x' < w\<close> \<open>y' < h\<close> assms(2)]]
        grid_apart' [OF assms(3,4) \<open>x' < w\<close> assms(2), of y y'] by auto
  qed
qed

text \<open>The conversion loop writes the converted value of every pixel.\<close>

lemma convert_pixels_correct:
  assumes src: "fmt img \<in> set raw_formats"
      "grid_ok (fmt img) (row_bytes img) (width img) (height img) (length (img_data img))"
    and dst: "writes_pixels newfmt" "0 < unat (block_pixels newfmt)"
      "grid_ok newfmt rb (width img) (height img) (length dst)"
    and fits: "\<And>v. unat v < 2 ^ unat (bpp (fmt img)) \<Longrightarrow>
      unat (convert_value shift v) < 2 ^ unat (bpp newfmt)"
  shows "\<exists>d. convert_pixels img newfmt rb shift dst = Some d \<and> length d = length dst \<and>
    (\<forall>x < width img. \<forall>y < height img.
       get_pixel newfmt d rb x y =
         map_option (convert_value shift)
           (get_pixel (fmt img) (img_data img) (row_bytes img) x y))"
proof -
  let ?w = "width img" and ?h = "height img"
  let ?get = "get_pixel (fmt img) (img_data img) (row_bytes img)"
  let ?f = "\<lambda>x y dst. do { v \<leftarrow> ?get x y; set_pixel newfmt dst rb x y (convert_value shift v) }"
  let ?xs = "concat (map (\<lambda>y. map (\<lambda>x. (x, y)) (urange 0 ?w)) (urange 0 ?h))"
  let ?P = "\<lambda>done d. length d = length dst \<and> (\<forall>x y. (x, y) \<in> set done \<longrightarrow>
      get_pixel newfmt d rb x y = map_option (convert_value shift) (?get x y))"
  have range: "(x, y) \<in> set ?xs \<longleftrightarrow> x < ?w \<and> y < ?h" for x y
    by (auto simp: set_urange0 [symmetric])
  have "\<exists>d. ofold (\<lambda>(x, y). ?f x y) ?xs dst = Some d \<and> ?P ?xs d"
  proof (rule ofold_prefix)
    fix pre p post d
    assume xs: "?xs = pre @ p # post" and P: "?P pre d"
    obtain x y where p: "p = (x, y)" by (cases p)
    have sub: "x' < ?w \<and> y' < ?h" if "(x', y') \<in> set (pre @ [p])" for x' y'
      using range [of x' y'] that unfolding xs by auto
    have xy: "x < ?w" "y < ?h" using sub [of x y] p by auto
    from grid_get [OF src xy] obtain v
      where v: "?get x y = Some v" "unat v < 2 ^ unat (bpp (fmt img))" by blast
    have g: "grid_ok newfmt rb ?w ?h (length d)" using dst(3) P by simp
    from grid_set [OF dst(1,2) g xy fits [OF v(2)]] obtain d'
      where d': "set_pixel newfmt d rb x y (convert_value shift v) = Some d'"
        "length d' = length d" and
        all: "\<And>x' y'. x' < ?w \<Longrightarrow> y' < ?h \<Longrightarrow> get_pixel newfmt d' rb x' y' =
          (if (x', y') = (x, y) then Some (convert_value shift v) else get_pixel newfmt d rb x' y')"
      by blast
    have "get_pixel newfmt d' rb x' y' = map_option (convert_value shift) (?get x' y')"
      if "(x', y') \<in> set (pre @ [p])" for x' y'
      using all [of x' y'] sub [OF that] that P v(1) p by (cases "(x', y') = (x, y)") auto
    then have "?P (pre @ [p]) d'" using P d'(2) by simp
    with v(1) d'(1) show "\<exists>d'. (case p of (x, y) \<Rightarrow> ?f x y) d = Some d' \<and> ?P (pre @ [p]) d'"
      by (auto simp: p)
  qed simp
  then obtain d where "ofold (\<lambda>(x, y). ?f x y) ?xs dst = Some d" and P: "?P ?xs d" by blast
  then have "convert_pixels img newfmt rb shift dst = Some d"
    unfolding convert_pixels_def by (subst ofold_nested)
  with P range show ?thesis by auto
qed

section \<open>Patching a pixel\<close>

lemma unat_sum_list:
  "sum_list (map unat xs) < 2 ^ 32 \<Longrightarrow> unat (sum_list xs :: u32) = sum_list (map unat xs)"
proof (induction xs)
  case (Cons x xs)
  then have "unat (sum_list xs) = sum_list (map unat xs)" by simp
  with Cons.prems show ?case by (simp add: unat_add_lem [THEN iffD1])
qed simp

text \<open>The average of at most four pixel values above the black level is again such a value.\<close>

lemma average_bounds:
  assumes "\<And>v. v \<in> set vs \<Longrightarrow> b < v \<and> unat v < 2 ^ n" and "n \<le> 16" and "vs \<noteq> []"
    and "length vs \<le> 4"
  shows "b < sum_list vs div of_nat (length vs)"
    and "unat (sum_list vs div of_nat (length vs) :: u32) < 2 ^ n"
proof -
  let ?S = "sum_list (map unat vs)" and ?l = "length vs"
  have v: "unat b + 1 \<le> unat v" "unat v \<le> 2 ^ n - 1" if "v \<in> set vs" for v
    using assms(1) [OF that] by (auto simp: word_less_nat_alt)
  have "sum_list (map (\<lambda>_. unat b + 1) vs) \<le> ?S"
    by (intro sum_list_mono v)
  then have lo: "?l * (unat b + 1) \<le> ?S" by (simp add: sum_list_triv)
  have "?S \<le> sum_list (map (\<lambda>_. 2 ^ n - 1) vs)"
    by (intro sum_list_mono v)
  then have hi: "?S \<le> ?l * (2 ^ n - 1)" by (simp add: sum_list_triv)
  have "(2 :: nat) ^ n \<le> 2 ^ 16" using assms(2) by (intro power_increasing) auto
  then have "?l * (2 ^ n - 1) \<le> 4 * 65536" using assms(4) by (intro mult_le_mono) auto
  with hi have sum: "unat (sum_list vs) = ?S" by (intro unat_sum_list) simp
  have len: "unat (of_nat ?l :: u32) = ?l"
    using assms(4) by (simp add: unat_of_nat take_bit_eq_mod)
  have pos: "0 < ?l" using assms(3) by simp
  have q: "unat (sum_list vs div of_nat ?l) = ?S div ?l" by (simp add: unat_div sum len)
  have "unat b + 1 \<le> ?S div ?l" using lo pos by (simp add: less_eq_div_iff_mult_less_eq mult.commute)
  then show "b < sum_list vs div of_nat ?l" by (simp add: word_less_nat_alt q)
  have "?S div ?l \<le> 2 ^ n - 1"
    using div_le_mono [OF hi, of ?l] pos by simp
  then show "unat (sum_list vs div of_nat ?l) < 2 ^ n"
    by (metis One_nat_def Suc_pred le_imp_less_Suc q zero_less_power zero_less_numeral)
qed

lemma get_pixel_safe_total:
  assumes "img_wf img"
  shows "\<exists>v. rawimg_get_pixel_safe img x y = Some v \<and> unat v < 2 ^ unat (bpp (fmt img))"
  using assms grid_get [of "fmt img" "row_bytes img" "width img" "height img" "img_data img" x y]
  by (auto simp: rawimg_get_pixel_safe_def img_wf_def not_le)

lemma those_total:
  "(\<And>x. x \<in> set xs \<Longrightarrow> \<exists>v. x = Some v \<and> P v) \<Longrightarrow> \<exists>vs. those xs = Some vs \<and> length vs = length xs \<and> (\<forall>v \<in> set vs. P v)"
proof (induction xs)
  case (Cons x xs)
  then obtain v vs where "x = Some v" "P v" "those xs = Some vs" "length vs = length xs"
    "\<forall>v \<in> set vs. P v" by fastforce
  then show ?case by (intro exI [of _ "v # vs"]) simp
qed simp

lemma cfa_color_total:
  assumes "length (cfa_pattern img) = 4"
  shows "\<exists>c. cfa_color img x y = Some c"
proof -
  have "unat ((x AND 1) + (y AND 1) * 2) < 4"
    by (cases "bit x 0"; cases "bit y 0") (simp_all add: and_one_eq mod_2_eq_odd bit_0)
  then show ?thesis using assms by (simp add: cfa_color_def mem_simps)
qed

lemma patch_pixel_cases:
  assumes wf: "img_wf img"
  shows "rawimg_patch_pixel img x y = Some (img, 0) \<or>
    (\<exists>v. black_level img < v \<and> unat v < 2 ^ unat (bpp (fmt img)) \<and>
       rawimg_patch_pixel img x y =
         map_option (\<lambda>d. (img \<lparr> img_data := d \<rparr>, 1))
           (set_pixel (fmt img) (img_data img) (row_bytes img) x y v))"
proof -
  from wf obtain c where c: "cfa_color img x y = Some c"
    using cfa_color_total [of img x y] by (auto simp: img_wf_def)
  let ?ns = "if c = CFA_GREEN then
      [rawimg_get_pixel_safe img (x - 1) (y - 1), rawimg_get_pixel_safe img (x + 1) (y - 1),
       rawimg_get_pixel_safe img (x - 1) (y + 1), rawimg_get_pixel_safe img (x + 1) (y + 1)]
    else
      [rawimg_get_pixel_safe img (x - 2) y, rawimg_get_pixel_safe img (x + 2) y,
       rawimg_get_pixel_safe img x (y - 2), rawimg_get_pixel_safe img x (y + 2)]"
  have "\<exists>vs. those ?ns = Some vs \<and> length vs = length ?ns \<and>
      (\<forall>v \<in> set vs. unat v < 2 ^ unat (bpp (fmt img)))"
    by (rule those_total) (auto split: if_splits intro: get_pixel_safe_total [OF wf])
  then obtain vs where vs: "those ?ns = Some vs" "length vs = 4"
    "\<forall>v \<in> set vs. unat v < 2 ^ unat (bpp (fmt img))" by (auto split: if_splits)
  let ?good = "filter (\<lambda>v. v > black_level img) vs"
  have len: "length ?good \<le> 4" using vs(2) length_filter_le [of _ vs] by metis
  have cnt: "(of_nat (length ?good) :: u32) = 0 \<longleftrightarrow> ?good = []"
    using len by (auto simp: unat_eq_0 [symmetric] unat_of_nat take_bit_eq_mod)
  note unfold = rawimg_patch_pixel_def c vs(1) Let_def cnt
  show ?thesis
  proof (cases "?good = []")
    case True
    then show ?thesis by (simp add: unfold)
  next
    case False
    have "unat (bpp (fmt img)) \<le> 16"
      using wf raw_formats_geometry by (auto simp: img_wf_def)
    from average_bounds [OF _ this False len, of "black_level img"] vs(3) False
    show ?thesis
      by (intro disjI2 exI [of _ "sum_list ?good div of_nat (length ?good)"] conjI)
        (auto simp: unfold map_conv_bind_option o_def)
  qed
qed

text \<open>The whole pass: every pixel of the active area is visited once. The image keeps its format
  and its pixels, except that a pixel not above the threshold may get a value above the black
  level.\<close>

definition patched :: "raw_image_t \<Rightarrow> u32 \<Rightarrow> raw_image_t \<Rightarrow> u32 \<Rightarrow> u32 \<Rightarrow> bool" where
  "patched img badval img' x y \<longleftrightarrow>
     (let old = get_pixel (fmt img) (img_data img) (row_bytes img) x y;
          new = get_pixel (fmt img) (img_data img') (row_bytes img) x y
      in new = old \<or>
         (\<exists>u v. old = Some u \<and> u \<le> badval \<and> new = Some v \<and> black_level img < v))"

lemma set_urange: "x \<in> set (urange a b) \<longleftrightarrow> a \<le> x \<and> x < b"
proof
  assume "a \<le> x \<and> x < b"
  then have "unat x \<in> {unat a..<unat b}" by (simp add: word_less_nat_alt word_le_nat_alt)
  then have "of_nat (unat x) \<in> set (urange a b)" unfolding urange_def set_map set_upt by (rule imageI)
  then show "x \<in> set (urange a b)" by simp
next
  assume "x \<in> set (urange a b)"
  then obtain n where x: "x = of_nat n" and n: "unat a \<le> n" "n < unat b" by (auto simp: urange_def)
  then have "unat x = n"
    using unsigned_less [of b, where ?'a = nat] by (simp add: unat_of_nat take_bit_eq_mod)
  with n show "a \<le> x \<and> x < b" by (simp add: word_less_nat_alt word_le_nat_alt)
qed

text \<open>The state of the pass after the pixels \<open>visited\<close>: the image's buffer is \<open>d\<close>.\<close>

definition pass_inv :: "raw_image_t \<Rightarrow> u32 \<Rightarrow> (u32 \<times> u32) list \<Rightarrow> bytes \<Rightarrow> bool" where
  "pass_inv img badval visited d \<longleftrightarrow>
     length d = length (img_data img) \<and>
     (\<forall>x < width img. \<forall>y < height img.
        patched img badval (img \<lparr> img_data := d \<rparr>) x y \<and>
        ((x, y) \<notin> set visited \<longrightarrow>
         get_pixel (fmt img) d (row_bytes img) x y =
         get_pixel (fmt img) (img_data img) (row_bytes img) x y))"

definition patch_step :: "u32 \<Rightarrow> u32 \<Rightarrow> u32 \<Rightarrow> raw_image_t \<times> u32 \<Rightarrow> (raw_image_t \<times> u32) option" where
  "patch_step badval x y = (\<lambda>(img, count). do {
         val \<leftarrow> get_pixel (fmt img) (img_data img) (row_bytes img) x y;
         if val \<le> badval then do {
           (img, n) \<leftarrow> rawimg_patch_pixel img x y;
           Some (img, count + n)
         } else Some (img, count)
       })"

lemma pass_inv_more: "pass_inv img badval pre d \<Longrightarrow> pass_inv img badval (pre @ [p]) d"
  by (auto simp: pass_inv_def)

lemma pass_inv_set:
  assumes wf: "img_wf img" and wr: "writes_pixels (fmt img)" and xy: "x < width img" "y < height img"
    and inv: "pass_inv img badval pre d"
    and val: "get_pixel (fmt img) d (row_bytes img) x y = Some val" "val \<le> badval"
    and v: "black_level img < v" "unat v < 2 ^ unat (bpp (fmt img))"
  shows "\<exists>d'. set_pixel (fmt img) d (row_bytes img) x y v = Some d' \<and>
    pass_inv img badval (pre @ [(x, y)]) d'"
proof -
  let ?get = "\<lambda>d. get_pixel (fmt img) d (row_bytes img)"
  have mem: "fmt img \<in> set raw_formats"
    and g: "grid_ok (fmt img) (row_bytes img) (width img) (height img) (length d)"
    using wf inv by (simp_all add: img_wf_def pass_inv_def)
  have bp: "0 < unat (block_pixels (fmt img))" using mem raw_formats_geometry by blast
  from grid_set [OF wr bp g xy v(2)] obtain d' where
    d': "set_pixel (fmt img) d (row_bytes img) x y v = Some d'" "length d' = length d" and
    all: "\<And>x' y'. x' < width img \<Longrightarrow> y' < height img \<Longrightarrow>
      ?get d' x' y' = (if (x', y') = (x, y) then Some v else ?get d x' y')" by blast
  have inv_xy: "patched img badval (img \<lparr> img_data := d \<rparr>) x y"
    using inv xy by (simp add: pass_inv_def)
  have "patched img badval (img \<lparr> img_data := d' \<rparr>) x' y' \<and>
      ((x', y') \<notin> set (pre @ [(x, y)]) \<longrightarrow> ?get d' x' y' = ?get (img_data img) x' y')"
    if "x' < width img" "y' < height img" for x' y'
    using inv inv_xy all [OF that] that v(1) val
    by (cases "(x', y') = (x, y)") (auto simp: patched_def pass_inv_def Let_def)
  then have "pass_inv img badval (pre @ [(x, y)]) d'"
    using d'(2) inv by (simp add: pass_inv_def)
  with d'(1) show ?thesis by blast
qed

lemma patch_step_inv:
  assumes wf: "img_wf img" and wr: "writes_pixels (fmt img)" and xy: "x < width img" "y < height img"
    and inv: "pass_inv img badval pre d"
  shows "\<exists>d' n. patch_step badval x y (img \<lparr> img_data := d \<rparr>, count) =
      Some (img \<lparr> img_data := d' \<rparr>, count + n) \<and> pass_inv img badval (pre @ [(x, y)]) d'"
proof -
  let ?img = "img \<lparr> img_data := d \<rparr>"
  have wf': "img_wf ?img" using wf inv by (simp add: img_wf_def pass_inv_def)
  then have "fmt img \<in> set raw_formats"
    and "grid_ok (fmt img) (row_bytes img) (width img) (height img) (length d)"
    by (simp_all add: img_wf_def)
  from grid_get [OF this xy] obtain val
    where val: "get_pixel (fmt img) d (row_bytes img) x y = Some val" by blast
  note keep = pass_inv_more [OF inv, of "(x, y)"]
  show ?thesis
  proof (cases "val \<le> badval")
    case False
    with val keep show ?thesis by (auto simp: patch_step_def intro!: exI [of _ d])
  next
    case bad: True
    from patch_pixel_cases [OF wf', of x y] show ?thesis
    proof
      assume "rawimg_patch_pixel ?img x y = Some (?img, 0)"
      with bad val keep show ?thesis by (auto simp: patch_step_def intro!: exI [of _ d])
    next
      assume "\<exists>v. black_level ?img < v \<and> unat v < 2 ^ unat (bpp (fmt ?img)) \<and>
          rawimg_patch_pixel ?img x y = map_option (\<lambda>d. (?img \<lparr> img_data := d \<rparr>, 1))
            (set_pixel (fmt ?img) (img_data ?img) (row_bytes ?img) x y v)"
      then obtain v where "black_level img < v" "unat v < 2 ^ unat (bpp (fmt img))"
        and patch: "rawimg_patch_pixel ?img x y = map_option (\<lambda>d. (?img \<lparr> img_data := d \<rparr>, 1))
           (set_pixel (fmt img) d (row_bytes img) x y v)" by auto
      from pass_inv_set [OF wf wr xy inv val bad this(1,2)] patch val bad
      show ?thesis by (auto simp: patch_step_def)
    qed
  qed
qed

lemma patch_pixels_inv:
  assumes wf: "img_wf img" and wr: "writes_pixels (fmt img)" and area: "active_right img \<le> width img"
  obtains d count visited where
    "rawimg_lua_patch_pixels img badval = Some (img \<lparr> img_data := d \<rparr>, count)"
    and "pass_inv img badval visited d"
    and "\<And>x y. (x, y) \<in> set visited \<longleftrightarrow> active_left img \<le> x \<and> x < active_right img \<and>
      active_top img \<le> y \<and> y < active_bottom img"
proof -
  let ?xs = "concat (map (\<lambda>y. map (\<lambda>x. (x, y)) (urange (active_left img) (active_right img)))
      (urange (active_top img) (active_bottom img)))"
  let ?P = "\<lambda>visited s. \<exists>d c. s = (img \<lparr> img_data := d \<rparr>, c :: u32) \<and> pass_inv img badval visited d"
  have range: "(x, y) \<in> set ?xs \<longleftrightarrow>
      active_left img \<le> x \<and> x < active_right img \<and> active_top img \<le> y \<and> y < active_bottom img"
    for x y
  proof -
    have "(x, y) \<in> set ?xs \<longleftrightarrow> x \<in> set (urange (active_left img) (active_right img)) \<and>
        y \<in> set (urange (active_top img) (active_bottom img))" by auto
    then show ?thesis by (simp add: set_urange conj_assoc)
  qed
  have "\<exists>s. ofold (\<lambda>(x, y). patch_step badval x y) ?xs (img, 0) = Some s \<and> ?P ?xs s"
  proof (rule ofold_prefix)
    show "?P [] (img, 0)"
      by (intro exI [of _ "img_data img"]) (simp add: pass_inv_def patched_def)
  next
    fix pre p post s
    assume xs: "?xs = pre @ p # post" and P: "?P pre s"
    obtain x y where p: "p = (x, y)" by (cases p)
    have "(x, y) \<in> set ?xs" using xs p by simp
    then have xy: "x < width img" "y < height img"
      using range area wf by (auto simp: img_wf_def intro: less_le_trans)
    from P obtain d c where s: "s = (img \<lparr> img_data := d \<rparr>, c)" and "pass_inv img badval pre d"
      by blast
    from patch_step_inv [OF wf wr xy this(2), of c]
    show "\<exists>s'. (case p of (x, y) \<Rightarrow> patch_step badval x y) s = Some s' \<and> ?P (pre @ [p]) s'"
      by (auto simp: p s)
  qed
  then obtain s where s: "ofold (\<lambda>(x, y). patch_step badval x y) ?xs (img, 0) = Some s"
    and P: "?P ?xs s" by blast
  then obtain d c where "s = (img \<lparr> img_data := d \<rparr>, c)" and inv: "pass_inv img badval ?xs d"
    by blast
  with s have "rawimg_lua_patch_pixels img badval = Some (img \<lparr> img_data := d \<rparr>, c)"
    unfolding rawimg_lua_patch_pixels_def patch_step_def [symmetric] by (subst ofold_nested) simp
  from that [OF this inv range] show thesis .
qed

section \<open>Binding an image to a buffer\<close>

lemma find_format_mem:
  "rawimg_find_format b e = Some f \<Longrightarrow> f \<in> set raw_formats \<and> bpp f = b"
  by (auto simp: rawimg_find_format_def find_Some_iff)

lemma bind_lbuf_cases:
  assumes "rawimg_lua_bind_lbuf s = Inr img"
  obtains f where "rawimg_find_format (im_bpp s) (im_endian s) = Some f"
    and "im_width s mod block_pixels f = 0"
    and "\<not> of_nat (length (im_data s)) <
      im_data_offset s + (im_width s * bpp f) div 8 * im_height s"
    and "fmt img = f" "row_bytes img = (im_width s * bpp f) div 8" "width img = im_width s"
      "height img = im_height s" "img_data img = drop (unat (im_data_offset s)) (im_data s)"
      "length (cfa_pattern img) = 4"
    and "active_top img \<le> active_bottom img" "active_bottom img \<le> height img"
      "active_left img \<le> active_right img"
  using assms
  by (auto simp: rawimg_lua_bind_lbuf_def guard_err_def Let_def not_le not_less
      split: if_splits option.splits prod.splits)

lemma row_bytes_exact:
  assumes "f \<in> set raw_formats" "unat w mod unat (block_pixels f) = 0"
    and "unat w * unat (bpp f) < 2 ^ 32"
  shows "unat (w * bpp f div 8) = unat w div unat (block_pixels f) * unat (block_bytes f)"
proof -
  let ?bp = "unat (block_pixels f)" and ?bb = "unat (block_bytes f)" and ?b = "unat (bpp f)"
  have geo: "?bb * 8 = ?bp * ?b" using assms(1) raw_formats_geometry by auto
  have "unat w = unat w div ?bp * ?bp" using assms(2) by (simp add: mod_eq_0_iff_dvd)
  then have "unat w * ?b = unat w div ?bp * (?bp * ?b)" by (metis mult.assoc)
  then have "unat w * ?b = unat w div ?bp * ?bb * 8" by (simp add: geo [symmetric])
  moreover have "unat (w * bpp f) = unat w * ?b" using assms(3) by (simp add: unat_mult_lem [THEN iffD1])
  ultimately show ?thesis by (simp add: unat_div)
qed

lemma bind_lbuf_grid:
  assumes bind: "rawimg_lua_bind_lbuf s = Inr img" and len: "length (im_data s) < 2 ^ 32"
    and row: "unat (im_width s) * unat (im_bpp s) < 2 ^ 32"
    and total: "unat (im_data_offset s) + unat (row_bytes img) * unat (im_height s) < 2 ^ 32"
  shows "img_wf img"
proof -
  from bind obtain f where f: "rawimg_find_format (im_bpp s) (im_endian s) = Some f"
    and m: "im_width s mod block_pixels f = 0"
    and sz: "\<not> of_nat (length (im_data s)) <
      im_data_offset s + (im_width s * bpp f) div 8 * im_height s"
    and img: "fmt img = f" "row_bytes img = (im_width s * bpp f) div 8" "width img = im_width s"
      "height img = im_height s" "img_data img = drop (unat (im_data_offset s)) (im_data s)"
      "length (cfa_pattern img) = 4" "active_top img \<le> active_bottom img"
      "active_bottom img \<le> height img" "active_left img \<le> active_right img"
    by (rule bind_lbuf_cases)
  note mem = find_format_mem [OF f]
  let ?rb = "row_bytes img"
  have "unat ?rb * unat (im_height s) < 2 ^ 32" using total by simp
  then have "unat (?rb * im_height s) = unat ?rb * unat (im_height s)"
    by (simp add: unat_mult_lem [THEN iffD1])
  with total have "unat (im_data_offset s + ?rb * im_height s) =
      unat (im_data_offset s) + unat ?rb * unat (im_height s)"
    by (simp add: unat_add_lem [THEN iffD1])
  with sz len have fit: "unat (im_data_offset s) + unat ?rb * unat (im_height s) \<le> length (im_data s)"
    by (simp add: not_less word_le_nat_alt img(2) unat_of_nat take_bit_eq_mod)
  have w: "unat (im_width s) mod unat (block_pixels f) = 0"
    using m by (metis unat_mod unat_0)
  have "unat ?rb = unat (im_width s) div unat (block_pixels f) * unat (block_bytes f)"
    using row_bytes_exact [OF _ w] mem row img(2) by simp
  moreover have "unat ?rb * unat (im_height s) \<le> length (img_data img)"
    and "length (img_data img) < 2 ^ 32"
    using fit len img(5) by simp_all
  ultimately show ?thesis using w img mem
    by (simp add: img_wf_def grid_ok_def)
qed

section \<open>The converted image\<close>

lemma convert_value_bound:
  assumes "unat v < 2 ^ n" and "0 \<le> s" and "n - nat s \<le> m"
  shows "unat (convert_value s v) < 2 ^ m"
proof -
  have "unat (drop_bit (nat s) v) = drop_bit (nat s) (unat v)"
    by (rule unat_drop_bit_eq)
  also have "\<dots> = unat v div 2 ^ nat s"
    by (rule drop_bit_eq_div)
  also have "\<dots> < 2 ^ (n - nat s)"
  proof (cases "nat s \<le> n")
    case True
    then show ?thesis
      using assms(1) by (simp add: less_mult_imp_div_less flip: power_add)
  next
    case False
    then have "unat v < 2 ^ nat s"
      using assms(1) less_le_trans power_increasing [of n "nat s" "2 :: nat"] by fastforce
    then show ?thesis by simp
  qed
  also have "\<dots> \<le> 2 ^ m" using assms(3) by (intro power_increasing) auto
  finally show ?thesis using assms(2) by (simp add: convert_value_def)
qed

lemma new_grid_ok:
  assumes "f \<in> set raw_formats" "unat w mod unat (block_pixels f) = 0"
    and "unat w * unat h * unat (bpp f) < 2 ^ 32" "w \<noteq> 0" "h \<noteq> 0"
  shows "grid_ok f (w * bpp f div 8) w h (unat (w * h * bpp f div 8))"
proof -
  let ?b = "unat (bpp f)"
  have pos: "0 < unat h" using assms(5) by (simp add: unat_gt_0)
  have row: "unat w * ?b < 2 ^ 32"
  proof -
    have "unat w * ?b * 1 \<le> unat w * ?b * unat h" using pos by (intro mult_le_mono2) simp
    then have "unat w * ?b \<le> unat w * unat h * ?b" by (simp only: mult_1_right ac_simps)
    with assms(3) show ?thesis by linarith
  qed
  note rb = row_bytes_exact [OF assms(1,2) row]
  have "0 < ?b" using assms(1) raw_formats_geometry by auto
  have "unat w * unat h * 1 \<le> unat w * unat h * ?b" using \<open>0 < ?b\<close> by (intro mult_le_mono2) simp
  with assms(3) have "unat w * unat h < 2 ^ 32" by linarith
  then have "unat (w * h) = unat w * unat h" by (simp add: unat_mult_lem [THEN iffD1])
  with assms(3) have "unat (w * h * bpp f) = unat w * unat h * ?b"
    by (simp add: unat_mult_lem [THEN iffD1])
  then have size: "unat (w * h * bpp f div 8) = unat w * unat h * ?b div 8"
    by (simp add: unat_div)
  have "unat (w * bpp f) = unat w * ?b" using row by (simp add: unat_mult_lem [THEN iffD1])
  then have rbw: "unat (w * bpp f div 8) = unat w * ?b div 8" by (simp add: unat_div)
  have "unat w * ?b div 8 * unat h * 8 \<le> unat w * ?b * unat h"
    by (metis mult.commute mult.left_commute mult_le_mono1 times_div_less_eq_dividend)
  then have "unat w * ?b div 8 * unat h \<le> unat w * unat h * ?b div 8"
    by (simp add: less_eq_div_iff_mult_less_eq ac_simps)
  moreover have "unat w * unat h * ?b div 8 < 2 ^ 32"
    using assms(3) div_le_dividend le_less_trans by blast
  ultimately show ?thesis
    using assms(2) rb by (simp add: grid_ok_def size rbw [symmetric])
qed

lemma valshift_nonneg:
  assumes "0 \<le> valshift old new up down" and "old \<le> new \<or> down"
  shows "nat (valshift old new up down) = unat old - unat new"
proof (cases "new < old")
  case True
  then have "down" using assms(2) leD by blast
  then have "valshift old new up down = int (unat old) - int (unat new)"
    using True by (simp add: valshift_def)
  then show ?thesis by (simp only: nat_minus_as_int)
next
  case False
  then have "old \<le> new" by simp
  then have le: "unat old \<le> unat new" "uint old \<le> uint new"
    by (simp add: word_le_nat_alt, simp add: word_le_def)
  have "valshift old new up down = (if up then int (unat old) - int (unat new) else 0)"
    using False by (simp add: valshift_def)
  then show ?thesis using le by (simp split: if_splits)
qed

lemma convert_result:
  assumes wf: "img_wf img" and new: "rawimg_find_format b e = Some newfmt" "writes_pixels newfmt"
    and block: "unat (width img) mod unat (block_pixels newfmt) = 0"
    and size: "unat (width img) * unat (height img) * unat b < 2 ^ 32"
      "width img \<noteq> 0" "height img \<noteq> 0"
    and shift: "0 \<le> valshift (bpp (fmt img)) b up down" "bpp (fmt img) \<le> b \<or> down"
    and fresh: "\<And>n. length (fresh n) = n"
  obtains d where
    "rawimg_lua_convert fresh img b e up down None = Some (Inr (img \<lparr> fmt := newfmt,
        row_bytes := width img * b div 8,
        black_level := drop_bit (unat (bpp (fmt img)) - unat b) (black_level img),
        img_data := d \<rparr>, L_lbuf, L_lbuf, L_img))"
    and "length d = unat (width img * height img * b div 8)"
    and "\<forall>x < width img. \<forall>y < height img. get_pixel newfmt d (width img * b div 8) x y =
      map_option (drop_bit (unat (bpp (fmt img)) - unat b))
        (get_pixel (fmt img) (img_data img) (row_bytes img) x y)"
proof -
  let ?s = "valshift (bpp (fmt img)) b up down" and ?k = "unat (bpp (fmt img)) - unat b"
  let ?rb = "width img * b div 8" and ?dst = "fresh (unat (width img * height img * b div 8))"
  have mem: "newfmt \<in> set raw_formats" "bpp newfmt = b" using find_format_mem [OF new(1)] by auto
  have k: "nat ?s = ?k" using valshift_nonneg [OF shift] .
  have conv: "convert_value ?s = drop_bit ?k"
    using shift(1) by (auto simp: convert_value_def k)
  have bp: "0 < unat (block_pixels newfmt)" using mem raw_formats_geometry by auto
  have g: "grid_ok newfmt ?rb (width img) (height img) (length ?dst)"
    using new_grid_ok [OF mem(1) block] size mem(2) fresh by simp
  have src: "fmt img \<in> set raw_formats"
    "grid_ok (fmt img) (row_bytes img) (width img) (height img) (length (img_data img))"
    using wf by (simp_all add: img_wf_def)
  have fits: "unat (convert_value ?s v) < 2 ^ unat (bpp newfmt)"
    if "unat v < 2 ^ unat (bpp (fmt img))" for v
    by (rule convert_value_bound [OF that shift(1)]) (simp add: k mem(2))
  from convert_pixels_correct [OF src new(2) bp g fits] obtain d
    where d: "convert_pixels img newfmt ?rb ?s ?dst = Some d" "length d = length ?dst"
      "\<forall>x < width img. \<forall>y < height img. get_pixel newfmt d ?rb x y =
         map_option (drop_bit ?k) (get_pixel (fmt img) (img_data img) (row_bytes img) x y)"
    unfolding conv by blast
  show thesis
  proof (rule that [OF _ _ d(3)])
    show "rawimg_lua_convert fresh img b e up down None = Some (Inr (img \<lparr> fmt := newfmt,
        row_bytes := ?rb, black_level := drop_bit ?k (black_level img), img_data := d \<rparr>,
        L_lbuf, L_lbuf, L_img))"
      using shift(1) d(1) by (simp add: rawimg_lua_convert_def new(1) k not_less [symmetric])
    show "length d = unat (width img * height img * b div 8)" using d(2) fresh by simp
  qed
qed

section \<open>Properties\<close>

text \<open>Images for the examples: four 12 bit pixels, and one row of 8 bit pixels.\<close>

definition ex12 :: imgspec where
  "ex12 = \<lparr> im_data = [0xAB, 0xCD, 0xEF, 0x12, 0x34, 0x56], im_data_offset = 0, im_width = 2,
     im_height = 2, im_bpp = 12, im_endian = 1, im_black_level = 0,
     im_cfa_pattern = Some [0, 1, 1, 2], im_active_area = None \<rparr>"

definition ex8 :: "bytes \<Rightarrow> u32 \<Rightarrow> u32 \<Rightarrow> imgspec" where
  "ex8 data w h = \<lparr> im_data = data, im_data_offset = 0, im_width = w,
     im_height = h, im_bpp = 8, im_endian = 0, im_black_level = 0,
     im_cfa_pattern = Some [0, 1, 1, 2], im_active_area = None \<rparr>"

definition ex_img :: raw_image_t where
  "ex_img = \<lparr> fmt = FMT_DEF_SINGLE 12 RAW_ENDIAN_b 3 raw_get_pixel_12b raw_set_pixel_12b,
     row_bytes = 3, width = 2, height = 2, cfa_pattern = [0, 1, 1, 2], active_top = 0,
     active_left = 0, active_bottom = 2, active_right = 2, black_level = 0,
     img_data = [0xAB, 0xCD, 0xEF, 0x12, 0x34, 0x56] \<rparr>"

lemma ex12_bind: "rawimg_lua_bind_lbuf ex12 = Inr ex_img"
  by (simp add: rawimg_lua_bind_lbuf_def ex12_def ex_img_def guard_err_def rawimg_find_format_def
      raw_formats_def FMT_DEF_SINGLE_def RAW_ENDIAN_l_def RAW_ENDIAN_b_def)

lemma ex_fmt: "fmt ex_img \<in> set raw_formats" "bpp (fmt ex_img) = 12" "block_bytes (fmt ex_img) = 3"
  "block_pixels (fmt ex_img) = 2" "endian (fmt ex_img) = 1" "row_bytes ex_img = 3"
  "get_pixel (fmt ex_img) = raw_get_pixel_12b" "set_pixel (fmt ex_img) = raw_set_pixel_12b"
  by (simp_all add: ex_img_def raw_formats_def FMT_DEF_SINGLE_def RAW_ENDIAN_b_def)

text \<open>C10: every getter of the table of formats reads, for a pixel whose block lies in the buffer,
  the \<open>bpp\<close> bits of the pixel out of the bit stream of its block, and returns normally.\<close>

theorem raw_get_pixel_bitstream:
  assumes "f \<in> set raw_formats"
    and "in_data (unat (block_bytes f)) (unat (block_pixels f)) p rb x y"
  shows "get_pixel f p rb x y =
    Some (pixel_val (little_fmt f) (unat (bpp f)) p
      (blk (unat (block_bytes f)) (unat (block_pixels f)) rb x y)
      (unat x mod unat (block_pixels f)))"
proof -
  have "reads_pixels f" using assms(1) raw_formats_contracts by blast
  then show ?thesis
    unfolding reads_pixels_def using assms(2) by (rule packed_reader.get_law)
qed

theorem raw_get_pixel_bitstream_witness:
  "raw_get_pixel_12b [0xAB, 0xCD, 0xEF, 0x12, 0x34, 0x56] 3 1 1 =
   Some (pixel_val False 12 [0xAB, 0xCD, 0xEF, 0x12, 0x34, 0x56] 3 1)"
  using raw_get_pixel_bitstream [OF ex_fmt(1), of "[0xAB, 0xCD, 0xEF, 0x12, 0x34, 0x56]" 3 1 1]
  by (simp add: ex_fmt in_data_def blk_def little_fmt_def RAW_ENDIAN_l_def)

text \<open>C11: writing a pixel of a well-formed image in any format but 14 bit big endian succeeds,
  the pixel then reads as the value written, and every other pixel of the image is unchanged.\<close>

theorem raw_set_pixel_frame:
  assumes "f \<in> set raw_formats" and "\<not> (bpp f = 14 \<and> endian f = RAW_ENDIAN_b)"
    and "grid_ok f rb w h (length p)" and "x < w" and "y < h" and "unat v < 2 ^ unat (bpp f)"
  shows "\<exists>p'. set_pixel f p rb x y v = Some p' \<and> length p' = length p \<and>
    (\<forall>x' < w. \<forall>y' < h. get_pixel f p' rb x' y' =
       (if (x', y') = (x, y) then Some v else get_pixel f p rb x' y'))"
proof -
  have "writes_pixels f" and "0 < unat (block_pixels f)"
    using assms(1,2) raw_formats_contracts raw_formats_geometry by auto
  from grid_set [OF this assms(3-6)] show ?thesis by metis
qed

theorem raw_set_pixel_frame_witness:
  "\<exists>p'. raw_set_pixel_12b [0xAB, 0xCD, 0xEF] 3 0 0 0x123 = Some p' \<and>
     raw_get_pixel_12b p' 3 0 0 = Some 0x123 \<and> raw_get_pixel_12b p' 3 1 0 = Some 0xDEF"
proof -
  have old: "raw_get_pixel_12b [0xAB, 0xCD, 0xEF] 3 1 0 = Some 0xDEF"
    by (simp add: raw_get_pixel_12b_def get_12b_def mem_simps)
  have "grid_ok (fmt ex_img) 3 2 1 (length [0xAB, 0xCD, 0xEF :: byte])"
    by (simp add: grid_ok_def ex_fmt)
  from raw_set_pixel_frame [OF ex_fmt(1) _ this, of 0 0 "0x123"] old
  show ?thesis by (auto simp: ex_fmt)
qed

text \<open>C12: binding. If \<open>bind_lbuf\<close> accepts an image, and the products and sums it checks do not
  exceed 32 bits, then the image is well formed and \<open>get_pixel\<close> returns a value of \<open>bpp\<close> bits for
  every coordinate inside, nil outside.\<close>

theorem bind_lbuf_safe:
  assumes "rawimg_lua_bind_lbuf s = Inr img" and "length (im_data s) < 2 ^ 32"
    and "unat (im_width s) * unat (im_bpp s) < 2 ^ 32"
    and "unat (im_data_offset s) + unat (row_bytes img) * unat (im_height s) < 2 ^ 32"
  shows "img_wf img \<and>
    (\<exists>r. rawimg_lua_get_pixel img x y = Some r \<and>
       (case r of None \<Rightarrow> x \<ge> im_width s \<or> y \<ge> im_height s
        | Some v \<Rightarrow> x < im_width s \<and> y < im_height s \<and> unat v < 2 ^ unat (im_bpp s)))"
proof -
  have wf: "img_wf img" using assms by (rule bind_lbuf_grid)
  from assms(1) have dims: "width img = im_width s" "height img = im_height s"
    "bpp (fmt img) = im_bpp s"
    by (auto elim: bind_lbuf_cases dest: find_format_mem)
  show ?thesis
  proof (cases "x < im_width s \<and> y < im_height s")
    case True
    then obtain v where "get_pixel (fmt img) (img_data img) (row_bytes img) x y = Some v"
      and "unat v < 2 ^ unat (im_bpp s)"
      using grid_get [of "fmt img" "row_bytes img" "width img" "height img" "img_data img" x y] wf
      by (auto simp: img_wf_def dims)
    with True wf show ?thesis by (auto simp: rawimg_lua_get_pixel_def dims)
  qed (use wf in \<open>auto simp: rawimg_lua_get_pixel_def dims\<close>)
qed

theorem bind_lbuf_safe_witness:
  "img_wf ex_img \<and> rawimg_lua_get_pixel ex_img 2 0 = Some None"
  using bind_lbuf_safe [OF ex12_bind, of 2 0]
  by (simp add: ex12_def ex_img_def rawimg_lua_get_pixel_def)

text \<open>C13: conversion. A conversion into a fresh buffer to a format with a setter, with no wrap in
  the size computation, whole blocks in the new format, and a down-shift if the new format is
  narrower, succeeds; the new image has the old one's dimensions and every pixel is the old one
  shifted down by the difference of the widths (not at all to a wider format).\<close>

theorem convert_correct:
  assumes wf: "img_wf img" and new: "rawimg_find_format b e = Some newfmt"
    and not14: "\<not> (bpp newfmt = 14 \<and> endian newfmt = RAW_ENDIAN_b)"
    and block: "unat (width img) mod unat (block_pixels newfmt) = 0"
    and size: "unat (width img) * unat (height img) * unat b < 2 ^ 32"
    and nonempty: "width img \<noteq> 0" "height img \<noteq> 0"
    and shift: "0 \<le> valshift (bpp (fmt img)) b up down" "bpp (fmt img) \<le> b \<or> down"
    and fresh: "\<And>n. length (fresh n) = n"
  shows "\<exists>new. rawimg_lua_convert fresh img b e up down None =
      Some (Inr (new, L_lbuf, L_lbuf, L_img)) \<and>
    fmt new = newfmt \<and> width new = width img \<and> height new = height img \<and>
    length (img_data new) = unat (width img * height img * b div 8) \<and>
    (\<forall>x < width img. \<forall>y < height img. \<exists>v.
       rawimg_lua_get_pixel img x y = Some (Some v) \<and>
       rawimg_lua_get_pixel new x y = Some (Some (drop_bit (unat (bpp (fmt img)) - unat b) v)))"
proof -
  have "writes_pixels newfmt"
    using not14 find_format_mem [OF new] raw_formats_contracts by blast
  from convert_result [OF wf new this block size nonempty shift fresh]
  obtain d where conv: "rawimg_lua_convert fresh img b e up down None = Some (Inr (img \<lparr> fmt := newfmt,
        row_bytes := width img * b div 8,
        black_level := drop_bit (unat (bpp (fmt img)) - unat b) (black_level img),
        img_data := d \<rparr>, L_lbuf, L_lbuf, L_img))" (is "_ = Some (Inr (?new, _))")
    and len: "length d = unat (width img * height img * b div 8)"
    and px: "\<forall>x < width img. \<forall>y < height img. get_pixel newfmt d (width img * b div 8) x y =
      map_option (drop_bit (unat (bpp (fmt img)) - unat b))
        (get_pixel (fmt img) (img_data img) (row_bytes img) x y)" .
  have "\<exists>v. rawimg_lua_get_pixel img x y = Some (Some v) \<and>
      rawimg_lua_get_pixel ?new x y = Some (Some (drop_bit (unat (bpp (fmt img)) - unat b) v))"
    if xy: "x < width img" "y < height img" for x y
  proof -
    from wf have "fmt img \<in> set raw_formats"
      "grid_ok (fmt img) (row_bytes img) (width img) (height img) (length (img_data img))"
      by (simp_all add: img_wf_def)
    from grid_get [OF this xy] obtain v
      where "get_pixel (fmt img) (img_data img) (row_bytes img) x y = Some v" by blast
    with px xy show ?thesis by (simp add: rawimg_lua_get_pixel_def not_le)
  qed
  with conv len show ?thesis by (intro exI [of _ ?new]) simp
qed

lemma ex_img_wf: "img_wf ex_img"
  using bind_lbuf_grid [OF ex12_bind] by (simp add: ex12_def ex_img_def)

lemma find_8: "rawimg_find_format 8 0 =
    Some (FMT_DEF_SINGLE 8 RAW_ENDIAN_l 1 raw_get_pixel_8l raw_set_pixel_8l)"
  by (simp add: rawimg_find_format_def raw_formats_def FMT_DEF_SINGLE_def RAW_ENDIAN_l_def)

theorem convert_correct_witness:
  "\<exists>new. rawimg_lua_convert (\<lambda>n. replicate n 0) ex_img 8 0 False True None =
     Some (Inr (new, L_lbuf, L_lbuf, L_img)) \<and> rawimg_lua_get_pixel new 1 1 = Some (Some 0x45)"
proof -
  have px: "rawimg_lua_get_pixel ex_img 1 1 = Some (Some 0x456)"
    by (simp add: rawimg_lua_get_pixel_def ex_img_def FMT_DEF_SINGLE_def raw_get_pixel_12b_def
        get_12b_def mem_simps word_le_nat_alt)
  have "0 \<le> valshift (bpp (fmt ex_img)) 8 False True" by (simp add: valshift_def ex_fmt)
  from convert_correct [OF ex_img_wf find_8 _ _ _ _ _ this, where fresh = "\<lambda>n. replicate n 0"]
  obtain new where conv: "rawimg_lua_convert (\<lambda>n. replicate n 0) ex_img 8 0 False True None =
      Some (Inr (new, L_lbuf, L_lbuf, L_img))"
    and "\<forall>x < width ex_img. \<forall>y < height ex_img. \<exists>v.
       rawimg_lua_get_pixel ex_img x y = Some (Some v) \<and>
       rawimg_lua_get_pixel new x y =
         Some (Some (drop_bit (unat (bpp (fmt ex_img)) - unat (8 :: u32)) v))"
    by (auto simp: FMT_DEF_SINGLE_def ex_img_def)
  then have "\<exists>v. rawimg_lua_get_pixel ex_img 1 1 = Some (Some v) \<and>
      rawimg_lua_get_pixel new 1 1 =
        Some (Some (drop_bit (unat (bpp (fmt ex_img)) - unat (8 :: u32)) v))"
    by (simp add: ex_img_def)
  with px conv show ?thesis by (auto simp: ex_fmt)
qed



text \<open>C37: the setter of 14 bit big endian pixels ignores every second block of four pixels: it
  returns and leaves the buffer as it was, whatever the value.\<close>

theorem set_pixel_14b_skips:
  assumes "x mod 8 \<ge> 4"
  shows "raw_set_pixel_14b p rb x y v = Some p"
proof -
  have "4 \<le> unat x mod 8" using assms by (simp add: word_le_nat_alt unat_mod)
  then show ?thesis by (rule set_14b_second)
qed

theorem set_pixel_14b_skips_witness:
  "raw_set_pixel_14b [0, 0, 0, 0, 0, 0, 0, 0, 0, 0, 0, 0, 0, 0] 14 5 0 0x1234 =
   Some [0, 0, 0, 0, 0, 0, 0, 0, 0, 0, 0, 0, 0, 0]"
  using set_pixel_14b_skips [of 5] by (simp add: word_le_nat_alt)

text \<open>The setters do not mask the value: a value of more than \<open>bpp\<close> bits changes the
  neighbouring pixel (here the left neighbour in a 12 bit image).\<close>

lemma set_pixel_spills:
  "\<exists>img'. rawimg_lua_set_pixel ex_img 1 0 0xFFFF = Some img' \<and>
     rawimg_lua_get_pixel img' 0 0 \<noteq> rawimg_lua_get_pixel ex_img 0 0"
  by (simp add: rawimg_lua_set_pixel_def rawimg_lua_get_pixel_def ex_img_def FMT_DEF_SINGLE_def
      raw_set_pixel_12b_def raw_get_pixel_12b_def set_12b_def get_12b_def mem_simps)


text \<open>\<open>bind_lbuf\<close> checks that the left edge of the active area is inside the image but not
  the right one: an active area that ends outside is accepted, and \<open>patch_pixels\<close> reads there.\<close>

lemma active_right_unchecked:
  "\<exists>img. rawimg_lua_bind_lbuf ((ex8 [7] 1 1) \<lparr> im_active_area := Some (0, 0, 1, 9) \<rparr>) = Inr img \<and>
     active_right img > width img \<and> rawimg_lua_patch_pixels img 0 = None"
proof -
  let ?img = "\<lparr> fmt = FMT_DEF_SINGLE 8 RAW_ENDIAN_l 1 raw_get_pixel_8l raw_set_pixel_8l,
    row_bytes = 1, width = 1, height = 1, cfa_pattern = [0, 1, 1, 2],
    active_top = 0, active_left = 0, active_bottom = 1, active_right = 9, black_level = 0,
    img_data = [7] \<rparr>"
  have "rawimg_lua_bind_lbuf ((ex8 [7] 1 1) \<lparr> im_active_area := Some (0, 0, 1, 9) \<rparr>) = Inr ?img"
    by (simp add: rawimg_lua_bind_lbuf_def ex8_def guard_err_def find_8 word_le_nat_alt)
      (simp add: FMT_DEF_SINGLE_def)
  moreover have "rawimg_lua_patch_pixels ?img 0 = None"
    by (simp add: rawimg_lua_patch_pixels_def urange_def upt_rec FMT_DEF_SINGLE_def
        raw_get_pixel_8l_def ld8_def)
  ultimately show ?thesis by (intro exI [of _ ?img]) simp
qed



text \<open>Widening conversions with \<open>valupmod = "shift"\<close> shift the black level by a negative
  amount, which C leaves undefined.\<close>

theorem convert_up_undefined:
  assumes "bpp (fmt img) < b" and "rawimg_find_format b e \<noteq> None"
  shows "rawimg_lua_convert fresh img b e True down lbuf = None"
  using assms by (auto simp: rawimg_lua_convert_def valshift_def word_less_alt)

theorem convert_up_undefined_witness:
  "rawimg_lua_convert (\<lambda>n. replicate n 0) ex_img 16 0 True True None = None"
  using convert_up_undefined [of ex_img 16 0]
  by (simp add: ex_fmt rawimg_find_format_def raw_formats_def FMT_DEF_SINGLE_def RAW_ENDIAN_l_def
      RAW_ENDIAN_b_def word_less_nat_alt)

section \<open>Thumbnails\<close>

lemma nth_grid:
  assumes "x < m" "y < n"
  shows "concat (map (\<lambda>y. map (\<lambda>x. (f x, g y)) [0..<m]) [0..<n]) ! (y * m + x) = (f x, g y)"
    and "y * m + x < length (concat (map (\<lambda>y. map (\<lambda>x. (f x, g y)) [0..<m]) [0..<n]))"
proof -
  let ?c = "\<lambda>n. concat (map (\<lambda>y. map (\<lambda>x. (f x, g y)) [0..<m]) [0..<n])"
  have len: "length (?c n) = n * m" for n by (induction n) simp_all
  have lt: "y * m + x < n * m" if "y < n" for n
    using mult_le_mono1 [of "y + 1" n m] that assms(1) by simp
  show "y * m + x < length (?c n)" using lt [OF assms(2)] by (simp only: len)
  show "?c n ! (y * m + x) = (f x, g y)"
    using assms(2)
  proof (induction n)
    case (Suc n)
    show ?case
    proof (cases "y < n")
      case True
      with Suc.IH lt [OF True] show ?thesis by (simp add: nth_append len)
    next
      case False
      with Suc.prems have "y = n" by simp
      with assms(1) show ?thesis by (simp add: nth_append len)
    qed
  qed simp
qed

text \<open>A loop that returns satisfies at its end what every step preserves.\<close>

lemma ofold_prefix_inv:
  assumes "ofold f xs s = Some s'" and "P [] s"
    and "\<And>pre x s s'. P pre s \<Longrightarrow> f x s = Some s' \<Longrightarrow> P (pre @ [x]) s'"
  shows "P xs s'"
  using assms(1)
proof (induction xs arbitrary: s' rule: rev_induct)
  case Nil
  then show ?case using assms(2) by simp
next
  case (snoc x xs)
  then obtain s1 where "ofold f xs s = Some s1" "f x s1 = Some s'"
    by (auto simp: ofold_append bind_eq_Some_conv)
  with snoc.IH assms(3) show ?case by blast
qed

lemma take3_update:
  assumes "p + 2 < length t"
  shows "take 3 (drop p (t[p := a, p + 1 := b, p + 2 := c])) = [a, b, c]"
    and "q + 3 \<le> p \<Longrightarrow> take 3 (drop q (t[p := a, p + 1 := b, p + 2 := c])) = take 3 (drop q t)"
proof -
  have "[a, b, c] ! i = (t[p := a, p + 1 := b, p + 2 := c]) ! (p + i)" if "i < 3" for i
    using that assms less_numeral_cases(2) [of i] by (auto simp: nth_list_update)
  then show "take 3 (drop p (t[p := a, p + 1 := b, p + 2 := c])) = [a, b, c]"
    using assms by (intro nth_equalityI) auto
  show "q + 3 \<le> p \<Longrightarrow> take 3 (drop q (t[p := a, p + 1 := b, p + 2 := c])) = take 3 (drop q t)"
    using assms by (intro nth_equalityI) auto
qed

text \<open>The three bytes the code computes for the thumbnail pixel (\<open>tx\<close>, \<open>ty\<close>); the third one is
  read at the column \<open>bx+gx\<close>.\<close>

definition thumb_pixel :: "raw_image_t \<Rightarrow> u32 \<Rightarrow> u32 \<Rightarrow> u32 \<Rightarrow> u32 \<Rightarrow> bytes option" where
  "thumb_pixel img w h tx ty =
     (let iw = active_right img - active_left img; ih = active_bottom img - active_top img;
          (rx, ry) = cfa_offsets (cfa_pattern img) CFA_RED;
          (gx, gy) = cfa_offsets (cfa_pattern img) CFA_GREEN;
          (bx, by) = cfa_offsets (cfa_pattern img) CFA_BLUE;
          get = (\<lambda>x y. map_option (\<lambda>v. ucast (drop_bit (unat (bpp (fmt img) - 8)) v))
                   (get_pixel (fmt img) (img_data img) (row_bytes img) x y));
          ix = (active_left img + tx * iw div w) AND NOT 1;
          iy = (active_top img + ty * ih div h) AND NOT 1
      in do { r \<leftarrow> get (ix + rx) (iy + ry); g \<leftarrow> get (ix + gx) (iy + gy);
              b \<leftarrow> get (bx + gx) (iy + by); Some [r, g, b] })"

lemma make_rgb_thumb_pixels:
  assumes "rawimg_lua_make_rgb_thumb img w h = Some (Inr thumb)" and "tx < w" and "ty < h"
  shows "thumb_pixel img w h tx ty =
    Some (take 3 (drop (3 * (unat ty * unat w + unat tx)) thumb))"
proof -
  obtain rx ry gx gy bx bl where c: "cfa_offsets (cfa_pattern img) CFA_RED = (rx, ry)"
    "cfa_offsets (cfa_pattern img) CFA_GREEN = (gx, gy)"
    "cfa_offsets (cfa_pattern img) CFA_BLUE = (bx, bl)" by (metis surj_pair)
  let ?iw = "active_right img - active_left img" and ?ih = "active_bottom img - active_top img"
  let ?get = "get_pixel (fmt img) (img_data img) (row_bytes img)"
  let ?ix = "\<lambda>tx. (active_left img + tx * ?iw div w) AND NOT 1"
  let ?iy = "\<lambda>ty. (active_top img + ty * ?ih div h) AND NOT 1"
  let ?sh = "unat (bpp (fmt img) - 8)"
  let ?f = "\<lambda>tx ty (thumb, p). do {
      r \<leftarrow> ?get (?ix tx + rx) (?iy ty + ry);
      thumb \<leftarrow> st8 thumb p (ucast (drop_bit ?sh r));
      g \<leftarrow> ?get (?ix tx + gx) (?iy ty + gy);
      thumb \<leftarrow> st8 thumb (p + 1) (ucast (drop_bit ?sh g));
      b \<leftarrow> ?get (bx + gx) (?iy ty + bl);
      thumb \<leftarrow> st8 thumb (p + 2) (ucast (drop_bit ?sh b));
      Some (thumb, p + 3) }"
  let ?xs = "concat (map (\<lambda>y. map (\<lambda>x. (x, y)) (urange 0 w)) (urange 0 h))"
  let ?P = "\<lambda>pre (s :: bytes \<times> nat). snd s = 3 * length pre \<and> snd s \<le> length (fst s) \<and>
    (\<forall>k < length pre. thumb_pixel img w h (fst (pre ! k)) (snd (pre ! k)) =
       Some (take 3 (drop (3 * k) (fst s))))"
  from assms(1) obtain p where
    "ofold (\<lambda>ty. ofold (\<lambda>tx. ?f tx ty) (urange 0 w)) (urange 0 h)
       (replicate (unat (w * h * 3)) 0, 0) = Some (thumb, p)"
    by (auto simp: rawimg_lua_make_rgb_thumb_def Let_def c split: if_splits)
  then have "ofold (\<lambda>(tx, ty). ?f tx ty) ?xs (replicate (unat (w * h * 3)) 0, 0) = Some (thumb, p)"
    by (subst (asm) ofold_nested)
  then have "?P ?xs (thumb, p)"
  proof (rule ofold_prefix_inv)
    fix pre :: "(u32 \<times> u32) list" and q and s s' :: "bytes \<times> nat"
    assume P: "?P pre s" and step: "(case q of (tx, ty) \<Rightarrow> ?f tx ty) s = Some s'"
    obtain tx ty t p where q: "q = (tx, ty)" and s: "s = (t, p)" by (cases q; cases s) auto
    from step obtain r g b where px: "?get (?ix tx + rx) (?iy ty + ry) = Some r"
      "?get (?ix tx + gx) (?iy ty + gy) = Some g" "?get (bx + gx) (?iy ty + bl) = Some b"
      and s': "s' = (t[p := ucast (drop_bit ?sh r), p + 1 := ucast (drop_bit ?sh g),
        p + 2 := ucast (drop_bit ?sh b)], p + 3)" and len: "p + 2 < length t"
      by (auto simp: q s bind_eq_Some_conv st8_eq_Some_iff)
    have p: "p = 3 * length pre" and old: "\<And>k. k < length pre \<Longrightarrow>
        thumb_pixel img w h (fst (pre ! k)) (snd (pre ! k)) = Some (take 3 (drop (3 * k) t))"
      using P by (auto simp: s)
    have "thumb_pixel img w h tx ty = Some [ucast (drop_bit ?sh r), ucast (drop_bit ?sh g),
        ucast (drop_bit ?sh b)]"
      by (simp only: thumb_pixel_def Let_def c prod.case px option.map Option.bind.bind_lunit)
    then have new: "thumb_pixel img w h tx ty = Some (take 3 (drop p (fst s')))"
      by (simp only: s' fst_conv take3_update(1) [OF len])
    have keep: "take 3 (drop (3 * k) (fst s')) = take 3 (drop (3 * k) t)" if "k < length pre" for k
      unfolding s' fst_conv by (rule take3_update(2) [OF len]) (use that p in simp)
    show "?P (pre @ [q]) s'"
      using old keep new len p q s' by (auto simp: nth_append less_Suc_eq)
  qed simp
  let ?k = "unat ty * unat w + unat tx"
  have "unat tx < unat w" "unat ty < unat h" using assms(2,3) by (simp_all add: word_less_nat_alt)
  note g = nth_grid [OF this, where f = "of_nat :: nat \<Rightarrow> u32" and g = "of_nat :: nat \<Rightarrow> u32"]
  have "?xs = concat (map (\<lambda>y. map (\<lambda>x. (of_nat x, of_nat y)) [0..<unat w]) [0..<unat h])"
    by (simp add: urange_def o_def)
  with g have "?xs ! ?k = (tx, ty)" "?k < length ?xs" by simp_all
  with \<open>?P ?xs (thumb, p)\<close> show ?thesis by force
qed

text \<open>C29: the thumbnail. When \<open>make_rgb_thumb\<close> returns one, its pixel (\<open>tx\<close>, \<open>ty\<close>) is the three
  bytes \<open>thumb_pixel\<close> gives: red and green of the 2x2 cell at the scaled position, and as blue
  the pixel at column \<open>bx+gx\<close> of the row, so that the blue bytes of a row are all the same.\<close>

theorem make_rgb_thumb_correct:
  assumes "rawimg_lua_make_rgb_thumb img w h = Some (Inr thumb)"
    and "tx < w" and "tx' < w" and "ty < h"
  shows "thumb_pixel img w h tx ty = Some (take 3 (drop (3 * (unat ty * unat w + unat tx)) thumb)) \<and>
    thumb ! (3 * (unat ty * unat w + unat tx) + 2) = thumb ! (3 * (unat ty * unat w + unat tx') + 2)"
proof -
  have third: "thumb ! (n + 2) = v ! 2" if "take 3 (drop n thumb) = v" "length v = 3" for n v
    using that by (auto simp: length_take)
  have same: "v ! 2 = v' ! 2 \<and> length v = 3 \<and> length v' = 3"
    if "thumb_pixel img w h tx ty = Some v" "thumb_pixel img w h tx' ty = Some v'" for v v'
    using that
    by (auto simp: thumb_pixel_def Let_def bind_eq_Some_conv split: prod.splits)
  note px = make_rgb_thumb_pixels [OF assms(1,2,4)] make_rgb_thumb_pixels [OF assms(1,3,4)]
  with same [OF px] third show ?thesis by metis
qed

definition ex_thumb :: raw_image_t where
  "ex_thumb = \<lparr> fmt = FMT_DEF_SINGLE 8 RAW_ENDIAN_l 1 raw_get_pixel_8l raw_set_pixel_8l,
     row_bytes = 4, width = 4, height = 2, cfa_pattern = [0, 1, 1, 2], active_top = 0,
     active_left = 0, active_bottom = 2, active_right = 4, black_level = 0,
     img_data = [10, 20, 30, 40, 50, 60, 70, 80] \<rparr>"

lemma ex_thumb_made:
  "rawimg_lua_make_rgb_thumb ex_thumb 2 1 = Some (Inr [10, 50, 60, 30, 70, 60])"
  by code_simp

theorem make_rgb_thumb_correct_witness:
  "thumb_pixel ex_thumb 2 1 1 0 = Some [30, 70, 60] \<and> ([10, 50, 60, 30, 70, 60] :: bytes) ! 5 = 60"
proof -
  have "(1 :: u32) < 2" "(0 :: u32) < 2" "(0 :: u32) < 1" by (simp_all add: word_less_nat_alt)
  from make_rgb_thumb_correct [OF ex_thumb_made this] show ?thesis
    by (simp add: eval_nat_numeral)
qed

end
