(* ===== verification/Transport.thy ===== *)
theory Transport
  imports Ptp_Types
begin

text \<open>
  The parameters of a connection (\<open>PTPParams\<close>) and the buffered reading of \<open>ptp.c\<close>
  (\<open>ptp_transport_read_from_buffer\<close>, \<open>ptp_transport_read_to_buffer\<close>,
  \<open>ptp_control_read_buffered\<close>). The contract of a reading function is the locale
  \<open>byte_stream\<close>: the device has a sequence of bytes to deliver, a read takes some of them.
  Under it the packet buffer is invisible: what a connection will still read is the buffered
  bytes followed by the undelivered ones (\<open>input\<close>).
\<close>

section \<open>Connection parameters\<close>

definition PTP_USB_BULK_HS_MAX_PACKET_LEN :: nat where "PTP_USB_BULK_HS_MAX_PACKET_LEN = 512"

definition PTP_PACKET_BUFFER_SIZE :: nat where
  "PTP_PACKET_BUFFER_SIZE = PTP_USB_BULK_HS_MAX_PACKET_LEN"

record PTPPacketBuffer =
  b_data :: bytes
  b_pos :: int
  b_len :: int

text \<open>
  The I/O functions of \<open>PTPParams\<close>. \<open>read_func io m off n w\<close> stores at most \<open>n\<close> bytes at
  position \<open>off\<close> of the object \<open>m\<close> and returns how many, or a negative number; \<open>'w\<close> is the
  connection state behind \<open>void *data\<close>, with all of the outside world the functions act on.
  \<open>malloc io n\<close> is a new object of \<open>n\<close> bytes or NULL, \<open>stack io n\<close> the contents of a local
  object of \<open>n\<close> bytes that is not initialised.
\<close>

record 'w ptp_io =
  read_func :: "bytes \<Rightarrow> nat \<Rightarrow> u32 \<Rightarrow> 'w \<Rightarrow> (int \<times> bytes \<times> 'w) option"
  write_func :: "bytes \<Rightarrow> 'w \<Rightarrow> u16 \<times> 'w"
  check_int_func :: "bytes \<Rightarrow> nat \<Rightarrow> u32 \<Rightarrow> 'w \<Rightarrow> (int \<times> bytes \<times> 'w) option"
  check_int_fast_func :: "bytes \<Rightarrow> nat \<Rightarrow> u32 \<Rightarrow> 'w \<Rightarrow> (int \<times> bytes \<times> 'w) option"
  malloc :: "nat \<Rightarrow> bytes option"
  stack :: "nat \<Rightarrow> bytes"

record 'w PTPParams =
  byteorder :: u8
  transaction_id :: u32
  session_id :: u32
  deviceinfo :: PTPDeviceInfo
  max_packet_size :: u32
  pkt_buf :: PTPPacketBuffer
  con :: 'w

text \<open>
  Where received data go. A handler gets the number of bytes, the block buffer, the
  \<open>total_size\<close> of \<open>PTPGetdataParams\<close> and its own \<open>handler_data\<close>, which it may change.
\<close>

record 'h PTPGetdataParams =
  handler :: "(u32 \<Rightarrow> bytes \<Rightarrow> u64 \<Rightarrow> 'h \<Rightarrow> u16 \<times> 'h) option"
  block_size :: u32
  ret_data :: "bytes option"
  handler_data :: 'h
  total_size :: u64

text \<open>The size of the block buffer for a handler: 2 MB by default, at least 1 KB.\<close>

definition handler_block :: "u32 \<Rightarrow> u32" where
  "handler_block bs = (if bs = 0 then 1024 * 1024 * 2 else if bs < 1024 then 1024 else bs)"

section \<open>The packet buffer\<close>

definition ptp_transport_read_from_buffer ::
  "PTPPacketBuffer \<Rightarrow> int \<Rightarrow> bytes \<Rightarrow> nat \<Rightarrow> (int \<times> PTPPacketBuffer \<times> bytes) option" where
  "ptp_transport_read_from_buffer b max_size m dst =
     (if b_len b = 0 then Some (0, b, m)
      else
        let len = (if b_len b > max_size then max_size else b_len b) in
        if len < 0 then None
        else do {
          bs \<leftarrow> ldn (b_data b) (nat (b_pos b)) (nat len);
          m \<leftarrow> blit m dst bs;
          let b = b \<lparr> b_len := b_len b - len, b_pos := b_pos b + len \<rparr>;
          let b = (if b_len b = 0 then b \<lparr> b_pos := 0 \<rparr> else b);
          Some (len, b, m)
        })"

text \<open>The loop of \<open>ptp_transport_read_to_buffer\<close>: whether it succeeded, the buffer's bytes, the
  number of bytes read and the connection.\<close>

partial_function (option) read_to_buffer_loop ::
  "'w ptp_io \<Rightarrow> int \<Rightarrow> bytes \<Rightarrow> nat \<Rightarrow> 'w \<Rightarrow> (bool \<times> bytes \<times> nat \<times> 'w) option" where
  "read_to_buffer_loop io min_size d tot w = do {
     (rsize, d, w) \<leftarrow> read_func io d tot (word_of_int (int PTP_PACKET_BUFFER_SIZE - int tot)) w;
     if rsize < 0 then Some (False, d, tot, w)
     else if int (tot + nat rsize) < min_size
     then read_to_buffer_loop io min_size d (tot + nat rsize) w
     else Some (True, d, tot + nat rsize, w)
   }"

definition ptp_transport_read_to_buffer ::
  "'w ptp_io \<Rightarrow> 'w PTPParams \<Rightarrow> int \<Rightarrow> (u16 \<times> 'w PTPParams) option" where
  "ptp_transport_read_to_buffer io p min_size =
     (let b = pkt_buf p in
      if b_len b \<noteq> 0 \<or> b_pos b \<noteq> 0 \<or> min_size > int PTP_PACKET_BUFFER_SIZE
      then Some (PTP_ERROR_BADPARAM, p)
      else do {
        (success, d, tot, w) \<leftarrow> read_to_buffer_loop io min_size (b_data b) 0 (con p);
        let p = p \<lparr> pkt_buf := b \<lparr> b_data := d \<rparr>, con := w \<rparr>;
        if \<not> success then Some (PTP_ERROR_IO, p)
        else Some (PTP_RC_OK, p \<lparr> pkt_buf := (pkt_buf p) \<lparr> b_len := int tot \<rparr> \<rparr>)
      })"

definition ptp_control_read_buffered ::
  "'w ptp_io \<Rightarrow> 'w PTPParams \<Rightarrow> int \<Rightarrow> bytes \<Rightarrow> nat \<Rightarrow> (u16 \<times> bytes \<times> 'w PTPParams) option" where
  "ptp_control_read_buffered io p sz m dst = do {
     (bcount, b, m) \<leftarrow> ptp_transport_read_from_buffer (pkt_buf p) sz m dst;
     let p = p \<lparr> pkt_buf := b \<rparr>;
     if bcount < sz then do {
       (ret, p) \<leftarrow> ptp_transport_read_to_buffer io p (sz - bcount);
       if ret \<noteq> PTP_RC_OK then Some (ret, m, p)
       else do {
         (n, b, m) \<leftarrow> ptp_transport_read_from_buffer (pkt_buf p) (sz - bcount) m (dst + nat bcount);
         let p = p \<lparr> pkt_buf := b \<rparr>;
         if n \<noteq> sz - bcount then Some (PTP_ERROR_BADPARAM, m, p) else Some (PTP_RC_OK, m, p)
       }
     } else Some (PTP_RC_OK, m, p)
   }"

section \<open>What is still to be read\<close>

definition buffered :: "PTPPacketBuffer \<Rightarrow> bytes" where
  "buffered b = take (nat (b_len b)) (drop (nat (b_pos b)) (b_data b))"

definition input :: "('w \<Rightarrow> bytes) \<Rightarrow> 'w PTPParams \<Rightarrow> bytes" where
  "input pending p = buffered (pkt_buf p) @ pending (con p)"

text \<open>The invariant of the packet buffer: the buffered part lies in the buffer, and an empty
  buffer starts at its beginning, as \<open>ptp_transport_read_to_buffer\<close> demands.\<close>

definition buf_ok :: "PTPPacketBuffer \<Rightarrow> bool" where
  "buf_ok b \<longleftrightarrow> length (b_data b) = PTP_PACKET_BUFFER_SIZE \<and> 0 \<le> b_pos b \<and> 0 \<le> b_len b \<and>
     b_pos b + b_len b \<le> int PTP_PACKET_BUFFER_SIZE \<and> (b_len b = 0 \<longrightarrow> b_pos b = 0)"

text \<open>\<open>same_params p p'\<close>: a read changes the packet buffer and the connection only.\<close>

definition same_params :: "'w PTPParams \<Rightarrow> 'w PTPParams \<Rightarrow> bool" where
  "same_params p p' \<longleftrightarrow> p' = p \<lparr> pkt_buf := pkt_buf p', con := con p' \<rparr>"

lemma same_params_refl [simp]: "same_params p p"
  by (simp add: same_params_def)

lemma same_params_trans: "same_params p q \<Longrightarrow> same_params q r \<Longrightarrow> same_params p r"
  by (cases p; cases q; cases r) (simp add: same_params_def)

lemma same_params_upd [simp]:
  "same_params p (p \<lparr> pkt_buf := b \<rparr>)" "same_params p (p \<lparr> con := w \<rparr>)"
  "same_params p (p \<lparr> pkt_buf := b, con := w \<rparr>)"
  by (cases p; simp add: same_params_def)+

lemma same_params_fields:
  assumes "same_params p p'"
  shows "byteorder p' = byteorder p" "transaction_id p' = transaction_id p"
    "session_id p' = session_id p" "deviceinfo p' = deviceinfo p"
    "max_packet_size p' = max_packet_size p"
  using assms by (cases p; cases p'; simp add: same_params_def)+

lemma length_buffered: "buf_ok b \<Longrightarrow> length (buffered b) = nat (b_len b)"
  by (auto simp: buf_ok_def buffered_def)

lemma buffered_empty [simp]: "b_len b = 0 \<Longrightarrow> buffered b = []"
  by (simp add: buffered_def)

lemma buffer_size: "PTP_PACKET_BUFFER_SIZE = 512"
  by (simp add: PTP_PACKET_BUFFER_SIZE_def PTP_USB_BULK_HS_MAX_PACKET_LEN_def)

text \<open>Taking \<open>n\<close> bytes out of the buffer hands over its first \<open>min n len\<close> bytes.\<close>

lemma read_from_buffer_eq:
  assumes b: "buf_ok b" and n: "0 \<le> n"
  obtains b' where "buf_ok b'" and "buffered b' = drop (nat n) (buffered b)"
    and "ptp_transport_read_from_buffer b n m dst =
      (if b_len b = 0 then Some (0, b', m)
       else map_option (\<lambda>m'. (int (min (nat n) (length (buffered b))), b', m'))
         (blit m dst (take (nat n) (buffered b))))"
proof (cases "b_len b = 0")
  case True
  then show thesis using that [of b] b by (simp add: ptp_transport_read_from_buffer_def)
next
  case False
  define k where "k = min (nat n) (length (buffered b))"
  have bounds: "0 \<le> b_pos b" "0 < b_len b" "b_pos b + b_len b \<le> 512" "length (b_data b) = 512"
    using b False by (auto simp: buf_ok_def buffer_size)
  have L: "length (buffered b) = nat (b_len b)" using b by (rule length_buffered)
  have len: "(if b_len b > n then n else b_len b) = int k"
    unfolding k_def L using n bounds(2) by simp
  have k: "int k \<le> b_len b" unfolding k_def L using bounds(2) by simp
  then have "nat (b_pos b) + k \<le> length (b_data b)" using bounds by linarith
  then have "ldn (b_data b) (nat (b_pos b)) k = Some (take k (drop (nat (b_pos b)) (b_data b)))"
    by (simp add: ldn_def)
  also have "take k (drop (nat (b_pos b)) (b_data b)) = take (nat n) (buffered b)"
    unfolding k_def L by (simp add: buffered_def min.commute)
  finally have bs: "ldn (b_data b) (nat (b_pos b)) k = Some (take (nat n) (buffered b))" .
  let ?b = "b \<lparr> b_len := b_len b - int k, b_pos := b_pos b + int k \<rparr>"
  let ?b' = "if b_len ?b = 0 then ?b \<lparr> b_pos := 0 \<rparr> else ?b"
  have eq: "ptp_transport_read_from_buffer b n m dst =
      map_option (\<lambda>m'. (int k, ?b', m')) (blit m dst (take (nat n) (buffered b)))"
    unfolding ptp_transport_read_from_buffer_def Let_def len using False bs
    by (cases "blit m dst (take (nat n) (buffered b))") simp_all
  have ok: "buf_ok ?b'"
    using bounds k by (simp add: buf_ok_def buffer_size)
  have rest: "buffered ?b' = drop (nat n) (buffered b)"
  proof (cases "int k = b_len b")
    case True
    then have "length (buffered b) \<le> nat n" using L bounds(2) unfolding k_def by linarith
    with True show ?thesis by simp
  next
    case False
    with k have less: "k < nat (b_len b)" by linarith
    then have j: "k = nat n" by (simp add: k_def L)
    have "nat (b_len b - int k) = nat (b_len b) - nat n" "nat (b_pos b + int k) = nat n + nat (b_pos b)"
      using less bounds unfolding j by linarith+
    then show ?thesis using False by (simp add: buffered_def drop_take)
  qed
  show thesis
    by (rule that [OF ok rest]) (use eq False in \<open>simp only: k_def if_False\<close>)
qed

lemma read_from_buffer_ok:
  assumes b: "buf_ok b" and n: "0 \<le> n" and room: "dst + min (nat n) (length (buffered b)) \<le> length m"
  obtains b' m' where "ptp_transport_read_from_buffer b n m dst =
      Some (int (min (nat n) (length (buffered b))), b', m')"
    and "blit m dst (take (nat n) (buffered b)) = Some m'"
    and "buf_ok b'" and "buffered b' = drop (nat n) (buffered b)"
proof -
  have "dst + length (take (nat n) (buffered b)) \<le> length m" using room by (simp add: min.commute)
  then obtain m' where m': "blit m dst (take (nat n) (buffered b)) = Some m'"
    using blit_exists by blast
  obtain b' where "buf_ok b'" "buffered b' = drop (nat n) (buffered b)"
    "ptp_transport_read_from_buffer b n m dst =
      (if b_len b = 0 then Some (0, b', m)
       else map_option (\<lambda>m'. (int (min (nat n) (length (buffered b))), b', m'))
         (blit m dst (take (nat n) (buffered b))))"
    by (rule read_from_buffer_eq [OF b n])
  with m' show thesis
    by (intro that [of b' m']) (auto dest: blit_Nil)
qed

lemma read_from_buffer_sound:
  assumes "ptp_transport_read_from_buffer b n m dst = Some (k, b', m')" and b: "buf_ok b" and n: "0 \<le> n"
  shows "k = int (min (nat n) (length (buffered b))) \<and> buf_ok b' \<and>
    buffered b' = drop (nat n) (buffered b) \<and>
    (if b_len b = 0 then m' = m else blit m dst (take (nat n) (buffered b)) = Some m')"
proof -
  obtain b1 where "buf_ok b1" "buffered b1 = drop (nat n) (buffered b)"
    "ptp_transport_read_from_buffer b n m dst =
      (if b_len b = 0 then Some (0, b1, m)
       else map_option (\<lambda>m'. (int (min (nat n) (length (buffered b))), b1, m'))
         (blit m dst (take (nat n) (buffered b))))"
    by (rule read_from_buffer_eq [OF b n])
  with assms(1) show ?thesis by (auto split: if_splits)
qed

section \<open>The contract of a reading function\<close>

text \<open>
  \<open>pending w\<close> are the bytes that will still arrive. A read of an admissible size (\<open>adm\<close>) that
  returns a count of zero or more has moved that many of them, in order, to the place given.
\<close>

locale byte_stream =
  fixes io :: "'w ptp_io" and pending :: "'w \<Rightarrow> bytes" and adm :: "u32 \<Rightarrow> bool"
  assumes read_length: "read_func io m off n w = Some (r, m', w') \<Longrightarrow> length m' = length m"
    and read_sound: "adm n \<Longrightarrow> read_func io m off n w = Some (r, m', w') \<Longrightarrow> 0 \<le> r \<Longrightarrow>
      \<exists>bs. int (length bs) = r \<and> length bs \<le> unat n \<and> blit m off bs = Some m' \<and>
        pending w = bs @ pending w'"
    and adm_buffer: "unat n \<le> PTP_PACKET_BUFFER_SIZE \<Longrightarrow> adm n"
begin

lemma read_to_buffer_loop_sound:
  assumes "read_to_buffer_loop io min_size d tot w = Some (s, d', tot', w')"
    and "tot \<le> length d" and "length d = PTP_PACKET_BUFFER_SIZE"
  shows "length d' = length d \<and>
    (s \<longrightarrow> min_size \<le> int tot' \<and> tot' \<le> length d \<and>
      (\<exists>bs. tot + length bs = tot' \<and> take tot' d' = take tot d @ bs \<and> pending w = bs @ pending w'))"
proof -
  let ?P = "\<lambda>io' min_size d tot w r. io' = io \<longrightarrow> tot \<le> length d \<longrightarrow>
    length d = PTP_PACKET_BUFFER_SIZE \<longrightarrow>
    (case r of (s, d', tot', w') \<Rightarrow> length d' = length d \<and>
    (s \<longrightarrow> min_size \<le> int tot' \<and> tot' \<le> length d \<and>
      (\<exists>bs. tot + length bs = tot' \<and> take tot' d' = take tot d @ bs \<and> pending w = bs @ pending w')))"
  have "?P io min_size d tot w (s, d', tot', w')"
  proof (rule read_to_buffer_loop.raw_induct [where P = ?P, OF _ assms(1)])
    fix f and io' :: "'w ptp_io" and min_size d tot w r
    assume IH: "\<And>io' min_size d tot w r. f io' min_size d tot w = Some r \<Longrightarrow> ?P io' min_size d tot w r"
      and step: "do {
         (rsize, d, w) \<leftarrow> read_func io' d tot (word_of_int (int PTP_PACKET_BUFFER_SIZE - int tot)) w;
         if rsize < 0 then Some (False, d, tot, w)
         else if int (tot + nat rsize) < min_size then f io' min_size d (tot + nat rsize) w
         else Some (True, d, tot + nat rsize, w) } = Some r"
    show "?P io' min_size d tot w r"
    proof (intro impI)
      assume io: "io' = io" and tot: "tot \<le> length d" and len: "length d = PTP_PACKET_BUFFER_SIZE"
      let ?n = "word_of_int (int PTP_PACKET_BUFFER_SIZE - int tot) :: u32"
      have n: "unat ?n = 512 - tot" using tot len
        by (simp only: buffer_size) (rule unat_word_diff, simp_all)
      then have adm: "adm ?n"
        by (intro adm_buffer) (simp add: PTP_PACKET_BUFFER_SIZE_def PTP_USB_BULK_HS_MAX_PACKET_LEN_def)
      from step obtain rs d1 w1 where rd: "read_func io d tot ?n w = Some (rs, d1, w1)"
        and ite: "(if rs < 0 then Some (False, d1, tot, w1)
           else if int (tot + nat rs) < min_size then f io min_size d1 (tot + nat rs) w1
           else Some (True, d1, tot + nat rs, w1)) = Some r"
        unfolding io by (cases "read_func io d tot ?n w") (simp_all only: bind.simps prod.case option.simps split_paired_all)
      note len1 = read_length [OF rd]
      show "case r of (s, d', tot', w') \<Rightarrow> length d' = length d \<and>
        (s \<longrightarrow> min_size \<le> int tot' \<and> tot' \<le> length d \<and>
          (\<exists>bs. tot + length bs = tot' \<and> take tot' d' = take tot d @ bs \<and> pending w = bs @ pending w'))"
      proof (cases "rs < 0")
        case True
        with ite len1 show ?thesis by auto
      next
        case False
        with read_sound [OF adm rd] obtain bs where bs: "int (length bs) = rs" "length bs \<le> 512 - tot"
          "blit d tot bs = Some d1" "pending w = bs @ pending w1" using n by auto
        have fit: "tot + length bs \<le> length d" using bs(2) tot len
          by (simp add: PTP_PACKET_BUFFER_SIZE_def PTP_USB_BULK_HS_MAX_PACKET_LEN_def)
        then have pre: "take (tot + length bs) d1 = take tot d @ bs"
          using bs(3) by (auto simp: blit_def)
        show ?thesis
        proof (cases "int (tot + nat rs) < min_size")
          case True
          with ite False have "f io min_size d1 (tot + length bs) w1 = Some r"
            unfolding bs(1) [symmetric] by simp
          note ih = IH [OF this]
          obtain s d2 t2 w2 where r: "r = (s, d2, t2, w2)" by (cases r)
          have "length d2 = length d1 \<and> (s \<longrightarrow> min_size \<le> int t2 \<and> t2 \<le> length d1 \<and>
            (\<exists>cs. tot + length bs + length cs = t2 \<and>
              take t2 d2 = take (tot + length bs) d1 @ cs \<and> pending w1 = cs @ pending w2))"
            using ih fit len len1 by (simp add: r)
          then show ?thesis
            by (simp only: r prod.case len1 pre bs(4) append_assoc)
              (metis append.assoc length_append add.assoc)
        next
          case beyond: False
          with ite False have "r = (True, d1, tot + length bs, w1)"
            unfolding bs(1) [symmetric] by simp
          moreover have "min_size \<le> int (tot + length bs)" using beyond bs(1) by linarith
          ultimately show ?thesis using pre fit len1 bs(4) by simp
        qed
      qed
    qed
  qed
  with assms(2,3) show ?thesis by simp
qed

text \<open>A read to the buffer keeps its invariant and the input; it delivers what was asked for.\<close>

lemma read_to_buffer_sound:
  assumes "ptp_transport_read_to_buffer io p n = Some (r, p')" and "buf_ok (pkt_buf p)"
  shows "buf_ok (pkt_buf p') \<and> same_params p p' \<and>
    (r = PTP_RC_OK \<longrightarrow> input pending p' = input pending p \<and> n \<le> b_len (pkt_buf p'))"
proof (cases "b_len (pkt_buf p) \<noteq> 0 \<or> b_pos (pkt_buf p) \<noteq> 0 \<or> n > int PTP_PACKET_BUFFER_SIZE")
  case True
  then show ?thesis using assms by (auto simp: ptp_transport_read_to_buffer_def Let_def)
next
  case False
  let ?b = "pkt_buf p"
  from False assms(1) obtain s d tot w
    where loop: "read_to_buffer_loop io n (b_data ?b) 0 (con p) = Some (s, d, tot, w)"
      and r: "r = (if s then PTP_RC_OK else PTP_ERROR_IO)"
      and p': "p' = p \<lparr> pkt_buf := ?b \<lparr> b_data := d, b_len := if s then int tot else b_len ?b \<rparr>, con := w \<rparr>"
    by (auto simp: ptp_transport_read_to_buffer_def Let_def bind_eq_Some_conv split: if_splits)
  have len: "length (b_data ?b) = PTP_PACKET_BUFFER_SIZE" using assms(2) by (simp add: buf_ok_def)
  note read_to_buffer_loop_sound [OF loop _ len]
  then show ?thesis
    using False len by (auto simp: p' r buf_ok_def input_def buffered_def)
qed

text \<open>A control read of \<open>n\<close> bytes that succeeds stores the next \<open>n\<close> bytes of the input, and leaves
  the rest of it.\<close>

lemma control_read_sound:
  assumes c: "ptp_control_read_buffered io p n m dst = Some (r, m', p')"
    and b: "buf_ok (pkt_buf p)" and n: "0 \<le> n"
  shows "buf_ok (pkt_buf p') \<and> same_params p p' \<and>
    (r = PTP_RC_OK \<longrightarrow> (\<exists>bs. int (length bs) = n \<and>
       (bs = [] \<and> m' = m \<or> blit m dst bs = Some m') \<and> input pending p = bs @ input pending p'))"
proof -
  let ?B = "buffered (pkt_buf p)"
  from c obtain k b1 m1 where r1: "ptp_transport_read_from_buffer (pkt_buf p) n m dst = Some (k, b1, m1)"
    by (auto simp: ptp_control_read_buffered_def bind_eq_Some_conv)
  from read_from_buffer_sound [OF r1 b n] have k: "k = int (min (nat n) (length ?B))"
    and b1: "buf_ok b1" "buffered b1 = drop (nat n) ?B"
    and m1: "if b_len (pkt_buf p) = 0 then m1 = m else blit m dst (take (nat n) ?B) = Some m1"
    by simp_all
  let ?p1 = "p \<lparr> pkt_buf := b1 \<rparr>"
  show ?thesis
  proof (cases "k < n")
    case False
    with c r1 have res: "r = PTP_RC_OK" "m' = m1" "p' = ?p1"
      by (auto simp: ptp_control_read_buffered_def Let_def)
    from False k n have "nat n \<le> length ?B" by linarith
    then show ?thesis
      using b1 m1 n by (auto simp: res input_def intro!: exI [of _ "take (nat n) ?B"] split: if_splits)
  next
    case True
    then have all: "length ?B < nat n" and k': "k = int (length ?B)" using k by auto
    from c r1 True obtain r2 p2 where r2: "ptp_transport_read_to_buffer io ?p1 (n - k) = Some (r2, p2)"
      by (auto simp: ptp_control_read_buffered_def Let_def bind_eq_Some_conv split: if_splits)
    have "buf_ok (pkt_buf ?p1)" using b1 by simp
    note s2 = read_to_buffer_sound [OF r2 this]
    have sp: "same_params p p2" using s2 same_params_trans [of p ?p1 p2] by simp
    show ?thesis
    proof (cases "r2 = PTP_RC_OK")
      case False
      with c r1 r2 True have "r \<noteq> PTP_RC_OK" "p' = p2"
        by (auto simp: ptp_control_read_buffered_def Let_def)
      with s2 sp show ?thesis by simp
    next
      case ok: True
      have b2: "buf_ok (pkt_buf p2)" and i2: "input pending p2 = input pending ?p1"
        and l2: "n - k \<le> b_len (pkt_buf p2)" using s2 ok by auto
      from c r1 r2 True ok obtain k3 b3 m3 where
        r3: "ptp_transport_read_from_buffer (pkt_buf p2) (n - k) m1 (dst + nat k) = Some (k3, b3, m3)"
        and res: "m' = m3" "p' = p2 \<lparr> pkt_buf := b3 \<rparr>" "r = (if k3 \<noteq> n - k then PTP_ERROR_BADPARAM else PTP_RC_OK)"
        by (auto simp: ptp_control_read_buffered_def Let_def bind_eq_Some_conv split: if_splits)
      have "0 \<le> n - k" using True by simp
      note s3 = read_from_buffer_sound [OF r3 b2 this]
      let ?C = "take (nat (n - k)) (buffered (pkt_buf p2))"
      have "nat (n - k) \<le> length (buffered (pkt_buf p2))"
        using l2 by (simp add: length_buffered [OF b2])
      then have C: "int (length ?C) = n - k" "?C \<noteq> []" using True by auto
      have "b_len (pkt_buf p2) \<noteq> 0" using l2 True by linarith
      then have m3: "blit m1 (dst + nat k) ?C = Some m3" using s3 by simp
      have whole: "input pending p = (?B @ ?C) @ input pending p'"
      proof -
        have "buffered b1 = []" using b1(2) all by simp
        then have "input pending p = ?B @ input pending ?p1" by (simp add: input_def)
        also have "input pending ?p1 = input pending p2" by (rule i2 [symmetric])
        also have "input pending p2 = ?C @ input pending p'"
          using s3 by (simp add: res(2) input_def)
        finally show ?thesis by simp
      qed
      have "blit m dst (?B @ ?C) = Some m3"
      proof (cases "b_len (pkt_buf p) = 0")
        case True
        with m1 m3 k' show ?thesis by simp
      next
        case False
        with m1 all have "blit m dst ?B = Some m1" by simp
        from blit_append [OF this] m3 k' show ?thesis by simp
      qed
      moreover have "same_params p p'" using sp same_params_trans [of p p2 p'] by (simp add: res(2))
      moreover have "int (length (?B @ ?C)) = n" using C(1) k' by simp
      moreover have "buf_ok (pkt_buf p')" using s3 by (simp add: res(2))
      ultimately show ?thesis using whole unfolding res(1) by blast
    qed
  qed
qed

end

text \<open>
  A live stream: a read of at least one byte returns as long as bytes are pending. What a
  stream socket promises; a USB endpoint promises less (see \<open>packet_stream\<close>).
\<close>

locale live_stream = byte_stream +
  fixes good :: "'a \<Rightarrow> bool"
  assumes all_adm: "adm n"
    and read_live: "n \<noteq> 0 \<Longrightarrow> off + unat n \<le> length m \<Longrightarrow> pending w \<noteq> [] \<Longrightarrow> good w \<Longrightarrow>
      \<exists>r m' w'. read_func io m off n w = Some (r, m', w') \<and> 0 < r \<and> good w'"
begin

lemma read_to_buffer_loop_live:
  assumes "nat min_size \<le> tot + length (pending w)" and "nat min_size \<le> length d"
    and "tot \<le> length d" and "length d = PTP_PACKET_BUFFER_SIZE" and "good w"
    and "tot < nat min_size"
  shows "\<exists>d' tot' w'. read_to_buffer_loop io min_size d tot w = Some (True, d', tot', w') \<and> good w'"
  using assms
proof (induction "nat min_size - tot" arbitrary: tot d w rule: less_induct)
  case less
  let ?n = "word_of_int (int PTP_PACKET_BUFFER_SIZE - int tot) :: u32"
  have n: "unat ?n = 512 - tot" using less.prems(3,4)
    by (simp only: buffer_size) (rule unat_word_diff, simp_all)
  have lt: "tot < 512" using less.prems(2,4,6) by (simp add: buffer_size)
  with n have "?n \<noteq> 0" by (metis unat_0 zero_less_diff less_irrefl)
  moreover have "tot + unat ?n \<le> length d" using n lt less.prems(4) by (simp add: buffer_size)
  moreover have "pending w \<noteq> []" using less.prems(1,6) by auto
  ultimately obtain r d1 w1 where rd: "read_func io d tot ?n w = Some (r, d1, w1)" "0 < r" "good w1"
    using read_live less.prems(5) by blast
  have "0 \<le> r" using rd(2) by simp
  from read_sound [OF all_adm rd(1) this] obtain bs where bs: "int (length bs) = r"
    "length bs \<le> 512 - tot" "pending w = bs @ pending w1" using n by auto
  note len = read_length [OF rd(1)]
  have r: "nat r = length bs" using bs(1) by simp
  have unf: "read_to_buffer_loop io min_size d tot w =
      (if int (tot + length bs) < min_size then read_to_buffer_loop io min_size d1 (tot + length bs) w1
       else Some (True, d1, tot + length bs, w1))"
    by (subst read_to_buffer_loop.simps, unfold rd(1)) (use rd(2) in \<open>simp add: r del: of_nat_add\<close>)
  show ?case
  proof (cases "int (tot + length bs) < min_size")
    case True
    have "\<exists>d' tot' w'. read_to_buffer_loop io min_size d1 (tot + length bs) w1 = Some (True, d', tot', w') \<and> good w'"
      by (rule less.hyps) (use True less.prems len bs rd lt in \<open>simp_all add: buffer_size\<close>)
    with True show ?thesis by (simp only: unf if_True)
  next
    case False
    with rd(3) show ?thesis by (simp only: unf if_False) blast
  qed
qed

lemma control_read_live:
  assumes b: "buf_ok (pkt_buf p)" and g: "good (con p)" and n: "0 \<le> n" "n \<le> 512"
    and room: "dst + nat n \<le> length m" and avail: "nat n \<le> length (input pending p)"
  shows "\<exists>m' p'. ptp_control_read_buffered io p n m dst = Some (PTP_RC_OK, m', p') \<and> good (con p')"
proof -
  let ?B = "buffered (pkt_buf p)"
  have "dst + min (nat n) (length ?B) \<le> length m" using room by linarith
  from read_from_buffer_ok [OF b n(1) this] obtain b1 m1 where
    r1: "ptp_transport_read_from_buffer (pkt_buf p) n m dst = Some (int (min (nat n) (length ?B)), b1, m1)"
    and m1: "blit m dst (take (nat n) ?B) = Some m1"
    and b1: "buf_ok b1" "buffered b1 = drop (nat n) ?B" by blast
  show ?thesis
  proof (cases "nat n \<le> length ?B")
    case True
    then have "int (min (nat n) (length ?B)) = n" using n by simp
    with r1 g show ?thesis by (simp add: ptp_control_read_buffered_def Let_def)
  next
    case False
    let ?k = "length ?B" and ?p1 = "p \<lparr> pkt_buf := b1 \<rparr>"
    have e: "b_len b1 = 0" using length_buffered [OF b1(1)] b1 False by (simp add: buf_ok_def)
    with b1(1) have e': "b_pos b1 = 0" "length (b_data b1) = PTP_PACKET_BUFFER_SIZE"
      by (simp_all add: buf_ok_def)
    have need: "nat (n - int ?k) \<le> 0 + length (pending (con p))"
      using avail by (simp add: input_def)
    have "\<exists>d' tot' w'. read_to_buffer_loop io (n - int ?k) (b_data b1) 0 (con p) = Some (True, d', tot', w') \<and> good w'"
      by (rule read_to_buffer_loop_live [OF need]) (use False n e' g in \<open>simp_all add: buffer_size\<close>)
    then obtain d' tot' w' where
      loop: "read_to_buffer_loop io (n - int ?k) (b_data b1) 0 (con p) = Some (True, d', tot', w')" "good w'"
      by blast
    let ?p2 = "p \<lparr> pkt_buf := b1 \<lparr> b_data := d', b_len := int tot' \<rparr>, con := w' \<rparr>"
    have "\<not> n - int ?k > int PTP_PACKET_BUFFER_SIZE" using n by (simp add: buffer_size)
    then have r2: "ptp_transport_read_to_buffer io ?p1 (n - int ?k) = Some (PTP_RC_OK, ?p2)"
      using loop e e' by (simp add: ptp_transport_read_to_buffer_def Let_def)
    have "buf_ok (pkt_buf ?p1)" using b1 by simp
    note s2 = read_to_buffer_sound [OF r2 this]
    then have b2: "buf_ok (pkt_buf ?p2)" and l2: "n - int ?k \<le> b_len (pkt_buf ?p2)" by auto
    then have full: "nat (n - int ?k) \<le> length (buffered (pkt_buf ?p2))"
      using length_buffered [OF b2] by linarith
    then have mn: "min (nat (n - int ?k)) (length (buffered (pkt_buf ?p2))) = nat (n - int ?k)" by simp
    have room1: "dst + ?k + min (nat (n - int ?k)) (length (buffered (pkt_buf ?p2))) \<le> length m1"
      using room False n blit_length [OF m1] unfolding mn by simp
    have "0 \<le> n - int ?k" using False n by simp
    from read_from_buffer_ok [OF b2 this room1, unfolded mn] obtain b3 m3 where
      "ptp_transport_read_from_buffer (pkt_buf ?p2) (n - int ?k) m1 (dst + ?k) = Some (int (nat (n - int ?k)), b3, m3)"
      by blast
    moreover have "int (min (nat n) ?k) = int ?k" "int (nat (n - int ?k)) = n - int ?k" "int ?k < n"
      using False n by auto
    ultimately show ?thesis
      using r1 r2 loop(2) by (simp add: ptp_control_read_buffered_def Let_def)
  qed
qed

text \<open>Both together: a control read in a connection that has the bytes gets them.\<close>

lemma control_read_ok:
  assumes "buf_ok (pkt_buf p)" and "good (con p)" and i: "input pending p = bs @ rest"
    and n: "n = int (length bs)" "length bs \<le> 512" and room: "dst + length bs \<le> length m"
  obtains p' where "ptp_control_read_buffered io p n m dst = Some (PTP_RC_OK, the (blit m dst bs), p')"
    and "buf_ok (pkt_buf p')" and "good (con p')" and "same_params p p'" and "input pending p' = rest"
proof -
  have "nat n \<le> length (input pending p)" using i n by simp
  moreover have "0 \<le> n" "n \<le> 512" "dst + nat n \<le> length m" using n room by simp_all
  ultimately obtain m' p' where c: "ptp_control_read_buffered io p n m dst = Some (PTP_RC_OK, m', p')"
    and g: "good (con p')"
    using control_read_live [OF assms(1,2)] by blast
  have "0 \<le> n" using n by simp
  from control_read_sound [OF c assms(1) this] obtain cs where
    s: "buf_ok (pkt_buf p')" "same_params p p'" "int (length cs) = n"
      "cs = [] \<and> m' = m \<or> blit m dst cs = Some m'" "input pending p = cs @ input pending p'"
    by auto
  have "length cs = length bs" using s(3) n(1) by simp
  with s(5) i have "cs = bs" "input pending p' = rest" by simp_all
  moreover have "m' = the (blit m dst bs)"
    using s(4) room unfolding \<open>cs = bs\<close> by (auto simp: blit_def)
  ultimately show thesis using that [of p'] c g s(1,2) by blast
qed

end

end
