(* ===== verification/Ptp_Tables.thy ===== *)
theory Ptp_Tables
  imports Transport
begin

text \<open>
  The tables of \<open>ptp.c\<close> that name error codes, data types and operations, with their lookups.
  A C string is a \<open>string\<close>, the terminating entries \<open>{0, NULL}\<close> are the ends of the lists.
\<close>

record PTPErrorDef =
  err_code :: u16
  err_id :: string
  err_txt :: string

definition PTP_ERROR_DEF :: "u16 \<Rightarrow> string \<Rightarrow> string \<Rightarrow> PTPErrorDef" where
  "PTP_ERROR_DEF code name desc = \<lparr> err_code = code, err_id = name, err_txt = desc \<rparr>"

definition ptp_errors :: "PTPErrorDef list" where
  "ptp_errors = [
     PTP_ERROR_DEF PTP_RC_Undefined ''RC_Undefined'' ''Undefined Error'',
     PTP_ERROR_DEF PTP_RC_OK ''RC_OK'' ''OK!'',
     PTP_ERROR_DEF PTP_RC_GeneralError ''RC_GeneralError'' ''General Error'',
     PTP_ERROR_DEF PTP_RC_SessionNotOpen ''RC_SessionNotOpen'' ''Session Not Open'',
     PTP_ERROR_DEF PTP_RC_InvalidTransactionID ''RC_InvalidTransactionID'' ''Invalid Transaction ID'',
     PTP_ERROR_DEF PTP_RC_OperationNotSupported ''RC_OperationNotSupported'' ''Operation Not Supported'',
     PTP_ERROR_DEF PTP_RC_ParameterNotSupported ''RC_ParameterNotSupported'' ''Parameter Not Supported'',
     PTP_ERROR_DEF PTP_RC_IncompleteTransfer ''RC_IncompleteTransfer'' ''Incomplete Transfer'',
     PTP_ERROR_DEF PTP_RC_InvalidStorageId ''RC_InvalidStorageId'' ''Invalid Storage ID'',
     PTP_ERROR_DEF PTP_RC_InvalidObjectHandle ''RC_InvalidObjectHandle'' ''Invalid Object Handle'',
     PTP_ERROR_DEF PTP_RC_DevicePropNotSupported ''RC_DevicePropNotSupported'' ''Device Prop Not Supported'',
     PTP_ERROR_DEF PTP_RC_InvalidObjectFormatCode ''RC_InvalidObjectFormatCode'' ''Invalid Object Format Code'',
     PTP_ERROR_DEF PTP_RC_StoreFull ''RC_StoreFull'' ''Store Full'',
     PTP_ERROR_DEF PTP_RC_ObjectWriteProtected ''RC_ObjectWriteProtected'' ''Object Write Protected'',
     PTP_ERROR_DEF PTP_RC_StoreReadOnly ''RC_StoreReadOnly'' ''Store Read Only'',
     PTP_ERROR_DEF PTP_RC_AccessDenied ''RC_AccessDenied'' ''Access Denied'',
     PTP_ERROR_DEF PTP_RC_NoThumbnailPresent ''RC_NoThumbnailPresent'' ''No Thumbnail Present'',
     PTP_ERROR_DEF PTP_RC_SelfTestFailed ''RC_SelfTestFailed'' ''Self Test Failed'',
     PTP_ERROR_DEF PTP_RC_PartialDeletion ''RC_PartialDeletion'' ''Partial Deletion'',
     PTP_ERROR_DEF PTP_RC_StoreNotAvailable ''RC_StoreNotAvailable'' ''Store Not Available'',
     PTP_ERROR_DEF PTP_RC_SpecificationByFormatUnsupported ''RC_SpecificationByFormatUnsupported'' ''Specification By Format Unsupported'',
     PTP_ERROR_DEF PTP_RC_NoValidObjectInfo ''RC_NoValidObjectInfo'' ''No Valid Object Info'',
     PTP_ERROR_DEF PTP_RC_InvalidCodeFormat ''RC_InvalidCodeFormat'' ''Invalid Code Format'',
     PTP_ERROR_DEF PTP_RC_UnknownVendorCode ''RC_UnknownVendorCode'' ''Unknown Vendor Code'',
     PTP_ERROR_DEF PTP_RC_CaptureAlreadyTerminated ''RC_CaptureAlreadyTerminated'' ''Capture Already Terminated'',
     PTP_ERROR_DEF PTP_RC_DeviceBusy ''RC_DeviceBusy'' ''Device Busy'',
     PTP_ERROR_DEF PTP_RC_InvalidParentObject ''RC_InvalidParentObject'' ''Invalid Parent Object'',
     PTP_ERROR_DEF PTP_RC_InvalidDevicePropFormat ''RC_InvalidDevicePropFormat'' ''Invalid Device Prop Format'',
     PTP_ERROR_DEF PTP_RC_InvalidDevicePropValue ''RC_InvalidDevicePropValue'' ''Invalid Device Prop Value'',
     PTP_ERROR_DEF PTP_RC_InvalidParameter ''RC_InvalidParameter'' ''Invalid Parameter'',
     PTP_ERROR_DEF PTP_RC_SessionAlreadyOpened ''RC_SessionAlreadyOpened'' ''Session Already Opened'',
     PTP_ERROR_DEF PTP_RC_TransactionCanceled ''RC_TransactionCanceled'' ''Transaction Canceled'',
     PTP_ERROR_DEF PTP_RC_SpecificationOfDestinationUnsupported ''RC_SpecificationOfDestinationUnsupported'' ''Specification Of Destination Unsupported'',
     PTP_ERROR_DEF PTP_ERROR_IO ''ERROR_IO'' ''I/O error'',
     PTP_ERROR_DEF PTP_ERROR_BADPARAM ''ERROR_BADPARAM'' ''bad parameter'',
     PTP_ERROR_DEF PTP_ERROR_DATA_EXPECTED ''ERROR_DATA_EXPECTED'' ''Protocol error: data expected'',
     PTP_ERROR_DEF PTP_ERROR_RESP_EXPECTED ''ERROR_RESP_EXPECTED'' ''Protocol error: response expected'',
     PTP_ERROR_DEF PTP_ERROR_NOT_CONNECTED ''ERROR_NOT_CONNECTED'' ''not connected'']"

definition PTP_NUM_ERROR_CODES :: nat where
  "PTP_NUM_ERROR_CODES = length ptp_errors"

definition ptp_get_error_by_code :: "u16 \<Rightarrow> PTPErrorDef" where
  "ptp_get_error_by_code error =
     (case find (\<lambda>e. err_code e = error) ptp_errors of Some e \<Rightarrow> e | None \<Rightarrow> ptp_errors ! 0)"

definition ptp_get_error_by_index :: "u32 \<Rightarrow> PTPErrorDef option" where
  "ptp_get_error_by_index i =
     (if unat i < PTP_NUM_ERROR_CODES then Some (ptp_errors ! unat i) else None)"

definition ptp_strerror :: "u16 \<Rightarrow> string" where
  "ptp_strerror error = err_txt (ptp_get_error_by_code error)"

text \<open>The loop that looks for a code in a table.\<close>

definition lookup_txt :: "u16 \<Rightarrow> (u16 \<times> string) list \<Rightarrow> string option" where
  "lookup_txt code tab = map_option snd (find (\<lambda>e. fst e = code) tab)"

definition ptp_datatypes :: "(u16 \<times> string) list" where
  "ptp_datatypes = [
     (PTP_DTC_UNDEF, ''UndefinedType''),
     (PTP_DTC_INT8, ''INT8''),
     (PTP_DTC_UINT8, ''UINT8''),
     (PTP_DTC_INT16, ''INT16''),
     (PTP_DTC_UINT16, ''UINT16''),
     (PTP_DTC_INT32, ''INT32''),
     (PTP_DTC_UINT32, ''UINT32''),
     (PTP_DTC_INT64, ''INT64''),
     (PTP_DTC_UINT64, ''UINT64''),
     (PTP_DTC_INT128, ''INT128''),
     (PTP_DTC_UINT128, ''UINT128''),
     (PTP_DTC_AINT8, ''ArrayINT8''),
     (PTP_DTC_AUINT8, ''ArrayUINT8''),
     (PTP_DTC_AINT16, ''ArrayINT16''),
     (PTP_DTC_AUINT16, ''ArrayUINT16''),
     (PTP_DTC_AINT32, ''ArrayINT32''),
     (PTP_DTC_AUINT32, ''ArrayUINT32''),
     (PTP_DTC_AINT64, ''ArrayINT64''),
     (PTP_DTC_AUINT64, ''ArrayUINT64''),
     (PTP_DTC_AINT128, ''ArrayINT128''),
     (PTP_DTC_AUINT128, ''ArrayUINT128''),
     (PTP_DTC_STR, ''String'')]"

definition ptp_get_datatype_name :: "u16 \<Rightarrow> string option" where
  "ptp_get_datatype_name dt = lookup_txt dt ptp_datatypes"

definition ptp_operations :: "(u16 \<times> string) list" where
  "ptp_operations = [
     (PTP_OC_Undefined, ''UndefinedOperation''),
     (PTP_OC_GetDeviceInfo, ''GetDeviceInfo''),
     (PTP_OC_OpenSession, ''OpenSession''),
     (PTP_OC_CloseSession, ''CloseSession''),
     (PTP_OC_GetStorageIDs, ''GetStorageIDs''),
     (PTP_OC_GetStorageInfo, ''GetStorageInfo''),
     (PTP_OC_GetNumObjects, ''GetNumObjects''),
     (PTP_OC_GetObjectHandles, ''GetObjectHandles''),
     (PTP_OC_GetObjectInfo, ''GetObjectInfo''),
     (PTP_OC_GetObject, ''GetObject''),
     (PTP_OC_GetThumb, ''GetThumb''),
     (PTP_OC_DeleteObject, ''DeleteObject''),
     (PTP_OC_SendObjectInfo, ''SendObjectInfo''),
     (PTP_OC_SendObject, ''SendObject''),
     (PTP_OC_InitiateCapture, ''InitiateCapture''),
     (PTP_OC_FormatStore, ''FormatStore''),
     (PTP_OC_ResetDevice, ''ResetDevice''),
     (PTP_OC_SelfTest, ''SelfTest''),
     (PTP_OC_SetObjectProtection, ''SetObjectProtection''),
     (PTP_OC_PowerDown, ''PowerDown''),
     (PTP_OC_GetDevicePropDesc, ''GetDevicePropDesc''),
     (PTP_OC_GetDevicePropValue, ''GetDevicePropValue''),
     (PTP_OC_SetDevicePropValue, ''SetDevicePropValue''),
     (PTP_OC_ResetDevicePropValue, ''ResetDevicePropValue''),
     (PTP_OC_TerminateOpenCapture, ''TerminateOpenCapture''),
     (PTP_OC_MoveObject, ''MoveObject''),
     (PTP_OC_CopyObject, ''CopyObject''),
     (PTP_OC_GetPartialObject, ''GetPartialObject''),
     (PTP_OC_InitiateOpenCapture, ''InitiateOpenCapture'')]"

definition ptp_operations_EK :: "(u16 \<times> string) list" where
  "ptp_operations_EK = [
     (PTP_OC_EK_SendFileObjectInfo, ''EK SendFileObjectInfo''),
     (PTP_OC_EK_SendFileObject, ''EK SendFileObject'')]"

definition ptp_operations_CANON :: "(u16 \<times> string) list" where
  "ptp_operations_CANON = [
     (PTP_OC_CANON_GetObjectSize, ''CANON GetObjectSize''),
     (PTP_OC_CANON_StartShootingMode, ''CANON StartShootingMode''),
     (PTP_OC_CANON_EndShootingMode, ''CANON EndShootingMode''),
     (PTP_OC_CANON_ViewfinderOn, ''CANON ViewfinderOn''),
     (PTP_OC_CANON_ViewfinderOff, ''CANON ViewfinderOff''),
     (PTP_OC_CANON_ReflectChanges, ''CANON ReflectChanges''),
     (PTP_OC_CANON_CheckEvent, ''CANON CheckEvent''),
     (PTP_OC_CANON_FocusLock, ''CANON FocusLock''),
     (PTP_OC_CANON_FocusUnlock, ''CANON FocusUnlock''),
     (PTP_OC_CANON_InitiateCaptureInMemory, ''CANON InitiateCaptureInMemory''),
     (PTP_OC_CANON_GetPartialObject, ''CANON GetPartialObject''),
     (PTP_OC_CANON_GetViewfinderImage, ''CANON GetViewfinderImage''),
     (PTP_OC_CANON_GetChanges, ''CANON GetChanges''),
     (PTP_OC_CANON_GetFolderEntries, ''CANON GetFolderEntries'')]"

definition ptp_operations_NIKON :: "(u16 \<times> string) list" where
  "ptp_operations_NIKON = [
     (PTP_OC_NIKON_DirectCapture, ''NIKON DirectCapture''),
     (PTP_OC_NIKON_SetControlMode, ''NIKON SetControlMode''),
     (PTP_OC_NIKON_CheckEvent, ''NIKON Check Event''),
     (PTP_OC_NIKON_KeepAlive, ''NIKON Keep Alive (?)'')]"

text \<open>The vendor's own table is searched first, then the standard one.\<close>

definition vendor_operations :: "u32 \<Rightarrow> (u16 \<times> string) list" where
  "vendor_operations vendor =
     (if vendor = PTP_VENDOR_EASTMAN_KODAK then ptp_operations_EK
      else if vendor = PTP_VENDOR_CANON then ptp_operations_CANON
      else if vendor = PTP_VENDOR_NIKON then ptp_operations_NIKON
      else [])"

definition ptp_get_operation_name :: "'w PTPParams \<Rightarrow> u16 \<Rightarrow> string option" where
  "ptp_get_operation_name params oc =
     (case lookup_txt oc (vendor_operations (VendorExtensionID (deviceinfo params))) of
        Some txt \<Rightarrow> Some txt
      | None \<Rightarrow> lookup_txt oc ptp_operations)"

end
