(* ===== verification/Prop_Codes.thy ===== *)
theory Prop_Codes
  imports Ptp_Types
begin

text \<open>
  The device property codes of \<open>ptp.h\<close>: the standard ones and those of the vendor extensions,
  whose ranges overlap.
\<close>

abbreviation (input) PTP_DPC_Undefined :: u16 where "PTP_DPC_Undefined \<equiv> 0x5000"
abbreviation (input) PTP_DPC_BatteryLevel :: u16 where "PTP_DPC_BatteryLevel \<equiv> 0x5001"
abbreviation (input) PTP_DPC_FunctionalMode :: u16 where "PTP_DPC_FunctionalMode \<equiv> 0x5002"
abbreviation (input) PTP_DPC_ImageSize :: u16 where "PTP_DPC_ImageSize \<equiv> 0x5003"
abbreviation (input) PTP_DPC_CompressionSetting :: u16 where "PTP_DPC_CompressionSetting \<equiv> 0x5004"
abbreviation (input) PTP_DPC_WhiteBalance :: u16 where "PTP_DPC_WhiteBalance \<equiv> 0x5005"
abbreviation (input) PTP_DPC_RGBGain :: u16 where "PTP_DPC_RGBGain \<equiv> 0x5006"
abbreviation (input) PTP_DPC_FNumber :: u16 where "PTP_DPC_FNumber \<equiv> 0x5007"
abbreviation (input) PTP_DPC_FocalLength :: u16 where "PTP_DPC_FocalLength \<equiv> 0x5008"
abbreviation (input) PTP_DPC_FocusDistance :: u16 where "PTP_DPC_FocusDistance \<equiv> 0x5009"
abbreviation (input) PTP_DPC_FocusMode :: u16 where "PTP_DPC_FocusMode \<equiv> 0x500A"
abbreviation (input) PTP_DPC_ExposureMeteringMode :: u16 where "PTP_DPC_ExposureMeteringMode \<equiv> 0x500B"
abbreviation (input) PTP_DPC_FlashMode :: u16 where "PTP_DPC_FlashMode \<equiv> 0x500C"
abbreviation (input) PTP_DPC_ExposureTime :: u16 where "PTP_DPC_ExposureTime \<equiv> 0x500D"
abbreviation (input) PTP_DPC_ExposureProgramMode :: u16 where "PTP_DPC_ExposureProgramMode \<equiv> 0x500E"
abbreviation (input) PTP_DPC_ExposureIndex :: u16 where "PTP_DPC_ExposureIndex \<equiv> 0x500F"
abbreviation (input) PTP_DPC_ExposureBiasCompensation :: u16 where "PTP_DPC_ExposureBiasCompensation \<equiv> 0x5010"
abbreviation (input) PTP_DPC_DateTime :: u16 where "PTP_DPC_DateTime \<equiv> 0x5011"
abbreviation (input) PTP_DPC_CaptureDelay :: u16 where "PTP_DPC_CaptureDelay \<equiv> 0x5012"
abbreviation (input) PTP_DPC_StillCaptureMode :: u16 where "PTP_DPC_StillCaptureMode \<equiv> 0x5013"
abbreviation (input) PTP_DPC_Contrast :: u16 where "PTP_DPC_Contrast \<equiv> 0x5014"
abbreviation (input) PTP_DPC_Sharpness :: u16 where "PTP_DPC_Sharpness \<equiv> 0x5015"
abbreviation (input) PTP_DPC_DigitalZoom :: u16 where "PTP_DPC_DigitalZoom \<equiv> 0x5016"
abbreviation (input) PTP_DPC_EffectMode :: u16 where "PTP_DPC_EffectMode \<equiv> 0x5017"
abbreviation (input) PTP_DPC_BurstNumber :: u16 where "PTP_DPC_BurstNumber \<equiv> 0x5018"
abbreviation (input) PTP_DPC_BurstInterval :: u16 where "PTP_DPC_BurstInterval \<equiv> 0x5019"
abbreviation (input) PTP_DPC_TimelapseNumber :: u16 where "PTP_DPC_TimelapseNumber \<equiv> 0x501A"
abbreviation (input) PTP_DPC_TimelapseInterval :: u16 where "PTP_DPC_TimelapseInterval \<equiv> 0x501B"
abbreviation (input) PTP_DPC_FocusMeteringMode :: u16 where "PTP_DPC_FocusMeteringMode \<equiv> 0x501C"
abbreviation (input) PTP_DPC_UploadURL :: u16 where "PTP_DPC_UploadURL \<equiv> 0x501D"
abbreviation (input) PTP_DPC_Artist :: u16 where "PTP_DPC_Artist \<equiv> 0x501E"
abbreviation (input) PTP_DPC_CopyrightInfo :: u16 where "PTP_DPC_CopyrightInfo \<equiv> 0x501F"
abbreviation (input) PTP_DPC_EK_ColorTemperature :: u16 where "PTP_DPC_EK_ColorTemperature \<equiv> 0xD001"
abbreviation (input) PTP_DPC_EK_DateTimeStampFormat :: u16 where "PTP_DPC_EK_DateTimeStampFormat \<equiv> 0xD002"
abbreviation (input) PTP_DPC_EK_BeepMode :: u16 where "PTP_DPC_EK_BeepMode \<equiv> 0xD003"
abbreviation (input) PTP_DPC_EK_VideoOut :: u16 where "PTP_DPC_EK_VideoOut \<equiv> 0xD004"
abbreviation (input) PTP_DPC_EK_PowerSaving :: u16 where "PTP_DPC_EK_PowerSaving \<equiv> 0xD005"
abbreviation (input) PTP_DPC_EK_UI_Language :: u16 where "PTP_DPC_EK_UI_Language \<equiv> 0xD006"
abbreviation (input) PTP_DPC_CANON_BeepMode :: u16 where "PTP_DPC_CANON_BeepMode \<equiv> 0xD001"
abbreviation (input) PTP_DPC_CANON_ViewfinderMode :: u16 where "PTP_DPC_CANON_ViewfinderMode \<equiv> 0xD003"
abbreviation (input) PTP_DPC_CANON_ImageQuality :: u16 where "PTP_DPC_CANON_ImageQuality \<equiv> 0xD006"
abbreviation (input) PTP_DPC_CANON_D007 :: u16 where "PTP_DPC_CANON_D007 \<equiv> 0xD007"
abbreviation (input) PTP_DPC_CANON_ImageSize :: u16 where "PTP_DPC_CANON_ImageSize \<equiv> 0xD008"
abbreviation (input) PTP_DPC_CANON_FlashMode :: u16 where "PTP_DPC_CANON_FlashMode \<equiv> 0xD00A"
abbreviation (input) PTP_DPC_CANON_TvAvSetting :: u16 where "PTP_DPC_CANON_TvAvSetting \<equiv> 0xD00C"
abbreviation (input) PTP_DPC_CANON_MeteringMode :: u16 where "PTP_DPC_CANON_MeteringMode \<equiv> 0xD010"
abbreviation (input) PTP_DPC_CANON_MacroMode :: u16 where "PTP_DPC_CANON_MacroMode \<equiv> 0xD011"
abbreviation (input) PTP_DPC_CANON_FocusingPoint :: u16 where "PTP_DPC_CANON_FocusingPoint \<equiv> 0xD012"
abbreviation (input) PTP_DPC_CANON_WhiteBalance :: u16 where "PTP_DPC_CANON_WhiteBalance \<equiv> 0xD013"
abbreviation (input) PTP_DPC_CANON_ISOSpeed :: u16 where "PTP_DPC_CANON_ISOSpeed \<equiv> 0xD01C"
abbreviation (input) PTP_DPC_CANON_Aperture :: u16 where "PTP_DPC_CANON_Aperture \<equiv> 0xD01D"
abbreviation (input) PTP_DPC_CANON_ShutterSpeed :: u16 where "PTP_DPC_CANON_ShutterSpeed \<equiv> 0xD01E"
abbreviation (input) PTP_DPC_CANON_ExpCompensation :: u16 where "PTP_DPC_CANON_ExpCompensation \<equiv> 0xD01F"
abbreviation (input) PTP_DPC_CANON_D029 :: u16 where "PTP_DPC_CANON_D029 \<equiv> 0xD029"
abbreviation (input) PTP_DPC_CANON_Zoom :: u16 where "PTP_DPC_CANON_Zoom \<equiv> 0xD02A"
abbreviation (input) PTP_DPC_CANON_SizeQualityMode :: u16 where "PTP_DPC_CANON_SizeQualityMode \<equiv> 0xD02C"
abbreviation (input) PTP_DPC_CANON_FlashMemory :: u16 where "PTP_DPC_CANON_FlashMemory \<equiv> 0xD031"
abbreviation (input) PTP_DPC_CANON_CameraModel :: u16 where "PTP_DPC_CANON_CameraModel \<equiv> 0xD032"
abbreviation (input) PTP_DPC_CANON_CameraOwner :: u16 where "PTP_DPC_CANON_CameraOwner \<equiv> 0xD033"
abbreviation (input) PTP_DPC_CANON_UnixTime :: u16 where "PTP_DPC_CANON_UnixTime \<equiv> 0xD034"
abbreviation (input) PTP_DPC_CANON_ViewfinderOutput :: u16 where "PTP_DPC_CANON_ViewfinderOutput \<equiv> 0xD036"
abbreviation (input) PTP_DPC_CANON_RealImageWidth :: u16 where "PTP_DPC_CANON_RealImageWidth \<equiv> 0xD039"
abbreviation (input) PTP_DPC_CANON_PhotoEffect :: u16 where "PTP_DPC_CANON_PhotoEffect \<equiv> 0xD040"
abbreviation (input) PTP_DPC_CANON_AssistLight :: u16 where "PTP_DPC_CANON_AssistLight \<equiv> 0xD041"
abbreviation (input) PTP_DPC_CANON_D045 :: u16 where "PTP_DPC_CANON_D045 \<equiv> 0xD045"
abbreviation (input) PTP_DPC_NIKON_ShootingBank :: u16 where "PTP_DPC_NIKON_ShootingBank \<equiv> 0xD010"
abbreviation (input) PTP_DPC_NIKON_ShootingBankNameA :: u16 where "PTP_DPC_NIKON_ShootingBankNameA \<equiv> 0xD011"
abbreviation (input) PTP_DPC_NIKON_ShootingBankNameB :: u16 where "PTP_DPC_NIKON_ShootingBankNameB \<equiv> 0xD012"
abbreviation (input) PTP_DPC_NIKON_ShootingBankNameC :: u16 where "PTP_DPC_NIKON_ShootingBankNameC \<equiv> 0xD013"
abbreviation (input) PTP_DPC_NIKON_ShootingBankNameD :: u16 where "PTP_DPC_NIKON_ShootingBankNameD \<equiv> 0xD014"
abbreviation (input) PTP_DPC_NIKON_RawCompression :: u16 where "PTP_DPC_NIKON_RawCompression \<equiv> 0xD016"
abbreviation (input) PTP_DPC_NIKON_WhiteBalanceAutoBias :: u16 where "PTP_DPC_NIKON_WhiteBalanceAutoBias \<equiv> 0xD017"
abbreviation (input) PTP_DPC_NIKON_WhiteBalanceTungstenBias :: u16 where "PTP_DPC_NIKON_WhiteBalanceTungstenBias \<equiv> 0xD018"
abbreviation (input) PTP_DPC_NIKON_WhiteBalanceFlourescentBias :: u16 where "PTP_DPC_NIKON_WhiteBalanceFlourescentBias \<equiv> 0xD019"
abbreviation (input) PTP_DPC_NIKON_WhiteBalanceDaylightBias :: u16 where "PTP_DPC_NIKON_WhiteBalanceDaylightBias \<equiv> 0xD01A"
abbreviation (input) PTP_DPC_NIKON_WhiteBalanceFlashBias :: u16 where "PTP_DPC_NIKON_WhiteBalanceFlashBias \<equiv> 0xD01B"
abbreviation (input) PTP_DPC_NIKON_WhiteBalanceCloudyBias :: u16 where "PTP_DPC_NIKON_WhiteBalanceCloudyBias \<equiv> 0xD01C"
abbreviation (input) PTP_DPC_NIKON_WhiteBalanceShadeBias :: u16 where "PTP_DPC_NIKON_WhiteBalanceShadeBias \<equiv> 0xD01D"
abbreviation (input) PTP_DPC_NIKON_WhiteBalanceColorTemperature :: u16 where "PTP_DPC_NIKON_WhiteBalanceColorTemperature \<equiv> 0xD01E"
abbreviation (input) PTP_DPC_NIKON_ImageSharpening :: u16 where "PTP_DPC_NIKON_ImageSharpening \<equiv> 0xD02A"
abbreviation (input) PTP_DPC_NIKON_ToneCompensation :: u16 where "PTP_DPC_NIKON_ToneCompensation \<equiv> 0xD02B"
abbreviation (input) PTP_DPC_NIKON_ColorMode :: u16 where "PTP_DPC_NIKON_ColorMode \<equiv> 0xD02C"
abbreviation (input) PTP_DPC_NIKON_HueAdjustment :: u16 where "PTP_DPC_NIKON_HueAdjustment \<equiv> 0xD02D"
abbreviation (input) PTP_DPC_NIKON_NonCPULensDataFocalLength :: u16 where "PTP_DPC_NIKON_NonCPULensDataFocalLength \<equiv> 0xD02E"
abbreviation (input) PTP_DPC_NIKON_NonCPULensDataMaximumAperture :: u16 where "PTP_DPC_NIKON_NonCPULensDataMaximumAperture \<equiv> 0xD02F"
abbreviation (input) PTP_DPC_NIKON_CSMMenuBankSelect :: u16 where "PTP_DPC_NIKON_CSMMenuBankSelect \<equiv> 0xD040"
abbreviation (input) PTP_DPC_NIKON_MenuBankNameA :: u16 where "PTP_DPC_NIKON_MenuBankNameA \<equiv> 0xD041"
abbreviation (input) PTP_DPC_NIKON_MenuBankNameB :: u16 where "PTP_DPC_NIKON_MenuBankNameB \<equiv> 0xD042"
abbreviation (input) PTP_DPC_NIKON_MenuBankNameC :: u16 where "PTP_DPC_NIKON_MenuBankNameC \<equiv> 0xD043"
abbreviation (input) PTP_DPC_NIKON_MenuBankNameD :: u16 where "PTP_DPC_NIKON_MenuBankNameD \<equiv> 0xD044"
abbreviation (input) PTP_DPC_NIKON_A1AFCModePriority :: u16 where "PTP_DPC_NIKON_A1AFCModePriority \<equiv> 0xD048"
abbreviation (input) PTP_DPC_NIKON_A2AFSModePriority :: u16 where "PTP_DPC_NIKON_A2AFSModePriority \<equiv> 0xD049"
abbreviation (input) PTP_DPC_NIKON_A3GroupDynamicAF :: u16 where "PTP_DPC_NIKON_A3GroupDynamicAF \<equiv> 0xD04A"
abbreviation (input) PTP_DPC_NIKON_A4AFActivation :: u16 where "PTP_DPC_NIKON_A4AFActivation \<equiv> 0xD04B"
abbreviation (input) PTP_DPC_NIKON_A5FocusAreaIllumManualFocus :: u16 where "PTP_DPC_NIKON_A5FocusAreaIllumManualFocus \<equiv> 0xD04C"
abbreviation (input) PTP_DPC_NIKON_FocusAreaIllumContinuous :: u16 where "PTP_DPC_NIKON_FocusAreaIllumContinuous \<equiv> 0xD04D"
abbreviation (input) PTP_DPC_NIKON_FocusAreaIllumWhenSelected :: u16 where "PTP_DPC_NIKON_FocusAreaIllumWhenSelected \<equiv> 0xD04E"
abbreviation (input) PTP_DPC_NIKON_FocusAreaWrap :: u16 where "PTP_DPC_NIKON_FocusAreaWrap \<equiv> 0xD04F"
abbreviation (input) PTP_DPC_NIKON_A7VerticalAFON :: u16 where "PTP_DPC_NIKON_A7VerticalAFON \<equiv> 0xD050"
abbreviation (input) PTP_DPC_NIKON_ISOAuto :: u16 where "PTP_DPC_NIKON_ISOAuto \<equiv> 0xD054"
abbreviation (input) PTP_DPC_NIKON_B2ISOStep :: u16 where "PTP_DPC_NIKON_B2ISOStep \<equiv> 0xD055"
abbreviation (input) PTP_DPC_NIKON_EVStep :: u16 where "PTP_DPC_NIKON_EVStep \<equiv> 0xD056"
abbreviation (input) PTP_DPC_NIKON_B4ExposureCompEv :: u16 where "PTP_DPC_NIKON_B4ExposureCompEv \<equiv> 0xD057"
abbreviation (input) PTP_DPC_NIKON_ExposureCompensation :: u16 where "PTP_DPC_NIKON_ExposureCompensation \<equiv> 0xD058"
abbreviation (input) PTP_DPC_NIKON_CenterWeightArea :: u16 where "PTP_DPC_NIKON_CenterWeightArea \<equiv> 0xD059"
abbreviation (input) PTP_DPC_NIKON_AELockMode :: u16 where "PTP_DPC_NIKON_AELockMode \<equiv> 0xD05E"
abbreviation (input) PTP_DPC_NIKON_AELAFLMode :: u16 where "PTP_DPC_NIKON_AELAFLMode \<equiv> 0xD05F"
abbreviation (input) PTP_DPC_NIKON_MeterOff :: u16 where "PTP_DPC_NIKON_MeterOff \<equiv> 0xD062"
abbreviation (input) PTP_DPC_NIKON_SelfTimer :: u16 where "PTP_DPC_NIKON_SelfTimer \<equiv> 0xD063"
abbreviation (input) PTP_DPC_NIKON_MonitorOff :: u16 where "PTP_DPC_NIKON_MonitorOff \<equiv> 0xD064"
abbreviation (input) PTP_DPC_NIKON_D1ShootingSpeed :: u16 where "PTP_DPC_NIKON_D1ShootingSpeed \<equiv> 0xD068"
abbreviation (input) PTP_DPC_NIKON_D2MaximumShots :: u16 where "PTP_DPC_NIKON_D2MaximumShots \<equiv> 0xD069"
abbreviation (input) PTP_DPC_NIKON_D3ExpDelayMode :: u16 where "PTP_DPC_NIKON_D3ExpDelayMode \<equiv> 0xD06A"
abbreviation (input) PTP_DPC_NIKON_LongExposureNoiseReduction :: u16 where "PTP_DPC_NIKON_LongExposureNoiseReduction \<equiv> 0xD06B"
abbreviation (input) PTP_DPC_NIKON_FileNumberSequence :: u16 where "PTP_DPC_NIKON_FileNumberSequence \<equiv> 0xD06C"
abbreviation (input) PTP_DPC_NIKON_D6ControlPanelFinderRearControl :: u16 where "PTP_DPC_NIKON_D6ControlPanelFinderRearControl \<equiv> 0xD06D"
abbreviation (input) PTP_DPC_NIKON_ControlPanelFinderViewfinder :: u16 where "PTP_DPC_NIKON_ControlPanelFinderViewfinder \<equiv> 0xD06E"
abbreviation (input) PTP_DPC_NIKON_D7Illumination :: u16 where "PTP_DPC_NIKON_D7Illumination \<equiv> 0xD06F"
abbreviation (input) PTP_DPC_NIKON_E1FlashSyncSpeed :: u16 where "PTP_DPC_NIKON_E1FlashSyncSpeed \<equiv> 0xD074"
abbreviation (input) PTP_DPC_NIKON_FlashShutterSpeed :: u16 where "PTP_DPC_NIKON_FlashShutterSpeed \<equiv> 0xD075"
abbreviation (input) PTP_DPC_NIKON_E3AAFlashMode :: u16 where "PTP_DPC_NIKON_E3AAFlashMode \<equiv> 0xD076"
abbreviation (input) PTP_DPC_NIKON_E4ModelingFlash :: u16 where "PTP_DPC_NIKON_E4ModelingFlash \<equiv> 0xD077"
abbreviation (input) PTP_DPC_NIKON_BracketSet :: u16 where "PTP_DPC_NIKON_BracketSet \<equiv> 0xD078"
abbreviation (input) PTP_DPC_NIKON_E6ManualModeBracketing :: u16 where "PTP_DPC_NIKON_E6ManualModeBracketing \<equiv> 0xD079"
abbreviation (input) PTP_DPC_NIKON_BracketOrder :: u16 where "PTP_DPC_NIKON_BracketOrder \<equiv> 0xD07A"
abbreviation (input) PTP_DPC_NIKON_E8AutoBracketSelection :: u16 where "PTP_DPC_NIKON_E8AutoBracketSelection \<equiv> 0xD07B"
abbreviation (input) PTP_DPC_NIKON_BracketingSet :: u16 where "PTP_DPC_NIKON_BracketingSet \<equiv> 0xD07C"
abbreviation (input) PTP_DPC_NIKON_F1CenterButtonShootingMode :: u16 where "PTP_DPC_NIKON_F1CenterButtonShootingMode \<equiv> 0xD080"
abbreviation (input) PTP_DPC_NIKON_CenterButtonPlaybackMode :: u16 where "PTP_DPC_NIKON_CenterButtonPlaybackMode \<equiv> 0xD081"
abbreviation (input) PTP_DPC_NIKON_F2Multiselector :: u16 where "PTP_DPC_NIKON_F2Multiselector \<equiv> 0xD082"
abbreviation (input) PTP_DPC_NIKON_F3PhotoInfoPlayback :: u16 where "PTP_DPC_NIKON_F3PhotoInfoPlayback \<equiv> 0xD083"
abbreviation (input) PTP_DPC_NIKON_F4AssignFuncButton :: u16 where "PTP_DPC_NIKON_F4AssignFuncButton \<equiv> 0xD084"
abbreviation (input) PTP_DPC_NIKON_F5CustomizeCommDials :: u16 where "PTP_DPC_NIKON_F5CustomizeCommDials \<equiv> 0xD085"
abbreviation (input) PTP_DPC_NIKON_ReverseCommandDial :: u16 where "PTP_DPC_NIKON_ReverseCommandDial \<equiv> 0xD086"
abbreviation (input) PTP_DPC_NIKON_ApertureSetting :: u16 where "PTP_DPC_NIKON_ApertureSetting \<equiv> 0xD087"
abbreviation (input) PTP_DPC_NIKON_MenusAndPlayback :: u16 where "PTP_DPC_NIKON_MenusAndPlayback \<equiv> 0xD088"
abbreviation (input) PTP_DPC_NIKON_F6ButtonsAndDials :: u16 where "PTP_DPC_NIKON_F6ButtonsAndDials \<equiv> 0xD089"
abbreviation (input) PTP_DPC_NIKON_NoCFCard :: u16 where "PTP_DPC_NIKON_NoCFCard \<equiv> 0xD08A"
abbreviation (input) PTP_DPC_NIKON_ImageCommentString :: u16 where "PTP_DPC_NIKON_ImageCommentString \<equiv> 0xD090"
abbreviation (input) PTP_DPC_NIKON_ImageCommentAttach :: u16 where "PTP_DPC_NIKON_ImageCommentAttach \<equiv> 0xD091"
abbreviation (input) PTP_DPC_NIKON_ImageRotation :: u16 where "PTP_DPC_NIKON_ImageRotation \<equiv> 0xD092"
abbreviation (input) PTP_DPC_NIKON_Bracketing :: u16 where "PTP_DPC_NIKON_Bracketing \<equiv> 0xD0C0"
abbreviation (input) PTP_DPC_NIKON_ExposureBracketingIntervalDist :: u16 where "PTP_DPC_NIKON_ExposureBracketingIntervalDist \<equiv> 0xD0C1"
abbreviation (input) PTP_DPC_NIKON_BracketingProgram :: u16 where "PTP_DPC_NIKON_BracketingProgram \<equiv> 0xD0C2"
abbreviation (input) PTP_DPC_NIKON_WhiteBalanceBracketStep :: u16 where "PTP_DPC_NIKON_WhiteBalanceBracketStep \<equiv> 0xD0C4"
abbreviation (input) PTP_DPC_NIKON_LensID :: u16 where "PTP_DPC_NIKON_LensID \<equiv> 0xD0E0"
abbreviation (input) PTP_DPC_NIKON_FocalLengthMin :: u16 where "PTP_DPC_NIKON_FocalLengthMin \<equiv> 0xD0E3"
abbreviation (input) PTP_DPC_NIKON_FocalLengthMax :: u16 where "PTP_DPC_NIKON_FocalLengthMax \<equiv> 0xD0E4"
abbreviation (input) PTP_DPC_NIKON_MaxApAtMinFocalLength :: u16 where "PTP_DPC_NIKON_MaxApAtMinFocalLength \<equiv> 0xD0E5"
abbreviation (input) PTP_DPC_NIKON_MaxApAtMaxFocalLength :: u16 where "PTP_DPC_NIKON_MaxApAtMaxFocalLength \<equiv> 0xD0E6"
abbreviation (input) PTP_DPC_NIKON_ExposureTime :: u16 where "PTP_DPC_NIKON_ExposureTime \<equiv> 0xD100"
abbreviation (input) PTP_DPC_NIKON_ACPower :: u16 where "PTP_DPC_NIKON_ACPower \<equiv> 0xD101"
abbreviation (input) PTP_DPC_NIKON_MaximumShots :: u16 where "PTP_DPC_NIKON_MaximumShots \<equiv> 0xD103"
abbreviation (input) PTP_DPC_NIKON_AFLLock :: u16 where "PTP_DPC_NIKON_AFLLock \<equiv> 0xD104"
abbreviation (input) PTP_DPC_NIKON_AutoExposureLock :: u16 where "PTP_DPC_NIKON_AutoExposureLock \<equiv> 0xD105"
abbreviation (input) PTP_DPC_NIKON_AutoFocusLock :: u16 where "PTP_DPC_NIKON_AutoFocusLock \<equiv> 0xD106"
abbreviation (input) PTP_DPC_NIKON_AutofocusLCDTopMode2 :: u16 where "PTP_DPC_NIKON_AutofocusLCDTopMode2 \<equiv> 0xD107"
abbreviation (input) PTP_DPC_NIKON_AutofocusArea :: u16 where "PTP_DPC_NIKON_AutofocusArea \<equiv> 0xD108"
abbreviation (input) PTP_DPC_NIKON_LightMeter :: u16 where "PTP_DPC_NIKON_LightMeter \<equiv> 0xD10A"
abbreviation (input) PTP_DPC_NIKON_CameraOrientation :: u16 where "PTP_DPC_NIKON_CameraOrientation \<equiv> 0xD10E"
abbreviation (input) PTP_DPC_NIKON_ExposureApertureLock :: u16 where "PTP_DPC_NIKON_ExposureApertureLock \<equiv> 0xD111"
abbreviation (input) PTP_DPC_NIKON_BeepOff :: u16 where "PTP_DPC_NIKON_BeepOff \<equiv> 0xD160"
abbreviation (input) PTP_DPC_NIKON_AutofocusMode :: u16 where "PTP_DPC_NIKON_AutofocusMode \<equiv> 0xD161"
abbreviation (input) PTP_DPC_NIKON_AFAssist :: u16 where "PTP_DPC_NIKON_AFAssist \<equiv> 0xD163"
abbreviation (input) PTP_DPC_NIKON_PADVPMode :: u16 where "PTP_DPC_NIKON_PADVPMode \<equiv> 0xD164"
abbreviation (input) PTP_DPC_NIKON_ImageReview :: u16 where "PTP_DPC_NIKON_ImageReview \<equiv> 0xD165"
abbreviation (input) PTP_DPC_NIKON_AFAreaIllumination :: u16 where "PTP_DPC_NIKON_AFAreaIllumination \<equiv> 0xD166"
abbreviation (input) PTP_DPC_NIKON_FlashMode :: u16 where "PTP_DPC_NIKON_FlashMode \<equiv> 0xD167"
abbreviation (input) PTP_DPC_NIKON_FlashCommanderMode :: u16 where "PTP_DPC_NIKON_FlashCommanderMode \<equiv> 0xD168"
abbreviation (input) PTP_DPC_NIKON_FlashSign :: u16 where "PTP_DPC_NIKON_FlashSign \<equiv> 0xD169"
abbreviation (input) PTP_DPC_NIKON_GridDisplay :: u16 where "PTP_DPC_NIKON_GridDisplay \<equiv> 0xD16C"
abbreviation (input) PTP_DPC_NIKON_FlashModeManualPower :: u16 where "PTP_DPC_NIKON_FlashModeManualPower \<equiv> 0xD16D"
abbreviation (input) PTP_DPC_NIKON_FlashModeCommanderPower :: u16 where "PTP_DPC_NIKON_FlashModeCommanderPower \<equiv> 0xD16E"
abbreviation (input) PTP_DPC_NIKON_RemoteTimeout :: u16 where "PTP_DPC_NIKON_RemoteTimeout \<equiv> 0xD16B"
abbreviation (input) PTP_DPC_NIKON_BracketingIncrement :: u16 where "PTP_DPC_NIKON_BracketingIncrement \<equiv> 0xD190"
abbreviation (input) PTP_DPC_NIKON_LowLight :: u16 where "PTP_DPC_NIKON_LowLight \<equiv> 0xD1B0"
abbreviation (input) PTP_DPC_NIKON_FlashOpen :: u16 where "PTP_DPC_NIKON_FlashOpen \<equiv> 0xD1C0"
abbreviation (input) PTP_DPC_NIKON_FlashCharged :: u16 where "PTP_DPC_NIKON_FlashCharged \<equiv> 0xD1C1"
abbreviation (input) PTP_DPC_NIKON_FlashExposureCompensation :: u16 where "PTP_DPC_NIKON_FlashExposureCompensation \<equiv> 0xD126"
abbreviation (input) PTP_DPC_NIKON_CSMMenu :: u16 where "PTP_DPC_NIKON_CSMMenu \<equiv> 0xD180"
abbreviation (input) PTP_DPC_NIKON_OptimizeImage :: u16 where "PTP_DPC_NIKON_OptimizeImage \<equiv> 0xD140"
abbreviation (input) PTP_DPC_NIKON_Saturation :: u16 where "PTP_DPC_NIKON_Saturation \<equiv> 0xD142"

end
