(* ===== verification/Properties.thy ===== *)
theory Properties
  imports Transport Prop_Codes
begin

text \<open>
  Names and values of device properties (\<open>properties.c\<close>): the tables, the lookups by code and by
  name, and the conversion of a value to a string and to its description. A C string is a
  \<open>string\<close> without its terminator; of the C library the section \<open>C library\<close> models what
  is used: \<open>strtol\<close>, \<open>strtoll\<close>, \<open>strncasecmp\<close>, and \<open>snprintf\<close> of integers and of doubles.
\<close>

section \<open>C library\<close>

fun show_nat :: "nat \<Rightarrow> string" where
  "show_nat n = (if n < 10 then [char_of (48 + n)] else show_nat (n div 10) @ [char_of (48 + n mod 10)])"

declare show_nat.simps [simp del]

definition show_int :: "int \<Rightarrow> string" where
  "show_int n = (if n < 0 then CHR ''-'' # show_nat (nat (- n)) else show_nat (nat n))"

definition is_digit :: "char \<Rightarrow> bool" where
  "is_digit c \<longleftrightarrow> 48 \<le> (of_char c :: nat) \<and> (of_char c :: nat) \<le> 57"

definition is_space :: "char \<Rightarrow> bool" where
  "is_space c \<longleftrightarrow> (of_char c :: nat) = 32 \<or> 9 \<le> (of_char c :: nat) \<and> (of_char c :: nat) \<le> 13"

definition digits_value :: "string \<Rightarrow> nat" where
  "digits_value s = foldl (\<lambda>a c. 10 * a + (of_char c - 48)) 0 (takeWhile is_digit s)"

text \<open>\<open>strtoll (s, NULL, 10)\<close>, and \<open>strtol\<close> with a 64 bit \<open>long\<close>: out of range values are
  clamped.\<close>

definition strtoll :: "string \<Rightarrow> int" where
  "strtoll s =
     (let t = dropWhile is_space s;
          v = (case t of
                 [] \<Rightarrow> 0
               | c # u \<Rightarrow> if c = CHR ''-'' then - int (digits_value u)
                          else if c = CHR ''+'' then int (digits_value u)
                          else int (digits_value t))
      in max (- (2 ^ 63)) (min (2 ^ 63 - 1) v))"

definition tolower :: "char \<Rightarrow> char" where
  "tolower c = (let n = of_char c :: nat in if 65 \<le> n \<and> n \<le> 90 then char_of (n + 32) else c)"

text \<open>\<open>strncasecmp (txt, name, strlen (name)) == 0\<close>.\<close>

definition has_prefix_nocase :: "string \<Rightarrow> string \<Rightarrow> bool" where
  "has_prefix_nocase txt name \<longleftrightarrow> map tolower (take (length name) txt) = map tolower name"

text \<open>Doubles: \<open>(m, e)\<close> stands for \<open>m * 2 ^ e\<close>. A quotient of integers is rounded to 53
  significant bits, ties to even; the numbers of this file are far from overflow and underflow.
  Printing with \<open>%.<p>f\<close> rounds the exact value of the double.\<close>

fun bitlen :: "nat \<Rightarrow> nat" where
  "bitlen n = (if n = 0 then 0 else Suc (bitlen (n div 2)))"

declare bitlen.simps [simp del]

definition round_half_even :: "int \<Rightarrow> int \<Rightarrow> int" where
  "round_half_even a b =
     (let q = a div b; r = a mod b in
      if 2 * r < b \<or> 2 * r = b \<and> even q then q else q + 1)"

definition scaled :: "int \<Rightarrow> int \<Rightarrow> int \<Rightarrow> int \<times> int" where
  "scaled a b e = (if 0 \<le> e then (a, b * 2 ^ nat e) else (a * 2 ^ nat (- e), b))"

definition fl_div :: "int \<Rightarrow> int \<Rightarrow> int \<times> int" where
  "fl_div a b =
     (if a = 0 then (0, 0)
      else
        let e = int (bitlen (nat \<bar>a\<bar>)) - int (bitlen (nat b)) - 53;
            (c, d) = scaled a b e;
            e = (if \<bar>c\<bar> < 2 ^ 53 * d then e else e + 1);
            (c, d) = scaled a b e
        in (round_half_even c d, e))"

text \<open>\<open>(double) value / (double) scale\<close>.\<close>

definition fl_scaled :: "int \<Rightarrow> int \<Rightarrow> int \<times> int" where
  "fl_scaled val scale =
     (let (m, e) = fl_div val 1 in
      if 0 \<le> e then fl_div (m * 2 ^ nat e) scale else fl_div m (scale * 2 ^ nat (- e)))"

definition pad_left :: "nat \<Rightarrow> string \<Rightarrow> string" where
  "pad_left n s = replicate (n - length s) (CHR ''0'') @ s"

definition show_decimal :: "bool \<Rightarrow> nat \<Rightarrow> nat \<Rightarrow> string" where
  "show_decimal neg prec n =
     (if neg then ''-'' else []) @ show_nat (n div 10 ^ prec) @
     (if prec = 0 then [] else ''.'' @ pad_left prec (show_nat (n mod 10 ^ prec)))"

definition show_double :: "nat \<Rightarrow> int \<times> int \<Rightarrow> string" where
  "show_double prec x =
     (let (m, e) = x;
          (c, d) = (if 0 \<le> e then (m * 2 ^ nat e * 10 ^ prec, 1) else (m * 10 ^ prec, 2 ^ nat (- e)))
      in show_decimal (m < 0) prec (nat \<bar>round_half_even c d\<bar>))"

section \<open>Property names\<close>

definition ptp_device_properties :: "(u16 \<times> string) list" where
  "ptp_device_properties = [
     (PTP_DPC_Undefined, ''PTP Undefined Property''),
     (PTP_DPC_BatteryLevel, ''Battery Level''),
     (PTP_DPC_FunctionalMode, ''Functional Mode''),
     (PTP_DPC_ImageSize, ''Image Size''),
     (PTP_DPC_CompressionSetting, ''Compression Setting''),
     (PTP_DPC_WhiteBalance, ''White Balance''),
     (PTP_DPC_RGBGain, ''RGB Gain''),
     (PTP_DPC_FNumber, ''F-Number''),
     (PTP_DPC_FocalLength, ''Focal Length''),
     (PTP_DPC_FocusDistance, ''Focus Distance''),
     (PTP_DPC_FocusMode, ''Focus Mode''),
     (PTP_DPC_ExposureMeteringMode, ''Exposure Metering Mode''),
     (PTP_DPC_FlashMode, ''Flash Mode''),
     (PTP_DPC_ExposureTime, ''Exposure Time''),
     (PTP_DPC_ExposureProgramMode, ''Exposure Program Mode''),
     (PTP_DPC_ExposureIndex, ''Exposure Index (film speed ISO)''),
     (PTP_DPC_ExposureBiasCompensation, ''Exposure Bias Compensation''),
     (PTP_DPC_DateTime, ''Date Time''),
     (PTP_DPC_CaptureDelay, ''Pre-Capture Delay''),
     (PTP_DPC_StillCaptureMode, ''Still Capture Mode''),
     (PTP_DPC_Contrast, ''Contrast''),
     (PTP_DPC_Sharpness, ''Sharpness''),
     (PTP_DPC_DigitalZoom, ''Digital Zoom''),
     (PTP_DPC_EffectMode, ''Effect Mode''),
     (PTP_DPC_BurstNumber, ''Burst Number''),
     (PTP_DPC_BurstInterval, ''Burst Interval''),
     (PTP_DPC_TimelapseNumber, ''Timelapse Number''),
     (PTP_DPC_TimelapseInterval, ''Timelapse Interval''),
     (PTP_DPC_FocusMeteringMode, ''Focus Metering Mode''),
     (PTP_DPC_UploadURL, ''Upload URL''),
     (PTP_DPC_Artist, ''Artist''),
     (PTP_DPC_CopyrightInfo, ''Copyright Info'')]"

definition ptp_device_properties_EK :: "(u16 \<times> string) list" where
  "ptp_device_properties_EK = [
     (PTP_DPC_EK_ColorTemperature, ''EK Color Temperature''),
     (PTP_DPC_EK_DateTimeStampFormat, ''EK Date Time Stamp Format''),
     (PTP_DPC_EK_BeepMode, ''EK Beep Mode''),
     (PTP_DPC_EK_VideoOut, ''EK Video Out''),
     (PTP_DPC_EK_PowerSaving, ''EK Power Saving''),
     (PTP_DPC_EK_UI_Language, ''EK UI Language'')]"

definition ptp_device_properties_CANON :: "(u16 \<times> string) list" where
  "ptp_device_properties_CANON = [
     (PTP_DPC_CANON_BeepMode, ''CANON Beep Mode''),
     (PTP_DPC_CANON_UnixTime, ''CANON Time measured in secondssince 01-01-1970''),
     (PTP_DPC_CANON_FlashMemory, ''CANON Flash Card Capacity''),
     (PTP_DPC_CANON_CameraModel, ''CANON Camera Model'')]"

definition ptp_device_properties_NIKON :: "(u16 \<times> string) list" where
  "ptp_device_properties_NIKON = [
     (PTP_DPC_NIKON_ShootingBank, ''NIKON Shooting Bank''),
     (PTP_DPC_NIKON_ShootingBankNameA, ''NIKON Shooting Bank Name A''),
     (PTP_DPC_NIKON_ShootingBankNameB, ''NIKON Shooting Bank Name B''),
     (PTP_DPC_NIKON_ShootingBankNameC, ''NIKON Shooting Bank Name C''),
     (PTP_DPC_NIKON_ShootingBankNameD, ''NIKON Shooting Bank Name D''),
     (PTP_DPC_NIKON_RawCompression, ''NIKON Raw Compression''),
     (PTP_DPC_NIKON_WhiteBalanceAutoBias, ''NIKON White Balance Auto Bias''),
     (PTP_DPC_NIKON_WhiteBalanceTungstenBias, ''NIKON White Balance Tungsten Bias''),
     (PTP_DPC_NIKON_WhiteBalanceFlourescentBias, ''NIKON White Balance Flourescent Bias''),
     (PTP_DPC_NIKON_WhiteBalanceDaylightBias, ''NIKON White Balance Daylight Bias''),
     (PTP_DPC_NIKON_WhiteBalanceFlashBias, ''NIKON White Balance Flash Bias''),
     (PTP_DPC_NIKON_WhiteBalanceCloudyBias, ''NIKON White Balance Cloudy Bias''),
     (PTP_DPC_NIKON_WhiteBalanceShadeBias, ''NIKON White Balance Shade Bias''),
     (PTP_DPC_NIKON_WhiteBalanceColorTemperature, ''NIKON White Balance Color Temperature''),
     (PTP_DPC_NIKON_ImageSharpening, ''NIKON Image Sharpening''),
     (PTP_DPC_NIKON_ToneCompensation, ''NIKON Tone Compensation''),
     (PTP_DPC_NIKON_ColorMode, ''NIKON Color Mode''),
     (PTP_DPC_NIKON_HueAdjustment, ''NIKON Hue Adjustment''),
     (PTP_DPC_NIKON_NonCPULensDataFocalLength, ''NIKON Non CPU Lens Data Focal Length''),
     (PTP_DPC_NIKON_NonCPULensDataMaximumAperture, ''NIKON Non CPU Lens Data Maximum Aperture''),
     (PTP_DPC_NIKON_CSMMenuBankSelect, ''NIKON CSM Menu Bank Select''),
     (PTP_DPC_NIKON_MenuBankNameA, ''NIKON Menu Bank Name A''),
     (PTP_DPC_NIKON_MenuBankNameB, ''NIKON Menu Bank Name B''),
     (PTP_DPC_NIKON_MenuBankNameC, ''NIKON Menu Bank Name C''),
     (PTP_DPC_NIKON_MenuBankNameD, ''NIKON Menu Bank Name D''),
     (PTP_DPC_NIKON_A1AFCModePriority, ''NIKON (A1) AFC Mode Priority''),
     (PTP_DPC_NIKON_A2AFSModePriority, ''NIKON (A2) AFS Mode Priority''),
     (PTP_DPC_NIKON_A3GroupDynamicAF, ''NIKON (A3) Group Dynamic AF''),
     (PTP_DPC_NIKON_A4AFActivation, ''NIKON (A4) AF Activation''),
     (PTP_DPC_NIKON_A5FocusAreaIllumManualFocus, ''NIKON (A5) Focus Area Illum Manual Focus''),
     (PTP_DPC_NIKON_FocusAreaIllumContinuous, ''NIKON Focus Area Illum Continuous''),
     (PTP_DPC_NIKON_FocusAreaIllumWhenSelected, ''NIKON Focus Area Illum When Selected''),
     (PTP_DPC_NIKON_FocusAreaWrap, ''NIKON Focus Area Wrap''),
     (PTP_DPC_NIKON_A7VerticalAFON, ''NIKON (A7) Vertical AF ON''),
     (PTP_DPC_NIKON_ISOAuto, ''NIKON ISO Auto''),
     (PTP_DPC_NIKON_B2ISOStep, ''NIKON (B2) ISO Step''),
     (PTP_DPC_NIKON_EVStep, ''NIKON EV Step''),
     (PTP_DPC_NIKON_B4ExposureCompEv, ''NIKON (B4) Exposure Comp Ev''),
     (PTP_DPC_NIKON_ExposureCompensation, ''NIKON Exposure Compensation by Command Dial only''),
     (PTP_DPC_NIKON_CenterWeightArea, ''NIKON Center Weighted Area''),
     (PTP_DPC_NIKON_AELockMode, ''NIKON AE Lock Mode''),
     (PTP_DPC_NIKON_AELAFLMode, ''NIKON AE-L/AF-L Mode''),
     (PTP_DPC_NIKON_MeterOff, ''NIKON Meter-Off''),
     (PTP_DPC_NIKON_SelfTimer, ''NIKON Self Timer''),
     (PTP_DPC_NIKON_MonitorOff, ''NIKON Monitor Off''),
     (PTP_DPC_NIKON_D1ShootingSpeed, ''NIKON (D1) Shooting Speed''),
     (PTP_DPC_NIKON_ExposureTime, ''NIKON Exposure Time''),
     (PTP_DPC_NIKON_ACPower, ''NIKON AC Power''),
     (PTP_DPC_NIKON_D2MaximumShots, ''NIKON (D2) Maximum Shots''),
     (PTP_DPC_NIKON_D3ExpDelayMode, ''NIKON (D3) ExpDelayMode''),
     (PTP_DPC_NIKON_LongExposureNoiseReduction, ''NIKON Long Exposure Noise Reduction''),
     (PTP_DPC_NIKON_FileNumberSequence, ''NIKON File Number Sequence''),
     (PTP_DPC_NIKON_D6ControlPanelFinderRearControl, ''NIKON (D6) Control Panel Finder Rear Control''),
     (PTP_DPC_NIKON_ControlPanelFinderViewfinder, ''NIKON Control Panel Finder Viewfinder''),
     (PTP_DPC_NIKON_D7Illumination, ''NIKON (D7) Illumination''),
     (PTP_DPC_NIKON_E1FlashSyncSpeed, ''NIKON (E1) Flash Sync Speed''),
     (PTP_DPC_NIKON_FlashShutterSpeed, ''NIKON Slowest Flash Shutter Speed''),
     (PTP_DPC_NIKON_E3AAFlashMode, ''NIKON (E3) AA Flash Mode''),
     (PTP_DPC_NIKON_E4ModelingFlash, ''NIKON (E4) Modeling Flash''),
     (PTP_DPC_NIKON_BracketSet, ''NIKON Bracket Set''),
     (PTP_DPC_NIKON_E6ManualModeBracketing, ''NIKON (E6) Manual Mode Bracketing''),
     (PTP_DPC_NIKON_BracketOrder, ''NIKON Bracket Order''),
     (PTP_DPC_NIKON_E8AutoBracketSelection, ''NIKON (E8) Auto Bracket Selection''),
     (PTP_DPC_NIKON_BracketingSet, ''NIKON Auto Bracketing Set''),
     (PTP_DPC_NIKON_F1CenterButtonShootingMode, ''NIKON (F1) Center Button Shooting Mode''),
     (PTP_DPC_NIKON_CenterButtonPlaybackMode, ''NIKON Center Button Playback Mode''),
     (PTP_DPC_NIKON_F2Multiselector, ''NIKON (F2) Multiselector''),
     (PTP_DPC_NIKON_F3PhotoInfoPlayback, ''NIKON (F3) PhotoInfoPlayback''),
     (PTP_DPC_NIKON_F4AssignFuncButton, ''NIKON (F4) Assign Function Button''),
     (PTP_DPC_NIKON_F5CustomizeCommDials, ''NIKON (F5) Customize Comm Dials''),
     (PTP_DPC_NIKON_ReverseCommandDial, ''NIKON Reverse Command Dials''),
     (PTP_DPC_NIKON_ApertureSetting, ''NIKON Aperture Setting''),
     (PTP_DPC_NIKON_MenusAndPlayback, ''NIKON Menus and Playback''),
     (PTP_DPC_NIKON_F6ButtonsAndDials, ''NIKON (F6) Buttons and Dials''),
     (PTP_DPC_NIKON_NoCFCard, ''NIKON No CF Card''),
     (PTP_DPC_NIKON_ImageRotation, ''NIKON Image Rotation''),
     (PTP_DPC_NIKON_Bracketing, ''NIKON Bracketing''),
     (PTP_DPC_NIKON_ExposureBracketingIntervalDist, ''NIKON Exposure Bracketing Interval Distance''),
     (PTP_DPC_NIKON_BracketingProgram, ''NIKON Bracketing Program''),
     (PTP_DPC_NIKON_WhiteBalanceBracketStep, ''NIKON White Balance Bracket Step''),
     (PTP_DPC_NIKON_AutofocusLCDTopMode2, ''NIKON Autofocus LCD Top Mode 2''),
     (PTP_DPC_NIKON_AutofocusArea, ''NIKON Autofocus Area selector''),
     (PTP_DPC_NIKON_LightMeter, ''NIKON Light Meter''),
     (PTP_DPC_NIKON_ExposureApertureLock, ''NIKON Exposure Aperture Lock''),
     (PTP_DPC_NIKON_MaximumShots, ''NIKON Maximum Shots''),
     (PTP_DPC_NIKON_AFLLock, ''NIKON AF-L Locked''),
     (PTP_DPC_NIKON_BeepOff, ''NIKON Beep''),
     (PTP_DPC_NIKON_AutofocusMode, ''NIKON Autofocus Mode''),
     (PTP_DPC_NIKON_AFAssist, ''NIKON AF Assist Lamp''),
     (PTP_DPC_NIKON_PADVPMode, ''NIKON Auto ISO shutter limit for P A and DVP Mode''),
     (PTP_DPC_NIKON_ImageReview, ''NIKON Image Review''),
     (PTP_DPC_NIKON_GridDisplay, ''NIKON Viewfinder Grid Display''),
     (PTP_DPC_NIKON_AFAreaIllumination, ''NIKON AF Area Illumination''),
     (PTP_DPC_NIKON_FlashMode, ''NIKON Flash Mode''),
     (PTP_DPC_NIKON_FlashCommanderMode, ''NIKON Flash Commander Mode''),
     (PTP_DPC_NIKON_FlashSign, ''NIKON Flash Signal Indicator''),
     (PTP_DPC_NIKON_GridDisplay, ''NIKON Grid Display''),
     (PTP_DPC_NIKON_FlashModeManualPower, ''NIKON Flash Manual Mode Power''),
     (PTP_DPC_NIKON_FlashModeCommanderPower, ''NIKON Flash Commander Mode Power''),
     (PTP_DPC_NIKON_FlashExposureCompensation, ''NIKON Flash Exposure Compensation''),
     (PTP_DPC_NIKON_RemoteTimeout, ''NIKON Remote Timeout''),
     (PTP_DPC_NIKON_ImageCommentString, ''NIKON Image Comment String''),
     (PTP_DPC_NIKON_ImageCommentAttach, ''NIKON Image Comment Attach''),
     (PTP_DPC_NIKON_FlashOpen, ''NIKON Flash Open''),
     (PTP_DPC_NIKON_FlashCharged, ''NIKON Flash Charged''),
     (PTP_DPC_NIKON_LensID, ''NIKON Lens ID''),
     (PTP_DPC_NIKON_FocalLengthMin, ''NIKON Min. Focal Length''),
     (PTP_DPC_NIKON_FocalLengthMax, ''NIKON Max. Focal Length''),
     (PTP_DPC_NIKON_MaxApAtMinFocalLength, ''NIKON Max. Aperture at Min. Focal Length''),
     (PTP_DPC_NIKON_MaxApAtMaxFocalLength, ''NIKON Max. Aperture at Max. Focal Length''),
     (PTP_DPC_NIKON_LowLight, ''NIKON Low Light Indicator''),
     (PTP_DPC_NIKON_CSMMenu, ''NIKON CSM Menu''),
     (PTP_DPC_NIKON_OptimizeImage, ''NIKON Optimize Image''),
     (PTP_DPC_NIKON_AutoExposureLock, ''NIKON AE Lock''),
     (PTP_DPC_NIKON_AutoFocusLock, ''NIKON AF Lock''),
     (PTP_DPC_NIKON_CameraOrientation, ''NIKON Camera orientation''),
     (PTP_DPC_NIKON_BracketingIncrement, ''NIKON Bracketing Increment''),
     (PTP_DPC_NIKON_Saturation, ''NIKON Saturation'')]"

text \<open>The search in one table.\<close>

definition find_name :: "u16 \<Rightarrow> (u16 \<times> string) list \<Rightarrow> string option" where
  "find_name dpc tab = map_option snd (find (\<lambda>e. fst e = dpc) tab)"

definition ptp_property_issupported :: "'w PTPParams \<Rightarrow> u16 \<Rightarrow> bool option" where
  "ptp_property_issupported params property =
     (let di = deviceinfo params; n = unat (DevicePropertiesSupported_len di) in
      if property \<in> set (take n (DevicePropertiesSupported di)) then Some True
      else if n \<le> length (DevicePropertiesSupported di) then Some False else None)"

definition vendor_properties :: "u32 \<Rightarrow> (u16 \<times> string) list" where
  "vendor_properties vendor =
     (if vendor = PTP_VENDOR_EASTMAN_KODAK then ptp_device_properties_EK
      else if vendor = PTP_VENDOR_CANON then ptp_device_properties_CANON
      else if vendor = PTP_VENDOR_NIKON then ptp_device_properties_NIKON
      else [])"

definition ptp_prop_getname :: "'w PTPParams \<Rightarrow> u16 \<Rightarrow> string option" where
  "ptp_prop_getname params dpc =
     (case find_name dpc ptp_device_properties of
        Some txt \<Rightarrow> Some txt
      | None \<Rightarrow> find_name dpc (vendor_properties (VendorExtensionID (deviceinfo params))))"

text \<open>The name may be any beginning of the name in the table, in upper or lower case.\<close>

definition ptp_prop_getcodebyname :: "string \<Rightarrow> u16" where
  "ptp_prop_getcodebyname name =
     (case find (\<lambda>e. has_prefix_nocase (snd e) name) ptp_device_properties of
        Some e \<Rightarrow> fst e
      | None \<Rightarrow>
          (case find (\<lambda>e. has_prefix_nocase (snd e) name) ptp_device_properties_NIKON of
             Some e \<Rightarrow> fst e | None \<Rightarrow> 0))"

section \<open>Scaled values\<close>

definition SVALLEN :: nat where "SVALLEN = 256"

text \<open>What \<open>snprintf\<close> leaves in a buffer of \<open>SVALLEN\<close> characters.\<close>

definition SVALRET :: "string \<Rightarrow> string" where
  "SVALRET s = take (SVALLEN - 1) s"

definition ptp_prop_NIKON_d100 :: "string \<Rightarrow> string" where
  "ptp_prop_NIKON_d100 strval =
     (let val = word_of_int (strtoll strval) :: u32;
          numerator = ucast (drop_bit 16 val) :: u16;
          denominator = ucast val :: u16
      in SVALRET (show_int (uint numerator) @ ''/'' @ show_int (uint denominator)))"

definition ptp_prop_getdescscale10000 :: "PTPDevicePropDesc \<Rightarrow> string \<Rightarrow> string option" where
  "ptp_prop_getdescscale10000 dpd strval =
     (let floatvalue = fl_scaled (strtoll strval) 10000;
          prop_units = [(PTP_DPC_ExposureTime, ''s'')]
      in map_option (\<lambda>(dpc, units). SVALRET (show_double 4 floatvalue @ units))
           (find (\<lambda>(dpc, units). dpc = DevicePropertyCode dpd) prop_units))"

definition ptp_prop_getdescscale1000 :: "PTPDevicePropDesc \<Rightarrow> string \<Rightarrow> string option" where
  "ptp_prop_getdescscale1000 dpd strval =
     (let floatvalue = fl_scaled (strtoll strval) 1000;
          prop_units = [(PTP_DPC_ExposureBiasCompensation, [], 1)]
      in map_option (\<lambda>(dpc, units, prec). SVALRET (show_double prec floatvalue @ units))
           (find (\<lambda>(dpc, units, prec). dpc = DevicePropertyCode dpd) prop_units))"

definition ptp_prop_getdescscale100 :: "'w PTPParams \<Rightarrow> PTPDevicePropDesc \<Rightarrow> string \<Rightarrow> string option" where
  "ptp_prop_getdescscale100 params dpd strval =
     (let floatvalue = fl_scaled (strtoll strval) 100;
          prop_units = [(PTP_DPC_FNumber, [], 1), (PTP_DPC_FocalLength, ''mm'', 0)];
          prop_units_NIKON =
            [(PTP_DPC_NIKON_FocalLengthMin, [], 0), (PTP_DPC_NIKON_FocalLengthMax, [], 0),
             (PTP_DPC_NIKON_MaxApAtMinFocalLength, [], 1), (PTP_DPC_NIKON_MaxApAtMaxFocalLength, [], 1)];
          tab = (if VendorExtensionID (deviceinfo params) = PTP_VENDOR_NIKON
                 then prop_units_NIKON @ prop_units else prop_units)
      in map_option (\<lambda>(dpc, units, prec). SVALRET (show_double prec floatvalue @ units))
           (find (\<lambda>(dpc, units, prec). dpc = DevicePropertyCode dpd) tab))"

section \<open>Meanings of values\<close>

text \<open>An entry of the tables: a value and its description, or the function that describes all
  values of the property.\<close>

datatype describer = Scale100 | Scale1000 | Scale10000 | NIKON_d100

datatype meaning = Meaning string string | By_Function describer

definition describe :: "describer \<Rightarrow> 'w PTPParams \<Rightarrow> PTPDevicePropDesc \<Rightarrow> string \<Rightarrow> string option" where
  "describe f params dpd strval =
     (case f of
        Scale100 \<Rightarrow> ptp_prop_getdescscale100 params dpd strval
      | Scale1000 \<Rightarrow> ptp_prop_getdescscale1000 dpd strval
      | Scale10000 \<Rightarrow> ptp_prop_getdescscale10000 dpd strval
      | NIKON_d100 \<Rightarrow> Some (ptp_prop_NIKON_d100 strval))"

definition ptp_property_meaning :: "(u16 \<times> meaning) list" where
  "ptp_property_meaning = [
     (PTP_DPC_WhiteBalance, Meaning ''1'' ''Manual''),
     (PTP_DPC_WhiteBalance, Meaning ''2'' ''Automatic''),
     (PTP_DPC_WhiteBalance, Meaning ''3'' ''One-push Automatic''),
     (PTP_DPC_WhiteBalance, Meaning ''4'' ''Daylight''),
     (PTP_DPC_WhiteBalance, Meaning ''5'' ''Fluorescent''),
     (PTP_DPC_WhiteBalance, Meaning ''6'' ''Tungsten''),
     (PTP_DPC_WhiteBalance, Meaning ''7'' ''Flash''),
     (PTP_DPC_FocusMode, Meaning ''1'' ''Manual''),
     (PTP_DPC_FocusMode, Meaning ''2'' ''Automatic''),
     (PTP_DPC_FocusMode, Meaning ''3'' ''Automatic Macro''),
     (PTP_DPC_ExposureMeteringMode, Meaning ''1'' ''Manual''),
     (PTP_DPC_ExposureMeteringMode, Meaning ''2'' ''Center-weighted''),
     (PTP_DPC_ExposureMeteringMode, Meaning ''3'' ''Multi-spot''),
     (PTP_DPC_ExposureMeteringMode, Meaning ''4'' ''Center-spot''),
     (PTP_DPC_FlashMode, Meaning ''1'' ''Auto flash''),
     (PTP_DPC_FlashMode, Meaning ''2'' ''Flash off''),
     (PTP_DPC_FlashMode, Meaning ''3'' ''Fill flash''),
     (PTP_DPC_FlashMode, Meaning ''4'' ''Red eye auto''),
     (PTP_DPC_FlashMode, Meaning ''5'' ''Red eye fill''),
     (PTP_DPC_FlashMode, Meaning ''6'' ''External flash''),
     (PTP_DPC_ExposureProgramMode, Meaning ''1'' ''Manual''),
     (PTP_DPC_ExposureProgramMode, Meaning ''2'' ''Automatic (P)''),
     (PTP_DPC_ExposureProgramMode, Meaning ''3'' ''Aperture Priority''),
     (PTP_DPC_ExposureProgramMode, Meaning ''4'' ''Shutter Priority''),
     (PTP_DPC_ExposureProgramMode, Meaning ''5'' ''Program Creative''),
     (PTP_DPC_ExposureProgramMode, Meaning ''6'' ''Program Action''),
     (PTP_DPC_ExposureProgramMode, Meaning ''7'' ''Portrait''),
     (PTP_DPC_StillCaptureMode, Meaning ''1'' ''Normal''),
     (PTP_DPC_StillCaptureMode, Meaning ''2'' ''Burst''),
     (PTP_DPC_StillCaptureMode, Meaning ''3'' ''Timelapse''),
     (PTP_DPC_FocusMeteringMode, Meaning ''1'' ''Center-spot''),
     (PTP_DPC_FocusMeteringMode, Meaning ''2'' ''Multi-spot''),
     (PTP_DPC_FNumber, By_Function Scale100),
     (PTP_DPC_FocalLength, By_Function Scale100),
     (PTP_DPC_ExposureTime, By_Function Scale10000),
     (PTP_DPC_ExposureBiasCompensation, By_Function Scale1000)]"

definition ptp_property_meaning_NIKON_1 :: "(u16 \<times> meaning) list" where
  "ptp_property_meaning_NIKON_1 = [
     (PTP_DPC_CompressionSetting, Meaning ''0'' ''JPEG Basic''),
     (PTP_DPC_CompressionSetting, Meaning ''1'' ''JPEG Normal''),
     (PTP_DPC_CompressionSetting, Meaning ''2'' ''JPEG Fine''),
     (PTP_DPC_CompressionSetting, Meaning ''4'' ''NEF RAW''),
     (PTP_DPC_CompressionSetting, Meaning ''5'' ''NEF+JPEG Basic''),
     (PTP_DPC_WhiteBalance, Meaning ''2'' ''Automatic''),
     (PTP_DPC_WhiteBalance, Meaning ''4'' ''Direct Sunlight''),
     (PTP_DPC_WhiteBalance, Meaning ''5'' ''Fluorescent''),
     (PTP_DPC_WhiteBalance, Meaning ''6'' ''Incadescent''),
     (PTP_DPC_WhiteBalance, Meaning ''7'' ''Flash''),
     (PTP_DPC_WhiteBalance, Meaning ''32784'' ''Cloudy''),
     (PTP_DPC_WhiteBalance, Meaning ''32785'' ''Shade''),
     (PTP_DPC_WhiteBalance, Meaning ''32786'' ''Color Temperature''),
     (PTP_DPC_WhiteBalance, Meaning ''32787'' ''Preset''),
     (PTP_DPC_FocusMode, Meaning ''32784'' ''AF-S (single-servo)''),
     (PTP_DPC_FocusMode, Meaning ''32785'' ''AF-C (continuous-servo)''),
     (PTP_DPC_FlashMode, Meaning ''4'' ''Red-eye reduction''),
     (PTP_DPC_FlashMode, Meaning ''32784'' ''Front-courtain''),
     (PTP_DPC_FlashMode, Meaning ''32785'' ''Slow Sync''),
     (PTP_DPC_FlashMode, Meaning ''32786'' ''(Slow) Rear-curtain''),
     (PTP_DPC_FlashMode, Meaning ''32787'' ''Slow Sync with Red-eye''),
     (PTP_DPC_ExposureProgramMode, Meaning ''32784'' ''Camera Auto''),
     (PTP_DPC_ExposureProgramMode, Meaning ''32785'' ''Portrait''),
     (PTP_DPC_ExposureProgramMode, Meaning ''32786'' ''Landscape''),
     (PTP_DPC_ExposureProgramMode, Meaning ''32787'' ''Close Up''),
     (PTP_DPC_ExposureProgramMode, Meaning ''32788'' ''Sports''),
     (PTP_DPC_ExposureProgramMode, Meaning ''32789'' ''Night Portrait''),
     (PTP_DPC_ExposureProgramMode, Meaning ''32790'' ''Night Landscape''),
     (PTP_DPC_StillCaptureMode, Meaning ''1'' ''Single Frame''),
     (PTP_DPC_StillCaptureMode, Meaning ''2'' ''Continuous''),
     (PTP_DPC_StillCaptureMode, Meaning ''32784'' ''Continuous Low Speed''),
     (PTP_DPC_StillCaptureMode, Meaning ''32785'' ''Self-timer''),
     (PTP_DPC_StillCaptureMode, Meaning ''32787'' ''Remote''),
     (PTP_DPC_StillCaptureMode, Meaning ''32786'' ''Mirror Up''),
     (PTP_DPC_StillCaptureMode, Meaning ''32788'' ''Delayed Remote''),
     (PTP_DPC_FocusMeteringMode, Meaning ''2'' ''Dynamic Area''),
     (PTP_DPC_FocusMeteringMode, Meaning ''32784'' ''Single Area''),
     (PTP_DPC_FocusMeteringMode, Meaning ''32785'' ''Closest Subject''),
     (PTP_DPC_FocusMeteringMode, Meaning ''32786'' ''Group Dynamic''),
     (PTP_DPC_NIKON_ImageSharpening, Meaning ''0'' ''Auto''),
     (PTP_DPC_NIKON_ImageSharpening, Meaning ''1'' ''Normal''),
     (PTP_DPC_NIKON_ImageSharpening, Meaning ''2'' ''-2 Low''),
     (PTP_DPC_NIKON_ImageSharpening, Meaning ''3'' ''-1 Medium Low''),
     (PTP_DPC_NIKON_ImageSharpening, Meaning ''4'' ''+1 Medium High''),
     (PTP_DPC_NIKON_ImageSharpening, Meaning ''5'' ''+2 High''),
     (PTP_DPC_NIKON_ImageSharpening, Meaning ''6'' ''None''),
     (PTP_DPC_NIKON_ToneCompensation, Meaning ''0'' ''Auto''),
     (PTP_DPC_NIKON_ToneCompensation, Meaning ''1'' ''Normal''),
     (PTP_DPC_NIKON_ToneCompensation, Meaning ''2'' ''-2 Low Contrast''),
     (PTP_DPC_NIKON_ToneCompensation, Meaning ''3'' ''-1 Medium Low''),
     (PTP_DPC_NIKON_ToneCompensation, Meaning ''4'' ''+1 Medium High''),
     (PTP_DPC_NIKON_ToneCompensation, Meaning ''5'' ''+2 High Contrast''),
     (PTP_DPC_NIKON_ToneCompensation, Meaning ''6'' ''Custom''),
     (PTP_DPC_NIKON_ColorMode, Meaning ''0'' ''Ia (sRGB)''),
     (PTP_DPC_NIKON_ColorMode, Meaning ''1'' ''II (Adobe RGB)''),
     (PTP_DPC_NIKON_ColorMode, Meaning ''2'' ''IIIa (sRGB)''),
     (PTP_DPC_NIKON_Saturation, Meaning ''0'' ''Normal''),
     (PTP_DPC_NIKON_Saturation, Meaning ''1'' ''Moderate''),
     (PTP_DPC_NIKON_Saturation, Meaning ''2'' ''Enhanced''),
     (PTP_DPC_NIKON_OptimizeImage, Meaning ''0'' ''Normal''),
     (PTP_DPC_NIKON_OptimizeImage, Meaning ''1'' ''Vivid''),
     (PTP_DPC_NIKON_OptimizeImage, Meaning ''2'' ''Sharp''),
     (PTP_DPC_NIKON_OptimizeImage, Meaning ''3'' ''Soft''),
     (PTP_DPC_NIKON_OptimizeImage, Meaning ''4'' ''Direct Print''),
     (PTP_DPC_NIKON_OptimizeImage, Meaning ''5'' ''Portrait''),
     (PTP_DPC_NIKON_OptimizeImage, Meaning ''6'' ''Landscape''),
     (PTP_DPC_NIKON_OptimizeImage, Meaning ''7'' ''Custom''),
     (PTP_DPC_NIKON_FocusAreaWrap, Meaning ''1'' ''Wrap''),
     (PTP_DPC_NIKON_FocusAreaWrap, Meaning ''0'' ''No Wrap''),
     (PTP_DPC_NIKON_ISOAuto, Meaning ''0'' ''Off''),
     (PTP_DPC_NIKON_ISOAuto, Meaning ''1'' ''On''),
     (PTP_DPC_NIKON_ExposureCompensation, Meaning ''0'' ''Off''),
     (PTP_DPC_NIKON_ExposureCompensation, Meaning ''1'' ''On''),
     (PTP_DPC_NIKON_CenterWeightArea, Meaning ''0'' ''6mm''),
     (PTP_DPC_NIKON_CenterWeightArea, Meaning ''1'' ''8mm''),
     (PTP_DPC_NIKON_CenterWeightArea, Meaning ''2'' ''10mm''),
     (PTP_DPC_NIKON_CenterWeightArea, Meaning ''3'' ''12mm''),
     (PTP_DPC_NIKON_AELockMode, Meaning ''0'' ''AE-L Button''),
     (PTP_DPC_NIKON_AELockMode, Meaning ''1'' ''Release Button''),
     (PTP_DPC_NIKON_AELAFLMode, Meaning ''0'' ''Exposure and Focus Lock''),
     (PTP_DPC_NIKON_AELAFLMode, Meaning ''1'' ''Exposure Lock Only''),
     (PTP_DPC_NIKON_AELAFLMode, Meaning ''2'' ''Focus Lock Only''),
     (PTP_DPC_NIKON_AELAFLMode, Meaning ''3'' ''Exposure Lock Hold''),
     (PTP_DPC_NIKON_AELAFLMode, Meaning ''4'' ''AF-ON''),
     (PTP_DPC_NIKON_AELAFLMode, Meaning ''5'' ''FV Lock''),
     (PTP_DPC_NIKON_MeterOff, Meaning ''0'' ''4s''),
     (PTP_DPC_NIKON_MeterOff, Meaning ''1'' ''6s''),
     (PTP_DPC_NIKON_MeterOff, Meaning ''2'' ''8s''),
     (PTP_DPC_NIKON_MeterOff, Meaning ''3'' ''16s''),
     (PTP_DPC_NIKON_MeterOff, Meaning ''4'' ''30min''),
     (PTP_DPC_NIKON_SelfTimer, Meaning ''0'' ''2s''),
     (PTP_DPC_NIKON_SelfTimer, Meaning ''1'' ''5s''),
     (PTP_DPC_NIKON_SelfTimer, Meaning ''2'' ''10s''),
     (PTP_DPC_NIKON_SelfTimer, Meaning ''3'' ''20s''),
     (PTP_DPC_NIKON_MonitorOff, Meaning ''0'' ''10s''),
     (PTP_DPC_NIKON_MonitorOff, Meaning ''1'' ''20s''),
     (PTP_DPC_NIKON_MonitorOff, Meaning ''2'' ''1m''),
     (PTP_DPC_NIKON_MonitorOff, Meaning ''3'' ''5m''),
     (PTP_DPC_NIKON_MonitorOff, Meaning ''4'' ''10m''),
     (PTP_DPC_NIKON_LongExposureNoiseReduction, Meaning ''0'' ''Off''),
     (PTP_DPC_NIKON_LongExposureNoiseReduction, Meaning ''1'' ''On''),
     (PTP_DPC_NIKON_FileNumberSequence, Meaning ''0'' ''Off''),
     (PTP_DPC_NIKON_FileNumberSequence, Meaning ''1'' ''On''),
     (PTP_DPC_NIKON_FileNumberSequence, Meaning ''2'' ''Reset!''),
     (PTP_DPC_NIKON_FlashShutterSpeed, Meaning ''0'' ''1/60''),
     (PTP_DPC_NIKON_FlashShutterSpeed, Meaning ''1'' ''1/30''),
     (PTP_DPC_NIKON_FlashShutterSpeed, Meaning ''2'' ''1/15''),
     (PTP_DPC_NIKON_FlashShutterSpeed, Meaning ''3'' ''1/8''),
     (PTP_DPC_NIKON_FlashShutterSpeed, Meaning ''4'' ''1/4''),
     (PTP_DPC_NIKON_FlashShutterSpeed, Meaning ''5'' ''1/2''),
     (PTP_DPC_NIKON_FlashShutterSpeed, Meaning ''6'' ''1s''),
     (PTP_DPC_NIKON_FlashShutterSpeed, Meaning ''7'' ''2s''),
     (PTP_DPC_NIKON_FlashShutterSpeed, Meaning ''8'' ''4s''),
     (PTP_DPC_NIKON_FlashShutterSpeed, Meaning ''9'' ''8s''),
     (PTP_DPC_NIKON_FlashShutterSpeed, Meaning ''10'' ''15s''),
     (PTP_DPC_NIKON_FlashShutterSpeed, Meaning ''11'' ''30s''),
     (PTP_DPC_NIKON_BracketSet, Meaning ''0'' ''AE & Flash''),
     (PTP_DPC_NIKON_BracketSet, Meaning ''1'' ''AE Only''),
     (PTP_DPC_NIKON_BracketSet, Meaning ''2'' ''Flash Only''),
     (PTP_DPC_NIKON_BracketSet, Meaning ''3'' ''White Balance''),
     (PTP_DPC_NIKON_BracketOrder, Meaning ''0'' ''MTR->Under->Over''),
     (PTP_DPC_NIKON_BracketOrder, Meaning ''1'' ''Under->MTR->Over''),
     (PTP_DPC_NIKON_ReverseCommandDial, Meaning ''0'' ''No''),
     (PTP_DPC_NIKON_ReverseCommandDial, Meaning ''1'' ''Yes''),
     (PTP_DPC_NIKON_NoCFCard, Meaning ''1'' ''Release Locked''),
     (PTP_DPC_NIKON_NoCFCard, Meaning ''0'' ''Enabled Release''),
     (PTP_DPC_NIKON_ImageCommentAttach, Meaning ''1'' ''On''),
     (PTP_DPC_NIKON_ImageCommentAttach, Meaning ''0'' ''Off''),
     (PTP_DPC_NIKON_ImageRotation, Meaning ''0'' ''Automatic''),
     (PTP_DPC_NIKON_ImageRotation, Meaning ''1'' ''Off''),
     (PTP_DPC_NIKON_BracketingProgram, Meaning ''0'' ''-2F''),
     (PTP_DPC_NIKON_BracketingProgram, Meaning ''1'' ''+2F''),
     (PTP_DPC_NIKON_BracketingProgram, Meaning ''2'' ''3F''),
     (PTP_DPC_NIKON_Bracketing, Meaning ''0'' ''Off''),
     (PTP_DPC_NIKON_Bracketing, Meaning ''1'' ''On''),
     (PTP_DPC_NIKON_AutofocusArea, Meaning ''0'' ''<CENTER>''),
     (PTP_DPC_NIKON_AutofocusArea, Meaning ''1'' ''<UP>''),
     (PTP_DPC_NIKON_AutofocusArea, Meaning ''2'' ''<DOWN>''),
     (PTP_DPC_NIKON_AutofocusArea, Meaning ''3'' ''<LEFT>''),
     (PTP_DPC_NIKON_AutofocusArea, Meaning ''4'' ''<RIGHT>'')]"

definition ptp_property_meaning_NIKON_2 :: "(u16 \<times> meaning) list" where
  "ptp_property_meaning_NIKON_2 = [
     (PTP_DPC_NIKON_CameraOrientation, Meaning ''0'' ''Landscape''),
     (PTP_DPC_NIKON_CameraOrientation, Meaning ''1'' ''Left Hand''),
     (PTP_DPC_NIKON_CameraOrientation, Meaning ''2'' ''Right Hand''),
     (PTP_DPC_NIKON_FlashExposureCompensation, Meaning ''-18'' ''-3''),
     (PTP_DPC_NIKON_FlashExposureCompensation, Meaning ''-16'' ''-2.7''),
     (PTP_DPC_NIKON_FlashExposureCompensation, Meaning ''-15'' ''-2.5''),
     (PTP_DPC_NIKON_FlashExposureCompensation, Meaning ''-14'' ''-2.3''),
     (PTP_DPC_NIKON_FlashExposureCompensation, Meaning ''-12'' ''-2.0''),
     (PTP_DPC_NIKON_FlashExposureCompensation, Meaning ''-10'' ''-1.7''),
     (PTP_DPC_NIKON_FlashExposureCompensation, Meaning ''-9'' ''-1.5''),
     (PTP_DPC_NIKON_FlashExposureCompensation, Meaning ''-8'' ''-1.3''),
     (PTP_DPC_NIKON_FlashExposureCompensation, Meaning ''-6'' ''-1.0''),
     (PTP_DPC_NIKON_FlashExposureCompensation, Meaning ''-4'' ''-0.7''),
     (PTP_DPC_NIKON_FlashExposureCompensation, Meaning ''-3'' ''-0.5''),
     (PTP_DPC_NIKON_FlashExposureCompensation, Meaning ''-2'' ''-0.3''),
     (PTP_DPC_NIKON_FlashExposureCompensation, Meaning ''0'' ''0.0''),
     (PTP_DPC_NIKON_FlashExposureCompensation, Meaning ''2'' ''+0.3''),
     (PTP_DPC_NIKON_FlashExposureCompensation, Meaning ''3'' ''+0.5''),
     (PTP_DPC_NIKON_FlashExposureCompensation, Meaning ''4'' ''+0.7''),
     (PTP_DPC_NIKON_FlashExposureCompensation, Meaning ''6'' ''+1.0''),
     (PTP_DPC_NIKON_BeepOff, Meaning ''1'' ''Off''),
     (PTP_DPC_NIKON_BeepOff, Meaning ''0'' ''On''),
     (PTP_DPC_NIKON_AutofocusMode, Meaning ''0'' ''AF-S (single-servo)''),
     (PTP_DPC_NIKON_AutofocusMode, Meaning ''1'' ''AF-C (continuous-servo)''),
     (PTP_DPC_NIKON_AFAssist, Meaning ''0'' ''On''),
     (PTP_DPC_NIKON_AFAssist, Meaning ''1'' ''Off''),
     (PTP_DPC_NIKON_PADVPMode, Meaning ''0'' ''1/125''),
     (PTP_DPC_NIKON_PADVPMode, Meaning ''1'' ''1/60''),
     (PTP_DPC_NIKON_PADVPMode, Meaning ''2'' ''1/30''),
     (PTP_DPC_NIKON_PADVPMode, Meaning ''3'' ''1/15''),
     (PTP_DPC_NIKON_PADVPMode, Meaning ''4'' ''1/8''),
     (PTP_DPC_NIKON_PADVPMode, Meaning ''5'' ''1/4''),
     (PTP_DPC_NIKON_PADVPMode, Meaning ''6'' ''1/2''),
     (PTP_DPC_NIKON_PADVPMode, Meaning ''7'' ''1''),
     (PTP_DPC_NIKON_PADVPMode, Meaning ''8'' ''2''),
     (PTP_DPC_NIKON_PADVPMode, Meaning ''9'' ''4''),
     (PTP_DPC_NIKON_PADVPMode, Meaning ''10'' ''8''),
     (PTP_DPC_NIKON_PADVPMode, Meaning ''11'' ''15''),
     (PTP_DPC_NIKON_PADVPMode, Meaning ''12'' ''30''),
     (PTP_DPC_NIKON_ImageReview, Meaning ''0'' ''On''),
     (PTP_DPC_NIKON_ImageReview, Meaning ''1'' ''Off''),
     (PTP_DPC_NIKON_AFAreaIllumination, Meaning ''0'' ''Auto''),
     (PTP_DPC_NIKON_AFAreaIllumination, Meaning ''1'' ''Off''),
     (PTP_DPC_NIKON_AFAreaIllumination, Meaning ''2'' ''On''),
     (PTP_DPC_NIKON_FlashMode, Meaning ''0'' ''TTL''),
     (PTP_DPC_NIKON_FlashMode, Meaning ''1'' ''Manual''),
     (PTP_DPC_NIKON_FlashMode, Meaning ''2'' ''Commander Mode''),
     (PTP_DPC_NIKON_FlashCommanderMode, Meaning ''0'' ''TTL''),
     (PTP_DPC_NIKON_FlashCommanderMode, Meaning ''1'' ''AA''),
     (PTP_DPC_NIKON_FlashCommanderMode, Meaning ''2'' ''M''),
     (PTP_DPC_NIKON_FlashSign, Meaning ''0'' ''On''),
     (PTP_DPC_NIKON_FlashSign, Meaning ''1'' ''Off''),
     (PTP_DPC_NIKON_RemoteTimeout, Meaning ''0'' ''1min''),
     (PTP_DPC_NIKON_RemoteTimeout, Meaning ''1'' ''5min''),
     (PTP_DPC_NIKON_RemoteTimeout, Meaning ''2'' ''10min''),
     (PTP_DPC_NIKON_RemoteTimeout, Meaning ''3'' ''15min''),
     (PTP_DPC_NIKON_GridDisplay, Meaning ''0'' ''Off''),
     (PTP_DPC_NIKON_GridDisplay, Meaning ''1'' ''On''),
     (PTP_DPC_NIKON_FlashModeManualPower, Meaning ''0'' ''Full power''),
     (PTP_DPC_NIKON_FlashModeManualPower, Meaning ''1'' ''1/2 power''),
     (PTP_DPC_NIKON_FlashModeManualPower, Meaning ''2'' ''1/4 power''),
     (PTP_DPC_NIKON_FlashModeManualPower, Meaning ''3'' ''1/8 power''),
     (PTP_DPC_NIKON_FlashModeManualPower, Meaning ''4'' ''1/16 power''),
     (PTP_DPC_NIKON_FlashModeCommanderPower, Meaning ''0'' ''FULL''),
     (PTP_DPC_NIKON_FlashModeCommanderPower, Meaning ''1'' ''1/2''),
     (PTP_DPC_NIKON_FlashModeCommanderPower, Meaning ''2'' ''1/4''),
     (PTP_DPC_NIKON_FlashModeCommanderPower, Meaning ''3'' ''1/8''),
     (PTP_DPC_NIKON_FlashModeCommanderPower, Meaning ''4'' ''1/16''),
     (PTP_DPC_NIKON_FlashModeCommanderPower, Meaning ''5'' ''1/32''),
     (PTP_DPC_NIKON_FlashModeCommanderPower, Meaning ''6'' ''1/64''),
     (PTP_DPC_NIKON_FlashModeCommanderPower, Meaning ''7'' ''1/128''),
     (PTP_DPC_NIKON_CSMMenu, Meaning ''0'' ''Simple''),
     (PTP_DPC_NIKON_CSMMenu, Meaning ''1'' ''Detailed''),
     (PTP_DPC_NIKON_CSMMenu, Meaning ''2'' ''Yet Unknown/Hidden?''),
     (PTP_DPC_NIKON_BracketingIncrement, Meaning ''12'' ''2.0''),
     (PTP_DPC_NIKON_BracketingIncrement, Meaning ''10'' ''1.7''),
     (PTP_DPC_NIKON_BracketingIncrement, Meaning ''9'' ''1.5''),
     (PTP_DPC_NIKON_BracketingIncrement, Meaning ''8'' ''1.3''),
     (PTP_DPC_NIKON_BracketingIncrement, Meaning ''6'' ''1.0''),
     (PTP_DPC_NIKON_BracketingIncrement, Meaning ''4'' ''0.7''),
     (PTP_DPC_NIKON_BracketingIncrement, Meaning ''3'' ''0.5''),
     (PTP_DPC_NIKON_BracketingIncrement, Meaning ''2'' ''0.3''),
     (PTP_DPC_NIKON_BracketingIncrement, Meaning ''0'' ''0.0''),
     (PTP_DPC_NIKON_EVStep, Meaning ''0'' ''1/3''),
     (PTP_DPC_NIKON_EVStep, Meaning ''1'' ''1/2''),
     (PTP_DPC_NIKON_LowLight, Meaning ''0'' ''No''),
     (PTP_DPC_NIKON_LowLight, Meaning ''1'' ''Yes''),
     (PTP_DPC_NIKON_FlashOpen, Meaning ''0'' ''No''),
     (PTP_DPC_NIKON_FlashOpen, Meaning ''1'' ''Yes''),
     (PTP_DPC_NIKON_FlashCharged, Meaning ''0'' ''No''),
     (PTP_DPC_NIKON_FlashCharged, Meaning ''1'' ''Yes''),
     (PTP_DPC_NIKON_AutoExposureLock, Meaning ''1'' ''Locked''),
     (PTP_DPC_NIKON_AutoExposureLock, Meaning ''0'' ''Not Locked''),
     (PTP_DPC_ExposureTime, Meaning ''4294967295'' ''bulb''),
     (PTP_DPC_NIKON_ExposureTime, Meaning ''4294967295'' ''bulb''),
     (PTP_DPC_NIKON_FocalLengthMin, By_Function Scale100),
     (PTP_DPC_NIKON_FocalLengthMax, By_Function Scale100),
     (PTP_DPC_NIKON_MaxApAtMinFocalLength, By_Function Scale100),
     (PTP_DPC_NIKON_MaxApAtMaxFocalLength, By_Function Scale100),
     (PTP_DPC_NIKON_ExposureTime, By_Function NIKON_d100)]"

definition ptp_property_meaning_NIKON :: "(u16 \<times> meaning) list" where
  "ptp_property_meaning_NIKON = ptp_property_meaning_NIKON_1 @ ptp_property_meaning_NIKON_2"

text \<open>
  The macro \<open>RETPROPDESC\<close>, followed by \<open>rest\<close>. A null pointer is the string \<open>None\<close>: comparing
  it is undefined. The result is \<open>None\<close> where the code is undefined, \<open>Some None\<close> for NULL.
\<close>

fun RETPROPDESC ::
  "'w PTPParams \<Rightarrow> PTPDevicePropDesc \<Rightarrow> string option \<Rightarrow> (u16 \<times> meaning) list \<Rightarrow> string option option \<Rightarrow>
   string option option" where
  "RETPROPDESC params dpd strval [] rest = rest"
| "RETPROPDESC params dpd strval ((dpc, Meaning val txt) # tab) rest =
     (if dpc = DevicePropertyCode dpd
      then (case strval of
              None \<Rightarrow> None
            | Some s \<Rightarrow> if val = s then Some (Some txt) else RETPROPDESC params dpd strval tab rest)
      else RETPROPDESC params dpd strval tab rest)"
| "RETPROPDESC params dpd strval ((dpc, By_Function f) # tab) rest =
     (if dpc = DevicePropertyCode dpd then map_option (describe f params dpd) strval
      else RETPROPDESC params dpd strval tab rest)"

definition ptp_prop_getdescbystring ::
  "'w PTPParams \<Rightarrow> PTPDevicePropDesc \<Rightarrow> string option \<Rightarrow> string option option" where
  "ptp_prop_getdescbystring params dpd strval =
     (let rest = RETPROPDESC params dpd strval ptp_property_meaning (Some None) in
      if VendorExtensionID (deviceinfo params) = PTP_VENDOR_NIKON
      then RETPROPDESC params dpd strval ptp_property_meaning_NIKON rest else rest)"

text \<open>A value is NULL when there is none, or when it is a null string.\<close>

definition null_value :: "prop_value option \<Rightarrow> bool" where
  "null_value v \<longleftrightarrow> v = None \<or> v = Some (PV_STR None)"

definition quoted :: "bytes \<Rightarrow> string" where
  "quoted s = [CHR 0x22] @ map (\<lambda>b. char_of (unat b)) (takeWhile (\<lambda>b. b \<noteq> 0) s) @ [CHR 0x22]"

definition ptp_prop_tostr :: "PTPDevicePropDesc \<Rightarrow> prop_value option \<Rightarrow> string option option" where
  "ptp_prop_tostr dpd val =
     (let v = (if null_value val then CurrentValue dpd else val);
          dt = DataType dpd in
      if dt = PTP_DTC_INT8 then
        (case v of Some (PV_INT8 x) \<Rightarrow> Some (Some (SVALRET (show_int (sint x)))) | _ \<Rightarrow> None)
      else if dt = PTP_DTC_UINT8 then
        (case v of Some (PV_UINT8 x) \<Rightarrow> Some (Some (SVALRET (show_int (uint x)))) | _ \<Rightarrow> None)
      else if dt = PTP_DTC_INT16 then
        (case v of Some (PV_INT16 x) \<Rightarrow> Some (Some (SVALRET (show_int (sint x)))) | _ \<Rightarrow> None)
      else if dt = PTP_DTC_UINT16 then
        (case v of Some (PV_UINT16 x) \<Rightarrow> Some (Some (SVALRET (show_int (uint x)))) | _ \<Rightarrow> None)
      else if dt = PTP_DTC_INT32 then
        (case v of Some (PV_INT32 x) \<Rightarrow> Some (Some (SVALRET (show_int (sint x)))) | _ \<Rightarrow> None)
      else if dt = PTP_DTC_UINT32 then
        (case v of Some (PV_UINT32 x) \<Rightarrow> Some (Some (SVALRET (show_int (uint x)))) | _ \<Rightarrow> None)
      else if dt = PTP_DTC_STR then
        (case v of Some (PV_STR (Some s)) \<Rightarrow>
           (if 0 \<in> set s then Some (Some (SVALRET (quoted s))) else None) | _ \<Rightarrow> None)
      else Some None)"

definition ptp_prop_getdesc ::
  "'w PTPParams \<Rightarrow> PTPDevicePropDesc \<Rightarrow> prop_value option \<Rightarrow> string option option" where
  "ptp_prop_getdesc params dpd val = do {
     strval \<leftarrow> ptp_prop_tostr dpd val;
     ptp_prop_getdescbystring params dpd strval
   }"

text \<open>Both loops stop at the first entry without text, the first one described by a function.\<close>

fun plain_meanings :: "(u16 \<times> meaning) list \<Rightarrow> (u16 \<times> string \<times> string) list" where
  "plain_meanings [] = []"
| "plain_meanings ((dpc, Meaning val txt) # tab) = (dpc, val, txt) # plain_meanings tab"
| "plain_meanings ((dpc, By_Function f) # tab) = []"

definition ptp_prop_getvalbyname :: "string \<Rightarrow> u16 \<Rightarrow> string option" where
  "ptp_prop_getvalbyname name dpc =
     (let matches = (\<lambda>(d, val, txt). d = dpc \<and> has_prefix_nocase txt name) in
      case find matches (plain_meanings ptp_property_meaning) of
        Some (d, val, txt) \<Rightarrow> Some val
      | None \<Rightarrow> map_option (\<lambda>(d, val, txt). val) (find matches (plain_meanings ptp_property_meaning_NIKON)))"

end
