(* ===== verification/Lbuf.thy ===== *)
theory Lbuf
  imports Endian
begin

text \<open>
  The Lua buffer object of \<open>lbuf.c\<close>. A function called from Lua gets the arguments after the
  buffer and returns either an error (\<open>Inl\<close>, the message of \<open>luaL_error\<close>) or its results. An
  argument that may be absent is an \<open>option\<close>; a number is an \<open>int\<close>, rounded towards zero. A
  conversion C leaves undefined, such as a negative number to \<open>unsigned\<close>, makes the outcome
  \<open>None\<close>, as an access outside an object does.
\<close>

section \<open>Arguments and results\<close>

datatype lua_value = LNum int | LStr bytes | LBool bool | LNil

text \<open>Conversion to a C \<open>int\<close>.\<close>

definition s32 :: "int \<Rightarrow> int" where
  "s32 n = sint (word_of_int n :: u32)"

definition luaL_optint :: "int option \<Rightarrow> int \<Rightarrow> int" where
  "luaL_optint arg def = s32 (case arg of None \<Rightarrow> def | Some n \<Rightarrow> n)"

text \<open>The conversion of a number to \<open>unsigned\<close>.\<close>

definition number_u32 :: "int \<Rightarrow> u32 option" where
  "number_u32 n = (if 0 \<le> n \<and> n < 2 ^ 32 then Some (word_of_int n) else None)"

definition luaL_optunsigned :: "int option \<Rightarrow> int \<Rightarrow> u32 option" where
  "luaL_optunsigned arg def = number_u32 (case arg of None \<Rightarrow> def | Some n \<Rightarrow> n)"

lemma s32_small: "- (2 ^ 31) \<le> n \<Longrightarrow> n < 2 ^ 31 \<Longrightarrow> s32 n = n"
  unfolding s32_def sint_sbintrunc' using signed_take_bit_int_eq_self [of 31 n] by simp

section \<open>The object\<close>

text \<open>\<open>lb_bytes\<close> is the object \<open>bytes\<close> points to, of which \<open>len\<close> says how much is used.\<close>

record lBuf =
  lb_len :: u32
  lb_flags :: u32
  lb_bytes :: bytes

definition LBUF_FL_FREE :: u32 where "LBUF_FL_FREE = 0x1"
definition LBUF_FL_READONLY :: u32 where "LBUF_FL_READONLY = 0x2"

definition lbuf_create :: "bytes \<Rightarrow> u32 \<Rightarrow> u32 \<Rightarrow> lBuf" where
  "lbuf_create data len flags = \<lparr> lb_len = len, lb_flags = flags, lb_bytes = data \<rparr>"

definition lbuf_len :: "lBuf \<Rightarrow> int" where
  "lbuf_len buf = uint (lb_len buf)"

text \<open>\<open>lbuf.new\<close>: of a string or of a size. \<open>malloc n\<close> is a new object of \<open>n\<close> bytes.\<close>

datatype new_arg = New_String bytes | New_Number int

definition lbuf_new :: "(nat \<Rightarrow> bytes option) \<Rightarrow> new_arg \<Rightarrow> (string + lBuf) option" where
  "lbuf_new malloc arg = do {
     (len, contents) \<leftarrow>
       (case arg of
          New_String s \<Rightarrow> Some (length s, s)
        | New_Number n \<Rightarrow> if 0 \<le> n \<and> n < 2 ^ 64 then Some (nat n, replicate (nat n) 0) else None);
     if len \<noteq> 0
     then (case malloc len of
             None \<Rightarrow> Some (Inl ''malloc failed'')
           | Some data \<Rightarrow> do {
               data \<leftarrow> blit data 0 contents;
               Some (Inr (lbuf_create data (of_nat len) LBUF_FL_FREE))
             })
     else Some (Inr (lbuf_create [] 0 0))
   }"

definition lbuf_gc :: "lBuf \<Rightarrow> lBuf" where
  "lbuf_gc buf =
     (if lb_flags buf AND LBUF_FL_FREE \<noteq> 0 then buf \<lparr> lb_len := 0, lb_bytes := [] \<rparr> else buf)"

section \<open>Parts of the buffer\<close>

definition get_index_arg :: "lBuf \<Rightarrow> int option \<Rightarrow> int \<Rightarrow> int" where
  "get_index_arg buf arg def =
     (let val = luaL_optint arg def;
          val = (if val < 0 then s32 (uint (lb_len buf) + val + 1) else val)
      in if val < 0 then 0 else val)"

text \<open>The part \<open>i\<close> to \<open>j\<close>, as offset and number of bytes; nothing if it is empty by its bounds.\<close>

definition part :: "lBuf \<Rightarrow> int \<Rightarrow> int \<Rightarrow> (nat \<times> nat) option" where
  "part buf start end =
     (let end = (if end > uint (lb_len buf) then s32 (uint (lb_len buf)) else end) in
      if lb_len buf = 0 \<or> end < start then None
      else
        (let start = (if start > 0 then start - 1 else start)
         in Some (nat start, nat (end - start))))"

definition lbuf_string :: "lBuf \<Rightarrow> int option \<Rightarrow> int option \<Rightarrow> bytes option" where
  "lbuf_string buf i j =
     (case part buf (get_index_arg buf i 1) (get_index_arg buf j (uint (lb_len buf))) of
        None \<Rightarrow> Some []
      | Some (off, n) \<Rightarrow> ldn (lb_bytes buf) off n)"

definition lbuf_sub ::
  "(nat \<Rightarrow> bytes option) \<Rightarrow> lBuf \<Rightarrow> int option \<Rightarrow> int option \<Rightarrow> (string + lBuf) option" where
  "lbuf_sub malloc buf i j =
     (case part buf (get_index_arg buf i 1) (get_index_arg buf j (uint (lb_len buf))) of
        None \<Rightarrow> Some (Inr (lbuf_create [] 0 0))
      | Some (off, n) \<Rightarrow>
          (case malloc n of
             None \<Rightarrow> Some (Inl ''malloc failed'')
           | Some data \<Rightarrow> do {
               bs \<leftarrow> ldn (lb_bytes buf) off n;
               data \<leftarrow> blit data 0 bs;
               Some (Inr (lbuf_create data (of_nat n) LBUF_FL_FREE))
             }))"

text \<open>\<open>checkstack n\<close>: whether \<open>lua_checkstack\<close> finds room for \<open>n\<close> results.\<close>

definition lbuf_byte ::
  "(int \<Rightarrow> bool) \<Rightarrow> lBuf \<Rightarrow> int option \<Rightarrow> int option \<Rightarrow> (string + lua_value list) option" where
  "lbuf_byte checkstack buf i j =
     (let start = get_index_arg buf i 1 in
      case part buf start (get_index_arg buf j start) of
        None \<Rightarrow> Some (Inr [LNil])
      | Some (off, n) \<Rightarrow>
          if \<not> checkstack (int n) then Some (Inl ''insufficient stack space for lbuf:byte'')
          else do {
            bs \<leftarrow> ldn (lb_bytes buf) off n;
            Some (Inr (map (\<lambda>b. LNum (uint b)) bs))
          })"

section \<open>Elements\<close>

datatype elem = El_i32 | El_u32 | El_i16 | El_u16 | El_i8 | El_u8

fun elem_size :: "elem \<Rightarrow> nat" where
  "elem_size El_i32 = 4" | "elem_size El_u32 = 4"
| "elem_size El_i16 = 2" | "elem_size El_u16 = 2"
| "elem_size El_i8 = 1" | "elem_size El_u8 = 1"

text \<open>The functions \<open>get_vals_*\<close>: the number stored at a place.\<close>

fun get_elem :: "elem \<Rightarrow> bytes \<Rightarrow> nat \<Rightarrow> int option" where
  "get_elem El_i32 m p = map_option (\<lambda>bs. sint (host32 bs)) (ldn m p 4)"
| "get_elem El_u32 m p = map_option (\<lambda>bs. uint (host32 bs)) (ldn m p 4)"
| "get_elem El_i16 m p = map_option (\<lambda>bs. sint (host16 bs)) (ldn m p 2)"
| "get_elem El_u16 m p = map_option (\<lambda>bs. uint (host16 bs)) (ldn m p 2)"
| "get_elem El_i8 m p = map_option sint (ld8 m p)"
| "get_elem El_u8 m p = map_option uint (ld8 m p)"

text \<open>The functions \<open>set_vals_*\<close>; a number outside the type's range has no defined conversion.\<close>

fun elem_range :: "elem \<Rightarrow> int \<Rightarrow> bool" where
  "elem_range El_i32 v \<longleftrightarrow> - (2 ^ 31) \<le> v \<and> v < 2 ^ 31"
| "elem_range El_u32 v \<longleftrightarrow> 0 \<le> v \<and> v < 2 ^ 32"
| "elem_range El_i16 v \<longleftrightarrow> - (2 ^ 15) \<le> v \<and> v < 2 ^ 15"
| "elem_range El_u16 v \<longleftrightarrow> 0 \<le> v \<and> v < 2 ^ 16"
| "elem_range El_i8 v \<longleftrightarrow> - (2 ^ 7) \<le> v \<and> v < 2 ^ 7"
| "elem_range El_u8 v \<longleftrightarrow> 0 \<le> v \<and> v < 2 ^ 8"

definition elem_bytes :: "elem \<Rightarrow> int \<Rightarrow> bytes" where
  "elem_bytes e v =
     (if elem_size e = 4 then mem32 (word_of_int v)
      else if elem_size e = 2 then mem16 (word_of_int v) else [word_of_int v])"

definition set_elem :: "elem \<Rightarrow> bytes \<Rightarrow> nat \<Rightarrow> int \<Rightarrow> bytes option" where
  "set_elem e m p v = (if elem_range e v then blit m p (elem_bytes e v) else None)"

text \<open>A negative number of results is no valid result of a Lua function.\<close>

definition get_vals ::
  "(int \<Rightarrow> bool) \<Rightarrow> elem \<Rightarrow> lBuf \<Rightarrow> int option \<Rightarrow> int option \<Rightarrow> (string + lua_value list) option" where
  "get_vals checkstack e buf off count =
     (let size = of_nat (elem_size e) :: u32;
          off = luaL_optint off 0;
          count = luaL_optint count 1 in
      if off < 0 then Some (Inl ''negative offset not allowed'')
      else if word_of_int off > lb_len buf - size then Some (Inr [])
      else
        let count = (if count < 0 \<or> word_of_int off + word_of_int count * size > lb_len buf
                     then sint ((lb_len buf - word_of_int off) div size) else count) in
        if \<not> checkstack count then Some (Inl ''insufficient stack space'')
        else if count < 0 then None
        else do {
          vs \<leftarrow> those (map (\<lambda>i. get_elem e (lb_bytes buf) (nat off + i * elem_size e)) [0..<nat count]);
          Some (Inr (map LNum vs))
        })"

definition lbuf_get_i32 where "lbuf_get_i32 checkstack = get_vals checkstack El_i32"
definition lbuf_get_u32 where "lbuf_get_u32 checkstack = get_vals checkstack El_u32"
definition lbuf_get_i16 where "lbuf_get_i16 checkstack = get_vals checkstack El_i16"
definition lbuf_get_u16 where "lbuf_get_u16 checkstack = get_vals checkstack El_u16"
definition lbuf_get_i8 where "lbuf_get_i8 checkstack = get_vals checkstack El_i8"
definition lbuf_get_u8 where "lbuf_get_u8 checkstack = get_vals checkstack El_u8"

text \<open>
  The arguments of a setter: none at all, or an offset, which may be nil, and the values. With no
  arguments \<open>lua_gettop (L) - 2\<close> is -1. Reading an argument that is not there gives 0. The
  result is the number of values set and the buffer.
\<close>

datatype set_args = Set_None | Set_At "int option" "int list"

fun set_off :: "set_args \<Rightarrow> int option" where
  "set_off Set_None = None"
| "set_off (Set_At off vals) = off"

fun set_count :: "set_args \<Rightarrow> int" where
  "set_count Set_None = - 1"
| "set_count (Set_At off vals) = int (length vals)"

fun set_arg :: "set_args \<Rightarrow> nat \<Rightarrow> int" where
  "set_arg Set_None i = 0"
| "set_arg (Set_At off vals) i = (if i < length vals then vals ! i else 0)"

definition set_vals :: "elem \<Rightarrow> lBuf \<Rightarrow> set_args \<Rightarrow> (string + int \<times> lBuf) option" where
  "set_vals e buf args =
     (if lb_flags buf AND LBUF_FL_READONLY \<noteq> 0 then Some (Inl ''attempt to set readonly lbuf'')
      else
        let size = of_nat (elem_size e) :: u32;
            off = luaL_optint (set_off args) 0;
            count = set_count args in
        if off < 0 then Some (Inl ''negative offset not allowed'')
        else if word_of_int off > lb_len buf - size then Some (Inr (0, buf))
        else
          let count = (if word_of_int count * size > lb_len buf - word_of_int off
                       then sint ((lb_len buf - word_of_int off) div size) else count) in
          do {
            m \<leftarrow> ofold (\<lambda>i m. set_elem e m (nat off + i * elem_size e) (set_arg args i)) [0..<nat count] (lb_bytes buf);
            Some (Inr (count, buf \<lparr> lb_bytes := m \<rparr>))
          })"

definition lbuf_set_i32 where "lbuf_set_i32 = set_vals El_i32"
definition lbuf_set_u32 where "lbuf_set_u32 = set_vals El_u32"
definition lbuf_set_i16 where "lbuf_set_i16 = set_vals El_i16"
definition lbuf_set_u16 where "lbuf_set_u16 = set_vals El_u16"
definition lbuf_set_i8 where "lbuf_set_i8 = set_vals El_i8"
definition lbuf_set_u8 where "lbuf_set_u8 = set_vals El_u8"

section \<open>Files\<close>

text \<open>An open file: what is left to read, whether its end was met, what was written, and how
  many bytes there is room for.\<close>

record FILE =
  f_rest :: bytes
  f_eof :: bool
  f_out :: bytes
  f_room :: nat

text \<open>\<open>fread (p, n, 1, f)\<close>: whether the one item was read, the bytes read and the file.\<close>

definition fread_item :: "nat \<Rightarrow> FILE \<Rightarrow> bool \<times> bytes \<times> FILE" where
  "fread_item n f =
     (let bs = take n (f_rest f); short = length (f_rest f) < n
      in (n \<noteq> 0 \<and> \<not> short, bs, f \<lparr> f_rest := drop n (f_rest f), f_eof := f_eof f \<or> short \<rparr>))"

definition fwrite_item :: "bytes \<Rightarrow> FILE \<Rightarrow> bool \<times> FILE" where
  "fwrite_item bs f =
     (let w = take (f_room f) bs
      in (bs \<noteq> [] \<and> length bs \<le> f_room f,
          f \<lparr> f_out := f_out f @ w, f_room := f_room f - length w \<rparr>))"

text \<open>A closed file is \<open>None\<close>. A read that fails has changed the buffer nevertheless, so the buffer and
  the file are results on every branch.\<close>

definition lbuf_fread ::
  "lBuf \<Rightarrow> FILE option \<Rightarrow> int option \<Rightarrow> int option \<Rightarrow> ((string + bool) \<times> lBuf \<times> FILE option) option" where
  "lbuf_fread buf pf offset count =
     (case pf of
        None \<Rightarrow> Some (Inl ''attempt to access closed file'', buf, None)
      | Some f \<Rightarrow> do {
          offset \<leftarrow> luaL_optunsigned offset 0;
          if offset \<ge> lb_len buf then Some (Inl ''invalid offset'', buf, Some f)
          else do {
            count \<leftarrow> luaL_optunsigned count (uint (lb_len buf - offset));
            if count > lb_len buf - offset then Some (Inl ''invalid count'', buf, Some f)
            else do {
              let (r, bs, f) = fread_item (unat count) f;
              m \<leftarrow> blit (lb_bytes buf) (unat offset) bs;
              let buf = buf \<lparr> lb_bytes := m \<rparr>;
              Some (if r then Inr True else if f_eof f then Inr False else Inl ''read failed'', buf, Some f)
            }
          }
        })"

definition lbuf_fwrite ::
  "lBuf \<Rightarrow> FILE option \<Rightarrow> int option \<Rightarrow> int option \<Rightarrow> (string + bool \<times> FILE) option" where
  "lbuf_fwrite buf pf offset count =
     (case pf of
        None \<Rightarrow> Some (Inl ''attempt to access closed file'')
      | Some f \<Rightarrow> do {
          offset \<leftarrow> luaL_optunsigned offset 0;
          if offset \<ge> lb_len buf then Some (Inl ''invalid offset'')
          else do {
            count \<leftarrow> luaL_optunsigned count (uint (lb_len buf - offset));
            if count > lb_len buf - offset then Some (Inl ''invalid count'')
            else if lb_len buf > 0 then do {
              bs \<leftarrow> ldn (lb_bytes buf) (unat offset) (unat count);
              let (r, f) = fwrite_item bs f;
              if \<not> r then Some (Inl ''write failed'') else Some (Inr (True, f))
            }
            else Some (Inr (True, f))
          }
        })"

section \<open>Whole buffers\<close>

text \<open>The loop of \<open>reverse_bytes\<close> from index \<open>i\<close>, an \<open>int\<close>, to \<open>n\<close>.\<close>

function reverse_loop :: "bytes \<Rightarrow> nat \<Rightarrow> nat \<Rightarrow> bytes option" where
  "reverse_loop m n i =
     (if i < n then do {
        t \<leftarrow> ld8 m (i + 1);
        b \<leftarrow> ld8 m i;
        m \<leftarrow> st8 m (i + 1) b;
        m \<leftarrow> st8 m i t;
        if i + 2 < 2 ^ 31 then reverse_loop m n (i + 2) else None
      } else Some m)"
  by pat_completeness auto
termination
  by (relation "measure (\<lambda>(m, n, i). n - i)") auto

declare reverse_loop.simps [simp del]

definition lbuf_reverse_bytes :: "lBuf \<Rightarrow> lBuf option" where
  "lbuf_reverse_bytes buf = do {
     m \<leftarrow> reverse_loop (lb_bytes buf) (unat (lb_len buf - 1)) 0;
     Some (buf \<lparr> lb_bytes := m \<rparr>)
   }"

text \<open>What to fill with: a string, another buffer, or the buffer itself.\<close>

datatype fill_arg = Fill_String bytes | Fill_Buf lBuf | Fill_Self | Fill_Other

text \<open>\<open>memcpy (p, fill_val, n)\<close>: within one object the two places must not overlap.\<close>

definition fill_copy :: "bytes option \<Rightarrow> bytes \<Rightarrow> nat \<Rightarrow> nat \<Rightarrow> bytes option" where
  "fill_copy src m p n =
     (case src of
        Some s \<Rightarrow> ldn s 0 n \<bind> blit m p
      | None \<Rightarrow> if n \<le> p then ldn m 0 n \<bind> blit m p else None)"

text \<open>Filling \<open>n\<close> bytes from position \<open>p\<close> with copies of the first \<open>l\<close> bytes of the source.\<close>

definition fill_with :: "bytes option \<Rightarrow> bytes \<Rightarrow> nat \<Rightarrow> nat \<Rightarrow> nat \<Rightarrow> bytes option" where
  "fill_with src m p l n =
     (if l = 1 then do {
        c \<leftarrow> ld8 (case src of Some s \<Rightarrow> s | None \<Rightarrow> m) 0;
        blit m p (replicate n c)
      }
      else do {
        let count = n div l;
        let rest = n mod l;
        m \<leftarrow> ofold (\<lambda>i m. fill_copy src m (p + i * l) l) [0..<count] m;
        if rest \<noteq> 0 then fill_copy src m (p + count * l) rest else Some m
      })"

definition lbuf_fill ::
  "lBuf \<Rightarrow> fill_arg \<Rightarrow> int option \<Rightarrow> int option \<Rightarrow> (string + int \<times> lBuf) option" where
  "lbuf_fill buf arg offset count =
     (if arg = Fill_Other then Some (Inl ''invalid argument'')
      else do {
        let (src, fill_len) =
          (case arg of
             Fill_String s \<Rightarrow> (Some s, length s)
           | Fill_Buf b \<Rightarrow> (Some (lb_bytes b), unat (lb_len b))
           | _ \<Rightarrow> (None, unat (lb_len buf)));
        offset \<leftarrow> luaL_optunsigned offset 0;
        if fill_len = 0 \<or> offset \<ge> lb_len buf then Some (Inr (0, buf))
        else do {
          count \<leftarrow> luaL_optunsigned count (int (unat (lb_len buf) div fill_len + 1));
          let fill_bytes = (of_nat (unat count * fill_len) :: u32);
          let fill_bytes = (if lb_len buf - offset < fill_bytes then lb_len buf - offset else fill_bytes);
          let fill_len = min fill_len (unat fill_bytes);
          if fill_bytes = 0 then Some (Inr (0, buf))
          else do {
            m \<leftarrow> fill_with src (lb_bytes buf) (unat offset) fill_len (unat fill_bytes);
            Some (Inr (uint fill_bytes, buf \<lparr> lb_bytes := m \<rparr>))
          }
        }
      })"

section \<open>The invariant of a buffer\<close>

text \<open>The object a buffer points to has at least the bytes the buffer says.\<close>

definition lbuf_ok :: "lBuf \<Rightarrow> bool" where
  "lbuf_ok buf \<longleftrightarrow> unat (lb_len buf) \<le> length (lb_bytes buf)"

text \<open>What a script can make of a buffer, and the buffers a script can have.\<close>

inductive lbuf_step :: "(nat \<Rightarrow> bytes option) \<Rightarrow> lBuf \<Rightarrow> lBuf \<Rightarrow> bool" for malloc where
  step_sub: "lbuf_sub malloc buf i j = Some (Inr buf') \<Longrightarrow> lbuf_step malloc buf buf'"
| step_set: "set_vals e buf args = Some (Inr (n, buf')) \<Longrightarrow> lbuf_step malloc buf buf'"
| step_fread: "lbuf_fread buf pf off count = Some (r, buf', pf') \<Longrightarrow> lbuf_step malloc buf buf'"
| step_reverse: "lbuf_reverse_bytes buf = Some buf' \<Longrightarrow> lbuf_step malloc buf buf'"
| step_fill: "lbuf_fill buf arg off count = Some (Inr (n, buf')) \<Longrightarrow> lbuf_step malloc buf buf'"
| step_gc: "lbuf_step malloc buf (lbuf_gc buf)"

inductive lbuf_reachable :: "(nat \<Rightarrow> bytes option) \<Rightarrow> lBuf \<Rightarrow> bool" for malloc where
  reach_new: "lbuf_new malloc arg = Some (Inr buf) \<Longrightarrow> lbuf_reachable malloc buf"
| reach_step: "lbuf_reachable malloc buf \<Longrightarrow> lbuf_step malloc buf buf' \<Longrightarrow> lbuf_reachable malloc buf'"

lemma set_elem_length: "set_elem e m p v = Some m' \<Longrightarrow> length m' = length m"
  by (auto simp: set_elem_def dest: blit_length split: if_splits)

lemma fill_copy_length: "fill_copy src m p n = Some m' \<Longrightarrow> length m' = length m"
  by (auto simp: fill_copy_def dest: blit_length split: option.splits if_splits bind_splits)

lemma ofold_length:
  assumes "\<And>i m m'. f i m = Some m' \<Longrightarrow> length m' = length m" and "ofold f xs m = Some m'"
  shows "length m' = length (m :: bytes)"
  using ofold_invariant [of xs "\<lambda>x. length x = length m" f m m'] assms by auto

lemma reverse_loop_length: "reverse_loop m n i = Some m' \<Longrightarrow> length m' = length m"
proof (induction m n i rule: reverse_loop.induct)
  case (1 m n i)
  show ?case
  proof (cases "i < n")
    case False
    with "1.prems" show ?thesis by (simp add: reverse_loop.simps [of m])
  next
    case True
    with "1.prems" obtain t b m1 m2 where s: "ld8 m (i + 1) = Some t" "ld8 m i = Some b" "st8 m (i + 1) b = Some m1"
      "st8 m1 i t = Some m2" "i + 2 < 2 ^ 31" "reverse_loop m2 n (i + 2) = Some m'"
      by (subst (asm) reverse_loop.simps) (auto split: bind_splits if_splits)
    have "length m2 = length m" using s(3,4) by (auto simp: st8_eq_Some_iff)
    with "1.IH" [OF True s(1-5)] s(6) show ?thesis by simp
  qed
qed

lemma lbuf_set_vals_ok: "set_vals e buf args = Some (Inr (n, buf')) \<Longrightarrow> lbuf_ok buf \<Longrightarrow> lbuf_ok buf'"
  by (auto simp: set_vals_def lbuf_ok_def Let_def split: if_splits bind_splits
      dest!: ofold_length [rotated] intro: set_elem_length)

lemma lbuf_fread_ok: "lbuf_fread buf pf off count = Some (r, buf', pf') \<Longrightarrow> lbuf_ok buf \<Longrightarrow> lbuf_ok buf'"
  by (auto simp: lbuf_fread_def lbuf_ok_def Let_def split: if_splits bind_splits option.splits prod.splits
      dest: blit_length)

lemma lbuf_reverse_ok: "lbuf_reverse_bytes buf = Some buf' \<Longrightarrow> lbuf_ok buf \<Longrightarrow> lbuf_ok buf'"
  by (auto simp: lbuf_reverse_bytes_def lbuf_ok_def dest: reverse_loop_length split: bind_splits)

lemma lbuf_gc_ok: "lbuf_ok buf \<Longrightarrow> lbuf_ok (lbuf_gc buf)"
  by (simp add: lbuf_gc_def lbuf_ok_def)

lemma lbuf_sub_ok:
  assumes "\<And>n m. malloc n = Some m \<Longrightarrow> length m = n" and "lbuf_sub malloc buf i j = Some (Inr buf')"
  shows "lbuf_ok buf'"
  using assms by (auto simp: lbuf_sub_def lbuf_ok_def lbuf_create_def unat_of_nat take_bit_eq_mod
      split: option.splits prod.splits bind_splits dest!: blit_length)

lemma lbuf_new_ok:
  assumes "\<And>n m. malloc n = Some m \<Longrightarrow> length m = n" and "lbuf_new malloc arg = Some (Inr buf)"
  shows "lbuf_ok buf"
  using assms by (auto simp: lbuf_new_def lbuf_ok_def lbuf_create_def unat_of_nat take_bit_eq_mod
      split: option.splits prod.splits bind_splits if_splits dest!: blit_length)

lemma fill_copies_length: "ofold (\<lambda>i m. fill_copy src m (f i) l) xs m = Some m' \<Longrightarrow> length m' = length m"
  by (rule ofold_length [OF fill_copy_length])

lemma fill_with_length:
  assumes "fill_with src m p l n = Some m'"
  shows "length m' = length m"
proof (cases "l = 1")
  case True
  with assms show ?thesis by (auto simp: fill_with_def dest: blit_length split: bind_splits)
next
  case False
  with assms obtain m1 where m1: "ofold (\<lambda>i m. fill_copy src m (p + i * l) l) [0..<n div l] m = Some m1"
    and m': "(if n mod l \<noteq> 0 then fill_copy src m1 (p + n div l * l) (n mod l) else Some m1) = Some m'"
    by (auto simp: fill_with_def Let_def split: bind_splits)
  show ?thesis using fill_copies_length [OF m1] m' by (auto dest: fill_copy_length split: if_splits)
qed

lemma lbuf_fill_ok: "lbuf_fill buf arg off count = Some (Inr (n, buf')) \<Longrightarrow> lbuf_ok buf \<Longrightarrow> lbuf_ok buf'"
  by (auto simp: lbuf_fill_def lbuf_ok_def Let_def split: prod.splits if_splits bind_splits
      dest: fill_with_length)

text \<open>C17: Every buffer a script can make, by any sequence of operations on buffers, points to an object
  with at least as many bytes as its length says.\<close>

theorem lbuf_reachable_ok:
  assumes "\<And>n m. malloc n = Some m \<Longrightarrow> length m = n" and "lbuf_reachable malloc buf"
  shows "lbuf_ok buf"
  using assms(2)
proof (induction rule: lbuf_reachable.induct)
  case (reach_new arg buf)
  then show ?case using lbuf_new_ok [OF assms(1)] by blast
next
  case (reach_step buf buf')
  from reach_step.hyps(2) show ?case
  proof cases
    case step_sub
    then show ?thesis using lbuf_sub_ok [OF assms(1)] by blast
  next
    case step_set
    then show ?thesis using reach_step.IH by (rule lbuf_set_vals_ok)
  next
    case step_fread
    then show ?thesis using reach_step.IH by (rule lbuf_fread_ok)
  next
    case step_reverse
    then show ?thesis using reach_step.IH by (rule lbuf_reverse_ok)
  next
    case step_fill
    then show ?thesis using reach_step.IH by (rule lbuf_fill_ok)
  next
    case step_gc
    then show ?thesis using lbuf_gc_ok [OF reach_step.IH] by simp
  qed
qed

theorem lbuf_reachable_ok_witness:
  "lbuf_ok \<lparr> lb_len = 2, lb_flags = 1, lb_bytes = [0, 7] \<rparr>"
proof -
  let ?malloc = "\<lambda>n. Some (replicate n (0 :: byte))"
  have "lbuf_new ?malloc (New_Number 2) = Some (Inr \<lparr> lb_len = 2, lb_flags = 1, lb_bytes = [0, 0] \<rparr>)"
    by (simp add: lbuf_new_def lbuf_create_def LBUF_FL_FREE_def blit_def numeral_2_eq_2)
  then have "lbuf_reachable ?malloc \<lparr> lb_len = 2, lb_flags = 1, lb_bytes = [0, 0] \<rparr>" by (rule reach_new)
  moreover have "set_vals El_i8 \<lparr> lb_len = 2, lb_flags = 1, lb_bytes = [0, 0] \<rparr> (Set_At (Some 1) [7]) =
      Some (Inr (1, \<lparr> lb_len = 2, lb_flags = 1, lb_bytes = [0, 7] \<rparr>))"
    by (simp add: set_vals_def LBUF_FL_READONLY_def luaL_optint_def s32_small set_elem_def elem_bytes_def blit_def)
  ultimately have "lbuf_reachable ?malloc \<lparr> lb_len = 2, lb_flags = 1, lb_bytes = [0, 7] \<rparr>"
    by (rule reach_step [OF _ step_set])
  then show ?thesis by (rule lbuf_reachable_ok [rotated]) auto
qed

section \<open>Parts of a buffer, and Lua's strings\<close>

text \<open>The bytes of a buffer, and the functions \<open>string.sub\<close> and \<open>string.byte\<close> of Lua 5.1 the
  comments refer to.\<close>

definition contents :: "lBuf \<Rightarrow> bytes" where
  "contents buf = take (unat (lb_len buf)) (lb_bytes buf)"

definition posrelat :: "int \<Rightarrow> int \<Rightarrow> int" where
  "posrelat pos l = (let p = (if pos < 0 then pos + l + 1 else pos) in if p \<ge> 0 then p else 0)"

definition lua_sub :: "bytes \<Rightarrow> int \<Rightarrow> int \<Rightarrow> bytes" where
  "lua_sub s i j =
     (let l = int (length s);
          start = (if posrelat i l < 1 then 1 else posrelat i l);
          end = (if posrelat j l > l then l else posrelat j l)
      in if start \<le> end then take (nat (end - start + 1)) (drop (nat (start - 1)) s) else [])"

definition c_int :: "int \<Rightarrow> bool" where
  "c_int n \<longleftrightarrow> - (2 ^ 31) \<le> n \<and> n < 2 ^ 31"

abbreviation opt_int :: "int option \<Rightarrow> int \<Rightarrow> int" where
  "opt_int arg def \<equiv> (case arg of None \<Rightarrow> def | Some n \<Rightarrow> n)"

lemma length_lua_sub: "length (lua_sub s i j) \<le> length s"
  by (auto simp: lua_sub_def Let_def nat_le_iff)

lemma take_drop_take: "a + n \<le> l \<Longrightarrow> take n (drop a (take l bs)) = take n (drop a bs)"
  by (simp add: drop_take min_absorb2 min.commute)

lemma length_contents: "lbuf_ok buf \<Longrightarrow> length (contents buf) = unat (lb_len buf)"
  by (simp add: contents_def lbuf_ok_def)

lemma uint_small:
  assumes "unat (w :: u32) < 2 ^ 31"
  shows "0 \<le> uint w" and "uint w < 2 ^ 31" and "- (2 ^ 31) \<le> uint w"
proof -
  have "int (unat w) < int (2 ^ 31)" using assms by (simp only: of_nat_less_iff)
  then show "uint w < 2 ^ 31" by (simp only: uint_nat [symmetric] of_nat_power of_nat_numeral)
  show "0 \<le> uint w" by (rule uint_ge_0)
  show "- (2 ^ 31) \<le> uint w" by (rule order_trans [OF _ uint_ge_0]) simp
qed

lemma get_index_arg_eq:
  assumes "c_int (opt_int arg def)" and "unat (lb_len buf) < 2 ^ 31"
  shows "get_index_arg buf arg def = posrelat (opt_int arg def) (uint (lb_len buf))"
proof -
  let ?v = "opt_int arg def" and ?l = "uint (lb_len buf)"
  have v: "luaL_optint arg def = ?v" using assms(1) by (simp add: luaL_optint_def s32_small c_int_def)
  note l = uint_small [OF assms(2)]
  have "- (2 ^ 31) \<le> ?l + ?v + 1" "?v < 0 \<Longrightarrow> ?l + ?v + 1 < 2 ^ 31" using l assms(1) unfolding c_int_def by linarith+
  then have "?v < 0 \<Longrightarrow> s32 (?l + ?v + 1) = ?l + ?v + 1" by (rule s32_small)
  then show ?thesis by (simp only: get_index_arg_def posrelat_def v Let_def) (simp add: add_ac)
qed

text \<open>The part of a buffer is the substring, or its bytes are not read at all.\<close>

lemma part_sub:
  assumes ok: "lbuf_ok buf" and len: "unat (lb_len buf) < 2 ^ 31"
    and st: "start = posrelat i (uint (lb_len buf))" and en: "end = posrelat j (uint (lb_len buf))"
  shows "case part buf start end of
      None \<Rightarrow> lua_sub (contents buf) i j = []
    | Some (off, n) \<Rightarrow> ldn (lb_bytes buf) off n = Some (lua_sub (contents buf) i j)"
proof -
  let ?l = "uint (lb_len buf)"
  let ?fin = "if end > ?l then ?l else end"
  have nn: "0 \<le> start" "0 \<le> end" by (simp_all add: st en posrelat_def Let_def)
  have lc: "int (length (contents buf)) = ?l" using length_contents [OF ok] by simp
  have e: "s32 (uint (lb_len buf)) = ?l" using uint_small [OF len] by (intro s32_small)
  have p: "part buf start end = (if lb_len buf = 0 \<or> ?fin < start then None
      else Some (nat (if start > 0 then start - 1 else start), nat (?fin - (if start > 0 then start - 1 else start))))"
    by (simp only: part_def Let_def e)
  have l0: "lb_len buf = 0 \<longleftrightarrow> ?l = 0" by (simp add: uint_0_iff)
  have sub: "lua_sub (contents buf) i j =
      (let s1 = (if start < 1 then 1 else start) in
       if s1 \<le> ?fin then take (nat (?fin - s1 + 1)) (drop (nat (s1 - 1)) (contents buf)) else [])"
    by (simp only: lua_sub_def lc st en Let_def)
  show ?thesis
  proof (cases "?l = 0 \<or> ?fin < start")
    case True
    then have "part buf start end = None" unfolding p l0 by simp
    moreover have "lua_sub (contents buf) i j = []"
      using True lc nn unfolding sub by (auto simp: Let_def)
    ultimately show ?thesis by simp
  next
    case False
    define s1 where "s1 = (if start < 1 then 1 else start)"
    have s1: "nat (if start > 0 then start - 1 else start) = nat (s1 - 1)" using nn by (simp add: s1_def)
    have n: "nat (?fin - (if start > 0 then start - 1 else start)) = nat (?fin - s1 + 1)" using nn False by (auto simp: s1_def)
    have pt: "part buf start end = Some (nat (s1 - 1), nat (?fin - s1 + 1))" unfolding p l0 s1 n using False by simp
    have bound: "nat (s1 - 1) + nat (?fin - s1 + 1) \<le> unat (lb_len buf)"
      using False nn by (auto simp: s1_def nat_add_distrib [symmetric] nat_le_iff)
    then have "ldn (lb_bytes buf) (nat (s1 - 1)) (nat (?fin - s1 + 1)) =
        Some (take (nat (?fin - s1 + 1)) (drop (nat (s1 - 1)) (lb_bytes buf)))"
      using ok by (simp add: ldn_def lbuf_ok_def)
    also have "take (nat (?fin - s1 + 1)) (drop (nat (s1 - 1)) (lb_bytes buf)) =
        take (nat (?fin - s1 + 1)) (drop (nat (s1 - 1)) (contents buf))"
      unfolding contents_def by (rule take_drop_take [OF bound, symmetric])
    also have "\<dots> = lua_sub (contents buf) i j"
      unfolding sub s1_def [symmetric] Let_def using False nn by (auto simp: s1_def)
    finally show ?thesis using pt by simp
  qed
qed

text \<open>C18: \<open>buf:string\<close>, \<open>buf:sub\<close> and \<open>buf:byte\<close> never leave the buffer, for any arguments, and are
  \<open>string.sub\<close> and \<open>string.byte\<close> of Lua on the bytes of the buffer, as their comments promise.\<close>

theorem lbuf_parts_like_lua:
  assumes ok: "lbuf_ok buf" "unat (lb_len buf) < 2 ^ 31"
    and args: "c_int (opt_int i 1)" "c_int (opt_int j (- 1))" "c_int (opt_int j (opt_int i 1))"
    and malloc: "\<And>n. \<exists>m. malloc n = Some m \<and> length m = n" and stack: "\<And>n. checkstack n"
  shows "lbuf_string buf i j = Some (lua_sub (contents buf) (opt_int i 1) (opt_int j (- 1))) \<and>
    (\<exists>buf'. lbuf_sub malloc buf i j = Some (Inr buf') \<and>
      contents buf' = lua_sub (contents buf) (opt_int i 1) (opt_int j (- 1))) \<and>
    (\<exists>vs. lbuf_byte checkstack buf i j = Some (Inr vs) \<and>
      (let bs = lua_sub (contents buf) (opt_int i 1) (opt_int j (opt_int i 1)) in
       vs = map (\<lambda>b. LNum (uint b)) bs \<or> vs = [LNil] \<and> bs = []))"
proof (intro conjI)
  let ?l = "uint (lb_len buf)"
  note l = uint_small [OF ok(2)]
  have i: "get_index_arg buf i 1 = posrelat (opt_int i 1) ?l"
    by (rule get_index_arg_eq [OF args(1) ok(2)])
  have j: "get_index_arg buf j ?l = posrelat (opt_int j (- 1)) ?l"
  proof (cases j)
    case None
    have "get_index_arg buf None ?l = posrelat (opt_int None ?l) ?l"
      by (rule get_index_arg_eq [OF _ ok(2)]) (use l in \<open>simp only: c_int_def option.case\<close>)
    then show ?thesis using l by (simp add: None posrelat_def)
  next
    case (Some n)
    then show ?thesis using get_index_arg_eq [where arg = j and def = ?l and buf = buf] args(2) ok(2) by simp
  qed
  note p = part_sub [OF ok i j]
  show "lbuf_string buf i j = Some (lua_sub (contents buf) (opt_int i 1) (opt_int j (- 1)))"
    using p by (simp add: lbuf_string_def split: option.splits prod.splits)
  show "\<exists>buf'. lbuf_sub malloc buf i j = Some (Inr buf') \<and>
      contents buf' = lua_sub (contents buf) (opt_int i 1) (opt_int j (- 1))"
  proof (cases "part buf (get_index_arg buf i 1) (get_index_arg buf j ?l)")
    case None
    then show ?thesis using p by (simp add: lbuf_sub_def lbuf_create_def contents_def)
  next
    case (Some a)
    then obtain off n where a: "part buf (get_index_arg buf i 1) (get_index_arg buf j ?l) = Some (off, n)" by (cases a) auto
    let ?s = "lua_sub (contents buf) (opt_int i 1) (opt_int j (- 1))"
    have ld: "ldn (lb_bytes buf) off n = Some ?s" using p a by simp
    then have ls: "length ?s = n" by (rule ldn_length)
    have "n \<le> unat (lb_len buf)"
      using length_lua_sub [of "contents buf" "opt_int i 1" "opt_int j (- 1)"] length_contents [OF ok(1)] by (simp add: ls)
    then have n: "unat (of_nat n :: u32) = n" using ok(2) by (subst unat_of_nat_u32) simp_all
    obtain m where m: "malloc n = Some m" "length m = n" using malloc by blast
    then have "blit m 0 ?s = Some ?s" using ls by (simp add: blit_def)
    then show ?thesis using a m ld ls by (simp add: lbuf_sub_def lbuf_create_def contents_def n)
  qed
  show "\<exists>vs. lbuf_byte checkstack buf i j = Some (Inr vs) \<and>
      (let bs = lua_sub (contents buf) (opt_int i 1) (opt_int j (opt_int i 1)) in
       vs = map (\<lambda>b. LNum (uint b)) bs \<or> vs = [LNil] \<and> bs = [])"
  proof -
    let ?st = "get_index_arg buf i 1"
    have st: "?st = posrelat (opt_int i 1) ?l" by (rule i)
    have "get_index_arg buf j ?st = posrelat (opt_int j (opt_int i 1)) ?l"
    proof (cases j)
      case None
      have "c_int ?st" "0 \<le> ?st" using l args(1) unfolding st by (auto simp: posrelat_def c_int_def Let_def)
      then show ?thesis using get_index_arg_eq [where arg = None and def = ?st and buf = buf] ok(2) None st
        by (simp add: posrelat_def Let_def)
    next
      case (Some n)
      then show ?thesis using get_index_arg_eq [where arg = j and def = ?st and buf = buf] args(3) ok(2) by simp
    qed
    from part_sub [OF ok i this] stack show ?thesis
      by (auto simp: lbuf_byte_def Let_def split: option.splits)
  qed
qed

theorem lbuf_parts_like_lua_witness:
  "lbuf_string \<lparr> lb_len = 4, lb_flags = 0, lb_bytes = [1, 2, 3, 4] \<rparr> (Some (- 3)) (Some 3) = Some [2, 3]"
proof -
  have "lua_sub [1, 2, 3, 4] (- 3) 3 = [2, 3 :: byte]"
    by (simp add: lua_sub_def posrelat_def)
  then show ?thesis
    using lbuf_parts_like_lua [of "\<lparr> lb_len = 4, lb_flags = 0, lb_bytes = [1, 2, 3, 4] \<rparr>" "Some (- 3)" "Some 3"
        "\<lambda>n. Some (replicate n 0)" "\<lambda>_. True"]
    by (simp add: lbuf_ok_def contents_def c_int_def)
qed

section \<open>Elements of a buffer\<close>

lemma length_elem_bytes [simp]: "length (elem_bytes e v) = elem_size e"
  by (cases e) (simp_all add: elem_bytes_def)

lemma elem_size_pos [simp]: "0 < elem_size e" "elem_size e \<noteq> 0" "elem_size e \<le> 4"
  by (cases e; simp)+

lemma s32_unsigned: "- (2 ^ 31) \<le> v \<Longrightarrow> v < 2 ^ 31 \<Longrightarrow> sint (word_of_int v :: u32) = v"
  using s32_small [of v] by (simp add: s32_def)

lemma sint_u16: "- (2 ^ 15) \<le> v \<Longrightarrow> v < 2 ^ 15 \<Longrightarrow> sint (word_of_int v :: u16) = v"
  unfolding sint_sbintrunc' using signed_take_bit_int_eq_self [of 15 v] by simp

lemma sint_u8: "- (2 ^ 7) \<le> v \<Longrightarrow> v < 2 ^ 7 \<Longrightarrow> sint (word_of_int v :: u8) = v"
  unfolding sint_sbintrunc' using signed_take_bit_int_eq_self [of 7 v] by simp

lemma uint_of_int: "0 \<le> v \<Longrightarrow> v < 2 ^ LENGTH('a::len) \<Longrightarrow> uint (word_of_int v :: 'a word) = v"
  by (simp add: uint_word_of_int take_bit_eq_mod)

text \<open>An element that was stored is read back.\<close>

lemma get_elem_stored:
  assumes "elem_range e v" and "ldn m p (elem_size e) = Some (elem_bytes e v)"
  shows "get_elem e m p = Some v"
proof (cases e)
  case El_i8
  then have "ld8 m p = Some (word_of_int v)" using assms(2)
    by (auto simp: elem_bytes_def ldn_def ld8_def hd_drop_conv_nth take_Suc split: if_splits)
  with El_i8 assms(1) show ?thesis by (simp add: sint_u8)
next
  case El_u8
  then have "ld8 m p = Some (word_of_int v)" using assms(2)
    by (auto simp: elem_bytes_def ldn_def ld8_def hd_drop_conv_nth take_Suc split: if_splits)
  with El_u8 assms(1) show ?thesis by (simp add: uint_of_int)
qed (use assms in \<open>simp_all add: elem_bytes_def s32_unsigned sint_u16 uint_of_int\<close>)

text \<open>Elements stored one after the other.\<close>

lemma ofold_blit:
  assumes "\<And>i. i < n \<Longrightarrow> length (v i) = k" and "a + n * k \<le> length m"
  shows "ofold (\<lambda>i m. blit m (a + i * k) (v i)) [0..<n] m =
    Some (take a m @ concat (map v [0..<n]) @ drop (a + n * k) m)"
  using assms
proof (induction n)
  case 0
  then show ?case by simp
next
  case (Suc n)
  let ?c = "concat (map v [0..<n])"
  have len: "length ?c = n * k" using Suc.prems(1)
  proof -
    have "map (length \<circ> v) [0..<n] = replicate n k" using Suc.prems(1) by (intro replicate_eqI) auto
    then show ?thesis by (simp add: length_concat sum_list_replicate)
  qed
  have lv: "length (v n) = k" using Suc.prems(1) by simp
  have "ofold (\<lambda>i m. blit m (a + i * k) (v i)) [0..<Suc n] m = blit (take a m @ ?c @ drop (a + n * k) m) (a + n * k) (v n)"
    using Suc by (simp only: ofold_upt_Suc) simp
  also have "\<dots> = Some (take a m @ (?c @ v n) @ drop (a + Suc n * k) m)"
    using Suc.prems(2) len lv by (simp add: blit_def add_ac)
  finally show ?case by simp
qed

lemma set_vals_eq:
  assumes ok: "lbuf_ok buf" "unat (lb_len buf) < 2 ^ 31" and wr: "lb_flags buf AND LBUF_FL_READONLY = 0"
    and off: "off + elem_size e \<le> unat (lb_len buf)" and n: "length vs < 2 ^ 29"
    and range: "list_all (elem_range e) vs"
  shows "set_vals e buf (Set_At (Some (int off)) vs) =
    (let k = min (length vs) ((unat (lb_len buf) - off) div elem_size e) in
     Some (Inr (int k, buf \<lparr> lb_bytes := take off (lb_bytes buf) @ concat (map (elem_bytes e) (take k vs)) @
       drop (off + k * elem_size e) (lb_bytes buf) \<rparr>)))"
proof -
  let ?s = "elem_size e" and ?l = "unat (lb_len buf)"
  let ?k = "min (length vs) ((?l - off) div ?s)"
  have l: "?l < 2147483648" using ok(2) by simp
  have o: "luaL_optint (Some (int off)) 0 = int off" using off l by (simp add: luaL_optint_def s32_small)
  have us: "unat (of_nat ?s :: u32) = ?s" by (cases e) simp_all
  have uo: "unat (of_nat off :: u32) = off" using off l by (subst unat_of_nat_u32) simp_all
  have d1: "unat (lb_len buf - of_nat ?s) = ?l - ?s" using off by (subst unat_sub) (simp_all add: word_le_nat_alt us)
  have d2: "unat (lb_len buf - of_nat off) = ?l - off" using off by (subst unat_sub) (simp_all add: word_le_nat_alt uo)
  have in_range: "\<not> of_nat off > lb_len buf - (of_nat ?s :: u32)" using off by (simp add: word_less_nat_alt d1 uo)
  have "length vs * ?s < 2 ^ 29 * 4"
    using n elem_size_pos(3) [of e] by (intro mult_less_le_imp_less) simp_all
  then have vb: "unat (of_nat (length vs) * of_nat ?s :: u32) = length vs * ?s"
    by (subst of_nat_mult [symmetric]) (rule unat_of_nat_u32, simp)
  have q: "sint ((lb_len buf - of_nat off) div of_nat ?s) = int ((?l - off) div ?s)"
  proof -
    have "unat ((lb_len buf - of_nat off) div of_nat ?s) = (?l - off) div ?s" by (simp add: unat_div d2 us)
    moreover have "(?l - off) div ?s < 2147483648" using l by (meson div_le_dividend diff_le_self le_less_trans)
    ultimately show ?thesis using sint_small by metis
  qed
  have cnt: "(if of_nat (length vs) * of_nat ?s > lb_len buf - of_nat off
      then sint ((lb_len buf - of_nat off) div of_nat ?s) else int (length vs)) = int ?k"
  proof -
    have "length vs * ?s > ?l - off \<longleftrightarrow> length vs > (?l - off) div ?s"
      using div_less_iff_less_mult [OF elem_size_pos(1), of "?l - off" e "length vs"] by (simp add: mult.commute)
    then show ?thesis by (auto simp: word_less_nat_alt vb d2 q min_def)
  qed
  have fits: "off + ?k * ?s \<le> length (lb_bytes buf)"
  proof -
    have "?k * ?s \<le> (?l - off) div ?s * ?s" by (intro mult_right_mono) simp_all
    also have "\<dots> \<le> ?l - off" by (rule div_times_less_eq_dividend)
    finally show ?thesis using ok(1) off by (simp add: lbuf_ok_def)
  qed
  have "ofold (\<lambda>i m. set_elem e m (off + i * ?s) (set_arg (Set_At (Some (int off)) vs) i)) [0..<?k] (lb_bytes buf) =
      ofold (\<lambda>i m. blit m (off + i * ?s) (elem_bytes e (vs ! i))) [0..<?k] (lb_bytes buf)"
    using range by (intro ofold_cong) (auto simp: set_elem_def list_all_length)
  also have "\<dots> = Some (take off (lb_bytes buf) @ concat (map (\<lambda>i. elem_bytes e (vs ! i)) [0..<?k]) @
      drop (off + ?k * ?s) (lb_bytes buf))"
    by (rule ofold_blit) (use fits in simp_all)
  also have "map (\<lambda>i. elem_bytes e (vs ! i)) [0..<?k] = map (elem_bytes e) (take ?k vs)"
    by (rule nth_equalityI) simp_all
  finally have loop: "ofold (\<lambda>i m. set_elem e m (off + i * ?s) (set_arg (Set_At (Some (int off)) vs) i)) [0..<?k] (lb_bytes buf) =
    Some (take off (lb_bytes buf) @ concat (map (elem_bytes e) (take ?k vs)) @ drop (off + ?k * ?s) (lb_bytes buf))" .
  have wi: "word_of_int (int n) = (of_nat n :: u32)" for n by simp
  have off0: "\<not> int off < 0" by simp
  show ?thesis
    unfolding set_vals_def Let_def set_off.simps set_count.simps o wi if_not_P [OF in_range] if_not_P [OF off0] cnt nat_int loop
    using wr by simp
qed

lemma elems_fit:
  assumes "0 < n" and "off + n * elem_size e \<le> l"
  shows "off + elem_size e \<le> l" and "n \<le> l"
  using assms by (cases e; auto)+

lemma get_vals_eq:
  assumes len: "unat (lb_len buf) < 2 ^ 31" and fit: "off + n * elem_size e \<le> unat (lb_len buf)" "0 < n" and st: "checkstack (int n)"
  shows "get_vals checkstack e buf (Some (int off)) (Some (int n)) = do {
    vs \<leftarrow> those (map (\<lambda>i. get_elem e (lb_bytes buf) (off + i * elem_size e)) [0..<n]);
    Some (Inr (map LNum vs)) }"
proof -
  let ?s = "elem_size e" and ?l = "unat (lb_len buf)"
  have l: "?l < 2147483648" using len by simp
  have us: "unat (of_nat ?s :: u32) = ?s" by (cases e) simp_all
  note b = elems_fit [OF fit(2,1)]
  have o: "luaL_optint (Some (int off)) d = int off" "luaL_optint (Some (int n)) d = int n" for d
    using b l by (simp_all add: luaL_optint_def s32_small)
  have uo: "unat (of_nat off :: u32) = off" using b l by (subst unat_of_nat_u32) simp_all
  have d1: "unat (lb_len buf - of_nat ?s) = ?l - ?s" using b by (subst unat_sub) (simp_all add: word_le_nat_alt us)
  have in_range: "\<not> of_nat off > lb_len buf - (of_nat ?s :: u32)" using b by (simp add: word_less_nat_alt d1 uo)
  have "of_nat off + of_nat n * of_nat ?s = (of_nat (off + n * ?s) :: u32)" by simp
  moreover have "unat (of_nat (off + n * ?s) :: u32) = off + n * ?s" using fit(1) l by (subst unat_of_nat_u32) simp_all
  ultimately have cnt: "\<not> (int n < 0 \<or> of_nat off + of_nat n * of_nat ?s > lb_len buf)"
    using fit(1) by (simp add: word_less_nat_alt)
  have wi: "word_of_int (int n) = (of_nat n :: u32)" for n by simp
  have off0: "\<not> int off < 0" "\<not> int n < 0" by simp_all
  show ?thesis
    unfolding get_vals_def Let_def o wi if_not_P [OF in_range] if_not_P [OF off0(1)] if_not_P [OF cnt] if_not_P [OF off0(2)] nat_int
    using st by simp
qed

text \<open>C19: What a setter stores the getter of the same kind reads: any numbers of its range, at any
  offset that leaves room for all of them; the bytes around them stay as they were.\<close>

theorem lbuf_set_get:
  assumes ok: "lbuf_ok buf" "unat (lb_len buf) < 2 ^ 31" and wr: "lb_flags buf AND LBUF_FL_READONLY = 0"
    and fit: "off + length vs * elem_size e \<le> unat (lb_len buf)" "vs \<noteq> []" "length vs < 2 ^ 29"
    and range: "list_all (elem_range e) vs" and st: "checkstack (int (length vs))"
  shows "\<exists>buf'. set_vals e buf (Set_At (Some (int off)) vs) = Some (Inr (int (length vs), buf')) \<and>
    get_vals checkstack e buf' (Some (int off)) (Some (int (length vs))) = Some (Inr (map LNum vs)) \<and>
    length (lb_bytes buf') = length (lb_bytes buf) \<and> lb_len buf' = lb_len buf \<and>
    (\<forall>i < length (lb_bytes buf). i < off \<or> off + length vs * elem_size e \<le> i \<longrightarrow> lb_bytes buf' ! i = lb_bytes buf ! i)"
proof -
  let ?s = "elem_size e" and ?n = "length vs"
  let ?c = "concat (map (elem_bytes e) vs)"
  let ?buf = "buf \<lparr> lb_bytes := take off (lb_bytes buf) @ ?c @ drop (off + ?n * ?s) (lb_bytes buf) \<rparr>"
  have lc: "length ?c = ?n * ?s" by (simp add: length_concat o_def sum_list_triv)
  have off: "off + ?s \<le> unat (lb_len buf)" using elems_fit(1) [OF _ fit(1)] fit(2) by simp
  have "?n \<le> (unat (lb_len buf) - off) div ?s"
    using fit(1) less_eq_div_iff_mult_less_eq [OF elem_size_pos(1), of ?n "unat (lb_len buf) - off" e] by simp
  then have set: "set_vals e buf (Set_At (Some (int off)) vs) = Some (Inr (int ?n, ?buf))"
    using set_vals_eq [OF ok wr off fit(3) range] by (simp add: min_absorb1 Let_def)
  have room: "off + ?n * ?s \<le> length (lb_bytes buf)" using fit(1) ok(1) by (simp add: lbuf_ok_def)
  have el: "get_elem e (lb_bytes ?buf) (off + i * ?s) = Some (vs ! i)" if i: "i < ?n" for i
  proof (rule get_elem_stored)
    show "elem_range e (vs ! i)" using range i by (simp add: list_all_length)
    have "vs = take i vs @ vs ! i # drop (Suc i) vs" using i by (rule id_take_nth_drop)
    then have "?c = concat (map (elem_bytes e) (take i vs)) @ elem_bytes e (vs ! i) @ concat (map (elem_bytes e) (drop (Suc i) vs))"
      by (metis concat.simps(2) concat_append list.simps(9) map_append)
    moreover have "length (concat (map (elem_bytes e) (take i vs))) = i * ?s"
      using i by (simp add: length_concat o_def sum_list_triv)
    ultimately show "ldn (lb_bytes ?buf) (off + i * ?s) ?s = Some (elem_bytes e (vs ! i))"
      using room by (simp add: ldn_def)
  qed
  have "map (\<lambda>i. get_elem e (lb_bytes ?buf) (off + i * ?s)) [0..<?n] = map (\<lambda>i. Some (vs ! i)) [0..<?n]"
    using el by (intro map_cong) simp_all
  moreover have "those (map (\<lambda>i. Some (vs ! i)) [0..<?n]) = Some vs"
    using those_map_Some [of "[0..<?n]" "\<lambda>i. Some (vs ! i)" "\<lambda>i. vs ! i"] by (simp add: map_nth)
  ultimately have "those (map (\<lambda>i. get_elem e (lb_bytes ?buf) (off + i * ?s)) [0..<?n]) = Some vs" by (simp only:)
  moreover have "unat (lb_len ?buf) < 2 ^ 31" "off + ?n * ?s \<le> unat (lb_len ?buf)" "0 < ?n" using ok(2) fit(1,2) by simp_all
  ultimately have "get_vals checkstack e ?buf (Some (int off)) (Some (int ?n)) = Some (Inr (map LNum vs))"
    using get_vals_eq [of ?buf off ?n e checkstack] st by (simp only: Option.bind.bind_lunit)
  then show ?thesis
    by (intro exI [of _ ?buf]) (use set room lc in \<open>auto simp: nth_append\<close>)
qed

theorem lbuf_set_get_witness:
  "\<exists>buf'. set_vals El_i16 \<lparr> lb_len = 5, lb_flags = 1, lb_bytes = [9, 9, 9, 9, 9] \<rparr> (Set_At (Some 1) [- 2, 3]) = Some (Inr (2, buf')) \<and>
    get_vals (\<lambda>_. True) El_i16 buf' (Some 1) (Some 2) = Some (Inr [LNum (- 2), LNum 3]) \<and> lb_bytes buf' ! 0 = 9"
  using lbuf_set_get [of "\<lparr> lb_len = 5, lb_flags = 1, lb_bytes = [9, 9, 9, 9, 9] \<rparr>" 1 "[- 2, 3]" El_i16 "\<lambda>_. True"]
  by (auto simp: lbuf_ok_def LBUF_FL_READONLY_def)



end
