(* ===== verification/Liveimg.thy ===== *)
theory Liveimg
  imports Lbuf
begin

text \<open>
  Images of the remote camera display (\<open>liveimg.c\<close>, \<open>live_view.h\<close>): the conversion of the YUV
  frame buffers and of the paletted overlay to planes of red, green, blue and alpha, the checks
  of the frame's descriptions, the planar image object and its conversion to packed pixels. The
  functions that draw on a canvas of the CD library are not modelled.
\<close>

section \<open>Memory\<close>

text \<open>A load at an address relative to an object; signed C arithmetic that must not overflow.\<close>

definition ldi :: "bytes \<Rightarrow> int \<Rightarrow> byte option" where
  "ldi m i = (if 0 \<le> i then ld8 m (nat i) else None)"

definition ld_int :: "bytes \<Rightarrow> int \<Rightarrow> int option" where
  "ld_int m i = (if 0 \<le> i then map_option (\<lambda>bs. sint (host32 bs)) (ldn m (nat i) 4) else None)"

definition ckint :: "int \<Rightarrow> int option" where
  "ckint n = (if - (2 ^ 31) \<le> n \<and> n < 2 ^ 31 then Some n else None)"

section \<open>Colours\<close>

definition clip_yuv :: "int \<Rightarrow> byte" where
  "clip_yuv v = (if v < 0 then 0 else if v > 255 then 255 else word_of_int v)"

definition yuv_to_r :: "byte \<Rightarrow> byte \<Rightarrow> byte" where
  "yuv_to_r y v = clip_yuv (drop_bit 12 (push_bit 12 (uint y) + sint v * 5743 + 2048))"

definition yuv_to_g :: "byte \<Rightarrow> byte \<Rightarrow> byte \<Rightarrow> byte" where
  "yuv_to_g y u v = clip_yuv (drop_bit 12 (push_bit 12 (uint y) - sint u * 1411 - sint v * 2925 + 2048))"

definition yuv_to_b :: "byte \<Rightarrow> byte \<Rightarrow> byte" where
  "yuv_to_b y u = clip_yuv (drop_bit 12 (push_bit 12 (uint y) + sint u * 7258 + 2048))"

definition clamp_uint8 :: "int \<Rightarrow> byte" where
  "clamp_uint8 v = (if v > 255 then 255 else word_of_int v)"

definition clamp_int8 :: "int \<Rightarrow> byte" where
  "clamp_int8 v = (if v > 127 then 127 else if v < - 128 then - 128 else word_of_int v)"

section \<open>Palettes\<close>

record palette_entry_rgba_t =
  pe_r :: byte
  pe_g :: byte
  pe_b :: byte
  pe_a :: byte

definition rgba :: "byte \<Rightarrow> byte \<Rightarrow> byte \<Rightarrow> byte \<Rightarrow> palette_entry_rgba_t" where
  "rgba y u v a = \<lparr> pe_r = yuv_to_r y v, pe_g = yuv_to_g y u v, pe_b = yuv_to_b y u, pe_a = a \<rparr>"

text \<open>Entry \<open>i\<close> of a palette at an address: alpha, y, u, v, stored in this order
  (\<open>palette_entry_ayuv_t\<close>) or in reverse (\<open>palette_entry_vuya_t\<close>).\<close>

type_synonym palette = "bytes \<times> int"

fun palette_entry_ayuv :: "palette \<Rightarrow> nat \<Rightarrow> (byte \<times> byte \<times> byte \<times> byte) option" where
  "palette_entry_ayuv (m, base) i = do {
     a \<leftarrow> ldi m (base + 4 * int i);
     y \<leftarrow> ldi m (base + 4 * int i + 1);
     u \<leftarrow> ldi m (base + 4 * int i + 2);
     v \<leftarrow> ldi m (base + 4 * int i + 3);
     Some (a, y, u, v)
   }"

fun palette_entry_vuya :: "palette \<Rightarrow> nat \<Rightarrow> (byte \<times> byte \<times> byte \<times> byte) option" where
  "palette_entry_vuya (m, base) i = do {
     v \<leftarrow> ldi m (base + 4 * int i);
     u \<leftarrow> ldi m (base + 4 * int i + 1);
     y \<leftarrow> ldi m (base + 4 * int i + 2);
     a \<leftarrow> ldi m (base + 4 * int i + 3);
     Some (a, y, u, v)
   }"

definition low4 :: "byte \<Rightarrow> nat" where "low4 pixel = unat (pixel AND 0xF)"
definition high4 :: "byte \<Rightarrow> nat" where "high4 pixel = unat (drop_bit 4 (pixel AND 0xF0))"

definition alpha2_lookup :: "byte \<Rightarrow> byte" where
  "alpha2_lookup a = [128, 171, 214, 255] ! unat (a AND 3)"

text \<open>The sums of two entries: half the alpha, and clamped y, u and v.\<close>

definition half_alpha :: "byte \<Rightarrow> byte \<Rightarrow> byte" where
  "half_alpha a1 a2 = word_of_int (drop_bit 1 (uint a1 + uint a2))"

definition palette_type1_to_rgba :: "palette \<Rightarrow> byte \<Rightarrow> palette_entry_rgba_t option" where
  "palette_type1_to_rgba pal pixel = do {
     (a1, y1, u1, v1) \<leftarrow> palette_entry_ayuv pal (low4 pixel);
     (a2, y2, u2, v2) \<leftarrow> palette_entry_ayuv pal (high4 pixel);
     let (u, v) = (if low4 pixel = 0 then (0, 0)
                   else (clamp_int8 (sint u1 + sint u2), clamp_int8 (sint v1 + sint v2)));
     Some (rgba (clamp_uint8 (uint y1 + uint y2)) u v (half_alpha a1 a2))
   }"

definition palette_type2_to_rgba :: "palette \<Rightarrow> byte \<Rightarrow> palette_entry_rgba_t option" where
  "palette_type2_to_rgba pal pixel = do {
     (a1, y1, u1, v1) \<leftarrow> palette_entry_ayuv pal (low4 pixel);
     (a2, y2, u2, v2) \<leftarrow> palette_entry_ayuv pal (high4 pixel);
     Some (rgba (clamp_uint8 (uint y1 + uint y2)) (clamp_int8 (sint u1 + sint u2))
                (clamp_int8 (sint v1 + sint v2)) (alpha2_lookup (half_alpha a1 a2)))
   }"

definition transparent :: palette_entry_rgba_t where
  "transparent = \<lparr> pe_r = 0, pe_g = 0, pe_b = 0, pe_a = 0 \<rparr>"

definition palette_AYUV_to_rgba :: "palette \<Rightarrow> byte \<Rightarrow> nat \<Rightarrow> palette_entry_rgba_t option" where
  "palette_AYUV_to_rgba pal pixel shift =
     (if pixel = 0 then Some transparent
      else do {
        (a, y, u, v) \<leftarrow> palette_entry_vuya pal (unat pixel);
        Some (rgba y u v (alpha2_lookup (drop_bit shift a)))
      })"

definition palette_type3_to_rgba :: "palette \<Rightarrow> byte \<Rightarrow> palette_entry_rgba_t option" where
  "palette_type3_to_rgba pal pixel = palette_AYUV_to_rgba pal pixel 0"

definition palette_type4_to_rgba :: "palette \<Rightarrow> byte \<Rightarrow> palette_entry_rgba_t option" where
  "palette_type4_to_rgba pal pixel =
     (if pixel = 0 then Some transparent
      else do {
        (a1, y1, u1, v1) \<leftarrow> palette_entry_vuya pal (low4 pixel);
        (a2, y2, u2, v2) \<leftarrow> palette_entry_vuya pal (high4 pixel);
        Some (rgba (clamp_uint8 (uint y1 + uint y2)) (clamp_int8 (sint u1 + sint u2))
                   (clamp_int8 (sint v1 + sint v2)) (alpha2_lookup (half_alpha a1 a2)))
      })"

definition palette_type5_to_rgba :: "palette \<Rightarrow> byte \<Rightarrow> palette_entry_rgba_t option" where
  "palette_type5_to_rgba pal pixel = palette_AYUV_to_rgba pal pixel 4"

definition palette_type1_default :: bytes where
  "palette_type1_default =
     [0x00, 0x00, 0x00, 0x00, 0xff, 0xe0, 0x00, 0x00, 0xff, 0x60, 0xee, 0x62, 0xff, 0xb9, 0x00, 0x00,
      0x7f, 0x00, 0x00, 0x00, 0xff, 0x7e, 0xa1, 0xb3, 0xff, 0xcc, 0xb8, 0x5e, 0xff, 0x5f, 0x00, 0x00,
      0xff, 0x94, 0xc5, 0x5d, 0xff, 0x8a, 0x50, 0xb0, 0xff, 0x4b, 0x3d, 0xd4, 0x7f, 0x28, 0x00, 0x00,
      0x7f, 0x00, 0x7b, 0xe2, 0xff, 0x30, 0x00, 0x00, 0xff, 0x69, 0x00, 0x00, 0xff, 0x00, 0x00, 0x00]"

text \<open>The table of conversions, indexed by the palette type; \<open>None\<close> is a null function.\<close>

definition palette_funcs :: "((palette \<Rightarrow> byte \<Rightarrow> palette_entry_rgba_t option) option \<times> u32) list" where
  "palette_funcs =
     [(None, 0), (Some palette_type1_to_rgba, 16), (Some palette_type2_to_rgba, 16),
      (Some palette_type3_to_rgba, 256), (Some palette_type4_to_rgba, 16),
      (Some palette_type5_to_rgba, 256)]"

definition get_palette_convert ::
  "u32 \<Rightarrow> ((palette \<Rightarrow> byte \<Rightarrow> palette_entry_rgba_t option) option \<times> u32) option" where
  "get_palette_convert type =
     (if unat type < length palette_funcs then Some (palette_funcs ! unat type) else None)"

definition get_palette_size :: "u32 \<Rightarrow> u32" where
  "get_palette_size type =
     (case get_palette_convert type of Some (fn, num_entries) \<Rightarrow> num_entries * 4 | None \<Rightarrow> 0)"

section \<open>Frame buffers\<close>

text \<open>The planes being written: the object, and the places \<open>r\<close>, \<open>g\<close> and \<open>b\<close> in it.\<close>

type_synonym rgb_cursor = "bytes \<times> nat \<times> nat \<times> nat"

fun put_rgb :: "byte \<Rightarrow> byte \<Rightarrow> byte \<Rightarrow> rgb_cursor \<Rightarrow> rgb_cursor option" where
  "put_rgb y u v (m, r, g, b) = do {
     m \<leftarrow> st8 m r (yuv_to_r y v);
     m \<leftarrow> st8 m g (yuv_to_g y u v);
     m \<leftarrow> st8 m b (yuv_to_b y u);
     Some (m, r + 1, g + 1, b + 1)
   }"

text \<open>The address of row \<open>row\<close>, counted from the last one; the start is computed with 32 bits.\<close>

definition row_addr :: "int \<Rightarrow> u32 \<Rightarrow> u32 \<Rightarrow> nat \<Rightarrow> int" where
  "row_addr p_yuv height row_inc row = p_yuv + uint ((height - 1) * row_inc) - int row * uint row_inc"

text \<open>The loops over rows and over groups of \<open>n\<close> pixels, \<open>sz\<close> bytes each.\<close>

definition row_loops ::
  "int \<Rightarrow> u32 \<Rightarrow> u32 \<Rightarrow> u32 \<Rightarrow> nat \<Rightarrow> nat \<Rightarrow> (int \<Rightarrow> 's \<Rightarrow> 's option) \<Rightarrow> 's \<Rightarrow> 's option" where
  "row_loops p_yuv row_inc width height n sz body =
     ofold (\<lambda>row. ofold (\<lambda>x. body (row_addr p_yuv height row_inc row + int (sz * x)))
                    [0..<(unat width + (n - 1)) div n]) [0..<unat height]"

definition yuv_pixel :: "bytes \<Rightarrow> bool \<Rightarrow> int \<Rightarrow> rgb_cursor \<Rightarrow> rgb_cursor option" where
  "yuv_pixel src skip p s = do {
     u \<leftarrow> ldi src p;
     v \<leftarrow> ldi src (p + 2);
     y \<leftarrow> ldi src (p + 1); s \<leftarrow> put_rgb y u v s;
     y \<leftarrow> ldi src (p + 3); s \<leftarrow> put_rgb y u v s;
     if skip then Some s
     else do {
       y \<leftarrow> ldi src (p + 4); s \<leftarrow> put_rgb y u v s;
       y \<leftarrow> ldi src (p + 5); put_rgb y u v s
     }
   }"

definition yuv_live_to_cd_rgb ::
  "bytes \<Rightarrow> int \<Rightarrow> u32 \<Rightarrow> u32 \<Rightarrow> u32 \<Rightarrow> bool \<Rightarrow> rgb_cursor \<Rightarrow> rgb_cursor option" where
  "yuv_live_to_cd_rgb src p_yuv buf_width width height skip =
     row_loops p_yuv (buf_width * 12 div 8) width height 4 6 (yuv_pixel src skip)"

text \<open>The formats of two pixels in four bytes; \<open>bias\<close> is subtracted from u and v.\<close>

definition yuv2_pixel :: "bytes \<Rightarrow> byte \<Rightarrow> bool \<Rightarrow> int \<Rightarrow> rgb_cursor \<Rightarrow> rgb_cursor option" where
  "yuv2_pixel src bias skip p s = do {
     p2 \<leftarrow> ldi src (p + 2);
     p0 \<leftarrow> ldi src p;
     y \<leftarrow> ldi src (p + 1); s \<leftarrow> put_rgb y (p0 - bias) (p2 - bias) s;
     if skip then Some s
     else do { y \<leftarrow> ldi src (p + 3); put_rgb y (p0 - bias) (p2 - bias) s }
   }"

definition yuvb_live_to_cd_rgb ::
  "bytes \<Rightarrow> int \<Rightarrow> u32 \<Rightarrow> u32 \<Rightarrow> u32 \<Rightarrow> bool \<Rightarrow> rgb_cursor \<Rightarrow> rgb_cursor option" where
  "yuvb_live_to_cd_rgb src p_yuv buf_width width height skip =
     row_loops p_yuv (buf_width * 16 div 8) width height 2 4 (yuv2_pixel src 0x80 skip)"

definition yuvc_live_to_cd_rgb ::
  "bytes \<Rightarrow> int \<Rightarrow> u32 \<Rightarrow> u32 \<Rightarrow> u32 \<Rightarrow> bool \<Rightarrow> rgb_cursor \<Rightarrow> rgb_cursor option" where
  "yuvc_live_to_cd_rgb src p_yuv buf_width width height skip =
     row_loops p_yuv (buf_width * 16 div 8) width height 2 4 (yuv2_pixel src 0 skip)"

text \<open>With alpha: pixels of the value \<open>0x800080\<close> are transparent. A null \<open>a\<close> is \<open>None\<close>.\<close>

fun put_alpha :: "byte \<Rightarrow> bytes \<times> nat option \<Rightarrow> (bytes \<times> nat option) option" where
  "put_alpha al (m, None) = None"
| "put_alpha al (m, Some a) = do { m \<leftarrow> st8 m a al; Some (m, Some (a + 1)) }"

fun put_rgba :: "byte \<Rightarrow> byte \<Rightarrow> byte \<Rightarrow> byte \<Rightarrow> rgb_cursor \<times> nat option \<Rightarrow> (rgb_cursor \<times> nat option) option" where
  "put_rgba y u v al (s, a) = do {
     (m, r, g, b) \<leftarrow> put_rgb y u v s;
     (m, a) \<leftarrow> put_alpha al (m, a);
     Some ((m, r, g, b), a)
   }"

definition yuvb_rgba_pixel ::
  "bytes \<Rightarrow> bool \<Rightarrow> int \<Rightarrow> rgb_cursor \<times> nat option \<Rightarrow> (rgb_cursor \<times> nat option) option" where
  "yuvb_rgba_pixel src skip p s = do {
     p2 \<leftarrow> ldi src (p + 2);
     p0 \<leftarrow> ldi src p;
     y \<leftarrow> ldi src (p + 1);
     u \<leftarrow> ld_int src p;
     let al = (if u = 0x800080 then 0 else 255);
     s \<leftarrow> put_rgba y (p0 - 0x80) (p2 - 0x80) al s;
     if skip then Some s
     else do { y \<leftarrow> ldi src (p + 3); put_rgba y (p0 - 0x80) (p2 - 0x80) al s }
   }"

definition yuvb_live_to_cd_rgba ::
  "bytes \<Rightarrow> int \<Rightarrow> u32 \<Rightarrow> u32 \<Rightarrow> u32 \<Rightarrow> bool \<Rightarrow> rgb_cursor \<times> nat option \<Rightarrow> (rgb_cursor \<times> nat option) option" where
  "yuvb_live_to_cd_rgba src p_yuv buf_width width height skip =
     row_loops p_yuv (buf_width * 16 div 8) width height 2 4 (yuvb_rgba_pixel src skip)"

definition opacity_live_to_cd_a ::
  "bytes \<Rightarrow> int \<Rightarrow> u32 \<Rightarrow> u32 \<Rightarrow> u32 \<Rightarrow> bool \<Rightarrow> bytes \<times> nat option \<Rightarrow> (bytes \<times> nat option) option" where
  "opacity_live_to_cd_a src p_opac buf_width width height skip =
     row_loops p_opac buf_width width height 2 2
       (\<lambda>p s. do {
          al \<leftarrow> ldi src p;
          s \<leftarrow> put_alpha al s;
          if skip then Some s else do { al \<leftarrow> ldi src (p + 1); put_alpha al s }
        })"

section \<open>Planar images\<close>

text \<open>\<open>r\<close>, \<open>g\<close>, \<open>b\<close> and \<open>a\<close> are places in \<open>data\<close>, or null.\<close>

record liveimg_pimg_t =
  pi_width :: u32
  pi_height :: u32
  pi_data :: "bytes option"
  pi_r :: "nat option"
  pi_g :: "nat option"
  pi_b :: "nat option"
  pi_a :: "nat option"

definition pimg_create :: liveimg_pimg_t where
  "pimg_create = \<lparr> pi_width = 0, pi_height = 0, pi_data = None, pi_r = None, pi_g = None,
                   pi_b = None, pi_a = None \<rparr>"

text \<open>\<open>pimg_destroy\<close>, also called by \<open>pimg_gc\<close> and \<open>pimg_kill\<close>.\<close>

definition pimg_destroy :: "liveimg_pimg_t \<Rightarrow> liveimg_pimg_t" where
  "pimg_destroy im = pimg_create"

definition pimg_gc :: "liveimg_pimg_t \<Rightarrow> liveimg_pimg_t" where "pimg_gc im = pimg_destroy im"
definition pimg_kill :: "liveimg_pimg_t \<Rightarrow> liveimg_pimg_t" where "pimg_kill im = pimg_destroy im"

definition pimg_get_width :: "liveimg_pimg_t \<Rightarrow> string + int" where
  "pimg_get_width im = (if pi_data im = None then Inl ''dead pimg'' else Inr (uint (pi_width im)))"

definition pimg_get_height :: "liveimg_pimg_t \<Rightarrow> string + int" where
  "pimg_get_height im = (if pi_data im = None then Inl ''dead pimg'' else Inr (uint (pi_height im)))"

text \<open>The result is \<open>None\<close> when the C function returns 0.\<close>

definition pimg_init_rgb ::
  "(nat \<Rightarrow> bytes option) \<Rightarrow> liveimg_pimg_t \<Rightarrow> u32 \<Rightarrow> u32 \<Rightarrow> liveimg_pimg_t option" where
  "pimg_init_rgb malloc im width height =
     (let size = width * height in
      if size = 0 then None
      else map_option (\<lambda>data. \<lparr> pi_width = width, pi_height = height, pi_data = Some data,
             pi_r = Some 0, pi_g = Some (unat size), pi_b = Some (2 * unat size), pi_a = None \<rparr>)
           (malloc (unat (size * 3))))"

definition pimg_init_rgba ::
  "(nat \<Rightarrow> bytes option) \<Rightarrow> liveimg_pimg_t \<Rightarrow> u32 \<Rightarrow> u32 \<Rightarrow> liveimg_pimg_t option" where
  "pimg_init_rgba malloc im width height =
     (let size = width * height in
      if size = 0 then None
      else map_option (\<lambda>data. \<lparr> pi_width = width, pi_height = height, pi_data = Some data,
             pi_r = Some 0, pi_g = Some (unat size), pi_b = Some (2 * unat size),
             pi_a = Some (3 * unat size) \<rparr>)
           (malloc (unat (size * 4))))"

text \<open>The cursor at the start of the planes; a null plane cannot be written.\<close>

definition rgb_planes :: "liveimg_pimg_t \<Rightarrow> rgb_cursor option" where
  "rgb_planes im = do {
     m \<leftarrow> pi_data im; r \<leftarrow> pi_r im; g \<leftarrow> pi_g im; b \<leftarrow> pi_b im;
     Some (m, r, g, b)
   }"

end
