(* ===== verification/Liveframe.thy ===== *)
theory Liveframe
  imports Liveimg "HOL-Library.Signed_Division"
begin

text \<open>
  Live view frames (\<open>liveimg.c\<close>, from \<open>lv_proto_compatible\<close> on): the checks of the header and
  of the frame buffer descriptions a camera sends, and the operations on frames and planar
  images that Lua calls.
\<close>

section \<open>The header and the descriptions\<close>

text \<open>A frame is the object of an lbuf; the fields of its header (\<open>lv_data_header\<close>) are read in
  place, with no check that it is long enough.\<close>

definition version_major :: "bytes \<Rightarrow> int option" where "version_major frame = ld_int frame 0"
definition version_minor :: "bytes \<Rightarrow> int option" where "version_minor frame = ld_int frame 4"
definition palette_type :: "bytes \<Rightarrow> int option" where "palette_type frame = ld_int frame 12"
definition palette_data_start :: "bytes \<Rightarrow> int option" where "palette_data_start frame = ld_int frame 16"
definition vp_desc_start :: "bytes \<Rightarrow> int option" where "vp_desc_start frame = ld_int frame 20"
definition bm_desc_start :: "bytes \<Rightarrow> int option" where "bm_desc_start frame = ld_int frame 24"
definition bmo_desc_start :: "bytes \<Rightarrow> int option" where "bmo_desc_start frame = ld_int frame 28"

lemmas header_fields = version_major_def version_minor_def palette_type_def palette_data_start_def
  vp_desc_start_def bm_desc_start_def bmo_desc_start_def

record lv_framebuffer_desc =
  fb_type :: int
  data_start :: int
  buffer_width :: int
  visible_width :: int
  visible_height :: int
  margin_left :: int
  margin_top :: int
  margin_right :: int
  margin_bot :: int

definition lv_desc :: "bytes \<Rightarrow> int \<Rightarrow> lv_framebuffer_desc option" where
  "lv_desc m p = do {
     t \<leftarrow> ld_int m p; start \<leftarrow> ld_int m (p + 4); bw \<leftarrow> ld_int m (p + 8); vw \<leftarrow> ld_int m (p + 12);
     vh \<leftarrow> ld_int m (p + 16); l \<leftarrow> ld_int m (p + 20); to \<leftarrow> ld_int m (p + 24); r \<leftarrow> ld_int m (p + 28);
     b \<leftarrow> ld_int m (p + 32);
     Some \<lparr> fb_type = t, data_start = start, buffer_width = bw, visible_width = vw,
            visible_height = vh, margin_left = l, margin_top = to, margin_right = r, margin_bot = b \<rparr>
   }"

definition sizeof_lv_framebuffer_desc :: int where "sizeof_lv_framebuffer_desc = 36"

definition LV_FB_YUV8 :: int where "LV_FB_YUV8 = 0"
definition LV_FB_PAL8 :: int where "LV_FB_PAL8 = 1"
definition LV_FB_YUV8B :: int where "LV_FB_YUV8B = 2"
definition LV_FB_YUV8C :: int where "LV_FB_YUV8C = 3"
definition LV_FB_OPACITY8 :: int where "LV_FB_OPACITY8 = 4"

lemmas fb_types = LV_FB_YUV8_def LV_FB_PAL8_def LV_FB_YUV8B_def LV_FB_YUV8C_def LV_FB_OPACITY8_def

definition lv_proto_compatible :: "bytes \<Rightarrow> int \<Rightarrow> int \<Rightarrow> bool option" where
  "lv_proto_compatible frame req_major req_minor = do {
     major \<leftarrow> version_major frame;
     if req_major \<noteq> major then Some False
     else do {
       minor \<leftarrow> version_minor frame;
       Some (if req_minor < minor then False else True)
     }
   }"

text \<open>\<open>start + sizeof (lv_framebuffer_desc) > data_len\<close> is a comparison of \<open>size_t\<close>.\<close>

definition get_fb_desc :: "bytes \<Rightarrow> int \<Rightarrow> int \<Rightarrow> (string + lv_framebuffer_desc) option" where
  "get_fb_desc m data_len start =
     (if start \<le> 0 then Some (Inl ''no desc'')
      else if start + sizeof_lv_framebuffer_desc > data_len mod 2 ^ 64 then Some (Inl ''data < fb_desc'')
      else map_option Inr (lv_desc m start))"

text \<open>The product is computed with \<open>int\<close>; its division by 8 rounds towards zero.\<close>

definition check_fb_desc ::
  "lv_framebuffer_desc \<Rightarrow> int \<Rightarrow> int \<Rightarrow> (string + lv_framebuffer_desc) option" where
  "check_fb_desc desc bitspp data_len = do {
     short \<leftarrow>
       (if data_start desc \<noteq> 0 then do {
          n \<leftarrow> ckint (buffer_width desc * visible_height desc);
          n \<leftarrow> ckint (n * bitspp);
          e \<leftarrow> ckint (data_start desc + n sdiv 8);
          Some (e > data_len)
        } else Some False);
     if short then Some (Inl ''data < buffer_width*height'')
     else if visible_width desc > buffer_width desc then Some (Inl ''width  > buffer_width'')
     else Some (Inr desc)
   }"

definition get_vp_desc :: "bytes \<Rightarrow> int \<Rightarrow> (string + lv_framebuffer_desc) option" where
  "get_vp_desc m data_len = do {
     start \<leftarrow> vp_desc_start m;
     r \<leftarrow> get_fb_desc m data_len start;
     case r of
       Inl err \<Rightarrow> Some (Inl err)
     | Inr desc \<Rightarrow>
         if fb_type desc = LV_FB_YUV8 then check_fb_desc desc 12 data_len
         else if fb_type desc = LV_FB_YUV8B \<or> fb_type desc = LV_FB_YUV8C then
           do {
             ok \<leftarrow> lv_proto_compatible m 2 2;
             if \<not> ok then Some (Inl ''viewport type not supported by protocol'')
             else check_fb_desc desc 16 data_len
           }
         else Some (Inl ''viewport type not supported'')
   }"

definition get_bm_desc :: "bytes \<Rightarrow> int \<Rightarrow> (string + lv_framebuffer_desc) option" where
  "get_bm_desc m data_len = do {
     start \<leftarrow> bm_desc_start m;
     r \<leftarrow> get_fb_desc m data_len start;
     case r of
       Inl err \<Rightarrow> Some (Inl err)
     | Inr desc \<Rightarrow>
         if fb_type desc = LV_FB_PAL8 then check_fb_desc desc 8 data_len
         else if fb_type desc = LV_FB_YUV8B then
           do {
             ok \<leftarrow> lv_proto_compatible m 2 2;
             if \<not> ok then Some (Inl ''bitmap type not supported by protocol'')
             else check_fb_desc desc 16 data_len
           }
         else Some (Inl ''overlay type not supported'')
   }"

definition get_bmo_desc :: "bytes \<Rightarrow> int \<Rightarrow> (string + lv_framebuffer_desc) option" where
  "get_bmo_desc m data_len = do {
     ok \<leftarrow> lv_proto_compatible m 2 2;
     if \<not> ok then Some (Inl ''opacity type not supported by protocol'')
     else do {
       start \<leftarrow> bmo_desc_start m;
       r \<leftarrow> get_fb_desc m data_len start;
       case r of
         Inl err \<Rightarrow> Some (Inl err)
       | Inr desc \<Rightarrow>
           if fb_type desc = LV_FB_OPACITY8 then check_fb_desc desc 8 data_len
           else Some (Inl ''opacity type not supported'')
     }
   }"

section \<open>Viewport and bitmap\<close>

text \<open>
  What a call returns to Lua: nil, the image of the first argument, or a new image; with it the
  image of the first argument as the call leaves it.
\<close>

datatype pimg_ret = Ret_nil | Ret_arg | Ret_new liveimg_pimg_t

type_synonym pimg_result = "string + pimg_ret \<times> liveimg_pimg_t option"

text \<open>The image to write to: the given one if it has the right number of pixels, otherwise a new
  one, the given one being destroyed.\<close>

definition same_size :: "liveimg_pimg_t option \<Rightarrow> u32 \<Rightarrow> liveimg_pimg_t option" where
  "same_size im dispsize =
     (case im of
        Some i \<Rightarrow> if dispsize \<noteq> pi_width i * pi_height i then None else Some i
      | None \<Rightarrow> None)"

definition pimg_return ::
  "liveimg_pimg_t option \<Rightarrow> liveimg_pimg_t option \<Rightarrow> liveimg_pimg_t \<Rightarrow> pimg_ret \<times> liveimg_pimg_t option" where
  "pimg_return im reused result =
     (if reused \<noteq> None then (Ret_arg, Some result)
      else (Ret_new result, map_option pimg_destroy im))"

definition liveimg_get_viewport_pimg ::
  "(nat \<Rightarrow> bytes option) \<Rightarrow> liveimg_pimg_t option \<Rightarrow> lBuf \<Rightarrow> bool \<Rightarrow> pimg_result option" where
  "liveimg_get_viewport_pimg malloc im frame_lb skip = do {
     let par = (if skip then 2 else 1 :: int);
     let m = lb_bytes frame_lb;
     r \<leftarrow> get_vp_desc m (s32 (uint (lb_len frame_lb)));
     case r of
       Inl err \<Rightarrow> Some (Inl err)
     | Inr vp \<Rightarrow>
         let vwidth = (word_of_int (visible_width vp sdiv par) :: u32);
             vheight = (word_of_int (visible_height vp) :: u32);
             dispsize = vwidth * vheight in
         if data_start vp = 0 \<or> dispsize = 0 then Some (Inr (Ret_nil, im))
         else
           let reused = same_size im dispsize in
           case (case reused of
                   Some i \<Rightarrow> Some (i \<lparr> pi_width := vwidth, pi_height := vheight \<rparr>)
                 | None \<Rightarrow> pimg_init_rgb malloc pimg_create vwidth vheight) of
             None \<Rightarrow> Some (Inl ''failed to create image'')
           | Some i \<Rightarrow> do {
               planes \<leftarrow> rgb_planes i;
               let conv = (if fb_type vp = LV_FB_YUV8 then yuv_live_to_cd_rgb
                           else if fb_type vp = LV_FB_YUV8B then yuvb_live_to_cd_rgb
                           else yuvc_live_to_cd_rgb);
               (data, rgb) \<leftarrow> conv m (data_start vp) (word_of_int (buffer_width vp))
                              (word_of_int (visible_width vp)) vheight skip planes;
               Some (Inr (pimg_return im reused (i \<lparr> pi_data := Some data \<rparr>)))
             }
   }"

text \<open>The palette of a frame, or the default one; a null conversion function is called for a
  frame of palette type 0 with palette data.\<close>

definition convert_palette :: "bytes \<Rightarrow> palette_entry_rgba_t list option" where
  "convert_palette m = do {
     type \<leftarrow> palette_type m;
     (fn, pal) \<leftarrow>
       (case get_palette_convert (word_of_int type) of
          Some (fn, n) \<Rightarrow> do {
            start \<leftarrow> palette_data_start m;
            Some (if start = 0 then (Some palette_type1_to_rgba, (palette_type1_default, 0)) else (fn, (m, start)))
          }
        | None \<Rightarrow> Some (Some palette_type1_to_rgba, (palette_type1_default, 0)));
     fn \<leftarrow> fn;
     those (map (\<lambda>i. fn pal (of_nat i)) [0..<256])
   }"

text \<open>One pixel of the paletted bitmap.\<close>

definition pal_pixel ::
  "bytes \<Rightarrow> palette_entry_rgba_t list \<Rightarrow> int \<Rightarrow> rgb_cursor \<times> nat option \<Rightarrow> (rgb_cursor \<times> nat option) option" where
  "pal_pixel src pal p s = do {
     pix \<leftarrow> ldi src p;
     let c = pal ! unat pix;
     let ((m, r, g, b), a) = s;
     m \<leftarrow> st8 m r (pe_r c);
     m \<leftarrow> st8 m g (pe_g c);
     m \<leftarrow> st8 m b (pe_b c);
     (m, a) \<leftarrow> put_alpha (pe_a c) (m, a);
     Some ((m, r + 1, g + 1, b + 1), a)
   }"

definition pal_rows ::
  "bytes \<Rightarrow> palette_entry_rgba_t list \<Rightarrow> lv_framebuffer_desc \<Rightarrow> int \<Rightarrow> rgb_cursor \<times> nat option \<Rightarrow>
   (rgb_cursor \<times> nat option) option" where
  "pal_rows src pal bm x_inc s = do {
     let y_inc = buffer_width bm;
     last \<leftarrow> ckint ((visible_height bm - 1) * y_inc);
     ofold (\<lambda>y. ofold (\<lambda>x. pal_pixel src pal (data_start bm + last - int y * y_inc + int x * x_inc))
                [0..<nat ((visible_width bm + x_inc - 1) div x_inc)])
       [0..<nat (visible_height bm)] s
   }"

definition liveimg_get_bitmap_pimg ::
  "(nat \<Rightarrow> bytes option) \<Rightarrow> liveimg_pimg_t option \<Rightarrow> lBuf \<Rightarrow> bool \<Rightarrow> pimg_result option" where
  "liveimg_get_bitmap_pimg malloc im frame_lb skip = do {
     let par = (if skip then 2 else 1 :: int);
     let m = lb_bytes frame_lb;
     let len = s32 (uint (lb_len frame_lb));
     r \<leftarrow> get_bm_desc m len;
     case r of
       Inl err \<Rightarrow> Some (Inl err)
     | Inr bm \<Rightarrow>
         let vwidth = (word_of_int (visible_width bm sdiv par) :: u32);
             vheight = (word_of_int (visible_height bm) :: u32);
             dispsize = vwidth * vheight in
         if data_start bm = 0 \<or> dispsize = 0 then Some (Inr (Ret_nil, im))
         else do {
           ok \<leftarrow>
             (if fb_type bm = LV_FB_YUV8B then do {
                r \<leftarrow> get_bmo_desc m len;
                case r of
                  Inl err \<Rightarrow> Some (Inl err)
                | Inr bmo \<Rightarrow>
                    if visible_width bm \<noteq> visible_width bmo \<or> visible_height bm \<noteq> visible_height bmo
                    then Some (Inl ''opacity buffer size != bitmap size'') else Some (Inr (Some bmo))
              }
              else do {
                type \<leftarrow> palette_type m;
                start \<leftarrow> palette_data_start m;
                if get_palette_size (word_of_int type) + word_of_int start > lb_len frame_lb
                then Some (Inl ''data < palette size'') else Some (Inr None)
              });
           case ok of
             Inl err \<Rightarrow> Some (Inl err)
           | Inr bmo \<Rightarrow>
               let reused = same_size im dispsize in
               case (case reused of Some i \<Rightarrow> Some i
                     | None \<Rightarrow> pimg_init_rgba malloc pimg_create vwidth vheight) of
                 None \<Rightarrow> Some (Inl ''failed to create image'')
               | Some i \<Rightarrow> do {
                   planes \<leftarrow> rgb_planes i;
                   ((data, rgb), a) \<leftarrow>
                     (if fb_type bm = LV_FB_YUV8B then
                        yuvb_live_to_cd_rgba m (data_start bm) (word_of_int (buffer_width bm))
                          (word_of_int (visible_width bm)) vheight skip (planes, pi_a i)
                      else do {
                        pal \<leftarrow> convert_palette m;
                        pal_rows m pal bm par (planes, pi_a i)
                      });
                   data \<leftarrow>
                     (case bmo of
                        Some bmo \<Rightarrow>
                          if data_start bmo \<noteq> 0
                          then map_option fst (opacity_live_to_cd_a m (data_start bmo)
                                 (word_of_int (buffer_width bmo)) (word_of_int (visible_width bmo))
                                 (word_of_int (visible_height bmo)) skip (data, pi_a i))
                          else Some data
                      | None \<Rightarrow> Some data);
                   Some (Inr (pimg_return im reused (i \<lparr> pi_data := Some data \<rparr>)))
                 }
         }
   }"

section \<open>Packed images\<close>

text \<open>The bytes of pixel \<open>i\<close> of the planes.\<close>

definition packed_pixel :: "liveimg_pimg_t \<Rightarrow> bool \<Rightarrow> nat \<Rightarrow> bytes option" where
  "packed_pixel im alpha i = do {
     (m, r, g, b) \<leftarrow> rgb_planes im;
     rv \<leftarrow> ld8 m (r + i);
     gv \<leftarrow> ld8 m (g + i);
     bv \<leftarrow> ld8 m (b + i);
     if alpha then do {
       av \<leftarrow> (case pi_a im of Some a \<Rightarrow> ld8 m (a + i) | None \<Rightarrow> Some 255);
       Some [rv, gv, bv, av]
     } else Some [rv, gv, bv]
   }"

text \<open>The result is the lbuf, and whether it is the one given. Row \<open>k\<close> of the planes becomes row
  \<open>height - 1 - k\<close>.\<close>

definition pimg_to_packed ::
  "(nat \<Rightarrow> bytes option) \<Rightarrow> liveimg_pimg_t \<Rightarrow> lBuf option \<Rightarrow> bool \<Rightarrow> (string + lBuf \<times> bool) option" where
  "pimg_to_packed malloc im buf alpha =
     (let depth = (if alpha then 4 else 3 :: u32);
          w = unat (pi_width im);
          data_size = pi_width im * pi_height im * depth;
          (lb, reuse) =
            (case buf of
               Some b \<Rightarrow> if lb_len b = data_size then (Some b, True)
                         else (map_option (\<lambda>d. lbuf_create d data_size LBUF_FL_FREE) (malloc (unat data_size)), False)
             | None \<Rightarrow> (map_option (\<lambda>d. lbuf_create d data_size LBUF_FL_FREE) (malloc (unat data_size)), False))
      in case lb of
           None \<Rightarrow> Some (Inl ''malloc failed'')
         | Some b \<Rightarrow> do {
             data \<leftarrow>
               ofold (\<lambda>k. ofold (\<lambda>x data. do {
                   px \<leftarrow> packed_pixel im alpha (k * w + x);
                   blit data (unat ((pi_height im - of_nat k - 1) * pi_width im * depth) + x * unat depth) px
                 }) [0..<w]) [0..<unat (pi_height im)] (lb_bytes b);
             Some (Inr (b \<lparr> lb_bytes := data \<rparr>, reuse))
           })"

definition pimg_to_lbuf_packed_rgb where
  "pimg_to_lbuf_packed_rgb malloc im buf = pimg_to_packed malloc im buf False"

definition pimg_to_lbuf_packed_rgba where
  "pimg_to_lbuf_packed_rgba malloc im buf = pimg_to_packed malloc im buf True"

end
