(* ===== verification/Ptp_Tcp.thy ===== *)
theory Ptp_Tcp
  imports Transport
begin

text \<open>
  PTP over TCP (\<open>ptp.c\<close>, section \<open>CHDKPTP_PTPIP\<close>): reading data and packet headers from the
  command socket, sending a request, sending and receiving the data phase, and receiving the
  response. A \<open>PTPIPContainer\<close> is the list of its bytes, its fields are read and written at
  their offsets in the packed structure. \<open>PTP_RC_OK\<close> of \<open>None\<close>-free results is success.
\<close>

section \<open>Packets\<close>

text \<open>\<open>PTPIPContainer\<close>: length at 0, type at 4, then the union. A request has its code at 12,
  the transaction id at 14 and the parameters from 18 on; a response has them at 8, 10 and 14;
  the data packets have a transaction id at 8 and the 64-bit data length at 12.\<close>

definition PTPIP_CMD_PAYLOAD_LEN :: nat where "PTPIP_CMD_PAYLOAD_LEN = 256"
definition PTPIP_HEADER_LEN :: nat where "PTPIP_HEADER_LEN = 8"

definition sizeof_PTPIPContainer :: nat where
  "sizeof_PTPIPContainer = PTPIP_HEADER_LEN + PTPIP_CMD_PAYLOAD_LEN"

text \<open>Loads and stores of integers in host order (little endian).\<close>

definition ldh64 :: "bytes \<Rightarrow> nat \<Rightarrow> u64 option" where
  "ldh64 m a = map_option (\<lambda>bs. push_bit 32 (ucast (host32 (drop 4 bs))) OR ucast (host32 (take 4 bs)))
     (ldn m a 8)"

definition sth64 :: "bytes \<Rightarrow> nat \<Rightarrow> u64 \<Rightarrow> bytes option" where
  "sth64 m a v = blit m a (mem32 (ucast v) @ mem32 (ucast (drop_bit 32 v)))"

definition ldh16 :: "bytes \<Rightarrow> nat \<Rightarrow> u16 option" where
  "ldh16 m a = map_option host16 (ldn m a 2)"

section \<open>Reading\<close>

text \<open>The signed counter \<open>rtotal\<close> may not overflow.\<close>

definition int_ok :: "int \<Rightarrow> bool" where
  "int_ok i \<longleftrightarrow> - 2147483648 \<le> i \<and> i < 2147483648"

partial_function (option) tcp_read_loop ::
  "'w ptp_io \<Rightarrow> u32 \<Rightarrow> bytes \<Rightarrow> nat \<Rightarrow> int \<Rightarrow> 'w \<Rightarrow> (u16 \<times> bytes \<times> 'w) option" where
  "tcp_read_loop io sz m dst rtotal w =
     (if word_of_int rtotal < sz then do {
        (rlen, m, w) \<leftarrow> read_func io m (dst + nat rtotal) (sz - word_of_int rtotal) w;
        if rlen < 0 then Some (PTP_ERROR_IO, m, w)
        else if \<not> int_ok (rtotal + rlen) then None
        else tcp_read_loop io sz m dst (rtotal + rlen) w
      } else Some (PTP_RC_OK, m, w))"

definition ptp_tcp_read_data ::
  "'w ptp_io \<Rightarrow> 'w PTPParams \<Rightarrow> u32 \<Rightarrow> bytes \<Rightarrow> nat \<Rightarrow> (u16 \<times> bytes \<times> 'w PTPParams) option" where
  "ptp_tcp_read_data io p sz m dst = do {
     (rtotal, b, m) \<leftarrow> ptp_transport_read_from_buffer (pkt_buf p) (sint sz) m dst;
     let p = p \<lparr> pkt_buf := b \<rparr>;
     (ret, m, w) \<leftarrow> tcp_read_loop io sz m dst rtotal (con p);
     Some (ret, m, p \<lparr> con := w \<rparr>)
   }"

definition ptp_tcp_read_control ::
  "'w ptp_io \<Rightarrow> 'w PTPParams \<Rightarrow> bytes \<Rightarrow> (u16 \<times> bytes \<times> 'w PTPParams) option" where
  "ptp_tcp_read_control io p pkt = do {
     (ret, pkt, p) \<leftarrow> ptp_control_read_buffered io p (int PTPIP_HEADER_LEN) pkt 0;
     if ret \<noteq> PTP_RC_OK then Some (ret, pkt, p)
     else do {
       len \<leftarrow> dtoh32ap (byteorder p) pkt 0;
       type \<leftarrow> dtoh32ap (byteorder p) pkt 4;
       if type = PTPIP_TYPE_INIT_CMD_ACK \<or> type = PTPIP_TYPE_INIT_FAIL \<or> type = PTPIP_TYPE_RESP
          \<or> type = PTPIP_TYPE_START_DATA then
         (if len > of_nat PTPIP_HEADER_LEN
          then ptp_control_read_buffered io p (sint (len - of_nat PTPIP_HEADER_LEN)) pkt PTPIP_HEADER_LEN
          else Some (ret, pkt, p))
       else if type = PTPIP_TYPE_DATA \<or> type = PTPIP_TYPE_END_DATA
       then ptp_control_read_buffered io p 4 pkt PTPIP_HEADER_LEN
       else Some (PTP_ERROR_BADPARAM, pkt, p)
     }
   }"

section \<open>Sending\<close>

definition write_ret :: "'w ptp_io \<Rightarrow> 'w PTPParams \<Rightarrow> bytes \<Rightarrow> u16 \<times> 'w PTPParams" where
  "write_ret io p bs =
     (let (ret, w) = write_func io bs (con p)
      in (if ret \<noteq> PTP_RC_OK then PTP_ERROR_IO else ret, p \<lparr> con := w \<rparr>))"

definition ptp_tcp_sendreq ::
  "'w ptp_io \<Rightarrow> 'w PTPParams \<Rightarrow> PTPContainer \<Rightarrow> (u16 \<times> 'w PTPParams) option" where
  "ptp_tcp_sendreq io p ptp = do {
     let bo = byteorder p;
     let len = (word_of_int (38 - 4 * (5 - int (unat (Nparam ptp)))) :: u32);
     let pkt = replicate sizeof_PTPIPContainer 0;
     pkt \<leftarrow> htod32ap bo pkt 0 len;
     pkt \<leftarrow> htod32ap bo pkt 4 PTPIP_TYPE_REQ;
     pkt \<leftarrow> htod32ap bo pkt 14 (Transaction_ID ptp);
     pkt \<leftarrow> htod16ap bo pkt 12 (Code ptp);
     pkt \<leftarrow> htod32ap bo pkt 18 (Param1 ptp);
     pkt \<leftarrow> htod32ap bo pkt 22 (Param2 ptp);
     pkt \<leftarrow> htod32ap bo pkt 26 (Param3 ptp);
     pkt \<leftarrow> htod32ap bo pkt 30 (Param4 ptp);
     pkt \<leftarrow> htod32ap bo pkt 34 (Param5 ptp);
     bs \<leftarrow> ldn pkt 0 (unat len);
     Some (write_ret io p bs)
   }"

text \<open>Every write is made whatever the one before it returned.\<close>

definition ptp_tcp_senddata ::
  "'w ptp_io \<Rightarrow> 'w PTPParams \<Rightarrow> PTPContainer \<Rightarrow> bytes \<Rightarrow> u32 \<Rightarrow> (u16 \<times> 'w PTPParams) option" where
  "ptp_tcp_senddata io p ptp data sz = do {
     let bo = byteorder p;
     let pkt = replicate sizeof_PTPIPContainer 0;
     pkt \<leftarrow> htod32ap bo pkt 0 20;
     pkt \<leftarrow> htod32ap bo pkt 4 PTPIP_TYPE_START_DATA;
     pkt \<leftarrow> htod32ap bo pkt 8 (Transaction_ID ptp);
     pkt \<leftarrow> sth64 pkt 12 (ucast sz);
     bs \<leftarrow> ldn pkt 0 20;
     let (ret, p) = write_ret io p bs;
     let pkt = replicate sizeof_PTPIPContainer 0;
     pkt \<leftarrow> htod32ap bo pkt 0 (12 + sz);
     pkt \<leftarrow> htod32ap bo pkt 4 PTPIP_TYPE_DATA;
     bs \<leftarrow> ldn pkt 0 12;
     let (ret, p) = write_ret io p bs;
     bs \<leftarrow> ldn data 0 (unat sz);
     let (ret, p) = write_ret io p bs;
     let pkt = replicate sizeof_PTPIPContainer 0;
     pkt \<leftarrow> blit pkt 0 (mem32 12);
     pkt \<leftarrow> htod32ap bo pkt 4 PTPIP_TYPE_END_DATA;
     pkt \<leftarrow> htod32ap bo pkt 8 (Transaction_ID ptp);
     bs \<leftarrow> ldn pkt 0 12;
     Some (write_ret io p bs)
   }"

section \<open>Receiving the response\<close>

definition ptp_tcp_getresp ::
  "'w ptp_io \<Rightarrow> 'w PTPParams \<Rightarrow> PTPContainer \<Rightarrow> (u16 \<times> PTPContainer \<times> 'w PTPParams) option" where
  "ptp_tcp_getresp io p resp = do {
     (ret, pkt, p) \<leftarrow> ptp_tcp_read_control io p (replicate sizeof_PTPIPContainer 0);
     if ret \<noteq> PTP_RC_OK then Some (ret, resp, p)
     else do {
       let bo = byteorder p;
       type \<leftarrow> ldh16 pkt 4;
       code \<leftarrow> dtoh16ap bo pkt 8;
       let ret = (if ucast (dtoh16p bo type) \<noteq> PTPIP_TYPE_RESP then PTP_ERROR_RESP_EXPECTED
                  else if code \<noteq> Code resp then code else ret);
       trans \<leftarrow> dtoh32ap bo pkt 10;
       p1 \<leftarrow> dtoh32ap bo pkt 14;
       p2 \<leftarrow> dtoh32ap bo pkt 18;
       p3 \<leftarrow> dtoh32ap bo pkt 22;
       p4 \<leftarrow> dtoh32ap bo pkt 26;
       p5 \<leftarrow> dtoh32ap bo pkt 30;
       len \<leftarrow> dtoh32ap bo pkt 0;
       Some (ret, \<lparr> Code = code, SessionID = session_id p, Transaction_ID = trans, Param1 = p1,
                    Param2 = p2, Param3 = p3, Param4 = p4, Param5 = p5,
                    Nparam = ucast ((len - 14) div 4) \<rparr>, p)
     }
   }"

section \<open>Receiving data\<close>

text \<open>
  The payload of one packet handed to the handler in blocks (the inner loop). The state: the
  block buffer, how much of it is filled, the bytes read in all, the handler's data, the
  connection. The write position is always the fill level: \<open>p - buf = block_read\<close>.
\<close>

partial_function (option) tcp_block_loop ::
  "'w ptp_io \<Rightarrow> (u32 \<Rightarrow> bytes \<Rightarrow> u64 \<Rightarrow> 'h \<Rightarrow> u16 \<times> 'h) \<Rightarrow> u64 \<Rightarrow> u32 \<Rightarrow> u32 \<Rightarrow> u32 \<Rightarrow>
   bytes \<times> u32 \<times> u64 \<times> 'h \<times> 'w PTPParams \<Rightarrow> (u16 \<times> bytes \<times> u32 \<times> u64 \<times> 'h \<times> 'w PTPParams) option" where
  "tcp_block_loop io hnd total_len block pkt_len pkt_read st =
     (case st of (buf, block_read, total_read, h, p) \<Rightarrow>
      if pkt_read < pkt_len then do {
        let block_left = block - block_read;
        let pkt_left = pkt_len - pkt_read;
        let read_size = (if block_left < pkt_left then block_left else pkt_left);
        (ret, buf, p) \<leftarrow> ptp_tcp_read_data io p read_size buf (unat block_read);
        if ret \<noteq> PTP_RC_OK then Some (ret, buf, block_read, total_read, h, p)
        else do {
          let pkt_read = pkt_read + read_size;
          let block_read = block_read + read_size;
          let total_read = total_read + ucast read_size;
          if block_read = block then
            (let (ret, h) = hnd block buf total_len h in
             if ret \<noteq> PTP_RC_OK then Some (ret, buf, block_read, total_read, h, p)
             else tcp_block_loop io hnd total_len block pkt_len pkt_read (buf, 0, total_read, h, p))
          else tcp_block_loop io hnd total_len block pkt_len pkt_read (buf, block_read, total_read, h, p)
        }
      } else Some (PTP_RC_OK, buf, block_read, total_read, h, p))"

text \<open>The header of one \<open>DATA\<close> or \<open>END_DATA\<close> packet: whether it was \<open>END_DATA\<close>, and the length
  of its payload.\<close>

definition tcp_data_header ::
  "'w ptp_io \<Rightarrow> 'w PTPParams \<Rightarrow> bytes \<Rightarrow> (u16 \<times> bool \<times> u32 \<times> bytes \<times> 'w PTPParams) option" where
  "tcp_data_header io p pkt = do {
     (ret, pkt, p) \<leftarrow> ptp_tcp_read_control io p pkt;
     if ret \<noteq> PTP_RC_OK then Some (ret, False, 0, pkt, p)
     else do {
       type \<leftarrow> dtoh32ap (byteorder p) pkt 4;
       len \<leftarrow> dtoh32ap (byteorder p) pkt 0;
       if type = PTPIP_TYPE_END_DATA then Some (PTP_RC_OK, True, len - 12, pkt, p)
       else if type \<noteq> PTPIP_TYPE_DATA then Some (PTP_ERROR_DATA_EXPECTED, False, 0, pkt, p)
       else Some (PTP_RC_OK, False, len - 12, pkt, p)
     }
   }"

text \<open>The packet loop, with a handler and into \<open>ret_data\<close>. The results: the return code, whether
  \<open>END_DATA\<close> was seen, the last packet and the state of the reading.\<close>

partial_function (option) tcp_handler_loop ::
  "'w ptp_io \<Rightarrow> (u32 \<Rightarrow> bytes \<Rightarrow> u64 \<Rightarrow> 'h \<Rightarrow> u16 \<times> 'h) \<Rightarrow> u64 \<Rightarrow> u32 \<Rightarrow> bool \<Rightarrow> bytes \<Rightarrow>
   bytes \<times> u32 \<times> u64 \<times> 'h \<times> 'w PTPParams \<Rightarrow>
   (u16 \<times> bool \<times> bytes \<times> bytes \<times> u32 \<times> u64 \<times> 'h \<times> 'w PTPParams) option" where
  "tcp_handler_loop io hnd total_len block got_end pkt st =
     (case st of (buf, block_read, total_read, h, p) \<Rightarrow> do {
        (ret, is_end, pkt_len, pkt, p) \<leftarrow> tcp_data_header io p pkt;
        if ret \<noteq> PTP_RC_OK then Some (ret, got_end, pkt, buf, block_read, total_read, h, p)
        else do {
          (ret, buf, block_read, total_read, h, p) \<leftarrow>
            tcp_block_loop io hnd total_len block pkt_len 0 (buf, block_read, total_read, h, p);
          if ret \<noteq> PTP_RC_OK \<or> \<not> total_read < total_len
          then Some (ret, got_end \<or> is_end, pkt, buf, block_read, total_read, h, p)
          else tcp_handler_loop io hnd total_len block (got_end \<or> is_end) pkt
                 (buf, block_read, total_read, h, p)
        }
      })"

partial_function (option) tcp_memory_loop ::
  "'w ptp_io \<Rightarrow> u64 \<Rightarrow> bool \<Rightarrow> bytes \<Rightarrow> bytes \<times> nat \<times> u64 \<times> 'w PTPParams \<Rightarrow>
   (u16 \<times> bool \<times> bytes \<times> bytes \<times> nat \<times> u64 \<times> 'w PTPParams) option" where
  "tcp_memory_loop io total_len got_end pkt st =
     (case st of (m, off, total_read, p) \<Rightarrow> do {
        (ret, is_end, pkt_len, pkt, p) \<leftarrow> tcp_data_header io p pkt;
        if ret \<noteq> PTP_RC_OK then Some (ret, got_end, pkt, m, off, total_read, p)
        else do {
          (ret, m, p) \<leftarrow> ptp_tcp_read_data io p pkt_len m off;
          if ret \<noteq> PTP_RC_OK then Some (ret, got_end \<or> is_end, pkt, m, off, total_read, p)
          else do {
            let off = off + unat pkt_len;
            let total_read = total_read + ucast pkt_len;
            if total_read < total_len
            then tcp_memory_loop io total_len (got_end \<or> is_end) pkt (m, off, total_read, p)
            else Some (PTP_RC_OK, got_end \<or> is_end, pkt, m, off, total_read, p)
          }
        }
      })"

text \<open>The end of a transfer: \<open>END_DATA\<close> is read unless it has been.\<close>

definition tcp_read_end ::
  "'w ptp_io \<Rightarrow> 'w PTPParams \<Rightarrow> bool \<Rightarrow> bytes \<Rightarrow> (u16 \<times> 'w PTPParams) option" where
  "tcp_read_end io p got_end pkt =
     (if got_end then Some (PTP_RC_OK, p)
      else do {
        (ret, pkt, p) \<leftarrow> ptp_tcp_read_control io p pkt;
        if ret \<noteq> PTP_RC_OK then Some (ret, p)
        else do {
          type \<leftarrow> dtoh32ap (byteorder p) pkt 4;
          Some (if type \<noteq> PTPIP_TYPE_END_DATA then PTP_ERROR_DATA_EXPECTED else PTP_RC_OK, p)
        }
      })"

definition ptp_tcp_getdata ::
  "'w ptp_io \<Rightarrow> 'w PTPParams \<Rightarrow> PTPContainer \<Rightarrow> 'h PTPGetdataParams \<Rightarrow>
   (u16 \<times> 'h PTPGetdataParams \<times> 'w PTPParams) option" where
  "ptp_tcp_getdata io p ptp gd = do {
     (ret, pkt, p) \<leftarrow> ptp_tcp_read_control io p (stack io sizeof_PTPIPContainer);
     if ret \<noteq> PTP_RC_OK then Some (ret, gd, p)
     else do {
       type \<leftarrow> dtoh32ap (byteorder p) pkt 4;
       if type \<noteq> PTPIP_TYPE_START_DATA then Some (PTP_ERROR_DATA_EXPECTED, gd, p)
       else do {
         total_len \<leftarrow> ldh64 pkt 12;
         case handler gd of
           Some hnd \<Rightarrow> do {
             let block = handler_block (block_size gd);
             let gd = gd \<lparr> total_size := total_len \<rparr>;
             buf \<leftarrow> malloc io (unat block);
             (ret, got_end, pkt, buf, block_read, total_read, h, p) \<leftarrow>
               tcp_handler_loop io hnd total_len block False pkt (buf, 0, 0, handler_data gd, p);
             let (ret, h) = (if ret = PTP_RC_OK \<and> block_read \<noteq> 0 then hnd block_read buf total_len h
                             else (ret, h));
             let gd = gd \<lparr> handler_data := h \<rparr>;
             if ret \<noteq> PTP_RC_OK then Some (ret, gd, p)
             else do { (ret, p) \<leftarrow> tcp_read_end io p got_end pkt; Some (ret, gd, p) }
           }
         | None \<Rightarrow>
             (case (case ret_data gd of None \<Rightarrow> malloc io (unat total_len) | Some m \<Rightarrow> Some m) of
                None \<Rightarrow> Some (PTP_ERROR_NOMEM, gd, p)
              | Some m \<Rightarrow> do {
                  (ret, got_end, pkt, m, off, total_read, p) \<leftarrow>
                    tcp_memory_loop io total_len False pkt (m, 0, 0, p);
                  let gd = gd \<lparr> ret_data := Some m, total_size := total_len \<rparr>;
                  if ret \<noteq> PTP_RC_OK then Some (ret, gd, p)
                  else do { (ret, p) \<leftarrow> tcp_read_end io p got_end pkt; Some (ret, gd, p) }
                })
       }
     }
   }"

section \<open>Reading from a live stream\<close>

lemma the_blit: "a + length bs \<le> length m \<Longrightarrow> the (blit m a bs) = take a m @ bs @ drop (a + length bs) m"
  by (simp add: blit_def)

lemma length_the_blit: "a + length bs \<le> length m \<Longrightarrow> length (the (blit m a bs)) = length m"
  by (simp add: the_blit)

context live_stream
begin

lemma tcp_read_loop_ok:
  assumes "good w" and "pending w = bs @ rest" and "k + length bs = unat sz" and "unat sz < 2 ^ 31"
    and "dst + unat sz \<le> length m"
  shows "\<exists>w'. tcp_read_loop io sz m dst (int k) w = Some (PTP_RC_OK, the (blit m (dst + k) bs), w') \<and>
    good w' \<and> pending w' = rest"
  using assms
proof (induction "length bs" arbitrary: k bs m w rule: less_induct)
  case less
  have uk: "unat (word_of_int (int k) :: u32) = k"
    using less.prems(3,4) by (simp add: unat_of_nat_u32)
  show ?case
  proof (cases "bs = []")
    case True
    then have "\<not> word_of_int (int k) < sz" using less.prems(3) uk by (simp add: word_less_nat_alt)
    then show ?thesis
      using less.prems True by (subst tcp_read_loop.simps) (simp add: blit_def)
  next
    case False
    let ?n = "sz - word_of_int (int k)"
    have "0 < length bs" using False by simp
    then have "k < unat sz" using less.prems(3) by linarith
    then have lt: "word_of_int (int k) < sz" using uk by (simp add: word_less_nat_alt)
    have n: "unat ?n = length bs"
      using unat_sub [OF order.strict_implies_order [OF lt]] uk less.prems(3) by linarith
    then have "?n \<noteq> 0" using False by (metis length_0_conv unat_0)
    moreover have "dst + k + unat ?n \<le> length m" using n less.prems(3,5) by simp
    moreover have "pending w \<noteq> []" using less.prems(2) False by simp
    ultimately obtain r m1 w1 where rd: "read_func io m (dst + k) ?n w = Some (r, m1, w1)"
      "0 < r" "good w1" using read_live less.prems(1) by blast
    have "0 \<le> r" using rd(2) by simp
    from read_sound [OF all_adm rd(1) this] obtain cs where cs: "int (length cs) = r"
      "length cs \<le> length bs" "blit m (dst + k) cs = Some m1" "pending w = cs @ pending w1"
      using n by auto
    obtain ds where ds: "bs = cs @ ds" "pending w1 = ds @ rest"
      using append_split [of bs rest cs "pending w1"] cs(2,4) less.prems(2) by metis
    have "int_ok (int k + r)" using less.prems(3,4) cs by (simp add: int_ok_def)
    then have unf: "tcp_read_loop io sz m dst (int k) w = tcp_read_loop io sz m1 dst (int (k + length cs)) w1"
      by (subst tcp_read_loop.simps) (use lt rd cs(1) in simp)
    have m1: "length m1 = length m" using read_length [OF rd(1)] .
    have "length ds < length bs" using ds(1) cs(1) rd(2) by auto
    from less.hyps [OF this rd(3) ds(2), of "k + length cs" m1] obtain w' where
      w': "tcp_read_loop io sz m1 dst (int (k + length cs)) w1 =
        Some (PTP_RC_OK, the (blit m1 (dst + (k + length cs)) ds), w')" "good w'" "pending w' = rest"
      using less.prems(3-5) ds(1) m1 by auto
    have fit: "dst + k + length cs + length ds \<le> length m" using less.prems(3,5) ds(1) by simp
    then obtain m2 where m2: "blit m1 (dst + k + length cs) ds = Some m2"
      using blit_exists m1 by metis
    with blit_append [OF cs(3)] have "blit m (dst + k) bs = Some m2" by (simp add: ds(1))
    with w' m2 show ?thesis by (simp add: unf add.assoc)
  qed
qed

lemma tcp_read_data_ok:
  assumes b: "buf_ok (pkt_buf p)" and g: "good (con p)" and i: "input pending p = bs @ rest"
    and n: "length bs = unat sz" "unat sz < 2 ^ 31" and room: "dst + length bs \<le> length m"
  obtains p' where "ptp_tcp_read_data io p sz m dst = Some (PTP_RC_OK, the (blit m dst bs), p')"
    and "buf_ok (pkt_buf p')" and "good (con p')" and "same_params p p'" and "input pending p' = rest"
proof -
  let ?B = "buffered (pkt_buf p)"
  have s: "sint sz = int (unat sz)" using n(2) by (simp add: sint_small)
  have "0 \<le> sint sz" by (simp add: s)
  moreover have "dst + min (nat (sint sz)) (length ?B) \<le> length m" using room n(1) s by simp
  ultimately obtain b1 m1 where
    r1: "ptp_transport_read_from_buffer (pkt_buf p) (sint sz) m dst =
      Some (int (min (unat sz) (length ?B)), b1, m1)"
    and m1: "blit m dst (take (unat sz) ?B) = Some m1"
    and b1: "buf_ok b1" "buffered b1 = drop (unat sz) ?B"
    using read_from_buffer_ok [OF b, of "sint sz" dst m] by (simp add: s) blast
  let ?k = "min (unat sz) (length ?B)"
  have ib: "?B @ pending (con p) = bs @ rest" using i by (simp add: input_def)
  have split: "bs = take (unat sz) ?B @ take (unat sz - length ?B) (pending (con p))"
    "rest = drop (unat sz) ?B @ drop (unat sz - length ?B) (pending (con p))"
    using arg_cong [OF ib, of "take (unat sz)"] arg_cong [OF ib, of "drop (unat sz)"] n(1)
    by simp_all
  let ?ds = "drop ?k bs"
  have ds: "?ds = take (unat sz - length ?B) (pending (con p))"
    by (subst split(1)) simp
  have "pending (con p) = ?ds @ drop (unat sz - length ?B) (pending (con p))" by (simp add: ds)
  moreover have "?k + length ?ds = unat sz" using n(1) by simp
  moreover have "dst + unat sz \<le> length m1" using room n(1) blit_length [OF m1] by simp
  ultimately obtain w' where w': "tcp_read_loop io sz m1 dst (int ?k) (con p) =
      Some (PTP_RC_OK, the (blit m1 (dst + ?k) ?ds), w')" "good w'"
      "pending w' = drop (unat sz - length ?B) (pending (con p))"
    using tcp_read_loop_ok [OF g] n(2) by blast
  have "the (blit m1 (dst + ?k) ?ds) = the (blit m dst bs)"
  proof -
    have "dst + ?k + length ?ds \<le> length m1" using room n(1) blit_length [OF m1] by simp
    then obtain m2 where "blit m1 (dst + length (take (unat sz) ?B)) ?ds = Some m2"
      using blit_exists by (metis length_take min.commute)
    moreover from blit_append [OF m1 this] have "blit m dst bs = Some m2"
      using split(1) ds by simp
    ultimately show ?thesis by (simp add: min.commute)
  qed
  then have "ptp_tcp_read_data io p sz m dst =
      Some (PTP_RC_OK, the (blit m dst bs), p \<lparr> pkt_buf := b1, con := w' \<rparr>)"
    using w'(1) by (simp add: ptp_tcp_read_data_def r1 Let_def)
  then show thesis
    using that b1 w' split(2) by (simp add: input_def)
qed

end

section \<open>Packets of a well-behaved camera\<close>

definition ip_packet :: "u8 \<Rightarrow> u32 \<Rightarrow> u32 \<Rightarrow> bytes \<Rightarrow> bytes" where
  "ip_packet bo len type body = enc32 bo len @ enc32 bo type @ body"

lemma length_ip_packet [simp]: "length (ip_packet bo len type body) = 8 + length body"
  by (simp add: ip_packet_def enc32_def mem32_def)

lemma ip_packet_fields:
  "dtoh32ap bo (ip_packet bo len type body @ t) 0 = Some len"
  "dtoh32ap bo (ip_packet bo len type body @ t) 4 = Some type"
  using c32.get_append [of "[]" 0 bo len] c32.get_append [of "enc32 bo len" 4 bo type]
  by (simp_all add: ip_packet_def enc32_def mem32_def)

context live_stream
begin

lemma tcp_read_control_ok:
  assumes b: "buf_ok (pkt_buf p)" and g: "good (con p)"
    and i: "input pending p = ip_packet (byteorder p) len type body @ rest"
    and fmt: "type \<in> {PTPIP_TYPE_RESP, PTPIP_TYPE_START_DATA, PTPIP_TYPE_INIT_CMD_ACK, PTPIP_TYPE_INIT_FAIL} \<and>
        unat len = 8 + length body \<and> length body \<le> 256 \<or>
      type \<in> {PTPIP_TYPE_DATA, PTPIP_TYPE_END_DATA} \<and> length body = 4"
    and pkt: "length pkt = sizeof_PTPIPContainer"
  obtains p' where "ptp_tcp_read_control io p pkt =
      Some (PTP_RC_OK, ip_packet (byteorder p) len type body @ drop (8 + length body) pkt, p')"
    and "buf_ok (pkt_buf p')" and "good (con p')" and "same_params p p'" and "input pending p' = rest"
proof -
  let ?bo = "byteorder p" and ?h = "ip_packet (byteorder p) len type []"
  have L: "length pkt = 264" using pkt
    by (simp add: sizeof_PTPIPContainer_def PTPIP_HEADER_LEN_def PTPIP_CMD_PAYLOAD_LEN_def)
  have i1: "input pending p = ?h @ (body @ rest)" using i by (simp add: ip_packet_def)
  have "int PTPIP_HEADER_LEN = int (length ?h)" "length ?h \<le> 512" "0 + length ?h \<le> length pkt"
    by (simp_all add: PTPIP_HEADER_LEN_def L)
  from control_read_ok [OF b g i1 this] obtain p1 where
    r1: "ptp_control_read_buffered io p (int PTPIP_HEADER_LEN) pkt 0 = Some (PTP_RC_OK, the (blit pkt 0 ?h), p1)"
    and p1: "buf_ok (pkt_buf p1)" "good (con p1)" "same_params p p1" "input pending p1 = body @ rest" .
  then have r1': "ptp_control_read_buffered io p 8 pkt 0 = Some (PTP_RC_OK, the (blit pkt 0 ?h), p1)"
    by (simp add: PTPIP_HEADER_LEN_def)
  have bo: "byteorder p1 = ?bo" using same_params_fields(1) [OF p1(3)] .
  let ?pkt1 = "the (blit pkt 0 ?h)"
  have pkt1: "?pkt1 = ?h @ drop 8 pkt" by (simp add: the_blit L)
  note f = ip_packet_fields [of ?bo len type "[]" "drop 8 pkt", folded pkt1]
  have unf: "ptp_tcp_read_control io p pkt =
     (if type = PTPIP_TYPE_INIT_CMD_ACK \<or> type = PTPIP_TYPE_INIT_FAIL \<or> type = PTPIP_TYPE_RESP
         \<or> type = PTPIP_TYPE_START_DATA then
        (if len > 8 then ptp_control_read_buffered io p1 (sint (len - 8)) ?pkt1 8
         else Some (PTP_RC_OK, ?pkt1, p1))
      else if type = PTPIP_TYPE_DATA \<or> type = PTPIP_TYPE_END_DATA
      then ptp_control_read_buffered io p1 4 ?pkt1 8
      else Some (PTP_ERROR_BADPARAM, ?pkt1, p1))"
    by (simp add: ptp_tcp_read_control_def r1' bo f PTPIP_HEADER_LEN_def)
  have fin: "the (blit ?pkt1 8 body) = ip_packet ?bo len type body @ drop (8 + length body) pkt"
    if "length body \<le> 256"
    using that by (simp add: pkt1 the_blit L) (simp add: ip_packet_def enc32_def mem32_def add.commute)
  show thesis
  proof (cases "type \<in> {PTPIP_TYPE_DATA, PTPIP_TYPE_END_DATA}")
    case True
    with fmt have "length body = 4" by auto
    then have "4 = int (length body)" "length body \<le> 512" "8 + length body \<le> length ?pkt1"
      by (simp_all add: pkt1 L)
    from control_read_ok [OF p1(1,2,4) this] obtain p2 where
      "ptp_control_read_buffered io p1 4 ?pkt1 8 = Some (PTP_RC_OK, the (blit ?pkt1 8 body), p2)"
      "buf_ok (pkt_buf p2)" "good (con p2)" "same_params p1 p2" "input pending p2 = rest" .
    moreover have "ptp_tcp_read_control io p pkt = ptp_control_read_buffered io p1 4 ?pkt1 8"
      using True by (auto simp only: unf) simp_all
    ultimately show thesis
      using that [of p2] same_params_trans [OF p1(3)] fin \<open>length body = 4\<close> by simp
  next
    case False
    with fmt have t: "type = PTPIP_TYPE_INIT_CMD_ACK \<or> type = PTPIP_TYPE_INIT_FAIL \<or>
        type = PTPIP_TYPE_RESP \<or> type = PTPIP_TYPE_START_DATA"
      and len: "unat len = 8 + length body" "length body \<le> 256" by auto
    have "8 \<le> len" using len by (simp add: word_le_nat_alt)
    then have "unat (len - 8) = length body" using len by (simp add: unat_sub)
    then have s: "sint (len - 8) = int (length body)"
      using len by (simp add: sint_small)
    show thesis
    proof (cases "body = []")
      case True
      with len have "unat len = unat (8 :: u32)" by simp
      then have "\<not> len > 8" by (simp add: word_less_nat_alt)
      then have "ptp_tcp_read_control io p pkt = Some (PTP_RC_OK, ?pkt1, p1)"
        unfolding unf using t by (simp only: if_True if_False)
      then show thesis using that [of p1] p1 by (simp add: True pkt1)
    next
      case ne: False
      then have "0 < length body" by simp
      then have "8 < len" using len by (simp add: word_less_nat_alt)
      then have eq: "ptp_tcp_read_control io p pkt = ptp_control_read_buffered io p1 (sint (len - 8)) ?pkt1 8"
        unfolding unf using t by (simp only: if_True)
      have "length body \<le> 512" "8 + length body \<le> length ?pkt1"
        using len by (simp_all add: pkt1 L)
      from control_read_ok [OF p1(1,2,4) s this] obtain p2 where
        "ptp_control_read_buffered io p1 (sint (len - 8)) ?pkt1 8 =
          Some (PTP_RC_OK, the (blit ?pkt1 8 body), p2)"
        "buf_ok (pkt_buf p2)" "good (con p2)" "same_params p1 p2" "input pending p2 = rest" .
      then show thesis
        using that [of p2] same_params_trans [OF p1(3)] fin [OF len(2)] by (simp only: eq)
    qed
  qed
qed

end

section \<open>A data phase and a response as a camera sends them\<close>

definition ip_start :: "u8 \<Rightarrow> u32 \<Rightarrow> nat \<Rightarrow> bytes" where
  "ip_start bo tid n = ip_packet bo 20 PTPIP_TYPE_START_DATA
     (enc32 bo tid @ mem32 (ucast (of_nat n :: u64)) @ mem32 (ucast (drop_bit 32 (of_nat n :: u64))))"

definition ip_data :: "u8 \<Rightarrow> u32 \<Rightarrow> u32 \<Rightarrow> bytes \<Rightarrow> bytes" where
  "ip_data bo tid type d = ip_packet bo (of_nat (12 + length d)) type (enc32 bo tid @ d)"

text \<open>The payloads \<open>ds\<close> in \<open>DATA\<close> packets, \<open>e\<close> in the \<open>END_DATA\<close> packet (it may be empty).\<close>

definition ip_payload :: "u8 \<Rightarrow> u32 \<Rightarrow> bytes list \<Rightarrow> bytes \<Rightarrow> bytes" where
  "ip_payload bo tid ds e =
     concat (map (ip_data bo tid PTPIP_TYPE_DATA) ds) @ ip_data bo tid PTPIP_TYPE_END_DATA e"

definition ip_response :: "u8 \<Rightarrow> u16 \<Rightarrow> u32 \<Rightarrow> u32 list \<Rightarrow> bytes" where
  "ip_response bo code tid ps =
     ip_packet bo (of_nat (14 + 4 * length ps)) PTPIP_TYPE_RESP
       (enc16 bo code @ enc32 bo tid @ concat (map (enc32 bo) ps))"

lemma ucast_u32_u64: "n < 2 ^ 32 \<Longrightarrow> (ucast (of_nat n :: u32) :: u64) = of_nat n"
  by (simp add: unsigned_of_nat take_bit_nat_eq_self)

context live_stream
begin

lemma tcp_data_header_ok:
  assumes b: "buf_ok (pkt_buf p)" and g: "good (con p)"
    and i: "input pending p = ip_data (byteorder p) tid type d @ rest"
    and t: "type \<in> {PTPIP_TYPE_DATA, PTPIP_TYPE_END_DATA}" and d: "length d < 2 ^ 31"
    and pkt: "length pkt = sizeof_PTPIPContainer"
  obtains p' pkt' where "tcp_data_header io p pkt =
      Some (PTP_RC_OK, type = PTPIP_TYPE_END_DATA, of_nat (length d), pkt', p')"
    and "length pkt' = sizeof_PTPIPContainer"
    and "buf_ok (pkt_buf p')" and "good (con p')" and "same_params p p'" and "input pending p' = d @ rest"
proof -
  let ?bo = "byteorder p" and ?len = "of_nat (12 + length d) :: u32"
  have i': "input pending p = ip_packet ?bo ?len type (enc32 ?bo tid) @ (d @ rest)"
    using i by (simp add: ip_data_def ip_packet_def)
  from tcp_read_control_ok [OF b g i' _ pkt] t obtain p' where
    r: "ptp_tcp_read_control io p pkt =
      Some (PTP_RC_OK, ip_packet ?bo ?len type (enc32 ?bo tid) @ drop 12 pkt, p')"
    and p': "buf_ok (pkt_buf p')" "good (con p')" "same_params p p'" "input pending p' = d @ rest"
    by (auto simp: enc32_def mem32_def)
  let ?pkt = "ip_packet ?bo ?len type (enc32 ?bo tid) @ drop 12 pkt"
  have "?len - 12 = of_nat (length d)" by simp
  moreover have "length ?pkt = sizeof_PTPIPContainer"
    using pkt by (simp add: sizeof_PTPIPContainer_def PTPIP_HEADER_LEN_def PTPIP_CMD_PAYLOAD_LEN_def enc32_def mem32_def)
  moreover have "byteorder p' = ?bo" using same_params_fields(1) [OF p'(3)] .
  ultimately show thesis
    using that p' t by (auto simp: tcp_data_header_def r ip_packet_fields simp del: of_nat_add)
qed

lemma tcp_memory_loop_ok:
  assumes "buf_ok (pkt_buf p)" and "good (con p)" and "byteorder p = bo"
    and "input pending p = ip_payload bo tid ds e @ rest"
    and "length pkt = sizeof_PTPIPContainer"
    and "list_all (\<lambda>d. d \<noteq> [] \<and> length d < 2 ^ 31) ds" and "length e < 2 ^ 31"
    and "k + length (concat ds @ e) = unat total_len" and "off + length (concat ds @ e) \<le> length m"
  shows "\<exists>got_end pkt' off' tr p'.
    tcp_memory_loop io total_len False pkt (m, off, of_nat k, p) =
      Some (PTP_RC_OK, got_end, pkt', the (blit m off (concat ds @ e)), off', tr, p') \<and>
    length pkt' = sizeof_PTPIPContainer \<and> buf_ok (pkt_buf p') \<and> good (con p') \<and> same_params p p' \<and>
    input pending p' = (if got_end then rest else ip_data bo tid PTPIP_TYPE_END_DATA [] @ rest)"
  using assms
proof (induction ds arbitrary: p pkt k off m)
  case Nil
  let ?E = "ip_data bo tid PTPIP_TYPE_END_DATA e"
  have i: "input pending p = ip_data (byteorder p) tid PTPIP_TYPE_END_DATA e @ rest"
    using Nil.prems(3,4) by (simp add: ip_payload_def)
  have "PTPIP_TYPE_END_DATA \<in> {PTPIP_TYPE_DATA, PTPIP_TYPE_END_DATA}" by simp
  from tcp_data_header_ok [OF Nil.prems(1,2) i this Nil.prems(7,5)] obtain p1 pkt1 where
    h: "tcp_data_header io p pkt =
      Some (PTP_RC_OK, PTPIP_TYPE_END_DATA = PTPIP_TYPE_END_DATA, of_nat (length e), pkt1, p1)"
    and p1: "length pkt1 = sizeof_PTPIPContainer" "buf_ok (pkt_buf p1)" "good (con p1)"
      "same_params p p1" "input pending p1 = e @ rest" .
  have u: "length e = unat (of_nat (length e) :: u32)" "unat (of_nat (length e) :: u32) < 2 ^ 31"
    using Nil.prems(7) by (simp_all add: unat_of_nat_u32)
  have "off + length e \<le> length m" using Nil.prems(9) by simp
  from tcp_read_data_ok [OF p1(2,3,5) u this] obtain p2 where
    d: "ptp_tcp_read_data io p1 (of_nat (length e)) m off = Some (PTP_RC_OK, the (blit m off e), p2)"
    and p2: "buf_ok (pkt_buf p2)" "good (con p2)" "same_params p1 p2" "input pending p2 = rest" .
  have "of_nat k + ucast (of_nat (length e) :: u32) = total_len"
    using Nil.prems(7,8) by (simp add: ucast_u32_u64 flip: of_nat_add)
  then have "\<not> of_nat k + ucast (of_nat (length e) :: u32) < total_len" by simp
  then show ?case
    using p1 p2 same_params_trans [OF p1(4) p2(3)] u
    by (subst tcp_memory_loop.simps) (simp add: h d Let_def exI [of _ True])
next
  case (Cons d ds)
  let ?r = "concat ds @ e" and ?tail = "ip_payload bo tid ds e @ rest"
  have d: "d \<noteq> []" "length d < 2 ^ 31" and ds: "list_all (\<lambda>d. d \<noteq> [] \<and> length d < 2 ^ 31) ds"
    using Cons.prems(6) by simp_all
  have i: "input pending p = ip_data (byteorder p) tid PTPIP_TYPE_DATA d @ ?tail"
    using Cons.prems(3,4) by (simp add: ip_payload_def)
  have "PTPIP_TYPE_DATA \<in> {PTPIP_TYPE_DATA, PTPIP_TYPE_END_DATA}" by simp
  from tcp_data_header_ok [OF Cons.prems(1,2) i this d(2) Cons.prems(5)] obtain p1 pkt1 where
    h: "tcp_data_header io p pkt =
      Some (PTP_RC_OK, PTPIP_TYPE_DATA = PTPIP_TYPE_END_DATA, of_nat (length d), pkt1, p1)"
    and p1: "length pkt1 = sizeof_PTPIPContainer" "buf_ok (pkt_buf p1)" "good (con p1)"
      "same_params p p1" "input pending p1 = d @ ?tail" .
  have u: "length d = unat (of_nat (length d) :: u32)" "unat (of_nat (length d) :: u32) < 2 ^ 31"
    using d(2) by (simp_all add: unat_of_nat_u32)
  have "off + length d \<le> length m" using Cons.prems(9) by simp
  from tcp_read_data_ok [OF p1(2,3,5) u this] obtain p2 where
    rd: "ptp_tcp_read_data io p1 (of_nat (length d)) m off = Some (PTP_RC_OK, the (blit m off d), p2)"
    and p2: "buf_ok (pkt_buf p2)" "good (con p2)" "same_params p1 p2" "input pending p2 = ?tail" .
  let ?m = "the (blit m off d)"
  have bm: "blit m off d = Some ?m" using \<open>off + length d \<le> length m\<close> by (simp add: blit_def)
  have lm: "length ?m = length m" using blit_length [OF bm] .
  have sp: "same_params p p2" using same_params_trans [OF p1(4) p2(3)] .
  have bo: "byteorder p2 = bo" using same_params_fields(1) [OF sp] Cons.prems(3) by simp
  have tr: "of_nat k + ucast (of_nat (length d) :: u32) = (of_nat (k + length d) :: u64)"
    using d(2) by (simp add: ucast_u32_u64)
  have k: "unat (of_nat (k + length d) :: u64) = k + length d"
  proof -
    have "k + length d < 2 ^ 64"
      using Cons.prems(8) unsigned_less [of total_len, where ?'a = nat] by simp
    then show ?thesis by (simp only: unat_of_nat take_bit_nat_eq_self len_num1 len_bit0 len_bit1) simp
  qed
  have unf: "tcp_memory_loop io total_len False pkt (m, off, of_nat k, p) =
      (if of_nat (k + length d) < total_len
       then tcp_memory_loop io total_len False pkt1 (?m, off + length d, of_nat (k + length d), p2)
       else Some (PTP_RC_OK, False, pkt1, ?m, off + length d, of_nat (k + length d), p2))"
    by (subst tcp_memory_loop.simps)
      (simp add: h rd Let_def u(1) [symmetric] tr [symmetric] del: of_nat_add)
  show ?case
  proof (cases "?r = []")
    case True
    with ds have none: "ds = []" "e = []" by (cases ds; simp)+
    then have "\<not> of_nat (k + length d) < total_len"
      using Cons.prems(8) k by (simp add: word_less_nat_alt del: of_nat_add)
    then show ?thesis
      using p1(1) p2 sp by (simp add: unf none ip_payload_def exI [of _ False] del: of_nat_add)
  next
    case False
    then have "0 < length ?r" by simp
    moreover have total: "k + length d + length ?r = unat total_len" using Cons.prems(8) by simp
    ultimately have "k + length d < unat total_len" by linarith
    then have lt: "of_nat (k + length d) < total_len" by (simp only: word_less_nat_alt k)
    have room: "off + length d + length ?r \<le> length ?m"
      using Cons.prems(9) by (simp add: lm)
    from Cons.IH [OF p2(1,2) bo p2(4) p1(1) ds Cons.prems(7) total room] obtain ge pkt2 off2 tr2 p3 where
      ih: "tcp_memory_loop io total_len False pkt1 (?m, off + length d, of_nat (k + length d), p2) =
        Some (PTP_RC_OK, ge, pkt2, the (blit ?m (off + length d) ?r), off2, tr2, p3)"
      and p3: "length pkt2 = sizeof_PTPIPContainer" "buf_ok (pkt_buf p3)" "good (con p3)" "same_params p2 p3"
        "input pending p3 = (if ge then rest else ip_data bo tid PTPIP_TYPE_END_DATA [] @ rest)"
      by blast
    have "the (blit ?m (off + length d) ?r) = the (blit m off (concat (d # ds) @ e))"
    proof -
      obtain m2 where m2: "blit ?m (off + length d) ?r = Some m2"
        using blit_exists room by blast
      from blit_append [OF bm this] show ?thesis by (simp add: m2)
    qed
    with ih p3 lt same_params_trans [OF sp p3(4)] show ?thesis
      by (auto simp: unf simp del: of_nat_add)
  qed
qed

end


lemma ldh64_at:
  "length pre = a \<Longrightarrow> ldh64 (pre @ mem32 (ucast v) @ mem32 (ucast (drop_bit 32 v)) @ post) a = Some v"
proof -
  assume "length pre = a"
  moreover have "push_bit 32 (ucast (ucast (drop_bit 32 v) :: u32)) OR ucast (ucast v :: u32) = v"
    by (rule bit_word_eqI) (auto simp: bit_simps)
  moreover have "length (mem32 x) = 4" for x by (simp add: mem32_def)
  ultimately show ?thesis by (simp add: ldh64_def ldn_def)
qed

context live_stream
begin

lemma tcp_read_end_ok:
  assumes "buf_ok (pkt_buf p)" and "good (con p)"
    and "input pending p = (if got_end then rest else ip_data (byteorder p) tid PTPIP_TYPE_END_DATA [] @ rest)"
    and "length pkt = sizeof_PTPIPContainer"
  obtains p' where "tcp_read_end io p got_end pkt = Some (PTP_RC_OK, p')"
    and "buf_ok (pkt_buf p')" and "good (con p')" and "same_params p p'" and "input pending p' = rest"
proof (cases got_end)
  case True
  then show thesis using assms that [of p] by (simp add: tcp_read_end_def)
next
  case False
  then have i: "input pending p =
      ip_packet (byteorder p) 12 PTPIP_TYPE_END_DATA (enc32 (byteorder p) tid) @ rest"
    using assms(3) by (simp add: ip_data_def)
  have l4: "length (enc32 (byteorder p) tid) = 4" by (simp add: enc32_def mem32_def)
  from tcp_read_control_ok [OF assms(1,2) i _ assms(4)] obtain p' where
    "ptp_tcp_read_control io p pkt = Some (PTP_RC_OK,
       ip_packet (byteorder p) 12 PTPIP_TYPE_END_DATA (enc32 (byteorder p) tid) @ drop 12 pkt, p')"
    and p': "buf_ok (pkt_buf p')" "good (con p')" "same_params p p'" "input pending p' = rest"
    by (auto simp: l4)
  then show thesis
    using False that p' same_params_fields(1) [OF p'(3)]
    by (simp add: tcp_read_end_def ip_packet_fields)
qed

text \<open>The data phase reassembled in memory.\<close>

lemma tcp_getdata_ok:
  assumes b: "buf_ok (pkt_buf p)" and g: "good (con p)" and bo: "byteorder p = bo"
    and i: "input pending p = ip_start bo tid (length (concat ds @ e)) @ ip_payload bo tid ds e @ rest"
    and ds: "list_all (\<lambda>d. d \<noteq> [] \<and> length d < 2 ^ 31) ds" and e: "length e < 2 ^ 31"
    and small: "length (concat ds @ e) < 2 ^ 64"
    and st: "length (stack io sizeof_PTPIPContainer) = sizeof_PTPIPContainer"
    and gd: "handler gd = None"
    and mem: "(case ret_data gd of None \<Rightarrow> malloc io (length (concat ds @ e)) | Some m \<Rightarrow> Some m) = Some m"
      "length (concat ds @ e) \<le> length m"
  obtains p' where "ptp_tcp_getdata io p ptp gd =
      Some (PTP_RC_OK, gd \<lparr> ret_data := Some (the (blit m 0 (concat ds @ e))),
        total_size := of_nat (length (concat ds @ e)) \<rparr>, p')"
    and "buf_ok (pkt_buf p')" and "good (con p')" and "same_params p p'" and "input pending p' = rest"
proof -
  let ?n = "length (concat ds @ e)" and ?stk = "stack io sizeof_PTPIPContainer"
  let ?v = "of_nat ?n :: u64"
  let ?body = "enc32 bo tid @ mem32 (ucast ?v) @ mem32 (ucast (drop_bit 32 ?v))"
  have lb: "length ?body = 12" by (simp add: enc32_def mem32_def)
  have i': "input pending p = ip_packet (byteorder p) 20 PTPIP_TYPE_START_DATA ?body @ (ip_payload bo tid ds e @ rest)"
    using i by (simp add: ip_start_def bo)
  have "PTPIP_TYPE_START_DATA \<in> {PTPIP_TYPE_RESP, PTPIP_TYPE_START_DATA, PTPIP_TYPE_INIT_CMD_ACK, PTPIP_TYPE_INIT_FAIL} \<and>
      unat (20 :: u32) = 8 + length ?body \<and> length ?body \<le> 256" using lb by simp
  from tcp_read_control_ok [OF b g i' disjI1 [OF this] st] obtain p1 where
    c: "ptp_tcp_read_control io p ?stk = Some (PTP_RC_OK,
      ip_packet (byteorder p) 20 PTPIP_TYPE_START_DATA ?body @ drop (8 + length ?body) ?stk, p1)"
    and p1: "buf_ok (pkt_buf p1)" "good (con p1)" "same_params p p1"
      "input pending p1 = ip_payload bo tid ds e @ rest" .
  let ?pkt = "ip_packet (byteorder p) 20 PTPIP_TYPE_START_DATA ?body @ drop (8 + length ?body) ?stk"
  have bo1: "byteorder p1 = bo" using same_params_fields(1) [OF p1(3)] bo by simp
  have lp: "length ?pkt = sizeof_PTPIPContainer"
    using st lb by (simp add: sizeof_PTPIPContainer_def PTPIP_HEADER_LEN_def PTPIP_CMD_PAYLOAD_LEN_def)
  have tl: "ldh64 ?pkt 12 = Some ?v"
  proof -
    have "length (enc32 bo 20 @ enc32 bo PTPIP_TYPE_START_DATA @ enc32 bo tid) = 12"
      by (simp add: enc32_def mem32_def)
    from ldh64_at [OF this, of ?v "drop (8 + length ?body) ?stk"] show ?thesis
      by (simp only: ip_packet_def bo append_assoc)
  qed
  have un: "unat ?v = ?n"
    using small by (simp only: unat_of_nat take_bit_nat_eq_self len_num1 len_bit0 len_bit1) (simp add: take_bit_nat_eq_self)
  have "0 + ?n = unat ?v" "0 + ?n \<le> length m" using un mem(2) by simp_all
  from tcp_memory_loop_ok [OF p1(1,2) bo1 p1(4) lp ds e this] obtain ge pkt2 off2 tr2 p2 where
    l: "tcp_memory_loop io ?v False ?pkt (m, 0, of_nat 0, p1) =
      Some (PTP_RC_OK, ge, pkt2, the (blit m 0 (concat ds @ e)), off2, tr2, p2)"
    and p2: "length pkt2 = sizeof_PTPIPContainer" "buf_ok (pkt_buf p2)" "good (con p2)" "same_params p1 p2"
      "input pending p2 = (if ge then rest else ip_data bo tid PTPIP_TYPE_END_DATA [] @ rest)" by blast
  have "byteorder p2 = bo" using same_params_fields(1) [OF p2(4)] bo1 by simp
  with p2(5) have "input pending p2 = (if ge then rest else ip_data (byteorder p2) tid PTPIP_TYPE_END_DATA [] @ rest)"
    by simp
  from tcp_read_end_ok [OF p2(2,3) this p2(1)] obtain p3 where
    r: "tcp_read_end io p2 ge pkt2 = Some (PTP_RC_OK, p3)"
    and p3: "buf_ok (pkt_buf p3)" "good (con p3)" "same_params p2 p3" "input pending p3 = rest" .
  have l': "tcp_memory_loop io ?v False ?pkt (m, 0, 0, p1) =
      Some (PTP_RC_OK, ge, pkt2, the (blit m 0 (concat ds @ e)), off2, tr2, p2)" using l by simp
  have t: "dtoh32ap (byteorder p1) ?pkt 4 = Some PTPIP_TYPE_START_DATA"
    unfolding bo1 bo [symmetric] by (rule ip_packet_fields)
  have "ptp_tcp_getdata io p ptp gd =
      Some (PTP_RC_OK, gd \<lparr> ret_data := Some (the (blit m 0 (concat ds @ e))), total_size := ?v \<rparr>, p3)"
    unfolding ptp_tcp_getdata_def c
    by (simp only: Option.bind.bind_lunit prod.case simp_thms if_False t tl gd option.case un mem(1) l' r Let_def)
  with that p3 same_params_trans [OF same_params_trans [OF p1(3) p2(4)] p3(3)] show thesis by blast
qed

end

text \<open>The container a response of code \<open>code\<close> with parameters \<open>ps\<close> is unpacked to: missing
  parameters are zero.\<close>

definition param :: "u32 list \<Rightarrow> nat \<Rightarrow> u32" where
  "param ps i = (if i < length ps then ps ! i else 0)"

definition response_container :: "u32 \<Rightarrow> u16 \<Rightarrow> u32 \<Rightarrow> u32 list \<Rightarrow> PTPContainer" where
  "response_container session code tid ps =
     \<lparr> Code = code, SessionID = session, Transaction_ID = tid, Param1 = param ps 0,
       Param2 = param ps 1, Param3 = param ps 2, Param4 = param ps 3, Param5 = param ps 4,
       Nparam = of_nat (length ps) \<rparr>"

lemma enc32_0: "enc32 bo 0 = [0, 0, 0, 0]"
  by (simp add: enc32_def mem32_def htod32p_def endian_defs bswap_32_def host32_def)

lemma params_padded:
  assumes "length pre = a" and "length ps \<le> 5" and "i < 5" and "20 - 4 * length ps \<le> n"
  shows "dtoh32ap bo (pre @ concat (map (enc32 bo) ps) @ replicate n 0) (a + 4 * i) = Some (param ps i)"
proof -
  let ?qs = "ps @ replicate (5 - length ps) 0"
  have four: "replicate 4 0 = enc32 bo 0" by (simp add: enc32_0 numeral_eq_Suc)
  have z: "concat (replicate k (enc32 bo 0)) = replicate (4 * k) 0" for k
    by (induction k) (simp_all add: enc32_0 replicate_add numeral_eq_Suc)
  have "n = 4 * (5 - length ps) + (n - (20 - 4 * length ps))" using assms(2,4) by simp
  then have "replicate n (0 :: byte) = replicate (4 * (5 - length ps)) 0 @ replicate (n - (20 - 4 * length ps)) 0"
    by (metis replicate_add)
  then have "concat (map (enc32 bo) ps) @ replicate n 0 =
      concat (map (enc32 bo) ?qs) @ replicate (n - (20 - 4 * length ps)) 0"
    by (simp add: z)
  moreover have "i < length ?qs" using assms(2,3) by simp
  moreover have "?qs ! i = param ps i" using assms(2,3) by (simp add: param_def nth_append)
  ultimately show ?thesis
    using c32.get_concat [of i ?qs bo pre "replicate (n - (20 - 4 * length ps)) 0"] assms(1) by simp
qed

context live_stream
begin

lemma tcp_getresp_ok:
  assumes b: "buf_ok (pkt_buf p)" and g: "good (con p)" and bo: "byteorder p = PTP_DL_LE"
    and i: "input pending p = ip_response PTP_DL_LE code tid ps @ rest" and ps: "length ps \<le> 5"
  obtains p' where "ptp_tcp_getresp io p resp =
      Some (if code \<noteq> Code resp then code else PTP_RC_OK, response_container (session_id p) code tid ps, p')"
    and "buf_ok (pkt_buf p')" and "good (con p')" and "same_params p p'" and "input pending p' = rest"
proof -
  let ?bo = PTP_DL_LE and ?len = "of_nat (14 + 4 * length ps) :: u32"
  let ?ps = "concat (map (enc32 ?bo) ps)"
  let ?body = "enc16 ?bo code @ enc32 ?bo tid @ ?ps"
  have l: "length (enc16 ?bo x) = 2" "length (enc32 ?bo y) = 4" for x y
    by (simp_all add: enc16_def mem16_def enc32_def mem32_def)
  have lps: "length ?ps = 4 * length ps" by (simp add: length_concat o_def l sum_list_triv)
  have lb: "length ?body = 6 + 4 * length ps" by (simp add: l lps)
  have ulen: "unat ?len = 14 + 4 * length ps" using ps by (subst unat_of_nat_u32) simp_all
  have i': "input pending p = ip_packet (byteorder p) ?len PTPIP_TYPE_RESP ?body @ rest"
    using i by (simp add: ip_response_def bo)
  have "PTPIP_TYPE_RESP \<in> {PTPIP_TYPE_RESP, PTPIP_TYPE_START_DATA, PTPIP_TYPE_INIT_CMD_ACK, PTPIP_TYPE_INIT_FAIL} \<and>
      unat ?len = 8 + length ?body \<and> length ?body \<le> 256" using lb ulen ps by simp
  from tcp_read_control_ok [OF b g i' disjI1 [OF this], of "replicate sizeof_PTPIPContainer 0"] obtain p1 where
    c: "ptp_tcp_read_control io p (replicate sizeof_PTPIPContainer 0) = Some (PTP_RC_OK,
      ip_packet (byteorder p) ?len PTPIP_TYPE_RESP ?body @ drop (8 + length ?body) (replicate sizeof_PTPIPContainer 0), p1)"
    and p1: "buf_ok (pkt_buf p1)" "good (con p1)" "same_params p p1" "input pending p1 = rest"
    by auto
  have bo1: "byteorder p1 = ?bo" and sid: "session_id p1 = session_id p"
    using same_params_fields [OF p1(3)] bo by simp_all
  let ?h = "enc32 ?bo ?len @ enc32 ?bo PTPIP_TYPE_RESP @ enc16 ?bo code @ enc32 ?bo tid"
  define z where "z = sizeof_PTPIPContainer - (8 + length ?body)"
  have z: "20 - 4 * length ps \<le> z" using ps unfolding z_def lb
    by (simp add: sizeof_PTPIPContainer_def PTPIP_HEADER_LEN_def PTPIP_CMD_PAYLOAD_LEN_def)
  define pkt where "pkt = ?h @ ?ps @ replicate z 0"
  have pkt: "ip_packet (byteorder p) ?len PTPIP_TYPE_RESP ?body @ drop (8 + length ?body) (replicate sizeof_PTPIPContainer 0) = pkt"
    by (simp add: pkt_def z_def ip_packet_def bo)
  have h: "length ?h = 14" by (simp add: l)
  note par = params_padded [OF h ps _ z, of _ ?bo, folded pkt_def]
  have f: "dtoh32ap ?bo pkt 0 = Some ?len" "dtoh16ap ?bo pkt 8 = Some code" "dtoh32ap ?bo pkt 10 = Some tid"
    using c32.get_append [of "[]" 0 ?bo ?len] c16.get_append [of "enc32 ?bo ?len @ enc32 ?bo PTPIP_TYPE_RESP" 8 ?bo code]
      c32.get_append [of "enc32 ?bo ?len @ enc32 ?bo PTPIP_TYPE_RESP @ enc16 ?bo code" 10 ?bo tid]
    by (simp_all add: pkt_def l)
  have "enc32 ?bo PTPIP_TYPE_RESP = mem16 7 @ mem16 0"
    by (simp add: enc32_def mem32_def mem16_def htod32p_def endian_defs)
  then have "ldh16 pkt 4 = Some 7"
    by (simp add: ldh16_def ldn_def pkt_def l mem16_def host16_def)
  have np: "ucast ((?len - 14) div 4) = (of_nat (length ps) :: u8)"
  proof -
    have "length ps = 5 \<or> length ps = 4 \<or> length ps = 3 \<or> length ps = 2 \<or> length ps = 1 \<or> length ps = 0"
      using ps by arith
    then show ?thesis by (elim disjE) simp_all
  qed
  have "ptp_tcp_getresp io p resp =
      Some (if code \<noteq> Code resp then code else PTP_RC_OK, response_container (session_id p) code tid ps, p1)"
    unfolding ptp_tcp_getresp_def c Option.bind.bind_lunit prod.case pkt
    using par [of 0] par [of 1] par [of 2] par [of 3] par [of 4] np
    by (simp add: bo1 sid f \<open>ldh16 pkt 4 = Some 7\<close> response_container_def dtoh16p_def endian_defs
        del: of_nat_add of_nat_mult)
  with that p1 show thesis by blast
qed

end

section \<open>What is sent\<close>

definition container_params :: "PTPContainer \<Rightarrow> u32 list" where
  "container_params ptp = [Param1 ptp, Param2 ptp, Param3 ptp, Param4 ptp, Param5 ptp]"

definition ip_request :: "u8 \<Rightarrow> PTPContainer \<Rightarrow> bytes" where
  "ip_request bo ptp =
     (let n = unat (Nparam ptp) in
      ip_packet bo (of_nat (18 + 4 * n)) PTPIP_TYPE_REQ
        ([0, 0, 0, 0] @ enc16 bo (Code ptp) @ enc32 bo (Transaction_ID ptp) @
         concat (map (enc32 bo) (take n (container_params ptp)))))"

lemma length_encs [simp]: "length (enc16 bo v) = 2" "length (enc32 bo w) = 4"
  by (simp_all add: enc16_def mem16_def enc32_def mem32_def)

lemma tcp_sendreq_eq:
  assumes "unat (Nparam ptp) \<le> 5"
  shows "ptp_tcp_sendreq io p ptp = Some (write_ret io p (ip_request (byteorder p) ptp))"
proof -
  let ?bo = "byteorder p" and ?n = "unat (Nparam ptp)"
  let ?len = "word_of_int (38 - 4 * (5 - int ?n)) :: u32"
  have len: "?len = of_nat (18 + 4 * ?n)" by simp
  have ul: "unat (of_nat (18 + 4 * ?n) :: u32) = 18 + 4 * ?n"
    using assms by (subst unat_of_nat_u32) simp_all
  let ?w = "enc32 ?bo (of_nat (18 + 4 * ?n)) @ enc32 ?bo PTPIP_TYPE_REQ @ [0, 0, 0, 0] @
      enc16 ?bo (Code ptp) @ enc32 ?bo (Transaction_ID ptp) @ enc32 ?bo (Param1 ptp) @
      enc32 ?bo (Param2 ptp) @ enc32 ?bo (Param3 ptp) @ enc32 ?bo (Param4 ptp) @ enc32 ?bo (Param5 ptp)"
  have "replicate 4 (0 :: byte) = [0, 0, 0, 0]" by (simp add: numeral_eq_Suc)
  then have s: "ptp_tcp_sendreq io p ptp =
      do { bs \<leftarrow> ldn (?w @ replicate 226 0) 0 (18 + 4 * ?n); Some (write_ret io p bs) }"
    unfolding ptp_tcp_sendreq_def Let_def len ul
    by (simp add: sizeof_PTPIPContainer_def PTPIP_HEADER_LEN_def PTPIP_CMD_PAYLOAD_LEN_def
        c32.put_in c16.put_in del: of_nat_add of_nat_mult)
  have "ldn (?w @ replicate 226 0) 0 (18 + 4 * ?n) = Some (ip_request ?bo ptp)"
  proof -
    have "?n = 5 \<or> ?n = 4 \<or> ?n = 3 \<or> ?n = 2 \<or> ?n = 1 \<or> ?n = 0" using assms by arith
    then show ?thesis
      by (elim disjE) (simp_all add: ip_request_def ip_packet_def container_params_def ldn_def Let_def)
  qed
  then show ?thesis by (simp only: s Option.bind.bind_lunit)
qed

text \<open>The four writes of a data phase, and their results one after the other: the result of the
  last one is the result of all.\<close>

definition ip_data_writes :: "u8 \<Rightarrow> PTPContainer \<Rightarrow> bytes \<Rightarrow> bytes list" where
  "ip_data_writes bo ptp data =
     [ip_start bo (Transaction_ID ptp) (length data),
      ip_packet bo (of_nat (12 + length data)) PTPIP_TYPE_DATA [0, 0, 0, 0],
      data,
      mem32 12 @ enc32 bo PTPIP_TYPE_END_DATA @ enc32 bo (Transaction_ID ptp)]"

definition write_all :: "'w ptp_io \<Rightarrow> 'w PTPParams \<Rightarrow> bytes list \<Rightarrow> u16 \<times> 'w PTPParams" where
  "write_all io p ws = foldl (\<lambda>(ret, p) bs. write_ret io p bs) (PTP_RC_OK, p) ws"

lemma write_ret_params: "write_ret io p bs = (r, p') \<Longrightarrow> byteorder p' = byteorder p"
  by (auto simp: write_ret_def split: prod.splits)

lemma tcp_senddata_eq:
  assumes "unat sz \<le> length data"
  shows "ptp_tcp_senddata io p ptp data sz =
    Some (write_all io p (ip_data_writes (byteorder p) ptp (take (unat sz) data)))"
proof -
  let ?bo = "byteorder p" and ?d = "take (unat sz) data"
  let ?z = "\<lambda>n. replicate n (0 :: byte)"
  have four: "?z 4 = [0, 0, 0, 0]" by (simp add: numeral_eq_Suc)
  have sz: "of_nat (length ?d) = sz" "(of_nat (length ?d) :: u64) = ucast sz"
    using assms by (simp_all add: min_absorb2 ucast_u32_u64 [symmetric])
  have "length ?d = unat sz" using assms by simp
  then have s1: "of_nat (12 + length ?d) = 12 + sz" by (simp only: of_nat_add) simp
  have d: "ldn data 0 (unat sz) = Some ?d" using assms by (simp add: ldn_def)
  have p1: "do { pkt \<leftarrow> htod32ap ?bo (?z 264) 0 20; pkt \<leftarrow> htod32ap ?bo pkt 4 PTPIP_TYPE_START_DATA;
      pkt \<leftarrow> htod32ap ?bo pkt 8 (Transaction_ID ptp); pkt \<leftarrow> sth64 pkt 12 (ucast sz);
      bs \<leftarrow> ldn pkt 0 20; k bs } = k (ip_start ?bo (Transaction_ID ptp) (length ?d))" for k :: "bytes \<Rightarrow> 'x option"
    unfolding ip_start_def sz
    by (simp add: c32.put_in sth64_def blit_def ldn_def ip_packet_def)
  have p2: "do { pkt \<leftarrow> htod32ap ?bo (?z 264) 0 (12 + sz); pkt \<leftarrow> htod32ap ?bo pkt 4 PTPIP_TYPE_DATA;
      bs \<leftarrow> ldn pkt 0 12; k bs } = k (ip_packet ?bo (12 + sz) PTPIP_TYPE_DATA [0, 0, 0, 0])" for k :: "bytes \<Rightarrow> 'x option"
    by (simp add: c32.put_in ldn_def ip_packet_def four)
  have p3: "do { pkt \<leftarrow> blit (?z 264) 0 (mem32 12); pkt \<leftarrow> htod32ap ?bo pkt 4 PTPIP_TYPE_END_DATA;
      pkt \<leftarrow> htod32ap ?bo pkt 8 (Transaction_ID ptp); bs \<leftarrow> ldn pkt 0 12; k bs } =
      k (mem32 12 @ enc32 ?bo PTPIP_TYPE_END_DATA @ enc32 ?bo (Transaction_ID ptp))" for k :: "bytes \<Rightarrow> 'x option"
    by (simp add: c32.put_in ldn_def blit_def)
  have size: "sizeof_PTPIPContainer = 264"
    by (simp add: sizeof_PTPIPContainer_def PTPIP_HEADER_LEN_def PTPIP_CMD_PAYLOAD_LEN_def)
  show ?thesis
    unfolding ptp_tcp_senddata_def Let_def size p1 p2 p3
    by (simp add: d write_all_def ip_data_writes_def s1 split_beta del: of_nat_add length_take)
qed

end
