(* ===== verification/Ptp_Usb.thy ===== *)
theory Ptp_Usb
  imports Transport "HOL-Library.Signed_Division"
begin

text \<open>
  PTP over USB (\<open>ptp.c\<close>, from \<open>ptp_usb_read_data\<close> to \<open>ptp_usb_getresp\<close>, and the events of the
  interrupt endpoint). A \<open>PTPUSBBulkContainer\<close> is the list of its 512 bytes: length at 0, type
  at 4, code at 6, transaction id at 8, payload from 12 on.
\<close>

section \<open>Containers\<close>

definition PTP_USB_BULK_HDR_LEN :: nat where "PTP_USB_BULK_HDR_LEN = 2 * 4 + 2 * 2"

definition PTP_USB_BULK_PAYLOAD_LEN :: nat where
  "PTP_USB_BULK_PAYLOAD_LEN = PTP_USB_BULK_HS_MAX_PACKET_LEN - PTP_USB_BULK_HDR_LEN"

definition PTP_USB_BULK_REQ_LEN :: nat where
  "PTP_USB_BULK_REQ_LEN = PTP_USB_BULK_HDR_LEN + 5 * 4"

definition sizeof_PTPUSBBulkContainer :: nat where
  "sizeof_PTPUSBBulkContainer = PTP_USB_BULK_HDR_LEN + PTP_USB_BULK_PAYLOAD_LEN"

lemmas usb_sizes = PTP_USB_BULK_HDR_LEN_def PTP_USB_BULK_PAYLOAD_LEN_def PTP_USB_BULK_REQ_LEN_def
  sizeof_PTPUSBBulkContainer_def PTP_USB_BULK_HS_MAX_PACKET_LEN_def

section \<open>Reading\<close>

text \<open>The loop that reads whole packets directly to their destination.\<close>

partial_function (option) usb_bulk_loop ::
  "'w ptp_io \<Rightarrow> int \<Rightarrow> bytes \<Rightarrow> nat \<Rightarrow> int \<Rightarrow> 'w \<Rightarrow> (bool \<times> bytes \<times> int \<times> 'w) option" where
  "usb_bulk_loop io bulktotal m dst rtotal w =
     (if rtotal < bulktotal then do {
        (rlen, m, w) \<leftarrow> read_func io m (dst + nat rtotal) (word_of_int (bulktotal - rtotal)) w;
        if rlen < 0 then Some (False, m, rtotal, w)
        else usb_bulk_loop io bulktotal m dst (rtotal + rlen) w
      } else Some (True, m, rtotal, w))"

definition ptp_usb_read_data ::
  "'w ptp_io \<Rightarrow> 'w PTPParams \<Rightarrow> u32 \<Rightarrow> bytes \<Rightarrow> nat \<Rightarrow> (u16 \<times> bytes \<times> 'w PTPParams) option" where
  "ptp_usb_read_data io p sz m dst = do {
     (rtotal, b, m) \<leftarrow> ptp_transport_read_from_buffer (pkt_buf p) (sint sz) m dst;
     let p = p \<lparr> pkt_buf := b \<rparr>;
     if word_of_int rtotal < sz then do {
       let toread = sint (sz - word_of_int rtotal);
       let rest = toread smod int PTP_USB_BULK_HS_MAX_PACKET_LEN;
       let bulktotal = sint (sz - word_of_int rest);
       (success, m, rtotal, w) \<leftarrow> usb_bulk_loop io bulktotal m dst rtotal (con p);
       let p = p \<lparr> con := w \<rparr>;
       if \<not> success then Some (PTP_ERROR_IO, m, p)
       else do {
         (ret, p) \<leftarrow> ptp_transport_read_to_buffer io p rest;
         if ret \<noteq> PTP_RC_OK then Some (ret, m, p)
         else do {
           (n, b, m) \<leftarrow> ptp_transport_read_from_buffer (pkt_buf p) rest m (dst + nat rtotal);
           let p = p \<lparr> pkt_buf := b \<rparr>;
           if word_of_int (rtotal + n) \<noteq> sz then Some (PTP_ERROR_IO, m, p)
           else Some (PTP_RC_OK, m, p)
         }
       }
     } else Some (PTP_RC_OK, m, p)
   }"

definition ptp_usb_read_control ::
  "'w ptp_io \<Rightarrow> 'w PTPParams \<Rightarrow> bytes \<Rightarrow> (u16 \<times> bytes \<times> 'w PTPParams) option" where
  "ptp_usb_read_control io p pkt = do {
     (ret, pkt, p) \<leftarrow> ptp_control_read_buffered io p (int PTP_USB_BULK_HDR_LEN) pkt 0;
     if ret \<noteq> PTP_RC_OK then Some (ret, pkt, p)
     else do {
       len \<leftarrow> dtoh32ap (byteorder p) pkt 0;
       type \<leftarrow> dtoh16ap (byteorder p) pkt 4;
       if type = PTP_USB_CONTAINER_RESPONSE then
         (if len > of_nat PTP_USB_BULK_HDR_LEN
          then ptp_control_read_buffered io p (sint (len - of_nat PTP_USB_BULK_HDR_LEN)) pkt PTP_USB_BULK_HDR_LEN
          else Some (ret, pkt, p))
       else if type = PTP_USB_CONTAINER_DATA then Some (ret, pkt, p)
       else Some (PTP_ERROR_BADPARAM, pkt, p)
     }
   }"

section \<open>Sending\<close>

text \<open>A write: a result other than \<open>PTP_RC_OK\<close> is an I/O error.\<close>

definition usb_write :: "'w ptp_io \<Rightarrow> 'w PTPParams \<Rightarrow> bytes \<Rightarrow> u16 \<times> 'w PTPParams" where
  "usb_write io p bs =
     (let (ret, w) = write_func io bs (con p)
      in (if ret \<noteq> PTP_RC_OK then PTP_ERROR_IO else ret, p \<lparr> con := w \<rparr>))"

definition ptp_usb_sendreq ::
  "'w ptp_io \<Rightarrow> 'w PTPParams \<Rightarrow> PTPContainer \<Rightarrow> (u16 \<times> 'w PTPParams) option" where
  "ptp_usb_sendreq io p req = do {
     let bo = byteorder p;
     let len = int PTP_USB_BULK_REQ_LEN - 4 * (5 - int (unat (Nparam req)));
     let pkt = replicate sizeof_PTPUSBBulkContainer 0;
     pkt \<leftarrow> htod32ap bo pkt 0 (word_of_int len);
     pkt \<leftarrow> htod16ap bo pkt 4 PTP_USB_CONTAINER_COMMAND;
     pkt \<leftarrow> htod16ap bo pkt 6 (Code req);
     pkt \<leftarrow> htod32ap bo pkt 8 (Transaction_ID req);
     pkt \<leftarrow> htod32ap bo pkt 12 (Param1 req);
     pkt \<leftarrow> htod32ap bo pkt 16 (Param2 req);
     pkt \<leftarrow> htod32ap bo pkt 20 (Param3 req);
     pkt \<leftarrow> htod32ap bo pkt 24 (Param4 req);
     pkt \<leftarrow> htod32ap bo pkt 28 (Param5 req);
     bs \<leftarrow> ldn pkt 0 (nat len);
     Some (usb_write io p bs)
   }"

text \<open>The first write carries the header and up to 500 bytes, the second the rest. After a
  container whose length is a multiple of the packet size comes a packet of length zero.\<close>

definition ptp_usb_senddata ::
  "'w ptp_io \<Rightarrow> 'w PTPParams \<Rightarrow> PTPContainer \<Rightarrow> bytes \<Rightarrow> u32 \<Rightarrow> (u16 \<times> 'w PTPParams) option" where
  "ptp_usb_senddata io p ptp data sz = do {
     let bo = byteorder p;
     let n = min (unat sz) PTP_USB_BULK_PAYLOAD_LEN;
     let pkt = replicate sizeof_PTPUSBBulkContainer 0;
     pkt \<leftarrow> htod32ap bo pkt 0 (of_nat PTP_USB_BULK_HDR_LEN + sz);
     pkt \<leftarrow> htod16ap bo pkt 4 PTP_USB_CONTAINER_DATA;
     pkt \<leftarrow> htod16ap bo pkt 6 (Code ptp);
     pkt \<leftarrow> htod32ap bo pkt 8 (Transaction_ID ptp);
     d \<leftarrow> ldn data 0 n;
     pkt \<leftarrow> blit pkt PTP_USB_BULK_HDR_LEN d;
     bs \<leftarrow> ldn pkt 0 (PTP_USB_BULK_HDR_LEN + n);
     let (ret, p) = usb_write io p bs;
     if ret \<noteq> PTP_RC_OK then Some (ret, p)
     else do {
       (ret, p) \<leftarrow> (if unat sz > PTP_USB_BULK_PAYLOAD_LEN
          then do {
            d \<leftarrow> ldn data PTP_USB_BULK_PAYLOAD_LEN (unat sz - PTP_USB_BULK_PAYLOAD_LEN);
            Some (usb_write io p d)
          } else Some (ret, p));
       if ret \<noteq> PTP_RC_OK then Some (ret, p)
       else do {
         len \<leftarrow> map_option host32 (ldn pkt 0 4);
         Some (ret, if len AND (max_packet_size p - 1) = 0
                    then p \<lparr> con := snd (write_func io [] (con p)) \<rparr> else p)
       }
     }
   }"

section \<open>Receiving data\<close>

partial_function (option) usb_handler_loop ::
  "'w ptp_io \<Rightarrow> (u32 \<Rightarrow> bytes \<Rightarrow> u64 \<Rightarrow> 'h \<Rightarrow> u16 \<times> 'h) \<Rightarrow> u64 \<Rightarrow> u32 \<Rightarrow> u16 \<Rightarrow> u32 \<Rightarrow> bytes \<Rightarrow> 'h \<Rightarrow> 'w PTPParams \<Rightarrow>
   (u16 \<times> 'h \<times> 'w PTPParams) option" where
  "usb_handler_loop io hnd total_len block ret to_read buf h p =
     (if to_read > 0 then do {
        let read_size = (if to_read > block then block else to_read);
        (ret, buf, p) \<leftarrow> ptp_usb_read_data io p read_size buf 0;
        if ret \<noteq> PTP_RC_OK then Some (ret, h, p)
        else
          (let to_read = to_read - read_size; (ret, h) = hnd read_size buf total_len h in
           if ret \<noteq> PTP_RC_OK then Some (ret, h, p)
           else usb_handler_loop io hnd total_len block ret to_read buf h p)
      } else Some (ret, h, p))"

definition ptp_usb_getdata ::
  "'w ptp_io \<Rightarrow> 'w PTPParams \<Rightarrow> PTPContainer \<Rightarrow> 'h PTPGetdataParams \<Rightarrow>
   (u16 \<times> 'h PTPGetdataParams \<times> 'w PTPParams) option" where
  "ptp_usb_getdata io p ptp gd = do {
     (ret, pkt, p) \<leftarrow> ptp_usb_read_control io p (replicate sizeof_PTPUSBBulkContainer 0);
     if ret \<noteq> PTP_RC_OK then Some (ret, gd, p)
     else do {
       type \<leftarrow> dtoh16ap (byteorder p) pkt 4;
       code \<leftarrow> dtoh16ap (byteorder p) pkt 6;
       len \<leftarrow> dtoh32ap (byteorder p) pkt 0;
       if type \<noteq> PTP_USB_CONTAINER_DATA then Some (PTP_ERROR_DATA_EXPECTED, gd, p)
       else if code \<noteq> Code ptp then Some (code, gd, p)
       else
         let total_len = len - of_nat PTP_USB_BULK_HDR_LEN;
             gd = gd \<lparr> total_size := ucast total_len \<rparr>
         in case handler gd of
           Some hnd \<Rightarrow>
             let block = handler_block (block_size gd) in
             (case malloc io (unat block) of
                None \<Rightarrow> Some (PTP_ERROR_NOMEM, gd, p)
              | Some buf \<Rightarrow> do {
                  (ret, h, p) \<leftarrow> usb_handler_loop io hnd (ucast total_len) block ret total_len buf (handler_data gd) p;
                  Some (ret, gd \<lparr> handler_data := h \<rparr>, p)
                })
         | None \<Rightarrow>
             (case (case ret_data gd of None \<Rightarrow> malloc io (unat total_len) | Some m \<Rightarrow> Some m) of
                None \<Rightarrow> Some (PTP_ERROR_NOMEM, gd, p)
              | Some m \<Rightarrow> do {
                  (ret, m, p) \<leftarrow> ptp_usb_read_data io p total_len m 0;
                  Some (ret, gd \<lparr> ret_data := Some m \<rparr>, p)
                })
     }
   }"

section \<open>Receiving the response\<close>

definition ptp_usb_getresp ::
  "'w ptp_io \<Rightarrow> 'w PTPParams \<Rightarrow> PTPContainer \<Rightarrow> (u16 \<times> PTPContainer \<times> 'w PTPParams) option" where
  "ptp_usb_getresp io p resp = do {
     (ret, pkt, p) \<leftarrow> ptp_usb_read_control io p (replicate sizeof_PTPUSBBulkContainer 0);
     if ret \<noteq> PTP_RC_OK then Some (ret, resp, p)
     else do {
       let bo = byteorder p;
       type \<leftarrow> dtoh16ap bo pkt 4;
       code \<leftarrow> dtoh16ap bo pkt 6;
       let ret = (if type \<noteq> PTP_USB_CONTAINER_RESPONSE then PTP_ERROR_RESP_EXPECTED
                  else if code \<noteq> Code resp then code else ret);
       if ret \<noteq> PTP_RC_OK then Some (ret, resp, p)
       else do {
         trans \<leftarrow> dtoh32ap bo pkt 8;
         p1 \<leftarrow> dtoh32ap bo pkt 12;
         p2 \<leftarrow> dtoh32ap bo pkt 16;
         p3 \<leftarrow> dtoh32ap bo pkt 20;
         p4 \<leftarrow> dtoh32ap bo pkt 24;
         p5 \<leftarrow> dtoh32ap bo pkt 28;
         len \<leftarrow> dtoh32ap bo pkt 0;
         Some (ret, \<lparr> Code = code, SessionID = session_id p, Transaction_ID = trans, Param1 = p1,
                      Param2 = p2, Param3 = p3, Param4 = p4, Param5 = p5,
                      Nparam = ucast ((len - 12) div 4) \<rparr>, p)
       }
     }
   }"

section \<open>Events\<close>

definition PTP_USB_INT_PACKET_LEN :: int where "PTP_USB_INT_PACKET_LEN = 8"
definition sizeof_PTPUSBEventContainer :: nat where "sizeof_PTPUSBEventContainer = 28"

definition PTP_EVENT_CHECK :: int where "PTP_EVENT_CHECK = 0"
definition PTP_EVENT_CHECK_FAST :: int where "PTP_EVENT_CHECK_FAST = 1"

text \<open>The macro \<open>CHECK_INT\<close>: one read of the interrupt endpoint, its result added to \<open>result\<close>.\<close>

definition CHECK_INT ::
  "'w ptp_io \<Rightarrow> int \<Rightarrow> bytes \<Rightarrow> int \<Rightarrow> int \<Rightarrow> 'w \<Rightarrow> (int \<times> bytes \<times> 'w) option" where
  "CHECK_INT io wait m sz result w = do {
     (r, m, w) \<leftarrow> (if wait = PTP_EVENT_CHECK then check_int_func io else check_int_fast_func io)
                  m (nat result) (word_of_int (sz - result)) w;
     Some (result + r, m, w)
   }"

partial_function (option) usb_event_loop ::
  "'w ptp_io \<Rightarrow> int \<Rightarrow> bytes \<Rightarrow> int \<Rightarrow> int \<Rightarrow> 'w \<Rightarrow> (bool \<times> bytes \<times> 'w) option" where
  "usb_event_loop io wait m sz result w =
     (if result < sz then do {
        (result, m, w) \<leftarrow> CHECK_INT io wait m sz result w;
        if result < 0 then Some (False, m, w) else usb_event_loop io wait m sz result w
      } else Some (True, m, w))"

definition ptp_usb_event ::
  "'w ptp_io \<Rightarrow> 'w PTPParams \<Rightarrow> PTPContainer \<Rightarrow> int \<Rightarrow> (u16 \<times> PTPContainer \<times> 'w PTPParams) option" where
  "ptp_usb_event io p event wait =
     (if wait \<noteq> PTP_EVENT_CHECK \<and> wait \<noteq> PTP_EVENT_CHECK_FAST then Some (PTP_ERROR_BADPARAM, event, p)
      else do {
        (result, m, w) \<leftarrow>
          CHECK_INT io wait (replicate sizeof_PTPUSBEventContainer 0) PTP_USB_INT_PACKET_LEN 0 (con p);
        if result < 0 then Some (PTP_ERROR_IO, event, p \<lparr> con := w \<rparr>)
        else do {
          let bo = byteorder p;
          sz \<leftarrow> dtoh32ap bo m 0;
          (success, m, w) \<leftarrow> usb_event_loop io wait m (sint sz) result w;
          if \<not> success then Some (PTP_ERROR_IO, event, p \<lparr> con := w \<rparr>)
          else do {
            code \<leftarrow> dtoh16ap bo m 6;
            trans \<leftarrow> dtoh32ap bo m 8;
            p1 \<leftarrow> dtoh32ap bo m 12;
            p2 \<leftarrow> dtoh32ap bo m 16;
            p3 \<leftarrow> dtoh32ap bo m 20;
            Some (PTP_RC_OK, event \<lparr> Code := code, SessionID := session_id p, Transaction_ID := trans,
                                     Param1 := p1, Param2 := p2, Param3 := p3 \<rparr>, p \<lparr> con := w \<rparr>)
          }
        }
      })"

definition ptp_usb_event_check where
  "ptp_usb_event_check io p event = ptp_usb_event io p event PTP_EVENT_CHECK_FAST"

definition ptp_usb_event_wait where
  "ptp_usb_event_wait io p event = ptp_usb_event io p event PTP_EVENT_CHECK"

end
