(* ===== verification/Ptp_Ops.thy ===== *)
theory Ptp_Ops
  imports Ptp_Tcp Ptp_Usb Pack_Object Pack_Prop
begin

text \<open>
  Transactions and the PTP operations of \<open>ptp.c\<close>, from \<open>ptp_transaction\<close> to
  \<open>ptp_setdevicepropvalue\<close>. The functions of the transport (\<open>sendreq_func\<close> and the others of
  \<open>PTPParams\<close>) are the record \<open>transport\<close>, which is built for USB and for TCP. An output
  parameter is a component of the result; an \<open>option\<close> result is as in the prelude.
\<close>

section \<open>Transports\<close>

text \<open>\<open>getdata_func\<close> of the C code is used at two types of \<open>handler_data\<close>: none, and an open
  file. Both fields are the same function.\<close>

record ('w, 'f) transport =
  sendreq_func :: "'w PTPParams \<Rightarrow> PTPContainer \<Rightarrow> (u16 \<times> 'w PTPParams) option"
  senddata_func :: "'w PTPParams \<Rightarrow> PTPContainer \<Rightarrow> bytes \<Rightarrow> u32 \<Rightarrow> (u16 \<times> 'w PTPParams) option"
  getresp_func :: "'w PTPParams \<Rightarrow> PTPContainer \<Rightarrow> (u16 \<times> PTPContainer \<times> 'w PTPParams) option"
  getdata_func :: "'w PTPParams \<Rightarrow> PTPContainer \<Rightarrow> unit PTPGetdataParams \<Rightarrow>
    (u16 \<times> unit PTPGetdataParams \<times> 'w PTPParams) option"
  getdata_file_func :: "'w PTPParams \<Rightarrow> PTPContainer \<Rightarrow> 'f PTPGetdataParams \<Rightarrow>
    (u16 \<times> 'f PTPGetdataParams \<times> 'w PTPParams) option"

definition usb_transport :: "'w ptp_io \<Rightarrow> ('w, 'f) transport" where
  "usb_transport io =
     \<lparr> sendreq_func = ptp_usb_sendreq io, senddata_func = ptp_usb_senddata io,
       getresp_func = ptp_usb_getresp io, getdata_func = ptp_usb_getdata io,
       getdata_file_func = ptp_usb_getdata io \<rparr>"

definition tcp_transport :: "'w ptp_io \<Rightarrow> ('w, 'f) transport" where
  "tcp_transport io =
     \<lparr> sendreq_func = ptp_tcp_sendreq io, senddata_func = ptp_tcp_senddata io,
       getresp_func = ptp_tcp_getresp io, getdata_func = ptp_tcp_getdata io,
       getdata_file_func = ptp_tcp_getdata io \<rparr>"

section \<open>Transactions\<close>

definition PTP_DP_NODATA :: u16 where "PTP_DP_NODATA = 0x0000"
definition PTP_DP_SENDDATA :: u16 where "PTP_DP_SENDDATA = 0x0001"
definition PTP_DP_GETDATA :: u16 where "PTP_DP_GETDATA = 0x0002"
definition PTP_DP_DATA_MASK :: u16 where "PTP_DP_DATA_MASK = 0x00ff"

lemmas dp_defs = PTP_DP_NODATA_def PTP_DP_SENDDATA_def PTP_DP_GETDATA_def PTP_DP_DATA_MASK_def

text \<open>The \<open>PTPGetdataParams\<close> of a transaction that receives into memory; \<open>block_size\<close> and
  \<open>total_size\<close> are not initialised, and not read without a handler.\<close>

definition memory_params :: "bytes option \<Rightarrow> unit PTPGetdataParams" where
  "memory_params data =
     \<lparr> handler = None, block_size = 0, ret_data = data, handler_data = (), total_size = 0 \<rparr>"

text \<open>\<open>data\<close> is what \<open>*data\<close> points to, \<open>None\<close> for a null pointer. The result has the return
  code, the container, \<open>*data\<close> and the parameters.\<close>

definition ptp_transaction ::
  "('w, 'f) transport \<Rightarrow> 'w PTPParams \<Rightarrow> PTPContainer \<Rightarrow> u16 \<Rightarrow> u32 \<Rightarrow> bytes option \<Rightarrow>
   (u16 \<times> PTPContainer \<times> bytes option \<times> 'w PTPParams) option" where
  "ptp_transaction tr p ptp flags sendlen data = do {
     let ptp = ptp \<lparr> Transaction_ID := transaction_id p, SessionID := session_id p \<rparr>;
     let p = p \<lparr> transaction_id := transaction_id p + 1 \<rparr>;
     (ret, p) \<leftarrow> sendreq_func tr p ptp;
     if ret \<noteq> PTP_RC_OK then Some (ret, ptp, data, p)
     else do {
       let phase = flags AND PTP_DP_DATA_MASK;
       (ret, data, p) \<leftarrow>
         (if phase = PTP_DP_SENDDATA then do {
            (ret, p) \<leftarrow> senddata_func tr p ptp (case data of None \<Rightarrow> [] | Some bs \<Rightarrow> bs) sendlen;
            Some (ret, data, p)
          }
          else if phase = PTP_DP_GETDATA then do {
            (ret, gd, p) \<leftarrow> getdata_func tr p ptp (memory_params data);
            Some (ret, ret_data gd, p)
          }
          else if phase = PTP_DP_NODATA then Some (PTP_RC_OK, data, p)
          else Some (PTP_ERROR_BADPARAM, data, p));
       if ret \<noteq> PTP_RC_OK then Some (ret, ptp, data, p)
       else do {
         (ret, ptp, p) \<leftarrow> getresp_func tr p ptp;
         Some (ret, ptp, data, p)
       }
     }
   }"

definition ptp_getdata_transaction ::
  "('w, 'f) transport \<Rightarrow> 'w PTPParams \<Rightarrow> PTPContainer \<Rightarrow> 'f PTPGetdataParams \<Rightarrow>
   (u16 \<times> PTPContainer \<times> 'f PTPGetdataParams \<times> 'w PTPParams) option" where
  "ptp_getdata_transaction tr p ptp gd = do {
     let ptp = ptp \<lparr> Transaction_ID := transaction_id p, SessionID := session_id p \<rparr>;
     let p = p \<lparr> transaction_id := transaction_id p + 1 \<rparr>;
     (ret, p) \<leftarrow> sendreq_func tr p ptp;
     if ret \<noteq> PTP_RC_OK then Some (ret, ptp, gd, p)
     else do {
       (ret, gd, p) \<leftarrow> getdata_file_func tr p ptp gd;
       if ret \<noteq> PTP_RC_OK then Some (ret, ptp, gd, p)
       else do {
         (ret, ptp, p) \<leftarrow> getresp_func tr p ptp;
         Some (ret, ptp, gd, p)
       }
     }
   }"

text \<open>The container as it is sent, and the three kinds of transaction.\<close>

definition numbered :: "'w PTPParams \<Rightarrow> PTPContainer \<Rightarrow> PTPContainer" where
  "numbered p ptp = ptp \<lparr> Transaction_ID := transaction_id p, SessionID := session_id p \<rparr>"

lemma numbered_sel [simp]:
  "Code (numbered p ptp) = Code ptp" "Nparam (numbered p ptp) = Nparam ptp"
  "Transaction_ID (numbered p ptp) = transaction_id p"
  by (simp_all add: numbered_def)

lemma transaction_getdata:
  "ptp_transaction tr p ptp PTP_DP_GETDATA n data = do {
     (ret, p1) \<leftarrow> sendreq_func tr (p \<lparr> transaction_id := transaction_id p + 1 \<rparr>) (numbered p ptp);
     if ret \<noteq> PTP_RC_OK then Some (ret, numbered p ptp, data, p1)
     else do {
       (ret, gd, p2) \<leftarrow> getdata_func tr p1 (numbered p ptp) (memory_params data);
       if ret \<noteq> PTP_RC_OK then Some (ret, numbered p ptp, ret_data gd, p2)
       else do {
         (ret, ptp, p3) \<leftarrow> getresp_func tr p2 (numbered p ptp);
         Some (ret, ptp, ret_data gd, p3)
       }
     }
   }"
  by (simp add: ptp_transaction_def numbered_def dp_defs split_beta Let_def
      cong: Option.bind_cong if_cong)

lemma transaction_senddata:
  "ptp_transaction tr p ptp PTP_DP_SENDDATA n (Some bs) = do {
     (ret, p1) \<leftarrow> sendreq_func tr (p \<lparr> transaction_id := transaction_id p + 1 \<rparr>) (numbered p ptp);
     if ret \<noteq> PTP_RC_OK then Some (ret, numbered p ptp, Some bs, p1)
     else do {
       (ret, p2) \<leftarrow> senddata_func tr p1 (numbered p ptp) bs n;
       if ret \<noteq> PTP_RC_OK then Some (ret, numbered p ptp, Some bs, p2)
       else do {
         (ret, ptp, p3) \<leftarrow> getresp_func tr p2 (numbered p ptp);
         Some (ret, ptp, Some bs, p3)
       }
     }
   }"
  by (simp add: ptp_transaction_def numbered_def dp_defs split_beta Let_def
      cong: Option.bind_cong if_cong)

lemma transaction_nodata:
  "ptp_transaction tr p ptp PTP_DP_NODATA n data = do {
     (ret, p1) \<leftarrow> sendreq_func tr (p \<lparr> transaction_id := transaction_id p + 1 \<rparr>) (numbered p ptp);
     if ret \<noteq> PTP_RC_OK then Some (ret, numbered p ptp, data, p1)
     else do {
       (ret, ptp, p3) \<leftarrow> getresp_func tr p1 (numbered p ptp);
       Some (ret, ptp, data, p3)
     }
   }"
  by (simp add: ptp_transaction_def numbered_def dp_defs split_beta Let_def
      cong: Option.bind_cong if_cong)

section \<open>Operations\<close>

text \<open>Read the received data on success; a result of NULL would be dereferenced.\<close>

definition on_ok :: "u16 \<Rightarrow> bytes option \<Rightarrow> (bytes \<Rightarrow> 'a option) \<Rightarrow> 'a \<Rightarrow> 'a option" where
  "on_ok ret data f old = (if ret = PTP_RC_OK then data \<bind> f else Some old)"

definition ptp_getdeviceinfo ::
  "('w, 'f) transport \<Rightarrow> 'w PTPParams \<Rightarrow> PTPDeviceInfo \<Rightarrow> (u16 \<times> PTPDeviceInfo \<times> 'w PTPParams) option" where
  "ptp_getdeviceinfo tr p info = do {
     let ptp = PTP_CNT_INIT \<lparr> Code := PTP_OC_GetDeviceInfo, Nparam := 0 \<rparr>;
     (ret, ptp, di, p) \<leftarrow> ptp_transaction tr p ptp PTP_DP_GETDATA 0 None;
     info \<leftarrow> on_ok ret di (ptp_unpack_DI (byteorder p)) info;
     Some (ret, info, p)
   }"

definition ptp_opensession ::
  "('w, 'f) transport \<Rightarrow> 'w PTPParams \<Rightarrow> u32 \<Rightarrow> (u16 \<times> 'w PTPParams) option" where
  "ptp_opensession tr p session = do {
     let p = p \<lparr> session_id := 0, transaction_id := 0 \<rparr>;
     let ptp = PTP_CNT_INIT \<lparr> Code := PTP_OC_OpenSession, Param1 := session, Nparam := 1 \<rparr>;
     (ret, ptp, d, p) \<leftarrow> ptp_transaction tr p ptp PTP_DP_NODATA 0 None;
     Some (ret, p \<lparr> session_id := session \<rparr>)
   }"

definition ptp_closesession :: "('w, 'f) transport \<Rightarrow> 'w PTPParams \<Rightarrow> (u16 \<times> 'w PTPParams) option" where
  "ptp_closesession tr p = do {
     let ptp = PTP_CNT_INIT \<lparr> Code := PTP_OC_CloseSession, Nparam := 0 \<rparr>;
     (ret, ptp, d, p) \<leftarrow> ptp_transaction tr p ptp PTP_DP_NODATA 0 None;
     Some (ret, p)
   }"

definition ptp_getstorageids ::
  "('w, 'f) transport \<Rightarrow> 'w PTPParams \<Rightarrow> PTPStorageIDs \<Rightarrow> (u16 \<times> PTPStorageIDs \<times> 'w PTPParams) option" where
  "ptp_getstorageids tr p storageids = do {
     let ptp = PTP_CNT_INIT \<lparr> Code := PTP_OC_GetStorageIDs, Nparam := 0 \<rparr>;
     (ret, ptp, sids, p) \<leftarrow> ptp_transaction tr p ptp PTP_DP_GETDATA 0 None;
     storageids \<leftarrow> on_ok ret sids (ptp_unpack_SIDs (byteorder p)) storageids;
     Some (ret, storageids, p)
   }"

definition ptp_getstorageinfo ::
  "('w, 'f) transport \<Rightarrow> 'w PTPParams \<Rightarrow> u32 \<Rightarrow> PTPStorageInfo \<Rightarrow>
   (u16 \<times> PTPStorageInfo \<times> 'w PTPParams) option" where
  "ptp_getstorageinfo tr p storageid storageinfo = do {
     let ptp = PTP_CNT_INIT \<lparr> Code := PTP_OC_GetStorageInfo, Param1 := storageid, Nparam := 1 \<rparr>;
     (ret, ptp, si, p) \<leftarrow> ptp_transaction tr p ptp PTP_DP_GETDATA 0 None;
     storageinfo \<leftarrow> on_ok ret si (\<lambda>d. ptp_unpack_SI (byteorder p) d storageinfo) storageinfo;
     Some (ret, storageinfo, p)
   }"

definition ptp_getobjecthandles ::
  "('w, 'f) transport \<Rightarrow> 'w PTPParams \<Rightarrow> u32 \<Rightarrow> u32 \<Rightarrow> u32 \<Rightarrow> PTPObjectHandles \<Rightarrow>
   (u16 \<times> PTPObjectHandles \<times> 'w PTPParams) option" where
  "ptp_getobjecthandles tr p storage objectformatcode associationOH objecthandles = do {
     let ptp = PTP_CNT_INIT \<lparr> Code := PTP_OC_GetObjectHandles, Param1 := storage,
                  Param2 := objectformatcode, Param3 := associationOH, Nparam := 3 \<rparr>;
     (ret, ptp, oh, p) \<leftarrow> ptp_transaction tr p ptp PTP_DP_GETDATA 0 None;
     objecthandles \<leftarrow> on_ok ret oh (ptp_unpack_OH (byteorder p)) objecthandles;
     Some (ret, objecthandles, p)
   }"

definition ptp_getobjectinfo ::
  "(tm \<Rightarrow> int \<times> tm) \<Rightarrow> ('w, 'f) transport \<Rightarrow> 'w PTPParams \<Rightarrow> u32 \<Rightarrow> PTPObjectInfo \<Rightarrow>
   (u16 \<times> PTPObjectInfo \<times> 'w PTPParams) option" where
  "ptp_getobjectinfo mktime tr p handle objectinfo = do {
     let ptp = PTP_CNT_INIT \<lparr> Code := PTP_OC_GetObjectInfo, Param1 := handle, Nparam := 1 \<rparr>;
     (ret, ptp, oi, p) \<leftarrow> ptp_transaction tr p ptp PTP_DP_GETDATA 0 None;
     objectinfo \<leftarrow> on_ok ret oi (\<lambda>d. ptp_unpack_OI mktime (byteorder p) d objectinfo) objectinfo;
     Some (ret, objectinfo, p)
   }"

definition ptp_getobject ::
  "('w, 'f) transport \<Rightarrow> 'w PTPParams \<Rightarrow> u32 \<Rightarrow> bytes option \<Rightarrow> (u16 \<times> bytes option \<times> 'w PTPParams) option" where
  "ptp_getobject tr p handle object = do {
     let ptp = PTP_CNT_INIT \<lparr> Code := PTP_OC_GetObject, Param1 := handle, Nparam := 1 \<rparr>;
     (ret, ptp, object, p) \<leftarrow> ptp_transaction tr p ptp PTP_DP_GETDATA 0 object;
     Some (ret, object, p)
   }"

definition ptp_getthumb ::
  "('w, 'f) transport \<Rightarrow> 'w PTPParams \<Rightarrow> u32 \<Rightarrow> bytes option \<Rightarrow> (u16 \<times> bytes option \<times> 'w PTPParams) option" where
  "ptp_getthumb tr p handle object = do {
     let ptp = PTP_CNT_INIT \<lparr> Code := PTP_OC_GetThumb, Param1 := handle, Nparam := 1 \<rparr>;
     (ret, ptp, object, p) \<leftarrow> ptp_transaction tr p ptp PTP_DP_GETDATA 0 object;
     Some (ret, object, p)
   }"

definition ptp_deleteobject ::
  "('w, 'f) transport \<Rightarrow> 'w PTPParams \<Rightarrow> u32 \<Rightarrow> u32 \<Rightarrow> (u16 \<times> 'w PTPParams) option" where
  "ptp_deleteobject tr p handle ofc = do {
     let ptp = PTP_CNT_INIT \<lparr> Code := PTP_OC_DeleteObject, Param1 := handle, Param2 := ofc, Nparam := 2 \<rparr>;
     (ret, ptp, d, p) \<leftarrow> ptp_transaction tr p ptp PTP_DP_NODATA 0 None;
     Some (ret, p)
   }"

text \<open>The result has \<open>*store\<close>, \<open>*parenthandle\<close> and \<open>*handle\<close>: on failure they are what the
  container holds then.\<close>

definition ptp_sendobjectinfo ::
  "('w, 'f) transport \<Rightarrow> 'w PTPParams \<Rightarrow> u32 \<Rightarrow> u32 \<Rightarrow> PTPObjectInfo \<Rightarrow>
   (u16 \<times> u32 \<times> u32 \<times> u32 \<times> 'w PTPParams) option" where
  "ptp_sendobjectinfo tr p store parenthandle objectinfo = do {
     let ptp = PTP_CNT_INIT \<lparr> Code := PTP_OC_SendObjectInfo, Param1 := store,
                  Param2 := parenthandle, Nparam := 2 \<rparr>;
     (oidata, sz) \<leftarrow> ptp_pack_OI (byteorder p) objectinfo;
     (ret, ptp, oidata, p) \<leftarrow> ptp_transaction tr p ptp PTP_DP_SENDDATA sz (Some oidata);
     Some (ret, Param1 ptp, Param2 ptp, Param3 ptp, p)
   }"

definition ptp_sendobject ::
  "('w, 'f) transport \<Rightarrow> 'w PTPParams \<Rightarrow> bytes \<Rightarrow> u32 \<Rightarrow> (u16 \<times> 'w PTPParams) option" where
  "ptp_sendobject tr p object sz = do {
     let ptp = PTP_CNT_INIT \<lparr> Code := PTP_OC_SendObject, Nparam := 0 \<rparr>;
     (ret, ptp, d, p) \<leftarrow> ptp_transaction tr p ptp PTP_DP_SENDDATA sz (Some object);
     Some (ret, p)
   }"

definition ptp_initiatecapture ::
  "('w, 'f) transport \<Rightarrow> 'w PTPParams \<Rightarrow> u32 \<Rightarrow> u32 \<Rightarrow> (u16 \<times> 'w PTPParams) option" where
  "ptp_initiatecapture tr p storageid ofc = do {
     let ptp = PTP_CNT_INIT \<lparr> Code := PTP_OC_InitiateCapture, Param1 := storageid, Param2 := ofc, Nparam := 2 \<rparr>;
     (ret, ptp, d, p) \<leftarrow> ptp_transaction tr p ptp PTP_DP_NODATA 0 None;
     Some (ret, p)
   }"

definition ptp_getdevicepropdesc ::
  "('w, 'f) transport \<Rightarrow> 'w PTPParams \<Rightarrow> u16 \<Rightarrow> PTPDevicePropDesc \<Rightarrow>
   (u16 \<times> PTPDevicePropDesc \<times> 'w PTPParams) option" where
  "ptp_getdevicepropdesc tr p propcode dpd = do {
     let ptp = PTP_CNT_INIT \<lparr> Code := PTP_OC_GetDevicePropDesc, Param1 := ucast propcode, Nparam := 1 \<rparr>;
     (ret, ptp, d, p) \<leftarrow> ptp_transaction tr p ptp PTP_DP_GETDATA 0 None;
     dpd \<leftarrow> on_ok ret d (\<lambda>d. ptp_unpack_DPD (byteorder p) d dpd) dpd;
     Some (ret, dpd, p)
   }"

definition ptp_getdevicepropvalue ::
  "('w, 'f) transport \<Rightarrow> 'w PTPParams \<Rightarrow> u16 \<Rightarrow> prop_value option \<Rightarrow> u16 \<Rightarrow>
   (u16 \<times> prop_value option \<times> 'w PTPParams) option" where
  "ptp_getdevicepropvalue tr p propcode val datatype = do {
     let ptp = PTP_CNT_INIT \<lparr> Code := PTP_OC_GetDevicePropValue, Param1 := ucast propcode, Nparam := 1 \<rparr>;
     (ret, ptp, dpv, p) \<leftarrow> ptp_transaction tr p ptp PTP_DP_GETDATA 0 None;
     val \<leftarrow> on_ok ret dpv (\<lambda>d. ptp_unpack_DPV (byteorder p) d val datatype) val;
     Some (ret, val, p)
   }"

definition ptp_setdevicepropvalue ::
  "('w, 'f) transport \<Rightarrow> 'w PTPParams \<Rightarrow> u16 \<Rightarrow> prop_value \<Rightarrow> u16 \<Rightarrow> (u16 \<times> 'w PTPParams) option" where
  "ptp_setdevicepropvalue tr p propcode val datatype = do {
     let ptp = PTP_CNT_INIT \<lparr> Code := PTP_OC_SetDevicePropValue, Param1 := ucast propcode, Nparam := 1 \<rparr>;
     (dpv, sz) \<leftarrow> ptp_pack_DPV (byteorder p) val datatype;
     (ret, ptp, dpv, p) \<leftarrow> ptp_transaction tr p ptp PTP_DP_SENDDATA sz dpv;
     Some (ret, p)
   }"

section \<open>Device information\<close>

definition ptp_operation_issupported :: "'w PTPParams \<Rightarrow> u16 \<Rightarrow> bool option" where
  "ptp_operation_issupported p operation =
     (let di = deviceinfo p; n = unat (OperationsSupported_len di) in
      if operation \<in> set (take n (OperationsSupported di)) then Some True
      else if n \<le> length (OperationsSupported di) then Some False else None)"

end
