(* ===== verification/Ptp_Chdk.thy ===== *)
theory Ptp_Chdk
  imports Ptp_Ops
begin

text \<open>
  The CHDK operations of \<open>ptp.c\<close>: one vendor operation, the command in its first parameter. A C
  \<open>int\<close> argument or result is the \<open>u32\<close> with its bits.
\<close>

section \<open>Files\<close>

text \<open>
  What the code uses of \<open>stdio\<close> and \<open>malloc\<close>: the contents of a file opened for reading (its
  size is less than 2 GB), opening a file for writing, and \<open>fwrite\<close>, which returns how many
  bytes it wrote. \<open>'f\<close> is an open file.
\<close>

record 'f stdio =
  fopen_rb :: "bytes \<Rightarrow> bytes option"
  fopen_wb :: "bytes \<Rightarrow> 'f option"
  fwrite :: "bytes \<Rightarrow> 'f \<Rightarrow> nat \<times> 'f"
  file_malloc :: "nat \<Rightarrow> bytes option"

definition chdk_ptp :: "ptp_chdk_command \<Rightarrow> u8 \<Rightarrow> PTPContainer" where
  "chdk_ptp cmd n = PTP_CNT_INIT \<lparr> Code := PTP_OC_CHDK, Nparam := n, Param1 := chdk_cmd cmd \<rparr>"

section \<open>Memory\<close>

text \<open>A pointer the caller gets: null, to an object, or to one that was freed.\<close>

datatype buffer = Null | Block bytes | Freed

definition ptp_chdk_get_memory ::
  "('w, 'f) transport \<Rightarrow> 'w PTPParams \<Rightarrow> u32 \<Rightarrow> u32 \<Rightarrow> u32 \<Rightarrow> (u16 \<times> buffer \<times> 'w PTPParams) option" where
  "ptp_chdk_get_memory tr p start num flags = do {
     let ptp = chdk_ptp PTP_CHDK_GetMemory 4 \<lparr> Param2 := start, Param3 := num, Param4 := flags \<rparr>;
     (ret, ptp, buf, p) \<leftarrow> ptp_transaction tr p ptp PTP_DP_GETDATA 0 None;
     let buf = (case buf of None \<Rightarrow> Null | Some bs \<Rightarrow> if ret \<noteq> PTP_RC_OK then Freed else Block bs);
     Some (ret, buf, p)
   }"

definition ptp_chdk_set_memory_long ::
  "('w, 'f) transport \<Rightarrow> 'w PTPParams \<Rightarrow> u32 \<Rightarrow> u32 \<Rightarrow> (u16 \<times> 'w PTPParams) option" where
  "ptp_chdk_set_memory_long tr p addr val = do {
     let ptp = chdk_ptp PTP_CHDK_SetMemory 3 \<lparr> Param2 := addr, Param3 := 4 \<rparr>;
     (ret, ptp, buf, p) \<leftarrow> ptp_transaction tr p ptp PTP_DP_SENDDATA 4 (Some (mem32 val));
     Some (ret, p)
   }"

section \<open>Upload and download\<close>

text \<open>The lengths are computed with 32 bits; what \<open>malloc\<close> returns is not checked.\<close>

definition ptp_chdk_upload ::
  "'f stdio \<Rightarrow> ('w, 'f) transport \<Rightarrow> 'w PTPParams \<Rightarrow> bytes \<Rightarrow> bytes \<Rightarrow> (u16 \<times> 'w PTPParams) option" where
  "ptp_chdk_upload io tr p local_fn remote_fn =
     (case fopen_rb io local_fn of
        None \<Rightarrow> Some (PTP_ERROR_IO, p)
      | Some contents \<Rightarrow> do {
          let file_len = of_nat (length contents);
          n \<leftarrow> strlen remote_fn;
          let file_name_len = (of_nat n :: u32);
          let data_len = (4 + file_name_len + file_len :: u32);
          buf \<leftarrow> file_malloc io (unat data_len);
          buf \<leftarrow> blit buf 0 (mem32 file_name_len);
          name \<leftarrow> ldn remote_fn 0 (unat file_name_len);
          buf \<leftarrow> blit buf 4 name;
          buf \<leftarrow> blit buf (4 + unat file_name_len) (take (unat file_len) contents);
          (ret, ptp, d, p) \<leftarrow> ptp_transaction tr p (chdk_ptp PTP_CHDK_UploadFile 1) PTP_DP_SENDDATA data_len (Some buf);
          Some (ret, p)
        })"

definition gd_to_file :: "'f stdio \<Rightarrow> u32 \<Rightarrow> bytes \<Rightarrow> u64 \<Rightarrow> 'f \<Rightarrow> u16 \<times> 'f" where
  "gd_to_file io len bs tot f =
     (let (count, f) = fwrite io (take (unat len) bs) f
      in (if count \<noteq> unat len then PTP_ERROR_IO else PTP_RC_OK, f))"

text \<open>The result has the file that was written, if it could be opened.\<close>

definition ptp_chdk_download ::
  "'f stdio \<Rightarrow> ('w, 'f) transport \<Rightarrow> 'w PTPParams \<Rightarrow> bytes \<Rightarrow> bytes \<Rightarrow>
   (u16 \<times> 'f option \<times> 'w PTPParams) option" where
  "ptp_chdk_download io tr p remote_fn local_fn =
     (case fopen_wb io local_fn of
        None \<Rightarrow> Some (PTP_ERROR_IO, None, p)
      | Some f \<Rightarrow> do {
          n \<leftarrow> strlen remote_fn;
          (ret, ptp, d, p) \<leftarrow>
            ptp_transaction tr p (chdk_ptp PTP_CHDK_TempData 2 \<lparr> Param2 := 0 \<rparr>) PTP_DP_SENDDATA
              (of_nat n) (Some remote_fn);
          if ret \<noteq> PTP_RC_OK then Some (ret, Some f, p)
          else do {
            let gd = \<lparr> handler = Some (gd_to_file io), block_size = 0, ret_data = None,
                       handler_data = f, total_size = 0 \<rparr>;
            (ret, ptp, gd, p) \<leftarrow> ptp_getdata_transaction tr p (chdk_ptp PTP_CHDK_DownloadFile 1) gd;
            Some (ret, Some (handler_data gd), p)
          }
        })"

section \<open>Remote capture\<close>

text \<open>The result has \<open>*isready\<close> and \<open>*imgnum\<close>.\<close>

definition ptp_chdk_rcisready ::
  "('w, 'f) transport \<Rightarrow> 'w PTPParams \<Rightarrow> (u16 \<times> u32 \<times> u32 \<times> 'w PTPParams) option" where
  "ptp_chdk_rcisready tr p = do {
     (ret, ptp, d, p) \<leftarrow> ptp_transaction tr p (chdk_ptp PTP_CHDK_RemoteCaptureIsReady 1) PTP_DP_NODATA 0 None;
     Some (ret, Param1 ptp, Param2 ptp, p)
   }"

record ptp_chdk_rc_chunk =
  rc_size :: u32
  rc_last :: bool
  rc_offset :: u32
  rc_data :: "bytes option"

definition ptp_chdk_rcgetchunk ::
  "('w, 'f) transport \<Rightarrow> 'w PTPParams \<Rightarrow> u32 \<Rightarrow> (u16 \<times> ptp_chdk_rc_chunk \<times> 'w PTPParams) option" where
  "ptp_chdk_rcgetchunk tr p fmt = do {
     let ptp = chdk_ptp PTP_CHDK_RemoteCaptureGetData 2 \<lparr> Param2 := fmt \<rparr>;
     (ret, ptp, data, p) \<leftarrow> ptp_transaction tr p ptp PTP_DP_GETDATA 0 None;
     Some (ret, \<lparr> rc_size = Param1 ptp, rc_last = (Param2 ptp = 0), rc_offset = Param3 ptp,
                  rc_data = data \<rparr>, p)
   }"

section \<open>Scripts\<close>

definition ptp_chdk_exec_lua ::
  "('w, 'f) transport \<Rightarrow> 'w PTPParams \<Rightarrow> bytes \<Rightarrow> u32 \<Rightarrow> (u16 \<times> u32 \<times> u32 \<times> 'w PTPParams) option" where
  "ptp_chdk_exec_lua tr p script flags = do {
     let ptp = chdk_ptp PTP_CHDK_ExecuteScript 2 \<lparr> Param2 := PTP_CHDK_SL_LUA OR flags \<rparr>;
     n \<leftarrow> strlen script;
     (r, ptp, d, p) \<leftarrow> ptp_transaction tr p ptp PTP_DP_SENDDATA (of_nat (n + 1)) (Some script);
     if r \<noteq> PTP_RC_OK then Some (r, 0, 0, p) else Some (r, Param1 ptp, Param2 ptp, p)
   }"

definition ptp_chdk_get_version ::
  "('w, 'f) transport \<Rightarrow> 'w PTPParams \<Rightarrow> (u16 \<times> u32 \<times> u32 \<times> 'w PTPParams) option" where
  "ptp_chdk_get_version tr p = do {
     (r, ptp, d, p) \<leftarrow> ptp_transaction tr p (chdk_ptp PTP_CHDK_Version 1) PTP_DP_NODATA 0 None;
     Some (r, Param1 ptp, Param2 ptp, p)
   }"

definition ptp_chdk_get_script_status ::
  "('w, 'f) transport \<Rightarrow> 'w PTPParams \<Rightarrow> (u16 \<times> u32 \<times> 'w PTPParams) option" where
  "ptp_chdk_get_script_status tr p = do {
     (r, ptp, d, p) \<leftarrow> ptp_transaction tr p (chdk_ptp PTP_CHDK_ScriptStatus 1) PTP_DP_NODATA 0 None;
     Some (r, Param1 ptp, p)
   }"

definition ptp_chdk_get_script_support ::
  "('w, 'f) transport \<Rightarrow> 'w PTPParams \<Rightarrow> (u16 \<times> u32 \<times> 'w PTPParams) option" where
  "ptp_chdk_get_script_support tr p = do {
     (r, ptp, d, p) \<leftarrow> ptp_transaction tr p (chdk_ptp PTP_CHDK_ScriptSupport 1) PTP_DP_NODATA 0 None;
     Some (r, Param1 ptp, p)
   }"

definition ptp_chdk_write_script_msg ::
  "('w, 'f) transport \<Rightarrow> 'w PTPParams \<Rightarrow> bytes \<Rightarrow> u32 \<Rightarrow> u32 \<Rightarrow> (u16 \<times> u32 \<times> 'w PTPParams) option" where
  "ptp_chdk_write_script_msg tr p data sz target_script_id =
     (if sz = 0 then Some (PTP_ERROR_BADPARAM, 0, p)
      else do {
        let ptp = chdk_ptp PTP_CHDK_WriteScriptMsg 2 \<lparr> Param2 := target_script_id \<rparr>;
        (r, ptp, d, p) \<leftarrow> ptp_transaction tr p ptp PTP_DP_SENDDATA sz (Some data);
        if r \<noteq> PTP_RC_OK then Some (r, 0, p) else Some (r, Param1 ptp, p)
      })"

text \<open>\<open>msg_data\<close> has a zero byte after the message.\<close>

record ptp_chdk_script_msg =
  msg_size :: u32
  msg_script_id :: u32
  msg_type :: u32
  msg_subtype :: u32
  msg_data :: bytes

definition ptp_chdk_read_script_msg ::
  "('w, 'f) transport \<Rightarrow> 'w PTPParams \<Rightarrow> (u16 \<times> ptp_chdk_script_msg option \<times> 'w PTPParams) option" where
  "ptp_chdk_read_script_msg tr p = do {
     (r, ptp, data, p) \<leftarrow> ptp_transaction tr p (chdk_ptp PTP_CHDK_ReadScriptMsg 1) PTP_DP_GETDATA 0 None;
     if r \<noteq> PTP_RC_OK then Some (r, None, p)
     else do {
       data \<leftarrow> data;
       bs \<leftarrow> ldn data 0 (unat (Param4 ptp));
       Some (r, Some \<lparr> msg_size = Param4 ptp, msg_script_id = Param3 ptp, msg_type = Param1 ptp,
                       msg_subtype = Param2 ptp, msg_data = bs @ [0] \<rparr>, p)
     }
   }"

section \<open>Live view, calls\<close>

definition ptp_chdk_get_live_data ::
  "('w, 'f) transport \<Rightarrow> 'w PTPParams \<Rightarrow> u32 \<Rightarrow> (u16 \<times> bytes option \<times> u32 \<times> 'w PTPParams) option" where
  "ptp_chdk_get_live_data tr p flags = do {
     let ptp = chdk_ptp PTP_CHDK_GetDisplayData 2 \<lparr> Param2 := flags \<rparr>;
     (r, ptp, data, p) \<leftarrow> ptp_transaction tr p ptp PTP_DP_GETDATA 0 None;
     if r \<noteq> PTP_RC_OK then Some (r, None, 0, p) else Some (r, data, Param1 ptp, p)
   }"

text \<open>\<open>args\<close> is the array of the caller, of which the first \<open>sz\<close> are sent.\<close>

definition ptp_chdk_call_function ::
  "('w, 'f) transport \<Rightarrow> 'w PTPParams \<Rightarrow> u32 list \<Rightarrow> nat \<Rightarrow> (u16 \<times> u32 option \<times> 'w PTPParams) option" where
  "ptp_chdk_call_function tr p args sz = do {
     (r, ptp, d, p) \<leftarrow> ptp_transaction tr p (chdk_ptp PTP_CHDK_CallFunction 1) PTP_DP_SENDDATA
                        (of_nat (4 * sz)) (Some (concat (map mem32 args)));
     if r \<noteq> PTP_RC_OK then Some (r, None, p) else Some (r, Some (Param1 ptp), p)
   }"

end
