(* ===== verification/Con_Io.thy ===== *)
theory Con_Io
  imports Ptp_Ops
begin

text \<open>
  The reading and writing functions of a connection in \<open>chdkptp.c\<close>. The state behind
  \<open>void *data\<close> is \<open>PTP_CON_STATE\<close> (\<open>ptpcam.h\<close>) together with the outside world \<open>'e\<close>, on which the
  functions of libusb and of the sockets act.
\<close>

section \<open>Connection state\<close>

definition PTP_CON_USB :: int where "PTP_CON_USB = 0"
definition PTP_CON_TCP :: int where "PTP_CON_TCP = 1"

text \<open>
  The fields of the union \<open>usb\<close> and \<open>tcp\<close> are fields of the state: which of them are used is decided by
  \<open>con_type\<close>, which never changes. \<open>con_ai\<close> and \<open>con_ai_con\<close> are what \<open>getaddrinfo\<close> returned and the part
  of it from the address in use on; a null pointer is \<open>None\<close>. Strings are without their zero byte.
\<close>

type_synonym addrinfo = bytes

record PTP_CON_STATE =
  con_type :: int
  script_id :: u32
  timeout :: int
  connected :: bool
  write_count :: u64
  read_count :: u64
  usb_handle :: "nat option"
  inep :: int
  outep :: int
  intep :: int
  con_bus :: bytes
  con_dev :: bytes
  cmd_sock :: "nat option"
  event_sock :: "nat option"
  con_ai :: "addrinfo list option"
  con_ai_con :: "addrinfo option"
  connection_id :: u32
  cam_guid :: bytes
  con_host :: bytes
  con_port :: bytes

record 'e con_world =
  cs :: PTP_CON_STATE
  env :: 'e

text \<open>A connection object as \<open>chdk_connection\<close> allocates it, with every byte zero.\<close>

definition zero_deviceinfo :: PTPDeviceInfo where
  "zero_deviceinfo =
     \<lparr> StandardVersion = 0, VendorExtensionID = 0, VendorExtensionVersion = 0,
       VendorExtensionDesc = None, FunctionalMode = 0, OperationsSupported_len = 0,
       OperationsSupported = [], EventsSupported_len = 0, EventsSupported = [],
       DevicePropertiesSupported_len = 0, DevicePropertiesSupported = [], CaptureFormats_len = 0,
       CaptureFormats = [], ImageFormats_len = 0, ImageFormats = [], Manufacturer = None,
       Model = None, DeviceVersion = None, SerialNumber = None \<rparr>"

definition zero_params :: "'w \<Rightarrow> 'w PTPParams" where
  "zero_params w =
     \<lparr> byteorder = 0, transaction_id = 0, session_id = 0, deviceinfo = zero_deviceinfo,
       max_packet_size = 0,
       pkt_buf = \<lparr> b_data = replicate PTP_PACKET_BUFFER_SIZE 0, b_pos = 0, b_len = 0 \<rparr>, con = w \<rparr>"

definition zero_con_state :: PTP_CON_STATE where
  "zero_con_state =
     \<lparr> con_type = 0, script_id = 0, timeout = 0, connected = False, write_count = 0, read_count = 0,
       usb_handle = None, inep = 0, outep = 0, intep = 0, con_bus = [], con_dev = [],
       cmd_sock = Some 0, event_sock = Some 0, con_ai = None, con_ai_con = None, connection_id = 0,
       cam_guid = replicate 16 0, con_host = [], con_port = [] \<rparr>"

text \<open>What \<open>init_ptp_tcp\<close> and \<open>init_ptp_usb\<close> set in the parameters before they open the device.\<close>

definition init_params :: "'e con_world PTPParams \<Rightarrow> 'e con_world PTPParams" where
  "init_params p =
     p \<lparr> transaction_id := 0, byteorder := PTP_DL_LE,
         pkt_buf := (pkt_buf p) \<lparr> b_pos := 0, b_len := 0 \<rparr> \<rparr>"

lemma init_buf_ok:
  "length (b_data (pkt_buf p)) = PTP_PACKET_BUFFER_SIZE \<Longrightarrow> buf_ok (pkt_buf (init_params p))"
  by (simp add: init_params_def buf_ok_def)

section \<open>USB\<close>

text \<open>
  \<open>usb_bulk_read h e n\<close>: a read of at most \<open>n\<close> bytes from endpoint \<open>e\<close> of the device with handle \<open>h\<close> gives
  its result and the bytes it stored. \<open>usb_bulk_write\<close> gives its result. The timeout they get is fixed.
\<close>

record 'e libusb =
  usb_bulk_read :: "nat option \<Rightarrow> int \<Rightarrow> nat \<Rightarrow> 'e \<Rightarrow> int \<times> bytes \<times> 'e"
  usb_bulk_write :: "nat option \<Rightarrow> int \<Rightarrow> bytes \<Rightarrow> 'e \<Rightarrow> int \<times> 'e"

definition PTPCAM_USB_URB :: int where "PTPCAM_USB_URB = 2097152"

text \<open>One read, repeated once if it returned nothing.\<close>

definition bulk_read_retry ::
  "'e libusb \<Rightarrow> nat option \<Rightarrow> int \<Rightarrow> bytes \<Rightarrow> nat \<Rightarrow> nat \<Rightarrow> 'e \<Rightarrow> (int \<times> bytes \<times> 'e) option" where
  "bulk_read_retry usb hnd ep m off n e =
     (let (result, bs, e) = usb_bulk_read usb hnd ep n e in
      do {
        m \<leftarrow> blit m off bs;
        if result = 0 then
          (let (result, bs, e) = usb_bulk_read usb hnd ep n e in
           do { m \<leftarrow> blit m off bs; Some (result, m, e) })
        else Some (result, m, e)
      })"

text \<open>The loop of \<open>ptp_usb_read_func\<close>: \<open>toread\<close> is what the previous read asked for.\<close>

function usb_read_loop ::
  "'e libusb \<Rightarrow> bytes \<Rightarrow> nat \<Rightarrow> int \<Rightarrow> int \<Rightarrow> int \<Rightarrow> 'e con_world \<Rightarrow> (int \<times> int \<times> bytes \<times> 'e con_world) option" where
  "usb_read_loop usb m off toread rbytes read_size w =
     (let off = off + nat toread;
          toread = (if rbytes > PTPCAM_USB_URB then PTPCAM_USB_URB else rbytes) in
      case bulk_read_retry usb (usb_handle (cs w)) (inep (cs w)) m off (nat toread) (env w) of
        None \<Rightarrow> None
      | Some (result, m, e) \<Rightarrow>
          let w = w \<lparr> env := e \<rparr> in
          if result < 0 then Some (result, read_size, m, w)
          else
            let w = w \<lparr> cs := (cs w) \<lparr> read_count := read_count (cs w) + word_of_int toread \<rparr> \<rparr>;
                read_size = read_size + result;
                rbytes = rbytes - PTPCAM_USB_URB
            in if rbytes > 0 then usb_read_loop usb m off toread rbytes read_size w
               else Some (result, read_size, m, w))"
  by pat_completeness auto
termination
  by (relation "measure (\<lambda>(usb, m, off, toread, rbytes, read_size, w). nat rbytes)")
     (auto simp: PTPCAM_USB_URB_def)

declare usb_read_loop.simps [simp del]

definition ptp_usb_read_func ::
  "'e libusb \<Rightarrow> bytes \<Rightarrow> nat \<Rightarrow> u32 \<Rightarrow> 'e con_world \<Rightarrow> (int \<times> bytes \<times> 'e con_world) option" where
  "ptp_usb_read_func usb m off max_size w = do {
     (result, read_size, m, w) \<leftarrow> usb_read_loop usb m off 0 (uint max_size) 0 w;
     Some (if result \<ge> 0 then read_size else - 1, m, w)
   }"

definition ptp_usb_write_func :: "'e libusb \<Rightarrow> bytes \<Rightarrow> 'e con_world \<Rightarrow> u16 \<times> 'e con_world" where
  "ptp_usb_write_func usb bs w =
     (let (result, e) = usb_bulk_write usb (usb_handle (cs w)) (outep (cs w)) bs (env w);
          w = w \<lparr> env := e \<rparr> in
      if result \<ge> 0
      then (PTP_RC_OK, w \<lparr> cs := (cs w) \<lparr> write_count := write_count (cs w) + of_nat (length bs) \<rparr> \<rparr>)
      else (PTP_ERROR_IO, w))"

definition ptp_usb_check_int ::
  "'e libusb \<Rightarrow> bytes \<Rightarrow> nat \<Rightarrow> u32 \<Rightarrow> 'e con_world \<Rightarrow> (int \<times> bytes \<times> 'e con_world) option" where
  "ptp_usb_check_int usb m off sz w = do {
     (result, m, e) \<leftarrow> bulk_read_retry usb (usb_handle (cs w)) (intep (cs w)) m off (unat sz) (env w);
     Some (result, m, w \<lparr> env := e \<rparr>)
   }"

section \<open>TCP\<close>

text \<open>\<open>send s bs\<close> and \<open>recv s n\<close> on socket \<open>s\<close>; -1 is \<open>SOCKET_ERROR\<close>. A socket that is not valid is
  \<open>None\<close>.\<close>

record 'e sockets =
  send :: "nat option \<Rightarrow> bytes \<Rightarrow> 'e \<Rightarrow> int \<times> 'e"
  recv :: "nat option \<Rightarrow> nat \<Rightarrow> 'e \<Rightarrow> int \<times> bytes \<times> 'e"

definition ptp_tcp_write_func :: "'e sockets \<Rightarrow> bytes \<Rightarrow> 'e con_world \<Rightarrow> u16 \<times> 'e con_world" where
  "ptp_tcp_write_func net bs w =
     (let (result, e) = send net (cmd_sock (cs w)) bs (env w);
          w = w \<lparr> env := e \<rparr> in
      if result = - 1 then (PTP_ERROR_IO, w)
      else (PTP_RC_OK, w \<lparr> cs := (cs w) \<lparr> write_count := write_count (cs w) + of_nat (length bs) \<rparr> \<rparr>))"

definition ptp_tcp_read_func ::
  "'e sockets \<Rightarrow> bytes \<Rightarrow> nat \<Rightarrow> u32 \<Rightarrow> 'e con_world \<Rightarrow> (int \<times> bytes \<times> 'e con_world) option" where
  "ptp_tcp_read_func net m off max_size w =
     (let (result, bs, e) = recv net (cmd_sock (cs w)) (unat max_size) (env w);
          w = w \<lparr> env := e \<rparr> in
      do {
        m \<leftarrow> blit m off bs;
        Some (if result > 0
              then (result, m, w \<lparr> cs := (cs w) \<lparr> read_count := read_count (cs w) + word_of_int result \<rparr> \<rparr>)
              else (- 1, m, w))
      })"

text \<open>The function for events does nothing and returns \<open>PTP_RC_OK\<close>, as a number of bytes.\<close>

definition ptp_tcp_check_int ::
  "bytes \<Rightarrow> nat \<Rightarrow> u32 \<Rightarrow> 'e con_world \<Rightarrow> (int \<times> bytes \<times> 'e con_world) option" where
  "ptp_tcp_check_int m off sz w = Some (uint PTP_RC_OK, m, w)"

section \<open>The I/O functions of a connection\<close>

definition usb_io :: "(nat \<Rightarrow> bytes option) \<Rightarrow> (nat \<Rightarrow> bytes) \<Rightarrow> 'e libusb \<Rightarrow> 'e con_world ptp_io" where
  "usb_io mall stk usb =
     \<lparr> read_func = ptp_usb_read_func usb, write_func = ptp_usb_write_func usb,
       check_int_func = ptp_usb_check_int usb, check_int_fast_func = ptp_usb_check_int usb,
       malloc = mall, stack = stk \<rparr>"

definition tcp_io :: "(nat \<Rightarrow> bytes option) \<Rightarrow> (nat \<Rightarrow> bytes) \<Rightarrow> 'e sockets \<Rightarrow> 'e con_world ptp_io" where
  "tcp_io mall stk net =
     \<lparr> read_func = ptp_tcp_read_func net, write_func = ptp_tcp_write_func net,
       check_int_func = ptp_tcp_check_int, check_int_fast_func = ptp_tcp_check_int,
       malloc = mall, stack = stk \<rparr>"

end
