(* ===== verification/Tcp_Con.thy ===== *)
theory Tcp_Con
  imports Con_Io Ptp_Chdk
begin

text \<open>
  PTP over a TCP connection: the functions of \<open>chdkptp.c\<close> on a socket whose peer sends a given
  sequence of segments. The contract \<open>live_stream\<close> of the PTP layer is proved for
  \<open>ptp_tcp_read_func\<close>; with it come the properties of whole transactions, for every way the
  bytes may be cut into segments.
\<close>

section \<open>A peer\<close>

text \<open>
  \<open>incoming\<close> are the segments \<open>recv\<close> will deliver, none of them empty: it hands over at most one of
  them, or part of it, and 0 when the peer has closed the connection. \<open>outgoing\<close> are the bytes
  that were sent; \<open>refuse\<close> says which of the next calls of \<open>send\<close> fail.
\<close>

record peer =
  incoming :: "bytes list"
  outgoing :: bytes
  refuse :: "bool list"

definition peer_send :: "nat option \<Rightarrow> bytes \<Rightarrow> peer \<Rightarrow> int \<times> peer" where
  "peer_send s bs e =
     (let e' = e \<lparr> refuse := tl (refuse e) \<rparr> in
      if refuse e \<noteq> [] \<and> hd (refuse e) then (- 1, e')
      else (int (length bs), e' \<lparr> outgoing := outgoing e @ bs \<rparr>))"

definition peer_recv :: "nat option \<Rightarrow> nat \<Rightarrow> peer \<Rightarrow> int \<times> bytes \<times> peer" where
  "peer_recv s n e =
     (case incoming e of
        [] \<Rightarrow> (0, [], e)
      | b # bs \<Rightarrow> (int (min n (length b)), take n b,
                   e \<lparr> incoming := (if n < length b then drop n b # bs else bs) \<rparr>))"

definition peer_net :: "peer sockets" where
  "peer_net = \<lparr> send = peer_send, recv = peer_recv \<rparr>"

definition peer_pending :: "peer con_world \<Rightarrow> bytes" where
  "peer_pending w = concat (incoming (env w))"

text \<open>No segment is empty, \<open>S\<close> was sent so far, and the next sends succeed.\<close>

definition peer_good :: "bytes \<Rightarrow> peer con_world \<Rightarrow> bool" where
  "peer_good S w \<longleftrightarrow> [] \<notin> set (incoming (env w)) \<and> outgoing (env w) = S \<and> refuse (env w) = []"

interpretation tcp_peer: live_stream "tcp_io mall stk peer_net" peer_pending "\<lambda>_. True" "peer_good S"
proof unfold_locales
  fix m :: bytes and off and n :: u32 and r m' and w w' :: "peer con_world"
  assume r: "read_func (tcp_io mall stk peer_net) m off n w = Some (r, m', w')"
  then show "length m' = length m"
    by (auto simp: tcp_io_def ptp_tcp_read_func_def Let_def split: prod.splits bind_splits if_splits
        dest: blit_length)
  assume "0 \<le> r"
  with r show "\<exists>bs. int (length bs) = r \<and> length bs \<le> unat n \<and> blit m off bs = Some m' \<and>
      peer_pending w = bs @ peer_pending w'"
    by (intro exI [of _ "take (unat n) (hd (incoming (env w)))"])
      (auto simp: tcp_io_def ptp_tcp_read_func_def peer_net_def peer_recv_def peer_pending_def Let_def
        split: prod.splits bind_splits if_splits list.splits)
next
  fix m :: bytes and off and n :: u32 and w :: "peer con_world"
  assume n: "n \<noteq> 0" and room: "off + unat n \<le> length m" and p: "peer_pending w \<noteq> []" and g: "peer_good S w"
  have un: "unat n \<noteq> 0" using n by (simp add: unat_eq_0)
  from p g obtain b bs where i: "incoming (env w) = b # bs" "b \<noteq> []"
    by (cases "incoming (env w)") (auto simp: peer_pending_def peer_good_def)
  have "off + length (take (unat n) b) \<le> length m" using room by simp
  then obtain m' where "blit m off (take (unat n) b) = Some m'" using blit_exists by blast
  moreover have "0 < min (unat n) (length b)" using un i(2) by simp
  ultimately show "\<exists>r m' w'. read_func (tcp_io mall stk peer_net) m off n w = Some (r, m', w') \<and> 0 < r \<and> peer_good S w'"
    using i g by (auto simp: tcp_io_def ptp_tcp_read_func_def peer_net_def peer_recv_def peer_good_def Let_def
        dest: in_set_dropD)
qed auto

section \<open>Writing to the peer\<close>

lemma peer_write_ret:
  assumes "peer_good S (con p)"
  obtains p' where "write_ret (tcp_io mall stk peer_net) p bs = (PTP_RC_OK, p')"
    and "peer_good (S @ bs) (con p')" and "peer_pending (con p') = peer_pending (con p)"
    and "same_params p p'" and "pkt_buf p' = pkt_buf p"
proof -
  let ?w = "(con p) \<lparr> env := (env (con p)) \<lparr> refuse := [], outgoing := S @ bs \<rparr>,
    cs := (cs (con p)) \<lparr> write_count := write_count (cs (con p)) + of_nat (length bs) \<rparr> \<rparr>"
  have "write_ret (tcp_io mall stk peer_net) p bs = (PTP_RC_OK, p \<lparr> con := ?w \<rparr>)"
    using assms by (simp add: write_ret_def tcp_io_def ptp_tcp_write_func_def peer_net_def peer_send_def
        peer_good_def Let_def)
  from that [OF this] show thesis
    using assms by (simp add: peer_good_def peer_pending_def)
qed

lemma peer_write_all:
  assumes "peer_good S (con p)"
  obtains p' where "write_all (tcp_io mall stk peer_net) p ws = (PTP_RC_OK, p')"
    and "peer_good (S @ concat ws) (con p')" and "peer_pending (con p') = peer_pending (con p)"
    and "same_params p p'" and "pkt_buf p' = pkt_buf p"
proof -
  have "\<exists>p'. write_all (tcp_io mall stk peer_net) p ws = (PTP_RC_OK, p') \<and>
      peer_good (S @ concat ws) (con p') \<and> peer_pending (con p') = peer_pending (con p) \<and>
      same_params p p' \<and> pkt_buf p' = pkt_buf p"
  proof (induction ws rule: rev_induct)
    case Nil
    then show ?case using assms by (simp add: write_all_def)
  next
    case (snoc bs ws)
    then obtain p1 where p1: "write_all (tcp_io mall stk peer_net) p ws = (PTP_RC_OK, p1)"
      "peer_good (S @ concat ws) (con p1)" "peer_pending (con p1) = peer_pending (con p)"
      "same_params p p1" "pkt_buf p1 = pkt_buf p" by blast
    obtain p2 where p2: "write_ret (tcp_io mall stk peer_net) p1 bs = (PTP_RC_OK, p2)"
      "peer_good ((S @ concat ws) @ bs) (con p2)" "peer_pending (con p2) = peer_pending (con p1)"
      "same_params p1 p2" "pkt_buf p2 = pkt_buf p1"
      by (rule peer_write_ret [OF p1(2)])
    show ?case
      by (rule exI [of _ p2]) (use p1 p2 same_params_trans [OF p1(4) p2(4)] in \<open>simp add: write_all_def\<close>)
  qed
  with that show thesis by blast
qed

lemma input_same: "pkt_buf p' = pkt_buf p \<Longrightarrow> pending (con p') = pending (con p) \<Longrightarrow> input pending p' = input pending p"
  by (simp add: input_def)

section \<open>Transactions\<close>

lemma numbered_params [simp]: "container_params (numbered p ptp) = container_params ptp"
  by (simp add: numbered_def container_params_def)

abbreviation peer_con :: "(nat \<Rightarrow> bytes option) \<Rightarrow> (nat \<Rightarrow> bytes) \<Rightarrow> (peer con_world, 'f) transport" where
  "peer_con mall stk \<equiv> tcp_transport (tcp_io mall stk peer_net)"

text \<open>The start of every transaction: the request is sent, the number is used up.\<close>

lemma peer_sendreq:
  assumes "peer_good S (con p)" and "unat (Nparam ptp) \<le> 5"
  obtains p1 where "sendreq_func (peer_con mall stk) (p \<lparr> transaction_id := transaction_id p + 1 \<rparr>) (numbered p ptp) =
      Some (PTP_RC_OK, p1)"
    and "peer_good (S @ ip_request (byteorder p) (numbered p ptp)) (con p1)"
    and "input peer_pending p1 = input peer_pending p" and "pkt_buf p1 = pkt_buf p"
    and "same_params (p \<lparr> transaction_id := transaction_id p + 1 \<rparr>) p1"
proof -
  let ?p = "p \<lparr> transaction_id := transaction_id p + 1 \<rparr>"
  have g: "peer_good S (con ?p)" and n: "unat (Nparam (numbered p ptp)) \<le> 5" using assms by simp_all
  obtain p1 where p1: "write_ret (tcp_io mall stk peer_net) ?p (ip_request (byteorder ?p) (numbered p ptp)) = (PTP_RC_OK, p1)"
    "peer_good (S @ ip_request (byteorder ?p) (numbered p ptp)) (con p1)"
    "peer_pending (con p1) = peer_pending (con ?p)" "same_params ?p p1" "pkt_buf p1 = pkt_buf ?p"
    by (rule peer_write_ret [OF g])
  show thesis
    by (rule that [of p1]) (use p1 tcp_sendreq_eq [OF n, of "tcp_io mall stk peer_net" ?p] in
        \<open>simp_all add: tcp_transport_def input_def\<close>)
qed

lemma stack_tcp_io [simp]: "stack (tcp_io mall stk net) = stk" "malloc (tcp_io mall stk net) = mall"
  by (simp_all add: tcp_io_def)

lemma blit_whole: "length bs = length m \<Longrightarrow> the (blit m 0 bs) = bs"
  by (simp add: blit_def)

lemma tcp_receive_ok:
  assumes buf: "buf_ok (pkt_buf p)" and good: "peer_good S (con p)" and bo: "byteorder p = PTP_DL_LE"
    and np: "unat (Nparam ptp) \<le> 5"
    and answer: "input peer_pending p =
      ip_start PTP_DL_LE tid (length data) @ ip_payload PTP_DL_LE tid ds e @ ip_response PTP_DL_LE code tid ps @ rest"
    and data: "data = concat ds @ e" and chunks: "list_all (\<lambda>d. d \<noteq> [] \<and> length d < 2 ^ 31) ds"
    and sizes: "length e < 2 ^ 31" "length data < 2 ^ 64" "length ps \<le> 5"
    and mall: "\<And>n. \<exists>m. mall n = Some m \<and> length m = n" and stk: "\<And>n. length (stk n) = n"
  shows "\<exists>p'. ptp_transaction (peer_con mall stk) p ptp PTP_DP_GETDATA 0 None =
      Some (if code = Code ptp then PTP_RC_OK else code,
            response_container (session_id p) code tid ps, Some data, p') \<and>
    buf_ok (pkt_buf p') \<and> peer_good (S @ ip_request PTP_DL_LE (numbered p ptp)) (con p') \<and>
    input peer_pending p' = rest \<and> transaction_id p' = transaction_id p + 1 \<and> session_id p' = session_id p"
proof -
  let ?io = "tcp_io mall stk peer_net" and ?S = "S @ ip_request PTP_DL_LE (numbered p ptp)"
  obtain p1 where p1: "sendreq_func (peer_con mall stk) (p \<lparr> transaction_id := transaction_id p + 1 \<rparr>)
      (numbered p ptp) = Some (PTP_RC_OK, p1)" "peer_good ?S (con p1)"
    "input peer_pending p1 = input peer_pending p" "pkt_buf p1 = pkt_buf p"
    "same_params (p \<lparr> transaction_id := transaction_id p + 1 \<rparr>) p1"
    using peer_sendreq [OF good np, of mall stk thesis] by (auto simp: bo)
  note f1 = same_params_fields [OF p1(5), simplified]
  have b1: "buf_ok (pkt_buf p1)" and o1: "byteorder p1 = PTP_DL_LE" using buf bo p1(4) f1 by simp_all
  have i1: "input peer_pending p1 = ip_start PTP_DL_LE tid (length (concat ds @ e)) @
      ip_payload PTP_DL_LE tid ds e @ (ip_response PTP_DL_LE code tid ps @ rest)"
    using answer p1(3) by (simp add: data)
  obtain m where m: "mall (length data) = Some m" "length m = length data" using mall by blast
  have st: "length (stack ?io sizeof_PTPIPContainer) = sizeof_PTPIPContainer" using stk by simp
  have mm: "(case ret_data (memory_params None) of None \<Rightarrow> malloc ?io (length (concat ds @ e)) | Some m \<Rightarrow> Some m) = Some m"
    "length (concat ds @ e) \<le> length m" "handler (memory_params None) = None"
    using m by (simp_all add: memory_params_def data)
  have small: "length (concat ds @ e) < 2 ^ 64" using sizes(2) by (simp add: data)
  obtain p2 where p2: "ptp_tcp_getdata ?io p1 (numbered p ptp) (memory_params None) = Some (PTP_RC_OK,
      memory_params None \<lparr> ret_data := Some (the (blit m 0 (concat ds @ e))),
        total_size := of_nat (length (concat ds @ e)) \<rparr>, p2)"
    "buf_ok (pkt_buf p2)" "peer_good ?S (con p2)" "same_params p1 p2"
    "input peer_pending p2 = ip_response PTP_DL_LE code tid ps @ rest"
    by (rule tcp_peer.tcp_getdata_ok [OF b1 p1(2) o1 i1 chunks sizes(1) small st mm(3,1,2)])
  note f2 = same_params_fields [OF p2(4)]
  have o2: "byteorder p2 = PTP_DL_LE" using f2 o1 by simp
  obtain p3 where p3: "ptp_tcp_getresp ?io p2 (numbered p ptp) =
      Some (if code \<noteq> Code (numbered p ptp) then code else PTP_RC_OK, response_container (session_id p2) code tid ps, p3)"
    "buf_ok (pkt_buf p3)" "peer_good ?S (con p3)" "same_params p2 p3" "input peer_pending p3 = rest"
    by (rule tcp_peer.tcp_getresp_ok [OF p2(2,3) o2 p2(5) sizes(3)])
  note f3 = same_params_fields [OF p3(4)]
  have "the (blit m 0 (concat ds @ e)) = data" using m(2) blit_whole [of data m] by (simp add: data)
  then have "ptp_transaction (peer_con mall stk) p ptp PTP_DP_GETDATA 0 None =
      Some (if code = Code ptp then PTP_RC_OK else code, response_container (session_id p) code tid ps, Some data, p3)"
    using p1(1) p2(1) p3(1) f1 f2
    by (simp add: transaction_getdata tcp_transport_def)
  with p3 f1 f2 f3 show ?thesis by auto
qed

text \<open>C2: A transaction that receives data over TCP. When the peer sends the start packet, the payload divided
  in any way into data packets and an end packet, and the response, and the network delivers these bytes in
  any segments, the transaction ends, stays inside its buffers and returns exactly the payload, with the
  code and the parameters of the response. It sends one request, uses up one transaction number, and leaves
  every byte after the response for the next transaction, whether it was already in the packet buffer or
  not.\<close>

theorem tcp_receive_transaction:
  assumes buf: "buf_ok (pkt_buf p)" and good: "peer_good S (con p)" and bo: "byteorder p = PTP_DL_LE"
    and np: "unat (Nparam ptp) \<le> 5"
    and answer: "input peer_pending p =
      ip_start PTP_DL_LE tid (length data) @ ip_payload PTP_DL_LE tid ds e @ ip_response PTP_DL_LE code tid ps @ rest"
    and data: "data = concat ds @ e" and chunks: "list_all (\<lambda>d. d \<noteq> [] \<and> length d < 2 ^ 31) ds"
    and sizes: "length e < 2 ^ 31" "length data < 2 ^ 64" "length ps \<le> 5"
    and mall: "\<And>n. \<exists>m. mall n = Some m \<and> length m = n" and stk: "\<And>n. length (stk n) = n"
  shows "\<exists>p'. ptp_transaction (peer_con mall stk) p ptp PTP_DP_GETDATA 0 None =
      Some (if code = Code ptp then PTP_RC_OK else code,
            response_container (session_id p) code tid ps, Some data, p') \<and>
    buf_ok (pkt_buf p') \<and> peer_good (S @ ip_request PTP_DL_LE (numbered p ptp)) (con p') \<and>
    input peer_pending p' = rest \<and> transaction_id p' = transaction_id p + 1 \<and> session_id p' = session_id p"
  by (rule tcp_receive_ok [OF assms])

text \<open>C6: A transaction that sends data over TCP writes the request, then the start, data and end packets that
  hold the first \<open>sz\<close> bytes, and nothing else; it returns the code and the parameters of the response, uses
  up one transaction number and leaves what the peer sends next.\<close>

theorem tcp_send_transaction:
  assumes buf: "buf_ok (pkt_buf p)" and good: "peer_good S (con p)" and bo: "byteorder p = PTP_DL_LE"
    and np: "unat (Nparam ptp) \<le> 5" and len: "unat sz \<le> length data"
    and answer: "input peer_pending p = ip_response PTP_DL_LE code tid ps @ rest" and ps: "length ps \<le> 5"
  shows "\<exists>p'. ptp_transaction (peer_con mall stk) p ptp PTP_DP_SENDDATA sz (Some data) =
      Some (if code = Code ptp then PTP_RC_OK else code,
            response_container (session_id p) code tid ps, Some data, p') \<and>
    buf_ok (pkt_buf p') \<and>
    peer_good (S @ ip_request PTP_DL_LE (numbered p ptp) @
      concat (ip_data_writes PTP_DL_LE (numbered p ptp) (take (unat sz) data))) (con p') \<and>
    input peer_pending p' = rest \<and> transaction_id p' = transaction_id p + 1 \<and> session_id p' = session_id p"
proof -
  let ?io = "tcp_io mall stk peer_net" and ?S = "S @ ip_request PTP_DL_LE (numbered p ptp)"
  let ?ws = "ip_data_writes PTP_DL_LE (numbered p ptp) (take (unat sz) data)"
  obtain p1 where p1: "sendreq_func (peer_con mall stk) (p \<lparr> transaction_id := transaction_id p + 1 \<rparr>)
      (numbered p ptp) = Some (PTP_RC_OK, p1)" "peer_good ?S (con p1)"
    "input peer_pending p1 = input peer_pending p" "pkt_buf p1 = pkt_buf p"
    "same_params (p \<lparr> transaction_id := transaction_id p + 1 \<rparr>) p1"
    using peer_sendreq [OF good np, of mall stk thesis] by (auto simp: bo)
  note f1 = same_params_fields [OF p1(5), simplified]
  obtain p2 where p2: "write_all ?io p1 ?ws = (PTP_RC_OK, p2)" "peer_good (?S @ concat ?ws) (con p2)"
    "peer_pending (con p2) = peer_pending (con p1)" "same_params p1 p2" "pkt_buf p2 = pkt_buf p1"
    by (rule peer_write_all [OF p1(2)])
  note f2 = same_params_fields [OF p2(4)]
  have o2: "byteorder p2 = PTP_DL_LE" and b2: "buf_ok (pkt_buf p2)" using f1 f2 bo buf p1(4) p2(5) by simp_all
  have i2: "input peer_pending p2 = ip_response PTP_DL_LE code tid ps @ rest"
    using answer p1(3) input_same [OF p2(5) p2(3)] by simp
  obtain p3 where p3: "ptp_tcp_getresp ?io p2 (numbered p ptp) =
      Some (if code \<noteq> Code (numbered p ptp) then code else PTP_RC_OK, response_container (session_id p2) code tid ps, p3)"
    "buf_ok (pkt_buf p3)" "peer_good (?S @ concat ?ws) (con p3)" "same_params p2 p3" "input peer_pending p3 = rest"
    by (rule tcp_peer.tcp_getresp_ok [OF b2 p2(2) o2 i2 ps])
  note f3 = same_params_fields [OF p3(4)]
  have "ptp_tcp_senddata ?io p1 (numbered p ptp) data sz = Some (PTP_RC_OK, p2)"
    using tcp_senddata_eq [OF len, of ?io p1 "numbered p ptp"] p2(1) f1 bo by simp
  then have "ptp_transaction (peer_con mall stk) p ptp PTP_DP_SENDDATA sz (Some data) =
      Some (if code = Code ptp then PTP_RC_OK else code, response_container (session_id p) code tid ps, Some data, p3)"
    using p1(1) p3(1) f1 f2 by (simp add: transaction_senddata tcp_transport_def)
  with p3 f1 f2 f3 show ?thesis by (auto simp: append_assoc)
qed

section \<open>A lost write\<close>

text \<open>C34: The data phase reports success when the last write succeeds, whatever became of the
  writes before it.
\<close>

theorem tcp_send_error_lost:
  assumes "unat sz \<le> length data" and "refuse (env (con p)) = [True, True, True]"
  shows "\<exists>p'. ptp_tcp_senddata (tcp_io mall stk peer_net) p ptp data sz = Some (PTP_RC_OK, p') \<and>
    outgoing (env (con p')) = outgoing (env (con p)) @
      mem32 12 @ enc32 (byteorder p) PTPIP_TYPE_END_DATA @ enc32 (byteorder p) (Transaction_ID ptp)"
proof -
  define ws where "ws = ip_data_writes (byteorder p) ptp (take (unat sz) data)"
  have "\<exists>a b c. ws = [a, b, c, mem32 12 @ enc32 (byteorder p) PTPIP_TYPE_END_DATA @ enc32 (byteorder p) (Transaction_ID ptp)]"
    by (simp add: ws_def ip_data_writes_def)
  then obtain a b c where ws: "ws = [a, b, c, mem32 12 @ enc32 (byteorder p) PTPIP_TYPE_END_DATA @ enc32 (byteorder p) (Transaction_ID ptp)]"
    by blast
  have w: "write_ret (tcp_io mall stk peer_net) q bs =
      (if refuse (env (con q)) \<noteq> [] \<and> hd (refuse (env (con q)))
       then (PTP_ERROR_IO, q \<lparr> con := (con q) \<lparr> env := (env (con q)) \<lparr> refuse := tl (refuse (env (con q))) \<rparr> \<rparr> \<rparr>)
       else (PTP_RC_OK, q \<lparr> con := (con q)
         \<lparr> env := (env (con q)) \<lparr> refuse := tl (refuse (env (con q))), outgoing := outgoing (env (con q)) @ bs \<rparr>,
           cs := (cs (con q)) \<lparr> write_count := write_count (cs (con q)) + of_nat (length bs) \<rparr> \<rparr> \<rparr>))" for q bs
    by (simp add: write_ret_def tcp_io_def ptp_tcp_write_func_def peer_net_def peer_send_def Let_def)
  have "\<exists>p'. write_all (tcp_io mall stk peer_net) p ws = (PTP_RC_OK, p') \<and>
      outgoing (env (con p')) = outgoing (env (con p)) @ ws ! 3"
    unfolding write_all_def ws using assms(2) by (simp add: w)
  then show ?thesis
    using tcp_senddata_eq [OF assms(1), of "tcp_io mall stk peer_net" p ptp] by (simp add: ws_def [symmetric]) (simp add: ws)
qed

section \<open>Reading always ends\<close>

text \<open>When the peer closes the connection too early, the loop ends with an error.\<close>

lemma tcp_read_loop_closed:
  assumes "peer_good S w" and "k + length (peer_pending w) < unat sz" and "unat sz < 2 ^ 31" and "dst + unat sz \<le> length m"
  shows "\<exists>m' w'. tcp_read_loop (tcp_io mall stk peer_net) sz m dst (int k) w = Some (PTP_ERROR_IO, m', w')"
  using assms
proof (induction "length (peer_pending w)" arbitrary: k m w rule: less_induct)
  case less
  let ?io = "tcp_io mall stk peer_net" and ?n = "sz - word_of_int (int k)"
  have uk: "unat (word_of_int (int k) :: u32) = k" using less.prems(2,3) by (simp add: unat_of_nat_u32)
  have lt: "word_of_int (int k) < sz" using uk less.prems(2) by (simp add: word_less_nat_alt)
  have n: "unat ?n = unat sz - k" using unat_sub [OF order.strict_implies_order [OF lt]] uk by simp
  show ?case
  proof (cases "peer_pending w = []")
    case True
    then have "incoming (env w) = []" using less.prems(1) by (cases "incoming (env w)") (auto simp: peer_good_def peer_pending_def)
    then have "\<exists>m' w'. read_func ?io m (dst + k) ?n w = Some (- 1, m', w')"
      using less.prems(2,4) by (simp add: tcp_io_def ptp_tcp_read_func_def peer_net_def peer_recv_def blit_def)
    then show ?thesis using lt by (subst tcp_read_loop.simps) auto
  next
    case False
    have "unat ?n \<noteq> 0" using n less.prems(2) by simp
    then have "?n \<noteq> 0" by (simp add: unat_eq_0)
    moreover have "dst + k + unat ?n \<le> length m" using n less.prems(2,4) by simp
    ultimately obtain r m1 w1 where rd: "read_func ?io m (dst + k) ?n w = Some (r, m1, w1)" "0 < r" "peer_good S w1"
      using tcp_peer.read_live [of ?n "dst + k" m w S mall stk] False less.prems(1) by blast
    have "0 \<le> r" using rd(2) by simp
    from tcp_peer.read_sound [OF TrueI rd(1) this] obtain bs where bs: "int (length bs) = r"
      "length bs \<le> unat ?n" "peer_pending w = bs @ peer_pending w1" by auto
    have "length m1 = length m" by (rule tcp_peer.read_length [OF rd(1)])
    moreover have "length (peer_pending w1) < length (peer_pending w)" using bs(1,3) rd(2) by auto
    moreover have "k + length bs + length (peer_pending w1) < unat sz" using less.prems(2) bs(3) by simp
    ultimately obtain m' w' where "tcp_read_loop ?io sz m1 dst (int (k + length bs)) w1 = Some (PTP_ERROR_IO, m', w')"
      using less.hyps [OF _ rd(3), of "k + length bs" m1] less.prems(3,4) by auto
    moreover have "int_ok (int k + r)" using less.prems(2,3) bs by (simp add: int_ok_def)
    ultimately show ?thesis
      by (subst tcp_read_loop.simps) (use lt rd bs(1) in simp)
  qed
qed

text \<open>C28: A read of data over TCP always ends: it returns the bytes when the peer sends enough of
  them, in whatever segments, and an I/O error when the peer closes the connection before.\<close>

theorem tcp_read_data_returns:
  assumes b: "buf_ok (pkt_buf p)" and g: "peer_good S (con p)" and n: "unat sz < 2 ^ 31" and room: "dst + unat sz \<le> length m"
  shows "\<exists>m' p'. ptp_tcp_read_data (tcp_io mall stk peer_net) p sz m dst =
      Some (if unat sz \<le> length (input peer_pending p) then PTP_RC_OK else PTP_ERROR_IO, m', p') \<and>
    (unat sz \<le> length (input peer_pending p) \<longrightarrow>
       blit m dst (take (unat sz) (input peer_pending p)) = Some m' \<and>
       input peer_pending p' = drop (unat sz) (input peer_pending p))"
proof (cases "unat sz \<le> length (input peer_pending p)")
  case True
  let ?bs = "take (unat sz) (input peer_pending p)"
  have i: "input peer_pending p = ?bs @ drop (unat sz) (input peer_pending p)" and l: "length ?bs = unat sz"
    using True by simp_all
  have r: "dst + length ?bs \<le> length m" using room l by simp
  obtain p' where "ptp_tcp_read_data (tcp_io mall stk peer_net) p sz m dst = Some (PTP_RC_OK, the (blit m dst ?bs), p')"
    "input peer_pending p' = drop (unat sz) (input peer_pending p)"
    by (rule tcp_peer.tcp_read_data_ok [OF b g i l n r])
  moreover obtain m' where "blit m dst ?bs = Some m'" using blit_exists [OF r] by blast
  ultimately show ?thesis using True by simp
next
  case False
  let ?B = "buffered (pkt_buf p)"
  have s: "sint sz = int (unat sz)" using n by (simp add: sint_small)
  have short: "length ?B + length (peer_pending (con p)) < unat sz" using False by (simp add: input_def)
  then have mn: "min (unat sz) (length ?B) = length ?B" by simp
  have "dst + min (nat (int (unat sz))) (length ?B) \<le> length m" using room by simp
  from read_from_buffer_ok [OF b of_nat_0_le_iff this, unfolded nat_int mn] obtain b1 m1 where
    r1: "ptp_transport_read_from_buffer (pkt_buf p) (int (unat sz)) m dst = Some (int (length ?B), b1, m1)"
    and m1: "blit m dst (take (unat sz) ?B) = Some m1" by blast
  have "dst + unat sz \<le> length m1" using room blit_length [OF m1] by simp
  from tcp_read_loop_closed [OF g short n this] obtain m' w' where
    "tcp_read_loop (tcp_io mall stk peer_net) sz m1 dst (int (length ?B)) (con p) = Some (PTP_ERROR_IO, m', w')" by blast
  then show ?thesis using False r1 by (simp add: ptp_tcp_read_data_def s)
qed

section \<open>Examples\<close>

text \<open>A connection to a peer that will send the given segments.\<close>

definition example_con :: "bytes list \<Rightarrow> bool list \<Rightarrow> peer con_world PTPParams" where
  "example_con segs fails =
     init_params (zero_params
       \<lparr> cs = zero_con_state, env = \<lparr> incoming = segs, outgoing = [], refuse = fails \<rparr> \<rparr>)"

lemma example_con_sel [simp]:
  "buf_ok (pkt_buf (example_con segs fails))" "byteorder (example_con segs fails) = PTP_DL_LE"
  "transaction_id (example_con segs fails) = 0" "session_id (example_con segs fails) = 0"
  "input peer_pending (example_con segs fails) = concat segs"
  "refuse (env (con (example_con segs fails))) = fails"
  "peer_good [] (con (example_con segs [])) \<longleftrightarrow> [] \<notin> set segs"
  by (simp_all add: example_con_def init_params_def zero_params_def buf_ok_def input_def peer_pending_def peer_good_def)

definition example_malloc :: "nat \<Rightarrow> bytes option" where "example_malloc n = Some (replicate n 0)"
definition example_stack :: "nat \<Rightarrow> bytes" where "example_stack n = replicate n 0"

definition example_answer :: bytes where
  "example_answer = ip_start PTP_DL_LE 0 5 @ ip_payload PTP_DL_LE 0 [[1, 2, 3]] [4, 5] @
     ip_response PTP_DL_LE PTP_RC_OK 0 [7]"

lemma example_answer_long: "3 < length example_answer"
  by (simp add: example_answer_def ip_start_def)

theorem tcp_receive_transaction_witness:
  "\<exists>p'. ptp_transaction (peer_con example_malloc example_stack)
      (example_con [take 3 example_answer, drop 3 example_answer] [])
      (PTP_CNT_INIT \<lparr> Code := PTP_OC_GetObject, Nparam := 1, Param1 := 9 \<rparr>) PTP_DP_GETDATA 0 None =
    Some (PTP_RC_OK, response_container 0 PTP_RC_OK 0 [7], Some [1, 2, 3, 4, 5], p') \<and>
    input peer_pending p' = [] \<and> transaction_id p' = 1"
proof -
  let ?p = "example_con [take 3 example_answer, drop 3 example_answer] []"
  let ?ptp = "PTP_CNT_INIT \<lparr> Code := PTP_OC_GetObject, Nparam := 1, Param1 := 9 \<rparr>"
  have g: "peer_good [] (con ?p)" using example_answer_long by auto
  have c: "concat [take 3 example_answer, drop 3 example_answer] = example_answer" by simp
  have i: "input peer_pending ?p = ip_start PTP_DL_LE 0 (length [1, 2, 3, 4, 5 :: byte]) @
      ip_payload PTP_DL_LE 0 [[1, 2, 3]] [4, 5] @ ip_response PTP_DL_LE PTP_RC_OK 0 [7] @ []"
  proof -
    have "length [1, 2, 3, 4, 5 :: byte] = 5" by simp
    then show ?thesis unfolding example_con_sel c by (simp only: example_answer_def append_Nil2)
  qed
  show ?thesis
    using tcp_receive_transaction [OF _ g _ _ i, of ?ptp example_malloc example_stack]
    by (auto simp: PTP_CNT_INIT_def example_malloc_def example_stack_def)
qed

theorem tcp_send_transaction_witness:
  "\<exists>p'. ptp_transaction (peer_con example_malloc example_stack)
      (example_con [ip_response PTP_DL_LE PTP_RC_OK 0 []] [])
      (PTP_CNT_INIT \<lparr> Code := PTP_OC_SendObject \<rparr>) PTP_DP_SENDDATA 2 (Some [1, 2, 3]) =
    Some (PTP_RC_OK, response_container 0 PTP_RC_OK 0 [], Some [1, 2, 3], p') \<and>
    input peer_pending p' = [] \<and> transaction_id p' = 1"
proof -
  let ?p = "example_con [ip_response PTP_DL_LE PTP_RC_OK 0 []] []"
  let ?ptp = "PTP_CNT_INIT \<lparr> Code := PTP_OC_SendObject \<rparr>"
  have "length (ip_response PTP_DL_LE PTP_RC_OK 0 []) \<noteq> 0" by (simp add: ip_response_def)
  then have g: "peer_good [] (con ?p)" by auto
  have i: "input peer_pending ?p = ip_response PTP_DL_LE PTP_RC_OK 0 [] @ []" by simp
  show ?thesis
    using tcp_send_transaction [OF _ g _ _ _ i, of ?ptp 2 "[1, 2, 3]" example_malloc example_stack]
    by (auto simp: PTP_CNT_INIT_def)
qed

theorem tcp_send_error_lost_witness:
  "\<exists>p'. ptp_tcp_senddata (tcp_io example_malloc example_stack peer_net) (example_con [] [True, True, True])
      PTP_CNT_INIT [1, 2, 3] 3 = Some (PTP_RC_OK, p')"
  using tcp_send_error_lost [of 3 "[1, 2, 3]" "example_con [] [True, True, True]" example_malloc example_stack
      PTP_CNT_INIT] by auto

theorem tcp_read_data_returns_witness:
  "\<exists>m' p'. ptp_tcp_read_data (tcp_io example_malloc example_stack peer_net) (example_con [[1], [2, 3]] []) 5
      (replicate 5 0) 0 = Some (PTP_ERROR_IO, m', p')"
proof -
  have "peer_good [] (con (example_con [[1], [2, 3]] []))" by simp
  then show ?thesis
    using tcp_read_data_returns [of "example_con [[1], [2, 3]] []" "[]" 5 0 "replicate 5 0" example_malloc example_stack]
    by auto
qed

end
