(* ===== verification/Usb_Stream.thy ===== *)
theory Usb_Stream
  imports Ptp_Usb Ptp_Tcp
begin

text \<open>
  Receiving over USB. A device hands over packets of at most 512 bytes; a read takes whole packets
  and ends after a short one. The contract \<open>packet_stream\<close> states what the PTP layer relies on;
  the lemmas inside it follow a container through the packet buffer and the direct reads, with or
  without the empty packet that may follow a container of full packets.
\<close>

section \<open>Containers in packets\<close>

definition usb_container :: "u8 \<Rightarrow> u16 \<Rightarrow> u16 \<Rightarrow> u32 \<Rightarrow> bytes \<Rightarrow> bytes" where
  "usb_container bo type code tid payload =
     enc32 bo (of_nat (12 + length payload)) @ enc16 bo type @ enc16 bo code @ enc32 bo tid @ payload"

text \<open>The packets of a container; \<open>zlp\<close> says whether an empty packet follows when the last one
  is full.\<close>

fun usb_packets :: "bool \<Rightarrow> bytes \<Rightarrow> bytes list" where
  "usb_packets zlp bs =
     (if length bs < 512 then (if bs = [] \<and> \<not> zlp then [] else [bs])
      else take 512 bs # usb_packets zlp (drop 512 bs))"

declare usb_packets.simps [simp del]

text \<open>
  \<open>waiting packets q rest p\<close>: the next packet to be read, after an empty one that may still be
  there, is \<open>q\<close>; it may be in the packet buffer already.
\<close>

definition waiting :: "('w \<Rightarrow> bytes list) \<Rightarrow> bytes \<Rightarrow> bytes list \<Rightarrow> 'w PTPParams \<Rightarrow> bool" where
  "waiting packets q rest p \<longleftrightarrow> buf_ok (pkt_buf p) \<and> q \<noteq> [] \<and> length q \<le> 512 \<and>
     (buffered (pkt_buf p) = q \<and> packets (con p) = rest \<or>
      buffered (pkt_buf p) = [] \<and> packets (con p) \<in> {q # rest, [] # q # rest})"

lemma usb_packets_full:
  assumes "list_all (\<lambda>q. length q = 512) fs" and "length e < 512"
  shows "usb_packets zlp (concat fs @ e) = fs @ (if e = [] \<and> \<not> zlp then [] else [e])"
  using assms
proof (induction fs)
  case Nil
  then show ?case by (simp add: usb_packets.simps)
next
  case (Cons f fs)
  then have "take 512 (f @ concat fs @ e) = f" "drop 512 (f @ concat fs @ e) = concat fs @ e" by simp_all
  with Cons show ?case by (simp add: usb_packets.simps [of zlp "f @ concat fs @ e"])
qed

text \<open>Every byte string is a number of full packets and a rest.\<close>

lemma full_packets:
  obtains fs e where "bs = concat fs @ e" and "list_all (\<lambda>q. length q = 512) fs" and "length e < 512"
proof -
  have "\<exists>fs e. bs = concat fs @ e \<and> list_all (\<lambda>q. length q = 512) fs \<and> length e < 512"
  proof (induction bs rule: length_induct)
    case (1 bs)
    show ?case
    proof (cases "length bs < 512")
      case True
      then show ?thesis by (intro exI [of _ "[]"] exI [of _ bs]) simp
    next
      case False
      then have "length (drop 512 bs) < length bs" by simp
      with 1 obtain fs e where "drop 512 bs = concat fs @ e" "list_all (\<lambda>q. length q = 512) fs" "length e < 512"
        by blast
      with False have "bs = concat (take 512 bs # fs) @ e \<and> list_all (\<lambda>q. length q = 512) (take 512 bs # fs) \<and> length e < 512"
        by simp (metis append_take_drop_id)
      then show ?thesis by blast
    qed
  qed
  with that show thesis by blast
qed

lemma length_concat_full: "list_all (\<lambda>q. length q = 512) fs \<Longrightarrow> length (concat fs) = 512 * length fs"
  by (induction fs) simp_all

section \<open>The contract of a device\<close>

locale packet_stream =
  fixes io :: "'w ptp_io" and packets :: "'w \<Rightarrow> bytes list" and good :: "'w \<Rightarrow> bool"
  assumes read_full: "good w \<Longrightarrow> packets w = fs @ rest \<Longrightarrow> fs \<noteq> [] \<Longrightarrow> list_all (\<lambda>q. length q = 512) fs \<Longrightarrow>
      unat n = length (concat fs) \<Longrightarrow> unat n < 2147483648 \<Longrightarrow> off + unat n \<le> length m \<Longrightarrow>
      \<exists>w'. read_func io m off n w = Some (int (unat n), the (blit m off (concat fs)), w') \<and>
        packets w' = rest \<and> good w'"
    and read_packet: "good w \<Longrightarrow> packets w \<in> {q # rest, [] # q # rest} \<Longrightarrow> q \<noteq> [] \<Longrightarrow> length q \<le> 512 \<Longrightarrow>
      off + 512 \<le> length m \<Longrightarrow>
      \<exists>w'. read_func io m off 512 w = Some (int (length q), the (blit m off q), w') \<and>
        packets w' = rest \<and> good w'"
begin

lemma read_to_buffer_packet:
  assumes b: "buf_ok (pkt_buf p)" "b_len (pkt_buf p) = 0" and g: "good (con p)"
    and q: "packets (con p) \<in> {q # rest, [] # q # rest}" "q \<noteq> []" "length q \<le> 512" and n: "n \<le> int (length q)"
  obtains p' where "ptp_transport_read_to_buffer io p n = Some (PTP_RC_OK, p')" and "buf_ok (pkt_buf p')"
    and "buffered (pkt_buf p') = q" and "packets (con p') = rest" and "good (con p')" and "same_params p p'"
proof -
  let ?b = "pkt_buf p"
  have len: "length (b_data ?b) = 512" and pos: "b_pos ?b = 0" using b by (simp_all add: buf_ok_def buffer_size)
  then have "0 + 512 \<le> length (b_data ?b)" by simp
  from read_packet [OF g q this] obtain w' where
    w': "read_func io (b_data ?b) 0 512 (con p) = Some (int (length q), the (blit (b_data ?b) 0 q), w')"
    "packets w' = rest" "good w'" by blast
  let ?d = "the (blit (b_data ?b) 0 q)"
  have "word_of_int (int PTP_PACKET_BUFFER_SIZE - int 0) = (512 :: u32)" by (simp add: buffer_size)
  then have loop: "read_to_buffer_loop io n (b_data ?b) 0 (con p) = Some (True, ?d, length q, w')"
    using w'(1) n by (subst read_to_buffer_loop.simps) simp
  have d: "?d = q @ drop (length q) (b_data ?b)" using q(3) len by (simp add: blit_def)
  let ?p = "p \<lparr> pkt_buf := ?b \<lparr> b_data := ?d, b_len := int (length q) \<rparr>, con := w' \<rparr>"
  have "\<not> n > 512" using n q(3) by linarith
  then have "ptp_transport_read_to_buffer io p n = Some (PTP_RC_OK, ?p)"
    using loop b(2) pos by (simp add: ptp_transport_read_to_buffer_def Let_def buffer_size)
  from that [OF this] show thesis
    using w'(2,3) d len pos q(2,3) by (simp add: buf_ok_def buffer_size buffered_def)
qed

lemma control_read_packet:
  assumes w: "waiting packets (bs @ q') rest p" and g: "good (con p)" and ne: "bs \<noteq> []"
    and room: "dst + length bs \<le> length m"
  obtains p' where "ptp_control_read_buffered io p (int (length bs)) m dst = Some (PTP_RC_OK, the (blit m dst bs), p')"
    and "buf_ok (pkt_buf p')" and "buffered (pkt_buf p') = q'" and "packets (con p') = rest"
    and "good (con p')" and "same_params p p'"
proof (cases "buffered (pkt_buf p) = []")
  case False
  with w have b: "buf_ok (pkt_buf p)" "buffered (pkt_buf p) = bs @ q'" "packets (con p) = rest"
    by (auto simp: waiting_def)
  have "dst + min (nat (int (length bs))) (length (buffered (pkt_buf p))) \<le> length m" using room by simp
  from read_from_buffer_ok [OF b(1) _ this] obtain b1 m1 where
    r1: "ptp_transport_read_from_buffer (pkt_buf p) (int (length bs)) m dst = Some (int (length bs), b1, m1)"
    "blit m dst bs = Some m1" "buf_ok b1" "buffered b1 = q'"
    by (auto simp: b(2) min_def)
  then have "ptp_control_read_buffered io p (int (length bs)) m dst = Some (PTP_RC_OK, the (blit m dst bs), p \<lparr> pkt_buf := b1 \<rparr>)"
    by (simp add: ptp_control_read_buffered_def Let_def)
  from that [OF this] show thesis using r1 b(3) g by simp
next
  case True
  with w have b: "buf_ok (pkt_buf p)" and len: "length (bs @ q') \<le> 512"
    and pk: "packets (con p) \<in> {(bs @ q') # rest, [] # (bs @ q') # rest}"
    using ne by (auto simp: waiting_def)
  have e: "b_len (pkt_buf p) = 0" using length_buffered [OF b] b True by (simp add: buf_ok_def)
  have r0: "ptp_transport_read_from_buffer (pkt_buf p) (int (length bs)) m dst = Some (0, pkt_buf p, m)"
    using e by (simp add: ptp_transport_read_from_buffer_def)
  obtain p1 where p1: "ptp_transport_read_to_buffer io p (int (length bs)) = Some (PTP_RC_OK, p1)"
    "buf_ok (pkt_buf p1)" "buffered (pkt_buf p1) = bs @ q'" "packets (con p1) = rest" "good (con p1)" "same_params p p1"
    by (rule read_to_buffer_packet [OF b e g pk _ len, of "int (length bs)"]) (use ne in auto)
  have "dst + min (nat (int (length bs))) (length (buffered (pkt_buf p1))) \<le> length m" using room p1(3) by simp
  from read_from_buffer_ok [OF p1(2) _ this] obtain b1 m1 where
    r1: "ptp_transport_read_from_buffer (pkt_buf p1) (int (length bs)) m dst = Some (int (length bs), b1, m1)"
    "blit m dst bs = Some m1" "buf_ok b1" "buffered b1 = q'"
    by (auto simp: p1(3) min_def)
  have "ptp_control_read_buffered io p (int (length bs)) m dst = Some (PTP_RC_OK, the (blit m dst bs), p1 \<lparr> pkt_buf := b1 \<rparr>)"
    using r0 p1(1) r1 ne by (simp add: ptp_control_read_buffered_def Let_def)
  from that [OF this] show thesis
    using r1 p1 same_params_trans [OF p1(6), of "p1 \<lparr> pkt_buf := b1 \<rparr>"] by simp
qed

end

section \<open>Headers\<close>

definition usb_header :: "u8 \<Rightarrow> nat \<Rightarrow> u16 \<Rightarrow> u16 \<Rightarrow> u32 \<Rightarrow> bytes" where
  "usb_header bo len type code tid = enc32 bo (of_nat len) @ enc16 bo type @ enc16 bo code @ enc32 bo tid"

lemma usb_container_header:
  "usb_container bo type code tid payload = usb_header bo (12 + length payload) type code tid @ payload"
  by (simp add: usb_container_def usb_header_def)

lemma length_usb_header [simp]: "length (usb_header bo len type code tid) = 12"
  by (simp add: usb_header_def)

lemma usb_header_fields:
  "dtoh32ap bo (usb_header bo len type code tid @ t) 0 = Some (of_nat len)"
  "dtoh16ap bo (usb_header bo len type code tid @ t) 4 = Some type"
  "dtoh16ap bo (usb_header bo len type code tid @ t) 6 = Some code"
  "dtoh32ap bo (usb_header bo len type code tid @ t) 8 = Some tid"
  using c32.get_append [of "[]" 0 bo "of_nat len"] c16.get_append [of "enc32 bo (of_nat len)" 4 bo type]
    c16.get_append [of "enc32 bo (of_nat len) @ enc16 bo type" 6 bo code]
    c32.get_append [of "enc32 bo (of_nat len) @ enc16 bo type @ enc16 bo code" 8 bo tid]
  by (simp_all add: usb_header_def)

lemma blit_front: "length bs \<le> length m \<Longrightarrow> the (blit m 0 bs) = bs @ drop (length bs) m"
  by (simp add: blit_def)

lemma the_blit_append:
  assumes "a + length xs + length ys \<le> length m" and "b = a + length xs"
  shows "the (blit (the (blit m a xs)) b ys) = the (blit m a (xs @ ys))"
proof -
  obtain m1 where m1: "blit m a xs = Some m1" using assms blit_exists [of a xs m] by auto
  obtain m2 where m2: "blit m1 (a + length xs) ys = Some m2"
    using assms blit_exists [of "a + length xs" ys m1] blit_length [OF m1] by auto
  show ?thesis using blit_append [OF m1 m2] m1 m2 assms(2) by simp
qed

context packet_stream
begin

lemma read_header:
  assumes w: "waiting packets (usb_header bo len type code tid @ d) rest p" and g: "good (con p)"
    and bo: "bo = byteorder p"
  obtains p' where "ptp_control_read_buffered io p 12 (replicate 512 0) 0 =
      Some (PTP_RC_OK, usb_header bo len type code tid @ replicate 500 0, p')"
    and "buf_ok (pkt_buf p')" and "buffered (pkt_buf p') = d" and "packets (con p') = rest"
    and "good (con p')" and "same_params p p'" and "byteorder p' = bo"
proof -
  let ?h = "usb_header bo len type code tid"
  have h: "length ?h = 12" by simp
  then have "?h \<noteq> []" by (metis list.size(3) zero_neq_numeral)
  moreover have "0 + length ?h \<le> length (replicate 512 (0 :: byte))" by simp
  ultimately obtain p' where p':
    "ptp_control_read_buffered io p (int (length ?h)) (replicate 512 0) 0 = Some (PTP_RC_OK, the (blit (replicate 512 0) 0 ?h), p')"
    "buf_ok (pkt_buf p')" "buffered (pkt_buf p') = d" "packets (con p') = rest" "good (con p')" "same_params p p'"
    using control_read_packet [OF w g] by blast
  have "the (blit (replicate 512 0) 0 ?h) = ?h @ replicate 500 0" by (simp add: blit_front)
  with p'(1) have "ptp_control_read_buffered io p 12 (replicate 512 0) 0 = Some (PTP_RC_OK, ?h @ replicate 500 0, p')"
    by (simp add: h)
  from that [OF this] p' same_params_fields(1) [OF p'(6)] bo show thesis by blast
qed

lemma read_control_data:
  assumes w: "waiting packets (usb_header bo len PTP_USB_CONTAINER_DATA code tid @ d) rest p"
    and g: "good (con p)" and bo: "bo = byteorder p"
  obtains p' where "ptp_usb_read_control io p (replicate sizeof_PTPUSBBulkContainer 0) =
      Some (PTP_RC_OK, usb_header bo len PTP_USB_CONTAINER_DATA code tid @ replicate 500 0, p')"
    and "buf_ok (pkt_buf p')" and "buffered (pkt_buf p') = d" and "packets (con p') = rest"
    and "good (con p')" and "same_params p p'" and "byteorder p' = bo"
proof -
  obtain p' where p': "ptp_control_read_buffered io p 12 (replicate 512 0) 0 =
      Some (PTP_RC_OK, usb_header bo len PTP_USB_CONTAINER_DATA code tid @ replicate 500 0, p')"
    "buf_ok (pkt_buf p')" "buffered (pkt_buf p') = d" "packets (con p') = rest"
    "good (con p')" "same_params p p'" "byteorder p' = bo"
    by (rule read_header [OF w g bo])
  have "ptp_usb_read_control io p (replicate sizeof_PTPUSBBulkContainer 0) =
      Some (PTP_RC_OK, usb_header bo len PTP_USB_CONTAINER_DATA code tid @ replicate 500 0, p')"
    using p'(1,7) by (simp add: ptp_usb_read_control_def usb_sizes usb_header_fields PTP_USB_BULK_HDR_LEN_def)
  with p' that show thesis by blast
qed

end

context packet_stream
begin

lemma read_control_response:
  assumes w: "waiting packets (usb_header bo (12 + length ps) PTP_USB_CONTAINER_RESPONSE code tid @ ps) rest p"
    and g: "good (con p)" and bo: "bo = byteorder p" and ps: "length ps \<le> 500"
  obtains p' where "ptp_usb_read_control io p (replicate sizeof_PTPUSBBulkContainer 0) =
      Some (PTP_RC_OK, usb_header bo (12 + length ps) PTP_USB_CONTAINER_RESPONSE code tid @ ps @ replicate (500 - length ps) 0, p')"
    and "buf_ok (pkt_buf p')" and "buffered (pkt_buf p') = []" and "packets (con p') = rest"
    and "good (con p')" and "same_params p p'"
proof -
  let ?h = "usb_header bo (12 + length ps) PTP_USB_CONTAINER_RESPONSE code tid"
  obtain p1 where p1: "ptp_control_read_buffered io p 12 (replicate 512 0) 0 = Some (PTP_RC_OK, ?h @ replicate 500 0, p1)"
    "buf_ok (pkt_buf p1)" "buffered (pkt_buf p1) = ps" "packets (con p1) = rest"
    "good (con p1)" "same_params p p1" "byteorder p1 = bo"
    by (rule read_header [OF w g bo])
  have small: "unat (of_nat (12 + length ps) :: u32) = 12 + length ps" using ps by (subst unat_of_nat_u32) simp_all
  show thesis
  proof (cases "ps = []")
    case True
    have "ptp_usb_read_control io p (replicate sizeof_PTPUSBBulkContainer 0) = Some (PTP_RC_OK, ?h @ replicate 500 0, p1)"
      using p1(1,7) True by (simp add: ptp_usb_read_control_def usb_sizes usb_header_fields)
    with that p1 True show thesis by simp
  next
    case False
    have w1: "waiting packets (ps @ []) rest p1" using p1(2-4) False ps by (simp add: waiting_def)
    have room: "12 + length ps \<le> length (?h @ replicate 500 0)" using ps by simp
    obtain p2 where p2: "ptp_control_read_buffered io p1 (int (length ps)) (?h @ replicate 500 0) 12 =
        Some (PTP_RC_OK, the (blit (?h @ replicate 500 0) 12 ps), p2)" "buf_ok (pkt_buf p2)"
      "buffered (pkt_buf p2) = []" "packets (con p2) = rest" "good (con p2)" "same_params p1 p2"
      by (rule control_read_packet [OF w1 p1(5) False room])
    have m: "the (blit (?h @ replicate 500 0) 12 ps) = ?h @ ps @ replicate (500 - length ps) 0"
      using ps by (simp add: blit_def)
    have gt: "(12 :: u32) < of_nat (12 + length ps)"
      unfolding word_less_nat_alt small using False by simp
    have "unat (of_nat (12 + length ps) - 12 :: u32) = length ps"
      using unat_sub [of 12 "of_nat (12 + length ps) :: u32"] gt small by simp
    then have s: "sint (of_nat (12 + length ps) - 12 :: u32) = int (length ps)"
      using ps sint_small [of "of_nat (12 + length ps) - 12"] by simp
    have "ptp_usb_read_control io p (replicate sizeof_PTPUSBBulkContainer 0) =
        Some (PTP_RC_OK, ?h @ ps @ replicate (500 - length ps) 0, p2)"
      using p1(1,7) p2(1) gt s unfolding m
      by (simp add: ptp_usb_read_control_def usb_sizes usb_header_fields del: of_nat_add)
    with that p2 same_params_trans [OF p1(6) p2(6)] show thesis by blast
  qed
qed

lemma usb_getresp_ok:
  assumes w: "waiting packets (usb_container (byteorder p) PTP_USB_CONTAINER_RESPONSE code tid (concat (map (enc32 (byteorder p)) ps))) rest p"
    and g: "good (con p)" and ps: "length ps \<le> 5"
  obtains p' where "ptp_usb_getresp io p resp =
      Some (if code \<notin> {Code resp, PTP_RC_OK} then (code, resp, p')
            else (PTP_RC_OK, response_container (session_id p) code tid ps, p'))"
    and "buf_ok (pkt_buf p')" and "buffered (pkt_buf p') = []" and "packets (con p') = rest"
    and "good (con p')" and "same_params p p'"
proof -
  let ?bo = "byteorder p"
  define body where "body = concat (map (enc32 ?bo) ps)"
  have lb: "length body = 4 * length ps" by (simp add: body_def length_concat o_def sum_list_triv)
  have w': "waiting packets (usb_header ?bo (12 + length body) PTP_USB_CONTAINER_RESPONSE code tid @ body) rest p"
    using w by (simp add: usb_container_header body_def)
  have "length body \<le> 500" using ps lb by simp
  obtain p1 where c: "ptp_usb_read_control io p (replicate sizeof_PTPUSBBulkContainer 0) =
      Some (PTP_RC_OK, usb_header ?bo (12 + length body) PTP_USB_CONTAINER_RESPONSE code tid @ body @ replicate (500 - length body) 0, p1)"
    and p1: "buf_ok (pkt_buf p1)" "buffered (pkt_buf p1) = []" "packets (con p1) = rest" "good (con p1)" "same_params p p1"
    by (rule read_control_response [OF w' g refl \<open>length body \<le> 500\<close>])
  define pkt where "pkt = usb_header ?bo (12 + length body) PTP_USB_CONTAINER_RESPONSE code tid @ body @ replicate (500 - length body) 0"
  note f = usb_header_fields [of ?bo "12 + length body" PTP_USB_CONTAINER_RESPONSE code tid "body @ replicate (500 - length body) 0", folded pkt_def]
  have z: "20 - 4 * length ps \<le> 500 - length body" using ps lb by simp
  note par = params_padded [OF length_usb_header ps _ z, of _ ?bo, folded body_def, of _ ?bo "12 + length body" PTP_USB_CONTAINER_RESPONSE code tid, folded pkt_def]
  have np: "ucast ((of_nat (12 + length body) - 12) div 4 :: u32) = (of_nat (length ps) :: u8)"
  proof -
    have "length ps = 5 \<or> length ps = 4 \<or> length ps = 3 \<or> length ps = 2 \<or> length ps = 1 \<or> length ps = 0"
      using ps by arith
    then show ?thesis unfolding lb by (elim disjE) simp_all
  qed
  have "ptp_usb_getresp io p resp =
      Some (if code \<notin> {Code resp, PTP_RC_OK} then (code, resp, p1)
            else (PTP_RC_OK, response_container (session_id p) code tid ps, p1))"
    unfolding ptp_usb_getresp_def c [folded pkt_def] Option.bind.bind_lunit prod.case
    using par [of 0] par [of 1] par [of 2] par [of 3] par [of 4] np same_params_fields [OF p1(5)]
    by (simp add: f response_container_def Let_def del: of_nat_add)
  with that p1 show thesis by blast
qed

end

section \<open>The data phase\<close>

context packet_stream
begin

text \<open>The part of the data that is read directly: full packets.\<close>

lemma usb_bulk_ok:
  assumes g: "good (con p)" and pk: "packets (con p) = fs @ rest" and full: "list_all (\<lambda>q. length q = 512) fs"
    and room: "dst + k + length (concat fs) \<le> length m" and small: "length (concat fs) < 2147483648"
  obtains w' where "usb_bulk_loop io (int (k + length (concat fs))) m dst (int k) (con p) =
      Some (True, the (blit m (dst + k) (concat fs)), int (k + length (concat fs)), w')"
    and "packets w' = rest" and "good w'"
proof (cases "fs = []")
  case True
  have "the (blit m (dst + k) []) = m" using room by (simp add: blit_def)
  then have "usb_bulk_loop io (int (k + length (concat fs))) m dst (int k) (con p) =
      Some (True, the (blit m (dst + k) (concat fs)), int (k + length (concat fs)), con p)"
    using True by (subst usb_bulk_loop.simps) simp
  with that pk g True show thesis by simp
next
  case False
  let ?n = "length (concat fs)" and ?w = "of_nat (length (concat fs)) :: u32"
  have n: "unat ?w = ?n" using small by (subst unat_of_nat_u32) simp_all
  have "dst + k + unat ?w \<le> length m" "unat ?w < 2147483648" using room small n by simp_all
  from read_full [OF g pk False full n this(2,1)] obtain w' where
    w': "read_func io m (dst + k) ?w (con p) = Some (int ?n, the (blit m (dst + k) (concat fs)), w')"
    "packets w' = rest" "good w'" unfolding n by blast
  have pos: "0 < ?n" using length_concat_full [OF full] False by simp
  have w: "word_of_int (int (k + ?n) - int k) = ?w" by simp
  have "usb_bulk_loop io (int (k + ?n)) m dst (int k) (con p) =
      usb_bulk_loop io (int (k + ?n)) (the (blit m (dst + k) (concat fs))) dst (int k + int ?n) w'"
    by (subst usb_bulk_loop.simps) (use w'(1) pos w in simp)
  also have "\<dots> = Some (True, the (blit m (dst + k) (concat fs)), int (k + ?n), w')"
    by (subst usb_bulk_loop.simps) simp
  finally show thesis using that w'(2,3) by blast
qed

lemma read_data_direct:
  assumes b: "buf_ok (pkt_buf p)" and g: "good (con p)"
    and pk: "packets (con p) = fs @ ps" "ps \<in> {q # rest, [] # q # rest}"
    and full: "list_all (\<lambda>q. length q = 512) fs" and q: "q \<noteq> []" "length q \<le> 512" and k: "k < 512" "k \<le> length q"
    and more: "fs \<noteq> [] \<or> 0 < k"
    and n: "unat n = length (buffered (pkt_buf p) @ concat fs) + k" "unat n < 2147483648" and room: "unat n \<le> length m"
  obtains p' where "ptp_usb_read_data io p n m 0 =
      Some (PTP_RC_OK, the (blit m 0 (buffered (pkt_buf p) @ concat fs @ take k q)), p')"
    and "buf_ok (pkt_buf p')" and "buffered (pkt_buf p') = drop k q" and "packets (con p') = rest"
    and "good (con p')" and "same_params p p'"
proof -
  let ?d = "buffered (pkt_buf p)"
  let ?k = "length ?d" and ?f = "length (concat fs)"
  have s: "sint n = int (unat n)" using n(2) by (rule sint_small)
  have mn: "min (unat n) ?k = ?k" "take (unat n) ?d = ?d" "drop (unat n) ?d = []" using n(1) by simp_all
  have "0 + min (nat (int (unat n))) ?k \<le> length m" using room by simp
  from read_from_buffer_ok [OF b of_nat_0_le_iff this, unfolded nat_int mn] obtain b1 m1 where
    r1: "ptp_transport_read_from_buffer (pkt_buf p) (int (unat n)) m 0 = Some (int ?k, b1, m1)"
    "blit m 0 ?d = Some m1" "buf_ok b1" "buffered b1 = []" by blast
  have len1: "length m1 = length m" using blit_length [OF r1(2)] .
  let ?p1 = "p \<lparr> pkt_buf := b1 \<rparr>"
  have e1: "b_len b1 = 0" using length_buffered [OF r1(3)] r1(3,4) by (simp add: buf_ok_def)
  have uk: "unat (of_nat ?k :: u32) = ?k" using n by (subst unat_of_nat_u32) simp_all
  let ?t = "?f + k"
  have un: "unat n = ?k + ?t" using n(1) by simp
  have pos: "0 < ?t" using more full length_concat_full [OF full] by auto
  have lt: "(of_nat ?k :: u32) < n" unfolding word_less_nat_alt uk un using pos by simp
  have ut: "unat (n - of_nat ?k) = ?t"
    using unat_sub [of "of_nat ?k" n] lt uk un by simp
  then have toread: "sint (n - of_nat ?k) = int ?t"
    using sint_small [of "n - of_nat ?k"] n(2) un by simp
  have rest: "int ?t smod 512 = int k"
    using full k(1) by (simp add: smod_mod_positive length_concat_full)
  have "n = of_nat (unat n)" by simp
  then have nn: "n = of_nat (?k + ?f) + of_nat k" unfolding un by (simp add: add.assoc)
  have "n - of_nat k = of_nat (?k + ?f)" by (subst nn) simp
  moreover have "unat (of_nat (?k + ?f) :: u32) = ?k + ?f" using n(2) un by (subst unat_of_nat_u32) simp_all
  ultimately have bulk: "sint (n - of_nat k) = int (?k + ?f)"
    using sint_small [of "n - of_nat k"] n(2) un by simp
  have "0 + ?k + ?f \<le> length m1" and "?f < 2147483648" using room n(2) un len1 by simp_all
  with g pk obtain w' where
    w': "usb_bulk_loop io (int (?k + ?f)) m1 0 (int ?k) (con ?p1) = Some (True, the (blit m1 (0 + ?k) (concat fs)), int (?k + ?f), w')"
    "packets w' = ps" "good w'"
    using usb_bulk_ok [of ?p1 fs ps 0 ?k m1] full by auto
  let ?m2 = "the (blit m1 ?k (concat fs))" and ?p2 = "?p1 \<lparr> con := w' \<rparr>"
  have m2: "?m2 = the (blit m 0 (?d @ concat fs))" "length ?m2 = length m"
    using the_blit_append [of 0 ?d "concat fs" m ?k] r1(2) room un length_the_blit [of ?k "concat fs" m1] len1
    by simp_all
  have q2: "packets (con ?p2) \<in> {q # rest, [] # q # rest}" using w'(2) pk(2) by simp
  have le: "int k \<le> int (length q)" using k(2) by simp
  have b2: "buf_ok (pkt_buf ?p2)" "b_len (pkt_buf ?p2) = 0" "good (con ?p2)" using r1(3) e1 w'(3) by simp_all
  obtain p3 where p3: "ptp_transport_read_to_buffer io ?p2 (int k) = Some (PTP_RC_OK, p3)" "buf_ok (pkt_buf p3)"
    "buffered (pkt_buf p3) = q" "packets (con p3) = rest" "good (con p3)" "same_params ?p2 p3"
    by (rule read_to_buffer_packet [OF b2 q2 q le])
  have mn2: "min k (length q) = k" using k(2) by simp
  have "?k + ?f + min (nat (int k)) (length (buffered (pkt_buf p3))) \<le> length ?m2"
    using room un m2(2) p3(3) mn2 by simp
  from read_from_buffer_ok [OF p3(2) of_nat_0_le_iff this, unfolded p3(3) nat_int mn2] obtain b4 m4 where
    r4: "ptp_transport_read_from_buffer (pkt_buf p3) (int k) ?m2 (?k + ?f) = Some (int k, b4, m4)"
    "blit ?m2 (?k + ?f) (take k q) = Some m4" "buf_ok b4" "buffered b4 = drop k q" by blast
  let ?p4 = "p3 \<lparr> pkt_buf := b4 \<rparr>"
  have m4: "m4 = the (blit m 0 (?d @ concat fs @ take k q))"
  proof -
    have "the (blit (the (blit m 0 (?d @ concat fs))) (?k + ?f) (take k q)) = the (blit m 0 ((?d @ concat fs) @ take k q))"
      by (rule the_blit_append) (use room un k(2) in simp_all)
    then show ?thesis using r4(2) unfolding m2(1) by (simp only: append_assoc option.sel)
  qed
  have sum: "word_of_int (int (?k + ?f) + int k) = n"
    by (subst nn) simp
  have "ptp_usb_read_data io p n m 0 = Some (PTP_RC_OK, m4, ?p4)"
    using r1(1) s lt toread rest bulk w'(1) p3(1) r4(1) sum
    by (simp add: ptp_usb_read_data_def PTP_USB_BULK_HS_MAX_PACKET_LEN_def Let_def del: of_nat_add)
  moreover have "same_params p ?p4"
    using same_params_trans [OF same_params_trans [OF _ p3(6)], of p ?p4] by simp
  ultimately show thesis using that [of ?p4] r4(3,4) p3(4,5) m4 by simp
qed

text \<open>Data the buffer holds already.\<close>

lemma read_data_buffered:
  assumes b: "buf_ok (pkt_buf p)" and n: "unat n = length (buffered (pkt_buf p))" "unat n < 2147483648"
    and room: "unat n \<le> length m"
  obtains p' where "ptp_usb_read_data io p n m 0 = Some (PTP_RC_OK, the (blit m 0 (buffered (pkt_buf p))), p')"
    and "buf_ok (pkt_buf p')" and "buffered (pkt_buf p') = []" and "con p' = con p" and "same_params p p'"
proof -
  let ?d = "buffered (pkt_buf p)"
  have s: "sint n = int (unat n)" using n(2) by (rule sint_small)
  have mn: "min (unat n) (length ?d) = length ?d" "take (unat n) ?d = ?d" "drop (unat n) ?d = []" using n(1) by simp_all
  have "0 + min (nat (int (unat n))) (length ?d) \<le> length m" using room by simp
  from read_from_buffer_ok [OF b of_nat_0_le_iff this, unfolded nat_int mn] obtain b1 m1 where
    r1: "ptp_transport_read_from_buffer (pkt_buf p) (int (unat n)) m 0 = Some (int (length ?d), b1, m1)"
    "blit m 0 ?d = Some m1" "buf_ok b1" "buffered b1 = []" by blast
  have uk: "unat (of_nat (length ?d) :: u32) = length ?d" using n by (subst unat_of_nat_u32) simp_all
  then have "n = of_nat (length ?d)" using n(1) by (metis word_unat_eq_iff)
  then have "ptp_usb_read_data io p n m 0 = Some (PTP_RC_OK, m1, p \<lparr> pkt_buf := b1 \<rparr>)"
    using r1(1) s unfolding ptp_usb_read_data_def by (simp add: uk)
  then show thesis using that [of "p \<lparr> pkt_buf := b1 \<rparr>"] r1 by simp
qed

end

text \<open>
  \<open>sending packets left r rest p\<close>: \<open>left\<close> is what is to come of a data phase, the beginning of it
  in the packet buffer; the response \<open>r\<close> follows.
\<close>

definition sending :: "('w \<Rightarrow> bytes list) \<Rightarrow> bytes \<Rightarrow> bytes \<Rightarrow> bytes list \<Rightarrow> 'w PTPParams \<Rightarrow> bool" where
  "sending packets left r rest p \<longleftrightarrow> buf_ok (pkt_buf p) \<and> r \<noteq> [] \<and> length r \<le> 512 \<and>
     (\<exists>fs e z. left = buffered (pkt_buf p) @ concat fs @ e \<and>
        packets (con p) = fs @ (if e = [] \<and> \<not> z then [] else [e]) @ r # rest \<and>
        list_all (\<lambda>q. length q = 512) fs \<and> length e < 512)"

lemma sending_Nil:
  assumes "sending packets [] r rest p"
  shows "waiting packets r rest p"
proof -
  from assms obtain fs e z where f: "[] = buffered (pkt_buf p) @ concat fs @ e"
    "packets (con p) = fs @ (if e = [] \<and> \<not> z then [] else [e]) @ r # rest"
    "list_all (\<lambda>q. length q = 512) fs" and b: "buf_ok (pkt_buf p)" "r \<noteq> []" "length r \<le> 512"
    by (auto simp: sending_def)
  have "buffered (pkt_buf p) = []" "e = []" "length (concat fs) = 0" using f(1) by simp_all
  moreover have "fs = []" using length_concat_full [OF f(3)] \<open>length (concat fs) = 0\<close> by simp
  ultimately show ?thesis using f(2) b by (simp add: waiting_def)
qed

context packet_stream
begin

text \<open>The last part of the data.\<close>

lemma read_data_last:
  assumes s: "sending packets left r rest p" and g: "good (con p)"
    and n: "unat n = length left" "unat n < 2147483648" and room: "unat n \<le> length m"
  obtains p' where "ptp_usb_read_data io p n m 0 = Some (PTP_RC_OK, the (blit m 0 left), p')"
    and "waiting packets r rest p'" and "good (con p')" and "same_params p p'"
proof -
  from s obtain fs e z where f: "left = buffered (pkt_buf p) @ concat fs @ e"
    "packets (con p) = fs @ (if e = [] \<and> \<not> z then [] else [e]) @ r # rest"
    "list_all (\<lambda>q. length q = 512) fs" "length e < 512" and b: "buf_ok (pkt_buf p)" and r: "r \<noteq> []" "length r \<le> 512"
    by (auto simp: sending_def)
  show thesis
  proof (cases "fs = [] \<and> e = []")
    case True
    then have "unat n = length (buffered (pkt_buf p))" using n(1) f(1) by simp
    from read_data_buffered [OF b this n(2) room] obtain p' where
      p': "ptp_usb_read_data io p n m 0 = Some (PTP_RC_OK, the (blit m 0 (buffered (pkt_buf p))), p')"
      "buf_ok (pkt_buf p')" "buffered (pkt_buf p') = []" "con p' = con p" "same_params p p'" .
    moreover have "waiting packets r rest p'" using p' f(2) r True by (auto simp: waiting_def)
    ultimately show thesis using that [of p'] g f(1) True by simp
  next
    case False
    define q where "q = (if e = [] then r else e)"
    define rest' where "rest' = (if e = [] then rest else r # rest)"
    have q: "q \<noteq> []" "length q \<le> 512" "length e \<le> length q" "take (length e) q = e"
      using r f(4) by (simp_all add: q_def)
    have ps: "(if e = [] \<and> \<not> z then [] else [e]) @ r # rest \<in> {q # rest', [] # q # rest'}"
      by (auto simp: q_def rest'_def)
    have n': "unat n = length (buffered (pkt_buf p) @ concat fs) + length e" using n(1) f(1) by simp
    have more: "fs \<noteq> [] \<or> 0 < length e" using False by auto
    obtain p' where p': "ptp_usb_read_data io p n m 0 =
        Some (PTP_RC_OK, the (blit m 0 (buffered (pkt_buf p) @ concat fs @ take (length e) q)), p')"
      "buf_ok (pkt_buf p')" "buffered (pkt_buf p') = drop (length e) q" "packets (con p') = rest'"
      "good (con p')" "same_params p p'"
      by (rule read_data_direct [OF b g f(2) ps f(3) q(1,2) f(4) q(3) more n' n(2) room])
    moreover have "waiting packets r rest p'" using p'(2-4) r by (auto simp: waiting_def q_def rest'_def)
    ultimately show thesis using that [of p'] f(1) q(4) by simp
  qed
qed

text \<open>A part of the data that is at least one packet long, with more to come.\<close>

lemma read_data_part:
  assumes s: "sending packets left r rest p" and g: "good (con p)"
    and n: "unat n < length left" "512 < unat n" "unat n < 2147483648" and room: "unat n \<le> length m"
  obtains p' where "ptp_usb_read_data io p n m 0 = Some (PTP_RC_OK, the (blit m 0 (take (unat n) left)), p')"
    and "sending packets (drop (unat n) left) r rest p'" and "good (con p')" and "same_params p p'"
proof -
  let ?d = "buffered (pkt_buf p)"
  from s obtain fs e z where f: "left = ?d @ concat fs @ e"
    "packets (con p) = fs @ (if e = [] \<and> \<not> z then [] else [e]) @ r # rest"
    "list_all (\<lambda>q. length q = 512) fs" "length e < 512" and b: "buf_ok (pkt_buf p)" and r: "r \<noteq> []" "length r \<le> 512"
    by (auto simp: sending_def)
  have "b_len (pkt_buf p) \<le> 512" using b by (simp add: buf_ok_def buffer_size)
  then have ld: "length ?d \<le> 512" unfolding length_buffered [OF b] by simp
  define j where "j = (unat n - length ?d) div 512"
  define k where "k = (unat n - length ?d) mod 512"
  have jk: "unat n = length ?d + (512 * j + k)" "k < 512" using ld n(2) by (simp_all add: j_def k_def)
  have lt: "512 * j + k < 512 * length fs + length e"
    using n(1) jk(1) by (simp add: f(1) length_concat_full [OF f(3)])
  then have j: "j \<le> length fs" using f(4) by linarith
  let ?tl = "(if e = [] \<and> \<not> z then [] else [e]) @ r # rest"
  define q where "q = (if j < length fs then fs ! j else e)"
  have fs: "fs = take j fs @ drop j fs" by simp
  have full: "list_all (\<lambda>q. length q = 512) (take j fs)" "list_all (\<lambda>q. length q = 512) (drop (Suc j) fs)"
    using f(3) by (auto simp: list_all_iff dest: in_set_takeD in_set_dropD)
  have lj: "length (concat (take j fs)) = 512 * j" using length_concat_full [OF full(1)] j by simp
  have q: "k < length q" "length q \<le> 512"
  proof -
    have "j < length fs \<Longrightarrow> length (fs ! j) = 512" using f(3) by (simp add: list_all_length)
    then show "k < length q" "length q \<le> 512" using lt jk(2) j f(4) by (auto simp: q_def)
  qed
  define rest' where "rest' = (if j < length fs then drop (Suc j) fs @ ?tl else r # rest)"
  have ps: "drop j fs @ ?tl = q # rest'"
  proof (cases "j < length fs")
    case True
    then show ?thesis by (simp add: q_def rest'_def Cons_nth_drop_Suc [symmetric])
  next
    case False
    then have "e \<noteq> []" using q(1) by (auto simp: q_def)
    then show ?thesis using False by (simp add: q_def rest'_def)
  qed
  have pk: "packets (con p) = take j fs @ (drop j fs @ ?tl)" using f(2) by (metis append.assoc append_take_drop_id)
  have in2: "drop j fs @ ?tl \<in> {q # rest', [] # q # rest'}" using ps by simp
  have more: "take j fs \<noteq> [] \<or> 0 < k" using jk(1) ld n(2) lj by (cases "take j fs = []") auto
  have n': "unat n = length (?d @ concat (take j fs)) + k" using jk(1) lj by simp
  have qk: "q \<noteq> []" "k \<le> length q" using q(1) by auto
  obtain p' where p': "ptp_usb_read_data io p n m 0 =
      Some (PTP_RC_OK, the (blit m 0 (?d @ concat (take j fs) @ take k q)), p')"
    "buf_ok (pkt_buf p')" "buffered (pkt_buf p') = drop k q" "packets (con p') = rest'"
    "good (con p')" "same_params p p'"
    by (rule read_data_direct [OF b g pk in2 full(1) qk(1) q(2) jk(2) qk(2) more n' n(3) room])
  define t where "t = (if j < length fs then concat (drop (Suc j) fs) @ e else [])"
  have left: "left = (?d @ concat (take j fs) @ take k q) @ (drop k q @ t)"
  proof (cases "j < length fs")
    case True
    then have "concat fs = concat (take j fs) @ q @ concat (drop (Suc j) fs)"
      by (metis q_def concat.simps(2) concat_append id_take_nth_drop)
    then show ?thesis using True by (simp add: f(1) t_def)
  next
    case False
    then show ?thesis using j by (simp add: f(1) t_def q_def)
  qed
  have len: "length (?d @ concat (take j fs) @ take k q) = unat n" using n' qk(2) by simp
  have parts: "take (unat n) left = ?d @ concat (take j fs) @ take k q" "drop (unat n) left = drop k q @ t"
    using append_eq_conv_conj [of "?d @ concat (take j fs) @ take k q" "drop k q @ t" left] left len by metis+
  have "sending packets (drop k q @ t) r rest p'"
  proof (cases "j < length fs")
    case True
    then show ?thesis unfolding sending_def using p'(2-4) r f(4) full(2)
      by (intro conjI exI [of _ "drop (Suc j) fs"] exI [of _ e] exI [of _ z]) (simp_all add: t_def rest'_def)
  next
    case False
    then show ?thesis unfolding sending_def using p'(2-4) r
      by (intro conjI exI [of _ "[]"] exI [of _ False]) (simp_all add: t_def rest'_def)
  qed
  with p' that parts show thesis by simp
qed

end

text \<open>The first packet of a data container and what follows it.\<close>

lemma first_packet:
  assumes "q # qs = usb_packets zlp (h @ data) @ t" and "length h = 12"
  obtains d fs e z where "q = h @ d" and "data = d @ concat fs @ e" and "list_all (\<lambda>q. length q = 512) fs"
    and "length e < 512" and "qs = fs @ (if e = [] \<and> \<not> z then [] else [e]) @ t"
proof (cases "length (h @ data) < 512")
  case True
  then have "q = h @ data" "qs = t" using assms by (auto simp: usb_packets.simps [of zlp "h @ data"] split: if_splits)
  then show thesis using that [of data "[]" "[]" False] by simp
next
  case False
  have t: "take 512 (h @ data) = h @ take 500 data" "drop 512 (h @ data) = drop 500 data" using assms(2) by simp_all
  obtain fs e where f: "drop 500 data = concat fs @ e" "list_all (\<lambda>q. length q = 512) fs" "length e < 512"
    by (rule full_packets)
  have "usb_packets zlp (h @ data) = (h @ take 500 data) # usb_packets zlp (drop 500 data)"
    using False by (subst usb_packets.simps) (simp only: if_False t)
  then have "q = h @ take 500 data" "qs = usb_packets zlp (drop 500 data) @ t" using assms(1) by simp_all
  moreover have "data = take 500 data @ concat fs @ e" using f(1) by (metis append_take_drop_id)
  ultimately show thesis using that [of "take 500 data" fs e zlp] f by (simp add: usb_packets_full)
qed

context packet_stream
begin

text \<open>The header of a data container.\<close>

lemma read_data_header:
  assumes w: "waiting packets q qs p" and g: "good (con p)"
    and c: "q # qs = usb_packets zlp (usb_container (byteorder p) PTP_USB_CONTAINER_DATA code tid data) @ r # rest"
    and r: "r \<noteq> []" "length r \<le> 512"
  obtains p' where "ptp_usb_read_control io p (replicate sizeof_PTPUSBBulkContainer 0) = Some (PTP_RC_OK,
      usb_header (byteorder p) (12 + length data) PTP_USB_CONTAINER_DATA code tid @ replicate 500 0, p')"
    and "sending packets data r rest p'" and "good (con p')" and "same_params p p'"
proof -
  let ?bo = "byteorder p"
  let ?h = "usb_header ?bo (12 + length data) PTP_USB_CONTAINER_DATA code tid"
  obtain d fs e z where f: "q = ?h @ d" "data = d @ concat fs @ e" "list_all (\<lambda>q. length q = 512) fs"
    "length e < 512" "qs = fs @ (if e = [] \<and> \<not> z then [] else [e]) @ r # rest"
    by (rule first_packet [OF c [unfolded usb_container_header] length_usb_header])
  obtain p1 where p1: "ptp_usb_read_control io p (replicate sizeof_PTPUSBBulkContainer 0) =
      Some (PTP_RC_OK, ?h @ replicate 500 0, p1)" "buf_ok (pkt_buf p1)" "buffered (pkt_buf p1) = d"
    "packets (con p1) = qs" "good (con p1)" "same_params p p1" "byteorder p1 = ?bo"
    by (rule read_control_data [OF w [unfolded f(1)] g refl])
  have "sending packets data r rest p1"
    unfolding sending_def using p1(2-4) f(2-5) r by (intro conjI exI [of _ fs] exI [of _ e] exI [of _ z]) simp_all
  with that p1 show thesis by blast
qed

lemma data_length:
  assumes "length data < 2147483648"
  shows "unat (of_nat (12 + length data) - 12 :: u32) = length data"
    and "(ucast (of_nat (12 + length data) - 12 :: u32) :: u64) = of_nat (length data)"
proof -
  have n: "of_nat (12 + length data) - 12 = (of_nat (length data) :: u32)" by simp
  show "unat (of_nat (12 + length data) - 12 :: u32) = length data"
    unfolding n using assms by (subst unat_of_nat_u32) simp_all
  show "(ucast (of_nat (12 + length data) - 12 :: u32) :: u64) = of_nat (length data)"
    unfolding n using assms by (subst ucast_u32_u64) simp_all
qed

lemma usb_getdata_ok:
  assumes w: "waiting packets q qs p" and g: "good (con p)"
    and c: "q # qs = usb_packets zlp (usb_container (byteorder p) PTP_USB_CONTAINER_DATA (Code ptp) tid data) @ r # rest"
    and r: "r \<noteq> []" "length r \<le> 512" and small: "length data < 2147483648" and h: "handler gd = None"
    and m: "(case ret_data gd of None \<Rightarrow> malloc io (length data) | Some m \<Rightarrow> Some m) = Some m" "length data \<le> length m"
  obtains p' where "ptp_usb_getdata io p ptp gd = Some (PTP_RC_OK,
      gd \<lparr> total_size := of_nat (length data), ret_data := Some (the (blit m 0 data)) \<rparr>, p')"
    and "waiting packets r rest p'" and "good (con p')" and "same_params p p'"
proof -
  let ?n = "of_nat (12 + length data) - 12 :: u32"
  note len = data_length [OF small]
  obtain p1 where p1: "ptp_usb_read_control io p (replicate sizeof_PTPUSBBulkContainer 0) = Some (PTP_RC_OK,
      usb_header (byteorder p) (12 + length data) PTP_USB_CONTAINER_DATA (Code ptp) tid @ replicate 500 0, p1)"
    "sending packets data r rest p1" "good (con p1)" "same_params p p1"
    by (rule read_data_header [OF w g c r])
  have "unat ?n < 2147483648" "unat ?n \<le> length m" using small m(2) len(1) by simp_all
  then obtain p2 where p2: "ptp_usb_read_data io p1 ?n m 0 = Some (PTP_RC_OK, the (blit m 0 data), p2)"
    "waiting packets r rest p2" "good (con p2)" "same_params p1 p2"
    using read_data_last [OF p1(2,3) len(1)] by blast
  have mm: "(case ret_data gd of None \<Rightarrow> malloc io (unat ?n) | Some m \<Rightarrow> Some m) = Some m"
    using m(1) by (simp only: len(1))
  have "ptp_usb_getdata io p ptp gd = Some (PTP_RC_OK,
      gd \<lparr> total_size := of_nat (length data), ret_data := Some (the (blit m 0 data)) \<rparr>, p2)"
    using p1(1) p2(1) mm h same_params_fields(1) [OF p1(4)]
    by (simp add: len(2) ptp_usb_getdata_def usb_header_fields PTP_USB_BULK_HDR_LEN_def Let_def del: of_nat_add)
  with that p2 same_params_trans [OF p1(4) p2(4)] show thesis by blast
qed

text \<open>
  A handler that takes its blocks without an error, \<open>upd\<close> being their effect on its data: in the end
  it has been given the whole data.
\<close>

lemma usb_handler_loop_ok:
  assumes hnd: "\<And>n b h. unat n \<le> length b \<Longrightarrow> hnd n b tot h = (PTP_RC_OK, upd h (take (unat n) b))"
    and upd: "\<And>h. upd h [] = h" "\<And>h xs ys. upd (upd h xs) ys = upd h (xs @ ys)"
    and blk: "512 < unat block" "unat block < 2147483648"
    and "sending packets left r rest p" and "good (con p)"
    and "unat to_read = length left" and "length left < 2147483648" and "length buf = unat block"
  shows "\<exists>p'. usb_handler_loop io hnd tot block PTP_RC_OK to_read buf h p = Some (PTP_RC_OK, upd h left, p') \<and>
      waiting packets r rest p' \<and> good (con p') \<and> same_params p p'"
  using assms(6-)
proof (induction "length left" arbitrary: left p to_read buf h rule: less_induct)
  case less
  show ?case
  proof (cases "left = []")
    case True
    then have "to_read = 0" using less.prems(3) by (simp add: unat_eq_0)
    moreover have "waiting packets r rest p" using less.prems(1) True by (simp add: sending_Nil)
    ultimately show ?thesis using upd(1) less.prems(2) True by (subst usb_handler_loop.simps) simp
  next
    case False
    then have pos: "to_read > 0" using less.prems(3) by (simp add: word_greater_zero_iff unat_eq_0 [symmetric])
    let ?rs = "if to_read > block then block else to_read"
    let ?n = "unat ?rs"
    have n: "?n = min (length left) (unat block)"
      using less.prems(3) by (simp add: word_less_nat_alt min_def)
    have room: "?n \<le> length buf" "?n < 2147483648" using n blk less.prems(5) by simp_all
    have d: "unat (to_read - ?rs) = length (drop ?n left)"
      using unat_sub [of ?rs to_read] n less.prems(3) by (simp add: word_le_nat_alt)
    have "\<exists>p1. ptp_usb_read_data io p ?rs buf 0 = Some (PTP_RC_OK, the (blit buf 0 (take ?n left)), p1) \<and>
      (if length left \<le> unat block then waiting packets r rest p1 else sending packets (drop ?n left) r rest p1) \<and>
      good (con p1) \<and> same_params p p1"
    proof (cases "length left \<le> unat block")
      case True
      then have "?n = length left" using n by simp
      with True show ?thesis using read_data_last [OF less.prems(1,2) _ room(2,1)] by (metis take_all order_refl)
    next
      case False
      then have "?n < length left" "512 < ?n" using n blk(1) by simp_all
      with False show ?thesis using read_data_part [OF less.prems(1,2) _ _ room(2,1)] by metis
    qed
    then obtain p1 where p1: "ptp_usb_read_data io p ?rs buf 0 = Some (PTP_RC_OK, the (blit buf 0 (take ?n left)), p1)"
      "if length left \<le> unat block then waiting packets r rest p1 else sending packets (drop ?n left) r rest p1"
      "good (con p1)" "same_params p p1" by blast
    let ?buf = "the (blit buf 0 (take ?n left))"
    have tn: "length (take ?n left) = ?n" using n by simp
    have buf: "?buf = take ?n left @ drop ?n buf" using blit_front [of "take ?n left" buf] room(1) unfolding tn by simp
    then have "length ?buf = length buf" "take ?n ?buf = take ?n left" "?n \<le> length ?buf" using room(1) tn by simp_all
    then have h: "hnd ?rs ?buf tot h = (PTP_RC_OK, upd h (take ?n left))" using hnd [of ?rs ?buf h] by simp
    have step: "usb_handler_loop io hnd tot block PTP_RC_OK to_read buf h p =
        usb_handler_loop io hnd tot block PTP_RC_OK (to_read - ?rs) ?buf (upd h (take ?n left)) p1"
      by (subst usb_handler_loop.simps) (simp only: pos if_True Let_def p1(1) Option.bind.bind_lunit prod.case h, simp)
    show ?thesis
    proof (cases "length left \<le> unat block")
      case True
      then have n': "?n = length left" using n by simp
      then have "to_read - ?rs = 0" using d by (simp add: unat_eq_0)
      then have "usb_handler_loop io hnd tot block PTP_RC_OK (to_read - ?rs) ?buf (upd h (take ?n left)) p1 =
          Some (PTP_RC_OK, upd h left, p1)"
        using n' by (subst usb_handler_loop.simps) simp
      then show ?thesis using step p1 True by simp
    next
      case False
      have "length (drop ?n left) < length left" using n blk(1) False by simp
      moreover have "length (drop ?n left) < 2147483648" using less.prems(4) by simp
      moreover have "sending packets (drop ?n left) r rest p1" using p1(2) False by simp
      ultimately obtain p2 where p2: "usb_handler_loop io hnd tot block PTP_RC_OK (to_read - ?rs) ?buf (upd h (take ?n left)) p1 =
          Some (PTP_RC_OK, upd (upd h (take ?n left)) (drop ?n left), p2)"
        "waiting packets r rest p2" "good (con p2)" "same_params p1 p2"
        using less.hyps [OF _ _ p1(3) d] \<open>length ?buf = length buf\<close> less.prems(5) by metis
      then show ?thesis using step same_params_trans [OF p1(4) p2(4)] upd(2) by simp
    qed
  qed
qed

lemma usb_getdata_handler_ok:
  assumes w: "waiting packets q qs p" and g: "good (con p)"
    and c: "q # qs = usb_packets zlp (usb_container (byteorder p) PTP_USB_CONTAINER_DATA (Code ptp) tid data) @ r # rest"
    and r: "r \<noteq> []" "length r \<le> 512" and small: "length data < 2147483648"
    and h: "handler gd = Some hnd"
    and hnd: "\<And>n b h. unat n \<le> length b \<Longrightarrow> hnd n b (of_nat (length data)) h = (PTP_RC_OK, upd h (take (unat n) b))"
    and upd: "\<And>h. upd h [] = h" "\<And>h xs ys. upd (upd h xs) ys = upd h (xs @ ys)"
    and m: "malloc io (unat (handler_block (block_size gd))) = Some m" "length m = unat (handler_block (block_size gd))"
    and blk: "unat (block_size gd) < 2147483648"
  obtains p' where "ptp_usb_getdata io p ptp gd = Some (PTP_RC_OK,
      gd \<lparr> total_size := of_nat (length data), handler_data := upd (handler_data gd) data \<rparr>, p')"
    and "waiting packets r rest p'" and "good (con p')" and "same_params p p'"
proof -
  let ?n = "of_nat (12 + length data) - 12 :: u32" and ?b = "handler_block (block_size gd)"
  note len = data_length [OF small]
  obtain p1 where p1: "ptp_usb_read_control io p (replicate sizeof_PTPUSBBulkContainer 0) = Some (PTP_RC_OK,
      usb_header (byteorder p) (12 + length data) PTP_USB_CONTAINER_DATA (Code ptp) tid @ replicate 500 0, p1)"
    "sending packets data r rest p1" "good (con p1)" "same_params p p1"
    by (rule read_data_header [OF w g c r])
  have b: "512 < unat ?b" "unat ?b < 2147483648"
    using blk by (auto simp: handler_block_def word_less_nat_alt not_less)
  obtain p2 where p2: "usb_handler_loop io hnd (of_nat (length data)) ?b PTP_RC_OK ?n m (handler_data gd) p1 =
      Some (PTP_RC_OK, upd (handler_data gd) data, p2)" "waiting packets r rest p2" "good (con p2)" "same_params p1 p2"
    using usb_handler_loop_ok [of hnd "of_nat (length data)" upd, OF hnd upd b p1(2,3) len(1) small m(2)] by blast
  have "ptp_usb_getdata io p ptp gd = Some (PTP_RC_OK,
      gd \<lparr> total_size := of_nat (length data), handler_data := upd (handler_data gd) data \<rparr>, p2)"
    using p1(1) p2(1) m(1) h same_params_fields(1) [OF p1(4)]
    by (simp add: len(2) ptp_usb_getdata_def usb_header_fields PTP_USB_BULK_HDR_LEN_def Let_def del: of_nat_add)
  with that p2 same_params_trans [OF p1(4) p2(4)] show thesis by blast
qed

end

section \<open>What is sent\<close>

definition usb_request :: "u8 \<Rightarrow> PTPContainer \<Rightarrow> bytes" where
  "usb_request bo ptp = usb_container bo PTP_USB_CONTAINER_COMMAND (Code ptp) (Transaction_ID ptp)
     (concat (map (enc32 bo) (take (unat (Nparam ptp)) (container_params ptp))))"

lemma usb_sendreq_eq:
  assumes "unat (Nparam ptp) \<le> 5"
  shows "ptp_usb_sendreq io p ptp = Some (usb_write io p (usb_request (byteorder p) ptp))"
proof -
  let ?bo = "byteorder p" and ?n = "unat (Nparam ptp)"
  let ?len = "word_of_int (32 - 4 * (5 - int ?n)) :: u32"
  have len: "?len = of_nat (12 + 4 * ?n)" by simp
  have nk: "nat (32 - 4 * (5 - int k)) = 12 + 4 * k" for k :: nat by simp
  note nl = nk [of ?n]
  have rl: "int PTP_USB_BULK_REQ_LEN = 32" by (simp add: usb_sizes)
  let ?w = "enc32 ?bo (of_nat (12 + 4 * ?n)) @ enc16 ?bo PTP_USB_CONTAINER_COMMAND @
      enc16 ?bo (Code ptp) @ enc32 ?bo (Transaction_ID ptp) @ enc32 ?bo (Param1 ptp) @
      enc32 ?bo (Param2 ptp) @ enc32 ?bo (Param3 ptp) @ enc32 ?bo (Param4 ptp) @ enc32 ?bo (Param5 ptp)"
  have s: "ptp_usb_sendreq io p ptp =
      do { bs \<leftarrow> ldn (?w @ replicate 480 0) 0 (12 + 4 * ?n); Some (usb_write io p bs) }"
    unfolding ptp_usb_sendreq_def Let_def rl len nl
    by (simp add: usb_sizes c32.put_in c16.put_in del: of_nat_add of_nat_mult)
  have "ldn (?w @ replicate 480 0) 0 (12 + 4 * ?n) = Some (usb_request ?bo ptp)"
  proof -
    have "?n = 5 \<or> ?n = 4 \<or> ?n = 3 \<or> ?n = 2 \<or> ?n = 1 \<or> ?n = 0" using assms by arith
    then show ?thesis
      by (elim disjE) (simp_all add: usb_request_def usb_container_def container_params_def ldn_def)
  qed
  then show ?thesis by (simp only: s Option.bind.bind_lunit)
qed

text \<open>The writes of a data phase: the first one carries the header, the second the data that did not
  fit in the first packet. They stop at the first failure.\<close>

definition usb_data_writes :: "u8 \<Rightarrow> PTPContainer \<Rightarrow> bytes \<Rightarrow> bytes list" where
  "usb_data_writes bo ptp data =
     (let c = usb_container bo PTP_USB_CONTAINER_DATA (Code ptp) (Transaction_ID ptp) data
      in take 512 c # (if length c > 512 then [drop 512 c] else []))"

fun usb_writes :: "'w ptp_io \<Rightarrow> 'w PTPParams \<Rightarrow> bytes list \<Rightarrow> u16 \<times> 'w PTPParams" where
  "usb_writes io p [] = (PTP_RC_OK, p)" |
  "usb_writes io p (bs # ws) =
     (let (ret, p) = usb_write io p bs in if ret \<noteq> PTP_RC_OK then (ret, p) else usb_writes io p ws)"

text \<open>A container whose length is a multiple of the maximum packet size, a power of two, is closed
  by an empty packet, whose result is ignored.\<close>

definition usb_end_packet :: "'w ptp_io \<Rightarrow> u32 \<Rightarrow> u16 \<times> 'w PTPParams \<Rightarrow> u16 \<times> 'w PTPParams" where
  "usb_end_packet io len rp =
     (if fst rp = PTP_RC_OK \<and> len AND (max_packet_size (snd rp) - 1) = 0
      then (PTP_RC_OK, (snd rp) \<lparr> con := snd (write_func io [] (con (snd rp))) \<rparr>) else rp)"

lemma usb_senddata_eq:
  assumes "unat sz \<le> length data"
  shows "ptp_usb_senddata io p ptp data sz =
    Some (usb_end_packet io (htod32p (byteorder p) (of_nat (12 + unat sz)))
      (usb_writes io p (usb_data_writes (byteorder p) ptp (take (unat sz) data))))"
proof -
  let ?bo = "byteorder p" and ?n = "min (unat sz) 500" and ?z = "\<lambda>n. replicate n (0 :: byte)"
  let ?h = "usb_header ?bo (12 + unat sz) PTP_USB_CONTAINER_DATA (Code ptp) (Transaction_ID ptp)"
  let ?first = "?h @ take ?n data"
  have len: "length (take (unat sz) data) = unat sz" using assms by simp
  have c: "usb_container ?bo PTP_USB_CONTAINER_DATA (Code ptp) (Transaction_ID ptp) (take (unat sz) data) =
      ?h @ take (unat sz) data" by (simp only: usb_container_header len)
  have w: "usb_data_writes ?bo ptp (take (unat sz) data) =
      ?first # (if unat sz > 500 then [take (unat sz - 500) (drop 500 data)] else [])"
    using assms by (simp add: usb_data_writes_def c drop_take min.commute)
  have s1: "of_nat 12 + sz = of_nat (12 + unat sz)" by simp
  have d: "ldn data 0 ?n = Some (take ?n data)" "unat sz > 500 \<Longrightarrow> ldn data 500 (unat sz - 500) = Some (take (unat sz - 500) (drop 500 data))"
    using assms by (simp_all add: ldn_def)
  define td where "td = take ?n data"
  have td: "length td = ?n" using assms by (simp add: td_def)
  let ?pkt = "(?h @ td) @ ?z (500 - ?n)"
  have pkt: "do { pkt \<leftarrow> htod32ap ?bo (?z 512) 0 (of_nat (12 + unat sz)); pkt \<leftarrow> htod16ap ?bo pkt 4 PTP_USB_CONTAINER_DATA;
      pkt \<leftarrow> htod16ap ?bo pkt 6 (Code ptp); pkt \<leftarrow> htod32ap ?bo pkt 8 (Transaction_ID ptp); d \<leftarrow> ldn data 0 ?n;
      pkt \<leftarrow> blit pkt 12 d; k pkt } = k ?pkt" for k :: "bytes \<Rightarrow> 'x option"
    unfolding d(1) td_def [symmetric]
    by (simp add: c32.put_in c16.put_in usb_header_def blit_def td del: of_nat_add)
  have out: "ldn ?pkt 0 (12 + ?n) = Some (?h @ td)" using td by (simp add: ldn_def)
  have hd4: "map_option host32 (ldn ?pkt 0 4) = Some (htod32p ?bo (of_nat (12 + unat sz)))"
    by (simp add: ldn_def usb_header_def enc32_def)
  have sizes: "PTP_USB_BULK_PAYLOAD_LEN = 500" "PTP_USB_BULK_HDR_LEN = 12" "sizeof_PTPUSBBulkContainer = 512"
    by (simp_all add: usb_sizes)
  show ?thesis
    unfolding ptp_usb_senddata_def Let_def w s1 sizes pkt out hd4 Option.bind.bind_lunit td_def [symmetric]
    by (auto simp: usb_end_packet_def d(2) split_beta Let_def)
qed

end
