(* ===== verification/Usb_Con.thy ===== *)
theory Usb_Con
  imports Con_Io Ptp_Chdk Usb_Stream Tcp_Con
begin

text \<open>
  PTP over a USB connection: the functions of \<open>chdkptp.c\<close> on libusb with a device that has given
  packets to deliver. The contract \<open>packet_stream\<close> is proved for \<open>ptp_usb_read_func\<close>, which splits
  a read into transfers of 2 MB; with it come the properties of whole transactions.
\<close>

section \<open>A device\<close>

text \<open>
  \<open>queued ep\<close> are the packets the device will send on endpoint \<open>ep\<close>. A bulk read ends after a short
  packet or when all it asked for has arrived; it fails when the device sends nothing more (a
  timeout) or more than asked for. \<open>transfers\<close> are the writes, with their endpoint.
\<close>

record usb_device =
  queued :: "int \<Rightarrow> bytes list"
  transfers :: "(int \<times> bytes) list"

fun take_packets :: "nat \<Rightarrow> bytes list \<Rightarrow> (bytes \<times> bytes list) option" where
  "take_packets n [] = None" |
  "take_packets n (q # qs) =
     (if length q < 512 \<or> n \<le> 512 then Some (q, qs)
      else map_option (\<lambda>(bs, r). (q @ bs, r)) (take_packets (n - 512) qs))"

definition device_read :: "int \<Rightarrow> nat \<Rightarrow> usb_device \<Rightarrow> int \<times> bytes \<times> usb_device" where
  "device_read ep n e =
     (case take_packets n (queued e ep) of
        None \<Rightarrow> (- 1, [], e)
      | Some (bs, r) \<Rightarrow>
          let e = e \<lparr> queued := (queued e)(ep := r) \<rparr> in
          if length bs \<le> n then (int (length bs), bs, e) else (- 1, [], e))"

definition device_write :: "int \<Rightarrow> bytes \<Rightarrow> usb_device \<Rightarrow> int \<times> usb_device" where
  "device_write ep bs e = (int (length bs), e \<lparr> transfers := transfers e @ [(ep, bs)] \<rparr>)"

definition device_usb :: "usb_device libusb" where
  "device_usb = \<lparr> usb_bulk_read = (\<lambda>h. device_read), usb_bulk_write = (\<lambda>h. device_write) \<rparr>"

definition device_packets :: "usb_device con_world \<Rightarrow> bytes list" where
  "device_packets w = queued (env w) (inep (cs w))"

text \<open>What the reads leave alone: the endpoints and what was written.\<close>

definition device_good :: "int \<Rightarrow> (int \<times> bytes) list \<Rightarrow> usb_device con_world \<Rightarrow> bool" where
  "device_good ep S w \<longleftrightarrow> outep (cs w) = ep \<and> transfers (env w) = S"

lemma take_packets_full:
  assumes "list_all (\<lambda>q. length q = 512) fs" and "fs \<noteq> []"
  shows "take_packets (length (concat fs)) (fs @ rest) = Some (concat fs, rest)"
  using assms
proof (induction fs)
  case (Cons f fs)
  show ?case
  proof (cases "fs = []")
    case False
    with Cons have "take_packets (length (concat fs)) (fs @ rest) = Some (concat fs, rest)" by simp
    moreover have "0 < length (concat fs)" using length_concat_full [of fs] Cons.prems False by simp
    ultimately show ?thesis using Cons.prems by auto
  qed (use Cons in simp)
qed simp

lemma device_read_full:
  assumes "list_all (\<lambda>q. length q = 512) fs" and "fs \<noteq> []" and "queued e ep = fs @ rest"
  shows "device_read ep (length (concat fs)) e =
    (int (length (concat fs)), concat fs, e \<lparr> queued := (queued e)(ep := rest) \<rparr>)"
  using take_packets_full [OF assms(1,2), of rest] by (simp add: device_read_def assms(3))

lemma device_read_packet:
  assumes "queued e ep = q # rest" and "length q \<le> 512"
  shows "device_read ep 512 e = (int (length q), q, e \<lparr> queued := (queued e)(ep := rest) \<rparr>)"
  using assms by (simp add: device_read_def)

text \<open>The loop over transfers reads any number of full packets.\<close>

lemma usb_read_loop_full:
  assumes "list_all (\<lambda>q. length q = 512) fs" and "fs \<noteq> []" and "device_packets w = fs @ rest"
    and "off + nat toread + length (concat fs) \<le> length m" and "device_good ep S w"
  shows "\<exists>r w'. usb_read_loop device_usb m off toread (int (length (concat fs))) sz w =
      Some (r, sz + int (length (concat fs)), the (blit m (off + nat toread) (concat fs)), w') \<and> 0 \<le> r \<and>
      device_packets w' = rest \<and> device_good ep S w'"
  using assms
proof (induction "length fs" arbitrary: fs off toread m sz w rule: less_induct)
  case less
  define gs where "gs = take 4096 fs"
  define hs where "hs = drop 4096 fs"
  have fs: "fs = gs @ hs" by (simp add: gs_def hs_def)
  have gs: "list_all (\<lambda>q. length q = 512) gs" "gs \<noteq> []" and hs: "list_all (\<lambda>q. length q = 512) hs"
    using less.prems(1,2) unfolding gs_def hs_def by (auto simp: list_all_iff dest: in_set_takeD in_set_dropD)
  let ?o = "off + nat toread" and ?g = "length (concat gs)" and ?h = "length (concat hs)"
  have lg: "?g = 512 * length gs" and lh: "?h = 512 * length hs" using gs hs by (simp_all add: length_concat_full)
  have lg': "?g = 512 * min 4096 (length fs)" unfolding lg by (simp add: gs_def min.commute)
  have urb: "(if int (length (concat fs)) > PTPCAM_USB_URB then PTPCAM_USB_URB else int (length (concat fs))) = int ?g"
    unfolding lg' length_concat_full [OF less.prems(1)] by (auto simp: PTPCAM_USB_URB_def min_def)
  have hs0: "hs \<noteq> [] \<longleftrightarrow> 4096 < length fs" and lh': "?h = 512 * (length fs - 4096)"
    unfolding lh by (auto simp: hs_def)
  have rest: "int (length (concat fs)) - PTPCAM_USB_URB > 0 \<longleftrightarrow> hs \<noteq> []"
    and left: "hs \<noteq> [] \<Longrightarrow> int (length (concat fs)) - PTPCAM_USB_URB = int ?h"
    unfolding hs0 lh' length_concat_full [OF less.prems(1)] by (auto simp: PTPCAM_USB_URB_def)
  let ?e = "(env w) \<lparr> queued := (queued (env w))(inep (cs w) := hs @ rest) \<rparr>"
  have q: "queued (env w) (inep (cs w)) = gs @ hs @ rest" using less.prems(3) fs by (simp add: device_packets_def)
  have pos: "0 < ?g" using lg gs(2) by simp
  have "?o + ?g \<le> length m" using less.prems(4) fs by simp
  then obtain m1 where m1: "blit m ?o (concat gs) = Some m1" using blit_exists by blast
  have b: "bulk_read_retry device_usb (usb_handle (cs w)) (inep (cs w)) m ?o (nat (int ?g)) (env w) = Some (int ?g, m1, ?e)"
    using device_read_full [OF gs q] pos m1 by (auto simp: bulk_read_retry_def device_usb_def)
  let ?w = "w \<lparr> env := ?e, cs := (cs w) \<lparr> read_count := read_count (cs w) + word_of_int (int ?g) \<rparr> \<rparr>"
  have pk: "device_packets ?w = hs @ rest" and good: "device_good ep S ?w"
    using less.prems(5) by (simp_all add: device_packets_def device_good_def)
  have step: "usb_read_loop device_usb m off toread (int (length (concat fs))) sz w =
      (if hs \<noteq> [] then usb_read_loop device_usb m1 ?o (int ?g) (int ?h) (sz + int ?g) ?w
       else Some (int ?g, sz + int ?g, m1, ?w))"
    by (subst usb_read_loop.simps) (simp only: Let_def urb b option.case prod.case rest cong: if_cong, simp add: left)
  show ?case
  proof (cases "hs = []")
    case True
    then show ?thesis using step pk good m1 fs by simp
  next
    case False
    have "length hs < length fs" using fs gs(2) by simp
    moreover have "?o + nat (int ?g) + ?h \<le> length m1" using less.prems(4) fs blit_length [OF m1] by simp
    ultimately obtain r w' where
      r: "usb_read_loop device_usb m1 ?o (int ?g) (int ?h) (sz + int ?g) ?w =
        Some (r, sz + int ?g + int ?h, the (blit m1 (?o + nat (int ?g)) (concat hs)), w')" "0 \<le> r"
      "device_packets w' = rest" "device_good ep S w'"
      using less.hyps [OF _ hs False pk _ good] by blast
    have "the (blit m1 (?o + nat (int ?g)) (concat hs)) = the (blit m ?o (concat gs @ concat hs))"
      using the_blit_append [of ?o "concat gs" "concat hs" m "?o + ?g"] m1 less.prems(4) fs by simp
    with r step False fs show ?thesis by simp
  qed
qed

interpretation usb_dev: packet_stream "usb_io mall stk device_usb" device_packets "device_good ep S"
proof unfold_locales
  fix w fs rest and n :: u32 and off and m :: bytes
  assume a: "device_good ep S w" "device_packets w = fs @ rest" "fs \<noteq> []" "list_all (\<lambda>q. length q = 512) fs"
    "unat n = length (concat fs)" "off + unat n \<le> length m"
  have "uint n = int (length (concat fs))" using a(5) by (metis uint_nat)
  with usb_read_loop_full [OF a(4,3,2) _ a(1), of off 0 m 0] a(5,6)
  show "\<exists>w'. read_func (usb_io mall stk device_usb) m off n w =
      Some (int (unat n), the (blit m off (concat fs)), w') \<and> device_packets w' = rest \<and> device_good ep S w'"
    by (auto simp: usb_io_def ptp_usb_read_func_def)
next
  fix w :: "usb_device con_world" and q rest off and m :: bytes
  assume a: "device_good ep S w" "device_packets w \<in> {q # rest, [] # q # rest}" "q \<noteq> []" "length q \<le> 512"
    "off + 512 \<le> length m"
  have room: "off + length q \<le> length m" using a(4,5) by simp
  then obtain m1 where m1: "blit m off q = Some m1" using blit_exists by blast
  have nil: "blit m off [] = Some m" using a(5) by (simp add: blit_def)
  let ?e = "(env w) \<lparr> queued := (queued (env w))(inep (cs w) := rest) \<rparr>"
  have b: "bulk_read_retry device_usb (usb_handle (cs w)) (inep (cs w)) m off 512 (env w) = Some (int (length q), m1, ?e)"
    using a(2,3,4) m1 nil
    by (auto simp: bulk_read_retry_def device_usb_def device_packets_def device_read_packet)
  let ?w = "w \<lparr> env := ?e, cs := (cs w) \<lparr> read_count := read_count (cs w) + 512 \<rparr> \<rparr>"
  have "usb_read_loop device_usb m off 0 512 0 w = Some (int (length q), int (length q), m1, ?w)"
    using b by (subst usb_read_loop.simps) (simp add: PTPCAM_USB_URB_def)
  then have "read_func (usb_io mall stk device_usb) m off 512 w = Some (int (length q), the (blit m off q), ?w)"
    using m1 by (simp add: usb_io_def ptp_usb_read_func_def)
  moreover have "device_packets ?w = rest" "device_good ep S ?w"
    using a(1) by (simp_all add: device_packets_def device_good_def)
  ultimately show "\<exists>w'. read_func (usb_io mall stk device_usb) m off 512 w =
      Some (int (length q), the (blit m off q), w') \<and> device_packets w' = rest \<and> device_good ep S w'" by blast
qed

section \<open>Writing to the device\<close>

lemma device_usb_write:
  assumes "device_good ep S (con p)"
  obtains p' where "usb_write (usb_io mall stk device_usb) p bs = (PTP_RC_OK, p')"
    and "device_good ep (S @ [(ep, bs)]) (con p')" and "device_packets (con p') = device_packets (con p)"
    and "same_params p p'" and "pkt_buf p' = pkt_buf p"
proof -
  let ?w = "(con p) \<lparr> env := (env (con p)) \<lparr> transfers := S @ [(ep, bs)] \<rparr>,
    cs := (cs (con p)) \<lparr> write_count := write_count (cs (con p)) + of_nat (length bs) \<rparr> \<rparr>"
  have "usb_write (usb_io mall stk device_usb) p bs = (PTP_RC_OK, p \<lparr> con := ?w \<rparr>)"
    using assms by (simp add: usb_write_def usb_io_def ptp_usb_write_func_def device_usb_def device_write_def
        device_good_def Let_def)
  from that [OF this] show thesis
    using assms by (simp add: device_good_def device_packets_def)
qed

lemma device_usb_writes:
  assumes "device_good ep S (con p)"
  shows "\<exists>p'. usb_writes (usb_io mall stk device_usb) p ws = (PTP_RC_OK, p') \<and>
      device_good ep (S @ map (Pair ep) ws) (con p') \<and> device_packets (con p') = device_packets (con p) \<and>
      same_params p p' \<and> pkt_buf p' = pkt_buf p"
  using assms
proof (induction ws arbitrary: p S)
  case Nil
  then show ?case by simp
next
  case (Cons bs ws)
  obtain p1 where p1: "usb_write (usb_io mall stk device_usb) p bs = (PTP_RC_OK, p1)"
    "device_good ep (S @ [(ep, bs)]) (con p1)" "device_packets (con p1) = device_packets (con p)"
    "same_params p p1" "pkt_buf p1 = pkt_buf p"
    by (rule device_usb_write [OF Cons.prems])
  from Cons.IH [OF p1(2)] obtain p2 where p2: "usb_writes (usb_io mall stk device_usb) p1 ws = (PTP_RC_OK, p2)"
    "device_good ep ((S @ [(ep, bs)]) @ map (Pair ep) ws) (con p2)" "device_packets (con p2) = device_packets (con p1)"
    "same_params p1 p2" "pkt_buf p2 = pkt_buf p1" by blast
  show ?case
    by (rule exI [of _ p2]) (use p1 p2 same_params_trans [OF p1(4) p2(4)] in simp)
qed

lemma waiting_same:
  "pkt_buf p' = pkt_buf p \<Longrightarrow> packets (con p') = packets (con p) \<Longrightarrow> waiting packets q rest p' = waiting packets q rest p"
  by (simp add: waiting_def)

section \<open>Transactions\<close>

abbreviation usb_con :: "(nat \<Rightarrow> bytes option) \<Rightarrow> (nat \<Rightarrow> bytes) \<Rightarrow> (usb_device con_world, 'f) transport" where
  "usb_con mall stk \<equiv> usb_transport (usb_io mall stk device_usb)"

definition usb_response :: "u8 \<Rightarrow> u16 \<Rightarrow> u32 \<Rightarrow> u32 list \<Rightarrow> bytes" where
  "usb_response bo code tid ps = usb_container bo PTP_USB_CONTAINER_RESPONSE code tid (concat (map (enc32 bo) ps))"

lemma usb_response_packet:
  assumes "length ps \<le> 5"
  shows "usb_response bo code tid ps \<noteq> []" and "length (usb_response bo code tid ps) \<le> 512"
proof -
  have "length (usb_response bo code tid ps) = 12 + 4 * length ps"
    by (simp add: usb_response_def usb_container_header length_concat o_def sum_list_triv)
  with assms show "usb_response bo code tid ps \<noteq> []" "length (usb_response bo code tid ps) \<le> 512" by auto
qed

lemma device_sendreq:
  assumes "device_good ep S (con p)" and "unat (Nparam ptp) \<le> 5"
  obtains p1 where "sendreq_func (usb_con mall stk) (p \<lparr> transaction_id := transaction_id p + 1 \<rparr>) (numbered p ptp) =
      Some (PTP_RC_OK, p1)"
    and "device_good ep (S @ [(ep, usb_request (byteorder p) (numbered p ptp))]) (con p1)"
    and "device_packets (con p1) = device_packets (con p)" and "pkt_buf p1 = pkt_buf p"
    and "same_params (p \<lparr> transaction_id := transaction_id p + 1 \<rparr>) p1"
proof -
  let ?p = "p \<lparr> transaction_id := transaction_id p + 1 \<rparr>"
  have g: "device_good ep S (con ?p)" and n: "unat (Nparam (numbered p ptp)) \<le> 5" using assms by simp_all
  obtain p1 where p1: "usb_write (usb_io mall stk device_usb) ?p (usb_request (byteorder ?p) (numbered p ptp)) = (PTP_RC_OK, p1)"
    "device_good ep (S @ [(ep, usb_request (byteorder ?p) (numbered p ptp))]) (con p1)"
    "device_packets (con p1) = device_packets (con ?p)" "same_params ?p p1" "pkt_buf p1 = pkt_buf ?p"
    by (rule device_usb_write [OF g])
  show thesis
    by (rule that [of p1]) (use p1 usb_sendreq_eq [OF n, of "usb_io mall stk device_usb" ?p] in
        \<open>simp_all add: usb_transport_def\<close>)
qed

lemma usb_io_malloc [simp]: "malloc (usb_io mall stk usb) = mall"
  by (simp add: usb_io_def)

lemma usb_receive_ok:
  assumes wait: "waiting device_packets q qs p" and good: "device_good ep S (con p)"
    and np: "unat (Nparam ptp) \<le> 5"
    and answer: "q # qs = usb_packets zlp (usb_container (byteorder p) PTP_USB_CONTAINER_DATA (Code ptp) tid data) @
      usb_response (byteorder p) code tid ps # rest"
    and sizes: "length data < 2 ^ 31" "length ps \<le> 5"
    and mall: "\<And>n. \<exists>m. mall n = Some m \<and> length m = n"
  shows "\<exists>p'. ptp_transaction (usb_con mall stk) p ptp PTP_DP_GETDATA 0 None =
      Some (if code \<notin> {Code ptp, PTP_RC_OK} then (code, numbered p ptp, Some data, p')
            else (PTP_RC_OK, response_container (session_id p) code tid ps, Some data, p')) \<and>
    buf_ok (pkt_buf p') \<and> buffered (pkt_buf p') = [] \<and> device_packets (con p') = rest \<and>
    device_good ep (S @ [(ep, usb_request (byteorder p) (numbered p ptp))]) (con p') \<and>
    transaction_id p' = transaction_id p + 1 \<and> session_id p' = session_id p"
proof -
  let ?io = "usb_io mall stk device_usb" and ?S = "S @ [(ep, usb_request (byteorder p) (numbered p ptp))]"
  obtain p1 where p1: "sendreq_func (usb_con mall stk) (p \<lparr> transaction_id := transaction_id p + 1 \<rparr>)
      (numbered p ptp) = Some (PTP_RC_OK, p1)" "device_good ep ?S (con p1)"
    "device_packets (con p1) = device_packets (con p)" "pkt_buf p1 = pkt_buf p"
    "same_params (p \<lparr> transaction_id := transaction_id p + 1 \<rparr>) p1"
    using device_sendreq [OF good np, of mall stk thesis] by auto
  note f1 = same_params_fields [OF p1(5), simplified]
  have w1: "waiting device_packets q qs p1" using wait waiting_same [OF p1(4,3)] by simp
  obtain m where m: "mall (length data) = Some m" "length m = length data" using mall by blast
  have mm: "(case ret_data (memory_params None) of None \<Rightarrow> malloc ?io (length data) | Some m \<Rightarrow> Some m) = Some m"
    "length data \<le> length m" "handler (memory_params None) = None" "length data < 2147483648"
    using m sizes(1) by (simp_all add: memory_params_def)
  have c: "q # qs = usb_packets zlp (usb_container (byteorder p1) PTP_USB_CONTAINER_DATA (Code (numbered p ptp)) tid data) @
      usb_response (byteorder p1) code tid ps # rest" using answer f1 by simp
  obtain p2 where p2: "ptp_usb_getdata ?io p1 (numbered p ptp) (memory_params None) = Some (PTP_RC_OK,
      memory_params None \<lparr> total_size := of_nat (length data), ret_data := Some (the (blit m 0 data)) \<rparr>, p2)"
    "waiting device_packets (usb_response (byteorder p1) code tid ps) rest p2" "device_good ep ?S (con p2)" "same_params p1 p2"
    by (rule usb_dev.usb_getdata_ok [OF w1 p1(2) c usb_response_packet [OF sizes(2)] mm(4,3,1,2)])
  note f2 = same_params_fields [OF p2(4)]
  have w2: "waiting device_packets (usb_container (byteorder p2) PTP_USB_CONTAINER_RESPONSE code tid
      (concat (map (enc32 (byteorder p2)) ps))) rest p2"
    using p2(2) f2 by (simp add: usb_response_def)
  obtain p3 where p3: "ptp_usb_getresp ?io p2 (numbered p ptp) =
      Some (if code \<notin> {Code (numbered p ptp), PTP_RC_OK} then (code, numbered p ptp, p3)
            else (PTP_RC_OK, response_container (session_id p2) code tid ps, p3))"
    "buf_ok (pkt_buf p3)" "buffered (pkt_buf p3) = []" "device_packets (con p3) = rest" "device_good ep ?S (con p3)"
    "same_params p2 p3"
    by (rule usb_dev.usb_getresp_ok [OF w2 p2(3) sizes(2)])
  note f3 = same_params_fields [OF p3(6)]
  have "the (blit m 0 data) = data" using m(2) by (rule blit_whole [OF sym])
  then have "ptp_transaction (usb_con mall stk) p ptp PTP_DP_GETDATA 0 None =
      Some (if code \<notin> {Code ptp, PTP_RC_OK} then (code, numbered p ptp, Some data, p3)
            else (PTP_RC_OK, response_container (session_id p) code tid ps, Some data, p3))"
    using p1(1) p2(1) p3(1) f1 f2
    by (simp add: transaction_getdata usb_transport_def)
  with p3 f1 f2 f3 show ?thesis by auto
qed

text \<open>C1: A transaction that receives data over USB. When the device has sent, in packets of 512 bytes, the
  data container of any payload below 2 GiB (closed by an empty packet or not) and the response container,
  the transaction ends, stays inside its buffers and returns exactly the payload, with the code and the
  parameters of the response (for an error response, its code and the request as it was). It sends one
  request, uses up one transaction number, and takes exactly those packets: what the device sends next is
  still there and the packet buffer is empty, so that the next transaction can start.\<close>

theorem usb_receive_transaction:
  assumes wait: "waiting device_packets q qs p" and good: "device_good ep S (con p)"
    and np: "unat (Nparam ptp) \<le> 5"
    and answer: "q # qs = usb_packets zlp (usb_container (byteorder p) PTP_USB_CONTAINER_DATA (Code ptp) tid data) @
      usb_response (byteorder p) code tid ps # rest"
    and sizes: "length data < 2 ^ 31" "length ps \<le> 5"
    and mall: "\<And>n. \<exists>m. mall n = Some m \<and> length m = n"
  shows "\<exists>p'. ptp_transaction (usb_con mall stk) p ptp PTP_DP_GETDATA 0 None =
      Some (if code \<notin> {Code ptp, PTP_RC_OK} then (code, numbered p ptp, Some data, p')
            else (PTP_RC_OK, response_container (session_id p) code tid ps, Some data, p')) \<and>
    buf_ok (pkt_buf p') \<and> buffered (pkt_buf p') = [] \<and> device_packets (con p') = rest \<and>
    device_good ep (S @ [(ep, usb_request (byteorder p) (numbered p ptp))]) (con p') \<and>
    transaction_id p' = transaction_id p + 1 \<and> session_id p' = session_id p"
  by (rule usb_receive_ok [OF assms])

lemma and_511:
  fixes w :: u32
  shows "w AND 511 = 0 \<longleftrightarrow> 512 dvd unat w"
proof -
  have "w AND 511 = take_bit 9 w" by (simp add: take_bit_eq_mask mask_eq_exp_minus_1)
  moreover have "unat (take_bit 9 w) = unat w mod 512"
    by (simp only: unsigned_take_bit_eq) (simp add: take_bit_eq_mod)
  ultimately show ?thesis by (metis mod_0_imp_dvd dvd_imp_mod_0 unat_eq_0)
qed

text \<open>The data phase of a transaction that sends.\<close>

lemma device_senddata:
  assumes g: "device_good ep S (con p)" and bo: "byteorder p = PTP_DL_LE" and mps: "max_packet_size p = 512"
    and len: "unat sz \<le> length data" "unat sz < 2 ^ 31"
  obtains p' where "ptp_usb_senddata (usb_io mall stk device_usb) p ptp data sz = Some (PTP_RC_OK, p')"
    and "device_good ep (S @ map (Pair ep) (usb_data_writes PTP_DL_LE ptp (take (unat sz) data) @
      (if 512 dvd 12 + unat sz then [[]] else []))) (con p')"
    and "device_packets (con p') = device_packets (con p)" and "same_params p p'" and "pkt_buf p' = pkt_buf p"
proof -
  let ?io = "usb_io mall stk device_usb" and ?ws = "usb_data_writes PTP_DL_LE ptp (take (unat sz) data)"
  from device_usb_writes [OF g] obtain p2 where p2: "usb_writes ?io p ?ws = (PTP_RC_OK, p2)"
    "device_good ep (S @ map (Pair ep) ?ws) (con p2)"
    "device_packets (con p2) = device_packets (con p)" "same_params p p2" "pkt_buf p2 = pkt_buf p" by blast
  note f2 = same_params_fields [OF p2(4)]
  have ul: "unat (of_nat (12 + unat sz) :: u32) = 12 + unat sz"
    using len(2) by (subst unat_of_nat_u32) simp_all
  have zlp: "htod32p (byteorder p) (of_nat (12 + unat sz)) AND (max_packet_size p2 - 1) = 0 \<longleftrightarrow> 512 dvd 12 + unat sz"
    using and_511 [of "of_nat (12 + unat sz)"] f2 bo mps unfolding ul
    by (simp add: htod32p_def endian_defs del: of_nat_add)
  note send = usb_senddata_eq [OF len(1), of ?io p ptp, unfolded bo]
  show thesis
  proof (cases "512 dvd 12 + unat sz")
    case True
    obtain p3 where w: "usb_write ?io p2 [] = (PTP_RC_OK, p3)" "device_good ep ((S @ map (Pair ep) ?ws) @ [(ep, [])]) (con p3)"
      "device_packets (con p3) = device_packets (con p2)" "same_params p2 p3" "pkt_buf p3 = pkt_buf p2"
      by (rule device_usb_write [OF p2(2)])
    then have "p3 = p2 \<lparr> con := snd (write_func ?io [] (con p2)) \<rparr>"
      by (auto simp: usb_write_def split_beta)
    then have "ptp_usb_senddata ?io p ptp data sz = Some (PTP_RC_OK, p3)"
      using send p2(1) zlp True bo by (simp add: usb_end_packet_def del: of_nat_add)
    with that [of p3] w p2 True same_params_trans [OF p2(4) w(4)] show thesis by simp
  next
    case False
    then have "ptp_usb_senddata ?io p ptp data sz = Some (PTP_RC_OK, p2)"
      using send p2(1) zlp bo by (simp add: usb_end_packet_def del: of_nat_add)
    with that [of p2] p2 False show thesis by simp
  qed
qed

text \<open>C5: A transaction that sends data over USB writes the request and then the data container in
  one or two transfers, followed by an empty packet exactly when the length of the container is a
  multiple of 512; the answer is returned and the next packet of the device is left.\<close>

theorem usb_send_transaction:
  assumes wait: "waiting device_packets (usb_response PTP_DL_LE code tid ps) rest p" and good: "device_good ep S (con p)"
    and bo: "byteorder p = PTP_DL_LE" and mps: "max_packet_size p = 512"
    and np: "unat (Nparam ptp) \<le> 5" and len: "unat sz \<le> length data" "unat sz < 2 ^ 31" and ps: "length ps \<le> 5"
  shows "\<exists>p'. ptp_transaction (usb_con mall stk) p ptp PTP_DP_SENDDATA sz (Some data) =
      Some (if code \<notin> {Code ptp, PTP_RC_OK} then (code, numbered p ptp, Some data, p')
            else (PTP_RC_OK, response_container (session_id p) code tid ps, Some data, p')) \<and>
    buf_ok (pkt_buf p') \<and> buffered (pkt_buf p') = [] \<and> device_packets (con p') = rest \<and>
    device_good ep (S @ (ep, usb_request PTP_DL_LE (numbered p ptp)) #
      map (Pair ep) (usb_data_writes PTP_DL_LE (numbered p ptp) (take (unat sz) data) @
        (if 512 dvd 12 + unat sz then [[]] else []))) (con p') \<and>
    transaction_id p' = transaction_id p + 1 \<and> session_id p' = session_id p \<and> byteorder p' = PTP_DL_LE"
proof -
  let ?io = "usb_io mall stk device_usb" and ?bo = PTP_DL_LE
  let ?S = "S @ [(ep, usb_request ?bo (numbered p ptp))]"
  let ?T = "?S @ map (Pair ep) (usb_data_writes ?bo (numbered p ptp) (take (unat sz) data) @
    (if 512 dvd 12 + unat sz then [[]] else []))"
  obtain p1 where p1: "sendreq_func (usb_con mall stk) (p \<lparr> transaction_id := transaction_id p + 1 \<rparr>)
      (numbered p ptp) = Some (PTP_RC_OK, p1)" "device_good ep ?S (con p1)"
    "device_packets (con p1) = device_packets (con p)" "pkt_buf p1 = pkt_buf p"
    "same_params (p \<lparr> transaction_id := transaction_id p + 1 \<rparr>) p1"
    using device_sendreq [OF good np, of mall stk thesis] by (auto simp: bo)
  note f1 = same_params_fields [OF p1(5), simplified]
  have "byteorder p1 = ?bo" "max_packet_size p1 = 512" using f1 bo mps by simp_all
  then obtain p3 where p3: "ptp_usb_senddata ?io p1 (numbered p ptp) data sz = Some (PTP_RC_OK, p3)"
    "device_good ep ?T (con p3)" "device_packets (con p3) = device_packets (con p1)" "same_params p1 p3" "pkt_buf p3 = pkt_buf p1"
    by (rule device_senddata [OF p1(2) _ _ len])
  note f3 = same_params_fields [OF p3(4)]
  have w3: "waiting device_packets (usb_container (byteorder p3) PTP_USB_CONTAINER_RESPONSE code tid
      (concat (map (enc32 (byteorder p3)) ps))) rest p3"
    using wait waiting_same [of p3 p device_packets] p1(3,4) p3(3,5) f1 f3 bo by (simp add: usb_response_def)
  obtain p4 where p4: "ptp_usb_getresp ?io p3 (numbered p ptp) =
      Some (if code \<notin> {Code (numbered p ptp), PTP_RC_OK} then (code, numbered p ptp, p4)
            else (PTP_RC_OK, response_container (session_id p3) code tid ps, p4))"
    "buf_ok (pkt_buf p4)" "buffered (pkt_buf p4) = []" "device_packets (con p4) = rest"
    "device_good ep ?T (con p4)" "same_params p3 p4"
    by (rule usb_dev.usb_getresp_ok [OF w3 p3(2) ps])
  note f4 = same_params_fields [OF p4(6)]
  have "ptp_transaction (usb_con mall stk) p ptp PTP_DP_SENDDATA sz (Some data) =
      Some (if code \<notin> {Code ptp, PTP_RC_OK} then (code, numbered p ptp, Some data, p4)
            else (PTP_RC_OK, response_container (session_id p) code tid ps, Some data, p4))"
    using p1(1) p3(1) p4(1) f1 f3
    by (simp add: transaction_senddata usb_transport_def)
  with p4 f1 f3 f4 bo show ?thesis by auto
qed

section \<open>Download\<close>

lemma first_usb_packet:
  assumes "12 \<le> length c"
  obtains q qs where "usb_packets zlp c = q # qs" and "q \<noteq> []" and "length q \<le> 512"
proof -
  have "usb_packets zlp c = take 512 c # (if length c < 512 then [] else usb_packets zlp (drop 512 c))"
    using assms by (subst usb_packets.simps) auto
  moreover have "take 512 c \<noteq> []" using assms by auto
  ultimately show thesis using that by simp
qed

lemma transaction_getfile:
  "ptp_getdata_transaction tr p ptp gd = do {
     (ret, p1) \<leftarrow> sendreq_func tr (p \<lparr> transaction_id := transaction_id p + 1 \<rparr>) (numbered p ptp);
     if ret \<noteq> PTP_RC_OK then Some (ret, numbered p ptp, gd, p1)
     else do {
       (ret, gd, p2) \<leftarrow> getdata_file_func tr p1 (numbered p ptp) gd;
       if ret \<noteq> PTP_RC_OK then Some (ret, numbered p ptp, gd, p2)
       else do {
         (ret, ptp, p3) \<leftarrow> getresp_func tr p2 (numbered p ptp);
         Some (ret, ptp, gd, p3)
       }
     }
   }"
  by (simp add: ptp_getdata_transaction_def numbered_def split_beta Let_def
      cong: Option.bind_cong if_cong)

text \<open>A disk with room: \<open>fwrite\<close> appends all of its bytes to the file.\<close>

definition appends :: "bytes stdio \<Rightarrow> bool" where
  "appends st \<longleftrightarrow> (\<forall>bs f. fwrite st bs f = (length bs, f @ bs))"

text \<open>The second transaction of a download: the data go to the file, block by block.\<close>

lemma usb_receive_file:
  assumes wait: "waiting device_packets q qs p" and good: "device_good ep S (con p)" and bo: "byteorder p = PTP_DL_LE"
    and np: "unat (Nparam ptp) \<le> 5"
    and answer: "q # qs = usb_packets zlp (usb_container PTP_DL_LE PTP_USB_CONTAINER_DATA (Code ptp) tid data) @
      usb_response PTP_DL_LE PTP_RC_OK tid' ps # rest"
    and sizes: "length data < 2147483648" "length ps \<le> 5"
    and mall: "\<And>n. \<exists>m. mall n = Some m \<and> length m = n" and st: "appends st"
  shows "\<exists>ptp' gd' p'. ptp_getdata_transaction (usb_con mall stk) p ptp
      \<lparr> handler = Some (gd_to_file st), block_size = 0, ret_data = None, handler_data = f, total_size = 0 \<rparr> =
      Some (PTP_RC_OK, ptp', gd', p') \<and> handler_data gd' = f @ data \<and>
    buf_ok (pkt_buf p') \<and> buffered (pkt_buf p') = [] \<and> device_packets (con p') = rest \<and>
    transaction_id p' = transaction_id p + 1"
proof -
  let ?io = "usb_io mall stk device_usb" and ?S = "S @ [(ep, usb_request (byteorder p) (numbered p ptp))]"
  let ?gd = "\<lparr> handler = Some (gd_to_file st), block_size = 0, ret_data = None, handler_data = f, total_size = 0 \<rparr>"
  obtain p1 where p1: "sendreq_func (usb_con mall stk) (p \<lparr> transaction_id := transaction_id p + 1 \<rparr>)
      (numbered p ptp) = Some (PTP_RC_OK, p1)" "device_good ep ?S (con p1)"
    "device_packets (con p1) = device_packets (con p)" "pkt_buf p1 = pkt_buf p"
    "same_params (p \<lparr> transaction_id := transaction_id p + 1 \<rparr>) p1"
    using device_sendreq [OF good np, of mall stk thesis] by auto
  note f1 = same_params_fields [OF p1(5), simplified]
  have w1: "waiting device_packets q qs p1" using wait waiting_same [OF p1(4,3)] by simp
  have c: "q # qs = usb_packets zlp (usb_container (byteorder p1) PTP_USB_CONTAINER_DATA (Code (numbered p ptp)) tid data) @
      usb_response (byteorder p1) PTP_RC_OK tid' ps # rest" using answer f1 bo by simp
  have hnd: "gd_to_file st n b (of_nat (length data)) h = (PTP_RC_OK, h @ take (unat n) b)"
    if "unat n \<le> length b" for n b h
    using st that by (simp add: gd_to_file_def appends_def)
  obtain m where m: "mall (unat (handler_block 0)) = Some m" "length m = unat (handler_block 0)" using mall by blast
  obtain p2 where p2: "ptp_usb_getdata ?io p1 (numbered p ptp) ?gd = Some (PTP_RC_OK,
      ?gd \<lparr> total_size := of_nat (length data), handler_data := f @ data \<rparr>, p2)"
    "waiting device_packets (usb_response (byteorder p1) PTP_RC_OK tid' ps) rest p2" "device_good ep ?S (con p2)" "same_params p1 p2"
    by (rule usb_dev.usb_getdata_handler_ok [OF w1 p1(2) c usb_response_packet [OF sizes(2)] sizes(1), of ?gd "gd_to_file st" "(@)" mall stk])
      (use hnd m in simp_all)
  note f2 = same_params_fields [OF p2(4)]
  have w2: "waiting device_packets (usb_container (byteorder p2) PTP_USB_CONTAINER_RESPONSE PTP_RC_OK tid'
      (concat (map (enc32 (byteorder p2)) ps))) rest p2"
    using p2(2) f2 by (simp add: usb_response_def)
  obtain p3 where p3: "ptp_usb_getresp ?io p2 (numbered p ptp) =
      Some (if PTP_RC_OK \<notin> {Code (numbered p ptp), PTP_RC_OK} then (PTP_RC_OK, numbered p ptp, p3)
            else (PTP_RC_OK, response_container (session_id p2) PTP_RC_OK tid' ps, p3))"
    "buf_ok (pkt_buf p3)" "buffered (pkt_buf p3) = []" "device_packets (con p3) = rest" "device_good ep ?S (con p3)"
    "same_params p2 p3"
    by (rule usb_dev.usb_getresp_ok [OF w2 p2(3) sizes(2)])
  note f3 = same_params_fields [OF p3(6)]
  show ?thesis
    using p1(1) p2(1) p3 f1 f2 f3
    by (simp add: transaction_getfile usb_transport_def)
qed

text \<open>C9: A download over USB writes exactly the bytes of the remote file, of any size below 2 GB,
  to the local file, whatever the packets and the blocks they arrive in.\<close>

theorem usb_download:
  assumes wait: "waiting device_packets (usb_response PTP_DL_LE PTP_RC_OK tid1 ps1) (q # qs) p"
    and good: "device_good ep S (con p)" and bo: "byteorder p = PTP_DL_LE" and mps: "max_packet_size p = 512"
    and answer: "q # qs = usb_packets zlp (usb_container PTP_DL_LE PTP_USB_CONTAINER_DATA PTP_OC_CHDK tid contents) @
      usb_response PTP_DL_LE PTP_RC_OK tid2 ps2 # rest"
    and name: "strlen remote_fn = Some n" "n < 2 ^ 31" and sizes: "length contents < 2 ^ 31" "length ps1 \<le> 5" "length ps2 \<le> 5"
    and st: "appends st" "fopen_wb st local_fn = Some []"
    and mall: "\<And>n. \<exists>m. mall n = Some m \<and> length m = n"
  shows "\<exists>p'. ptp_chdk_download st (usb_con mall stk) p remote_fn local_fn = Some (PTP_RC_OK, Some contents, p') \<and>
    device_packets (con p') = rest \<and> transaction_id p' = transaction_id p + 2"
proof -
  let ?tr = "usb_con mall stk :: (usb_device con_world, bytes) transport"
  let ?ptp1 = "chdk_ptp PTP_CHDK_TempData 2 \<lparr> Param2 := 0 \<rparr>" and ?ptp2 = "chdk_ptp PTP_CHDK_DownloadFile 1"
  have un: "unat (of_nat n :: u32) = n" using name(2) by (subst unat_of_nat_u32) simp_all
  have "unat (of_nat n :: u32) \<le> length remote_fn" "unat (of_nat n :: u32) < 2 ^ 31"
    unfolding un using strlen_less [OF name(1)] name(2) by simp_all
  from usb_send_transaction [OF wait good bo mps _ this sizes(2), of ?ptp1 mall stk]
  obtain p1 S1 ptp1 where p1: "ptp_transaction ?tr p ?ptp1 PTP_DP_SENDDATA (of_nat n) (Some remote_fn) =
      Some (PTP_RC_OK, ptp1, Some remote_fn, p1)" "buf_ok (pkt_buf p1)" "buffered (pkt_buf p1) = []"
    "device_packets (con p1) = q # qs" "device_good ep S1 (con p1)" "transaction_id p1 = transaction_id p + 1" "byteorder p1 = PTP_DL_LE"
    by (auto simp: chdk_ptp_def PTP_CNT_INIT_def)
  have "12 \<le> length (usb_container PTP_DL_LE PTP_USB_CONTAINER_DATA PTP_OC_CHDK tid contents)" by (simp add: usb_container_header)
  then have "q \<noteq> [] \<and> length q \<le> 512" using answer by (auto elim: first_usb_packet [where zlp = zlp])
  then have w: "waiting device_packets q qs p1" using p1(2-4) by (simp add: waiting_def)
  have "unat (Nparam ?ptp2) \<le> 5" "Code ?ptp2 = PTP_OC_CHDK" by (simp_all add: chdk_ptp_def PTP_CNT_INIT_def)
  with usb_receive_file [where ptp = ?ptp2 and zlp = zlp and tid = tid and data = contents and tid' = tid2 and ps = ps2 and
      rest = rest and mall = mall and st = st and f = "[]" and stk = stk, OF w p1(5,7)] answer sizes mall st(1)
  obtain ptp' gd' p' where p2: "ptp_getdata_transaction ?tr p1 ?ptp2
      \<lparr> handler = Some (gd_to_file st), block_size = 0, ret_data = None, handler_data = [], total_size = 0 \<rparr> =
      Some (PTP_RC_OK, ptp', gd', p')" "handler_data gd' = contents" "device_packets (con p') = rest"
    "transaction_id p' = transaction_id p1 + 1" by auto
  show ?thesis using p1(1,6) p2 name(1) st(2) by (simp add: ptp_chdk_download_def)
qed

section \<open>A short first transfer\<close>

text \<open>C33: A read of more than one transfer whose first transfer ends early leaves a hole: what the
  second one brings is stored 2 MB further on, but the returned size counts the bytes only. The
  statistics count the bytes asked for.
\<close>

theorem usb_read_hole:
  assumes q: "queued (env w) (inep (cs w)) = q1 # q2 # rest" "q1 \<noteq> []" "q2 \<noteq> []" "length q1 < 512" "length q2 < 512"
    and n: "2097152 + 512 \<le> unat n" "unat n \<le> 2 * 2097152" and room: "off + unat n \<le> length m"
  shows "\<exists>m' w'. ptp_usb_read_func device_usb m off n w = Some (int (length q1 + length q2), m', w') \<and>
    ldn m' off (length q1) = Some q1 \<and> ldn m' (off + 2097152) (length q2) = Some q2 \<and>
    ldn m' (off + length q1) (2097152 - length q1) = ldn m (off + length q1) (2097152 - length q1) \<and>
    read_count (cs w') = read_count (cs w) + ucast n"
proof -
  let ?u = 2097152
  have un: "uint n = int (unat n)" by (rule uint_nat)
  have nu: "2097152 + 512 \<le> uint n" "uint n \<le> 2 * 2097152" using n un by linarith+
  have "off + length q1 \<le> length m" using q(4) n room by linarith
  then obtain m1 where m1: "blit m off q1 = Some m1" using blit_exists by blast
  have "off + ?u + length q2 \<le> length m1" using q(5) n room blit_length [OF m1] by linarith
  then obtain m2 where m2: "blit m1 (off + ?u) q2 = Some m2" using blit_exists by blast
  let ?k = "nat (uint n - ?u)"
  let ?e1 = "(env w) \<lparr> queued := (queued (env w))(inep (cs w) := q2 # rest) \<rparr>"
  let ?e2 = "(env w) \<lparr> queued := (queued (env w))(inep (cs w) := rest) \<rparr>"
  have b1: "bulk_read_retry device_usb (usb_handle (cs w)) (inep (cs w)) m off ?u (env w) = Some (int (length q1), m1, ?e1)"
    using q(1,2,4) m1 by (simp add: bulk_read_retry_def device_usb_def device_read_def)
  have k: "512 \<le> ?k" using nu by linarith
  have b2: "bulk_read_retry device_usb (usb_handle (cs w)) (inep (cs w)) m1 (off + ?u) ?k ?e1 = Some (int (length q2), m2, ?e2)"
    using q(3,5) m2 k by (simp add: bulk_read_retry_def device_usb_def device_read_def)
  let ?w1 = "w \<lparr> env := ?e1, cs := (cs w) \<lparr> read_count := read_count (cs w) + word_of_int ?u \<rparr> \<rparr>"
  let ?w2 = "w \<lparr> env := ?e2, cs := (cs w) \<lparr> read_count := read_count (cs w) + word_of_int ?u + word_of_int (uint n - ?u) \<rparr> \<rparr>"
  have bounds: "uint n > PTPCAM_USB_URB" "uint n - PTPCAM_USB_URB > 0"
    "\<not> uint n - PTPCAM_USB_URB > PTPCAM_USB_URB" "\<not> uint n - PTPCAM_USB_URB - PTPCAM_USB_URB > 0"
    using nu by (simp_all add: PTPCAM_USB_URB_def)
  have u: "PTPCAM_USB_URB = ?u" by (simp add: PTPCAM_USB_URB_def)
  have s2: "usb_read_loop device_usb m1 off ?u (uint n - ?u) (int (length q1)) ?w1 =
      Some (int (length q2), int (length q1) + int (length q2), m2, ?w2)"
    using b2 bounds unfolding u by (subst usb_read_loop.simps) (simp add: u)
  have "usb_read_loop device_usb m off 0 (uint n) 0 w = Some (int (length q2), int (length q1 + length q2), m2, ?w2)"
    using b1 bounds s2 unfolding u by (subst usb_read_loop.simps) (simp add: u)
  then have "ptp_usb_read_func device_usb m off n w = Some (int (length q1 + length q2), m2, ?w2)"
    by (simp add: ptp_usb_read_func_def)
  moreover have "ldn m2 off (length q1) = Some q1"
    using ldn_blit_other [OF m2, of off "length q1"] ldn_blit_same [OF m1] q(4) by simp
  moreover have "ldn m2 (off + ?u) (length q2) = Some q2" by (rule ldn_blit_same [OF m2])
  moreover have "ldn m2 (off + length q1) (?u - length q1) = ldn m (off + length q1) (?u - length q1)"
    using ldn_blit_other [OF m2, of "off + length q1" "?u - length q1"]
      ldn_blit_other [OF m1, of "off + length q1" "?u - length q1"] q(4) by simp
  moreover have "read_count (cs w) + word_of_int ?u + word_of_int (uint n - ?u) = read_count (cs w) + ucast n"
  proof -
    have "word_of_int ?u + word_of_int (uint n - ?u) = (word_of_int (uint n) :: u64)" by simp
    also have "\<dots> = ucast n" by (simp only: ucast_eq)
    finally show ?thesis by (simp only: add.assoc)
  qed
  ultimately show ?thesis by auto
qed

section \<open>Examples\<close>

text \<open>A connection to a device that will send the given packets on its bulk endpoint.\<close>

definition example_usb :: "bytes list \<Rightarrow> usb_device con_world PTPParams" where
  "example_usb qs =
     (init_params (zero_params
       \<lparr> cs = zero_con_state \<lparr> inep := 129, outep := 2 \<rparr>, env = \<lparr> queued = (\<lambda>_. [])(129 := qs), transfers = [] \<rparr> \<rparr>))
     \<lparr> max_packet_size := 512 \<rparr>"

lemma example_usb_sel [simp]:
  "byteorder (example_usb qs) = PTP_DL_LE" "transaction_id (example_usb qs) = 0" "session_id (example_usb qs) = 0"
  "max_packet_size (example_usb qs) = 512" "device_packets (con (example_usb qs)) = qs"
  "device_good 2 [] (con (example_usb qs))" "buf_ok (pkt_buf (example_usb qs))" "buffered (pkt_buf (example_usb qs)) = []"
  by (simp_all add: example_usb_def init_params_def zero_params_def buf_ok_def device_packets_def device_good_def)

definition example_data :: bytes where "example_data = replicate 1012 7"

text \<open>1012 bytes of data fill two packets; the device closes them with an empty one.\<close>

lemma example_data_packets:
  "usb_packets True (usb_container bo type code tid example_data) =
    [usb_header bo 1024 type code tid @ replicate 500 7, replicate 512 7, []]"
proof -
  have "usb_container bo type code tid example_data = concat [usb_header bo 1024 type code tid @ replicate 500 7, replicate 512 7] @ []"
    by (simp add: usb_container_header example_data_def replicate_add [symmetric])
  then show ?thesis using usb_packets_full [of "[usb_header bo 1024 type code tid @ replicate 500 7, replicate 512 7]" "[]" True]
    by simp
qed

theorem usb_receive_transaction_witness:
  "\<exists>p'. ptp_transaction (usb_con example_malloc example_stack)
      (example_usb (usb_packets True (usb_container PTP_DL_LE PTP_USB_CONTAINER_DATA PTP_OC_GetObject 0 example_data) @
         [usb_response PTP_DL_LE PTP_RC_OK 0 [7]]))
      (PTP_CNT_INIT \<lparr> Code := PTP_OC_GetObject, Nparam := 1, Param1 := 9 \<rparr>) PTP_DP_GETDATA 0 None =
    Some (PTP_RC_OK, response_container 0 PTP_RC_OK 0 [7], Some example_data, p') \<and>
    device_packets (con p') = [] \<and> transaction_id p' = 1"
proof -
  let ?ptp = "PTP_CNT_INIT \<lparr> Code := PTP_OC_GetObject, Nparam := 1, Param1 := 9 \<rparr>"
  let ?qs = "usb_packets True (usb_container PTP_DL_LE PTP_USB_CONTAINER_DATA PTP_OC_GetObject 0 example_data) @
    [usb_response PTP_DL_LE PTP_RC_OK 0 [7]]"
  let ?p = "example_usb ?qs"
  obtain q qs where c: "q # qs = ?qs" "q \<noteq> []" "length q \<le> 512" by (auto simp: example_data_packets usb_header_def enc32_def mem32_def)
  then have w: "waiting device_packets q qs ?p" by (simp add: waiting_def)
  have c': "q # qs = usb_packets True (usb_container (byteorder ?p) PTP_USB_CONTAINER_DATA (Code ?ptp) 0 example_data) @
      usb_response (byteorder ?p) PTP_RC_OK 0 [7] # []" using c(1) by simp
  show ?thesis
    using usb_receive_transaction [OF w example_usb_sel(6) _ c', of example_malloc example_stack]
    by (auto simp: PTP_CNT_INIT_def example_malloc_def example_data_def)
qed

theorem usb_send_transaction_witness:
  "\<exists>p'. ptp_transaction (usb_con example_malloc example_stack) (example_usb [usb_response PTP_DL_LE PTP_RC_OK 0 []])
      (PTP_CNT_INIT \<lparr> Code := PTP_OC_SendObject \<rparr>) PTP_DP_SENDDATA 500 (Some (replicate 500 1)) =
    Some (PTP_RC_OK, response_container 0 PTP_RC_OK 0 [], Some (replicate 500 1), p') \<and>
    (2, []) \<in> set (transfers (env (con p')))"
proof -
  let ?r = "usb_response PTP_DL_LE PTP_RC_OK 0 []"
  have w: "waiting device_packets ?r [] (example_usb [?r])" by (simp add: waiting_def usb_response_packet)
  have d: "512 dvd 12 + length (replicate 500 (1 :: byte))" by simp
  show ?thesis
    using usb_send_transaction [OF w example_usb_sel(6,1,4), of "PTP_CNT_INIT \<lparr> Code := PTP_OC_SendObject \<rparr>" 500 "replicate 500 1" example_malloc example_stack]
    by (auto simp: PTP_CNT_INIT_def device_good_def)
qed

theorem usb_read_hole_witness:
  "\<exists>m' w'. ptp_usb_read_func device_usb (replicate 2097664 0) 0 2097664 (con (example_usb [[1, 2], [3]])) = Some (3, m', w') \<and>
    ldn m' 0 2 = Some [1, 2] \<and> ldn m' 2097152 1 = Some [3]"
proof -
  have q: "queued (env (con (example_usb [[1, 2], [3]]))) (inep (cs (con (example_usb [[1, 2], [3]])))) = [1, 2] # [3] # []"
    using example_usb_sel(5) by (simp add: device_packets_def)
  have l: "length [1, 2 :: byte] = 2" "length [3 :: byte] = 1" "int (2 + 1) = 3" by simp_all
  show ?thesis using usb_read_hole [OF q, of 2097664 0 "replicate 2097664 0", unfolded l] by simp blast
qed

definition example_disk :: "bytes stdio" where
  "example_disk = \<lparr> fopen_rb = (\<lambda>_. None), fopen_wb = (\<lambda>_. Some []),
     fwrite = (\<lambda>bs f. (length bs, f @ bs)), file_malloc = example_malloc \<rparr>"

theorem usb_download_witness:
  "\<exists>p'. ptp_chdk_download example_disk (usb_con example_malloc example_stack)
      (example_usb (usb_response PTP_DL_LE PTP_RC_OK 0 [] #
         usb_packets True (usb_container PTP_DL_LE PTP_USB_CONTAINER_DATA PTP_OC_CHDK 1 example_data) @
         [usb_response PTP_DL_LE PTP_RC_OK 1 []]))
      [65, 0] [97, 0] =
    Some (PTP_RC_OK, Some example_data, p') \<and> device_packets (con p') = [] \<and> transaction_id p' = 2"
proof -
  let ?r = "usb_response PTP_DL_LE PTP_RC_OK 0 []"
  let ?qs = "usb_packets True (usb_container PTP_DL_LE PTP_USB_CONTAINER_DATA PTP_OC_CHDK 1 example_data) @
    [usb_response PTP_DL_LE PTP_RC_OK 1 []]"
  obtain q qs where c: "q # qs = ?qs" by (simp add: example_data_packets)
  have w: "waiting device_packets ?r (q # qs) (example_usb (?r # ?qs))"
    unfolding c by (simp add: waiting_def usb_response_packet)
  have n: "strlen [65, 0 :: byte] = Some 1" using strlen_append [of "[65 :: byte]" "[]"] by simp
  have st: "appends example_disk" "fopen_wb example_disk [97, 0] = Some []"
    by (simp_all add: example_disk_def appends_def)
  show ?thesis
    using usb_download [OF w example_usb_sel(6,1,4) c n _ _ _ _ st, of example_malloc example_stack]
    by (auto simp: example_malloc_def example_data_def)
qed

end
