(* ===== verification/Connect.thy ===== *)
theory Connect
  imports Con_Io Ptp_Tables
begin

text \<open>
  Opening and closing connections (\<open>chdkptp.c\<close>): finding a USB device, \<open>init_ptp_usb\<close>,
  \<open>open_camera_dev_usb\<close>, \<open>close_usb\<close>, \<open>reset_device\<close>, the handshake of PTP/IP in \<open>init_ptp_tcp\<close>, and the
  methods \<open>connect\<close>, \<open>disconnect\<close> and \<open>is_connected\<close> of a connection object. libusb and the socket
  library are records of functions on the outside world \<open>'e\<close>. Messages on the console are left out.
\<close>

section \<open>Errors thrown to Lua\<close>

text \<open>The error object is a table; of its fields the traceback is left out. \<open>Lua_Error\<close> is
  \<open>luaL_error\<close>.\<close>

record api_error =
  err_ptp_rc :: "u16 option"
  err_msg :: "string option"
  err_etype :: "string option"
  err_critical :: bool

datatype lua_error = Api_Error api_error | Lua_Error string

definition push_api_error_ptp :: "u16 \<Rightarrow> api_error" where
  "push_api_error_ptp code =
     \<lparr> err_ptp_rc = Some code, err_msg = Some (ptp_strerror code), err_etype = Some ''ptp'', err_critical = False \<rparr>"

definition push_api_error_misc :: "string \<Rightarrow> string option \<Rightarrow> bool \<Rightarrow> api_error" where
  "push_api_error_misc etype msg critical =
     \<lparr> err_ptp_rc = None, err_msg = msg, err_etype = Some etype, err_critical = critical \<rparr>"

definition api_error_tostring :: "api_error \<Rightarrow> string" where
  "api_error_tostring err =
     (case err_msg err of Some msg \<Rightarrow> msg
      | None \<Rightarrow> (case err_etype err of Some etype \<Rightarrow> etype | None \<Rightarrow> ''unknown error''))"

text \<open>A function called from Lua returns or throws, and in both cases it has changed the connection.\<close>

type_synonym ('r, 'w) lua_call = "((lua_error + 'r) \<times> 'w PTPParams) option"

definition api_throw_error :: "string \<Rightarrow> string \<Rightarrow> 'w PTPParams \<Rightarrow> ('r, 'w) lua_call" where
  "api_throw_error etype msg p = Some (Inl (Api_Error (push_api_error_misc etype (Some msg) False)), p)"

definition api_throw_error_critical :: "string \<Rightarrow> string \<Rightarrow> 'w PTPParams \<Rightarrow> ('r, 'w) lua_call" where
  "api_throw_error_critical etype msg p = Some (Inl (Api_Error (push_api_error_misc etype (Some msg) True)), p)"

definition api_check_ptp_throw :: "u16 \<Rightarrow> 'w PTPParams \<Rightarrow> ('r, 'w) lua_call \<Rightarrow> ('r, 'w) lua_call" where
  "api_check_ptp_throw code p k =
     (if code \<noteq> PTP_RC_OK then Some (Inl (Api_Error (push_api_error_ptp code)), p) else k)"

section \<open>USB devices\<close>

text \<open>What the code uses of the structures of libusb. A device without configuration has no
  \<open>usb_config\<close>; its first interface is the only one looked at.\<close>

record usb_endpoint =
  bmAttributes :: u8
  bEndpointAddress :: u8
  wMaxPacketSize :: u16

record usb_interface =
  bConfigurationValue :: u8
  bNumInterfaces :: u8
  bInterfaceClass :: u8
  bInterfaceNumber :: u8
  usb_endpoints :: "usb_endpoint list"

record usb_dev =
  dev_dirname :: bytes
  dev_filename :: bytes
  idVendor :: u16
  idProduct :: u16
  usb_config :: "usb_interface option"

definition USB_CLASS_PTP :: u8 where "USB_CLASS_PTP = 6"
definition USB_ENDPOINT_TYPE_BULK :: u8 where "USB_ENDPOINT_TYPE_BULK = 2"
definition USB_ENDPOINT_TYPE_INTERRUPT :: u8 where "USB_ENDPOINT_TYPE_INTERRUPT = 3"
definition USB_ENDPOINT_DIR_MASK :: u8 where "USB_ENDPOINT_DIR_MASK = 0x80"

definition USB_IS_PTP :: "usb_dev \<Rightarrow> bool" where
  "USB_IS_PTP dev =
     (case usb_config dev of None \<Rightarrow> False
      | Some i \<Rightarrow> bNumInterfaces i > 0 \<and> bInterfaceClass i = USB_CLASS_PTP)"

text \<open>The functions of libusb. A device handle is a number, null is \<open>None\<close>. Of the results that the
  code does not look at only the effect is kept. \<open>usb_control_msg h type request value index n\<close> stores at
  most \<open>n\<close> bytes.\<close>

record 'e usb_host =
  usb_bulk :: "'e libusb"
  usb_find_busses :: "'e \<Rightarrow> 'e"
  usb_find_devices :: "'e \<Rightarrow> 'e"
  usb_get_busses :: "'e \<Rightarrow> (bytes \<times> usb_dev list) list"
  usb_open :: "usb_dev \<Rightarrow> 'e \<Rightarrow> nat option \<times> 'e"
  usb_set_configuration :: "nat option \<Rightarrow> u8 \<Rightarrow> 'e \<Rightarrow> 'e"
  usb_claim_interface :: "nat option \<Rightarrow> u8 \<Rightarrow> 'e \<Rightarrow> 'e"
  usb_release_interface :: "nat option \<Rightarrow> u8 \<Rightarrow> 'e \<Rightarrow> 'e"
  usb_reset :: "nat option \<Rightarrow> 'e \<Rightarrow> 'e"
  usb_close :: "nat option \<Rightarrow> 'e \<Rightarrow> 'e"
  usb_control_msg :: "nat option \<Rightarrow> u8 \<Rightarrow> u8 \<Rightarrow> int \<Rightarrow> int \<Rightarrow> nat \<Rightarrow> 'e \<Rightarrow> int \<times> bytes \<times> 'e"

text \<open>Sockets, beyond \<open>send\<close> and \<open>recv\<close>. \<open>INVALID_SOCKET\<close> is \<open>None\<close>.\<close>

record 'e tcp_host =
  tcp_sockets :: "'e sockets"
  getaddrinfo :: "bytes \<Rightarrow> bytes \<Rightarrow> 'e \<Rightarrow> int \<times> addrinfo list \<times> 'e"
  freeaddrinfo :: "addrinfo list \<Rightarrow> 'e \<Rightarrow> 'e"
  socket :: "addrinfo \<Rightarrow> 'e \<Rightarrow> nat option \<times> 'e"
  sock_connect :: "nat option \<Rightarrow> addrinfo \<Rightarrow> 'e \<Rightarrow> int \<times> 'e"
  sockutil_close :: "nat option \<Rightarrow> 'e \<Rightarrow> 'e"

text \<open>All of it, with the allocator, the contents of local objects and the global variable
  \<open>usb_reset_on_close\<close>.\<close>

record 'e platform =
  host :: "'e usb_host"
  tcp :: "'e tcp_host"
  usb_reset_on_close :: bool
  heap :: "nat \<Rightarrow> bytes option"
  locals :: "nat \<Rightarrow> bytes"

text \<open>The transports. Those of the session operations are used without files.\<close>

definition usb_tr :: "'e platform \<Rightarrow> ('e con_world, 'f) transport" where
  "usb_tr pf = usb_transport (usb_io (heap pf) (locals pf) (usb_bulk (host pf)))"

definition tcp_tr :: "'e platform \<Rightarrow> ('e con_world, 'f) transport" where
  "tcp_tr pf = tcp_transport (tcp_io (heap pf) (locals pf) (tcp_sockets (tcp pf)))"

abbreviation usb_session :: "'e platform \<Rightarrow> ('e con_world, unit) transport" where
  "usb_session pf \<equiv> usb_tr pf"

abbreviation tcp_session :: "'e platform \<Rightarrow> ('e con_world, unit) transport" where
  "tcp_session pf \<equiv> tcp_tr pf"

abbreviation upd_cs :: "(PTP_CON_STATE \<Rightarrow> PTP_CON_STATE) \<Rightarrow> 'e con_world PTPParams \<Rightarrow> 'e con_world PTPParams" where
  "upd_cs f p \<equiv> p \<lparr> con := (con p) \<lparr> cs := f (cs (con p)) \<rparr> \<rparr>"

abbreviation upd_env :: "('e \<Rightarrow> 'e) \<Rightarrow> 'e con_world PTPParams \<Rightarrow> 'e con_world PTPParams" where
  "upd_env f p \<equiv> p \<lparr> con := (con p) \<lparr> env := f (env (con p)) \<rparr> \<rparr>"

text \<open>The last endpoint of each kind counts.\<close>

definition find_endpoint :: "usb_endpoint \<Rightarrow> PTP_CON_STATE \<Rightarrow> PTP_CON_STATE" where
  "find_endpoint ep c =
     (let a = bEndpointAddress ep; dir = a AND USB_ENDPOINT_DIR_MASK in
      if bmAttributes ep = USB_ENDPOINT_TYPE_BULK then
        (let c = (if dir = USB_ENDPOINT_DIR_MASK then c \<lparr> inep := uint a \<rparr> else c)
         in if dir = 0 then c \<lparr> outep := uint a \<rparr> else c)
      else if bmAttributes ep = USB_ENDPOINT_TYPE_INTERRUPT \<and> dir = USB_ENDPOINT_DIR_MASK
      then c \<lparr> intep := uint a \<rparr> else c)"

definition find_endpoints :: "usb_interface \<Rightarrow> PTP_CON_STATE \<Rightarrow> PTP_CON_STATE" where
  "find_endpoints i c = fold find_endpoint (usb_endpoints i) c"

definition get_busses :: "'e platform \<Rightarrow> 'e \<Rightarrow> (bytes \<times> usb_dev list) list \<times> 'e" where
  "get_busses pf e =
     (let e = usb_find_devices (host pf) (usb_find_busses (host pf) e) in (usb_get_busses (host pf) e, e))"

definition find_device_by_path :: "'e platform \<Rightarrow> bytes \<Rightarrow> bytes \<Rightarrow> 'e \<Rightarrow> usb_dev option \<times> 'e" where
  "find_device_by_path pf find_bus find_dev e =
     (let (busses, e) = get_busses pf e in
      (find (\<lambda>dev. USB_IS_PTP dev \<and> dev_filename dev = find_dev)
         (concat (map snd (filter (\<lambda>b. fst b = find_bus) busses))), e))"

section \<open>Control messages\<close>

definition USB_DP_DTH :: u8 where "USB_DP_DTH = 0x80"
definition USB_TYPE_CLASS :: u8 where "USB_TYPE_CLASS = 0x20"
definition USB_RECIP_INTERFACE :: u8 where "USB_RECIP_INTERFACE = 0x01"
definition USB_RECIP_ENDPOINT :: u8 where "USB_RECIP_ENDPOINT = 0x02"
definition USB_REQ_GET_STATUS :: u8 where "USB_REQ_GET_STATUS = 0x00"
definition USB_REQ_CLEAR_FEATURE :: u8 where "USB_REQ_CLEAR_FEATURE = 0x01"
definition USB_FEATURE_HALT :: int where "USB_FEATURE_HALT = 0"
definition USB_REQ_DEVICE_RESET :: u8 where "USB_REQ_DEVICE_RESET = 0x66"
definition USB_REQ_GET_DEVICE_STATUS :: u8 where "USB_REQ_GET_DEVICE_STATUS = 0x67"

text \<open>A message that stores its answer in the object \<open>m\<close> of the caller.\<close>

definition control_msg ::
  "'e platform \<Rightarrow> 'e con_world \<Rightarrow> u8 \<Rightarrow> u8 \<Rightarrow> int \<Rightarrow> int \<Rightarrow> nat \<Rightarrow> bytes \<Rightarrow> (int \<times> bytes \<times> 'e con_world) option" where
  "control_msg pf w type request value index n m =
     (let (r, bs, e) = usb_control_msg (host pf) (usb_handle (cs w)) type request value index n (env w) in
      do { m \<leftarrow> blit m 0 bs; Some (r, m, w \<lparr> env := e \<rparr>) })"

definition usb_get_endpoint_status ::
  "'e platform \<Rightarrow> 'e con_world \<Rightarrow> int \<Rightarrow> bytes \<Rightarrow> (int \<times> bytes \<times> 'e con_world) option" where
  "usb_get_endpoint_status pf w ep status =
     control_msg pf w (USB_DP_DTH OR USB_RECIP_ENDPOINT) USB_REQ_GET_STATUS USB_FEATURE_HALT ep 2 status"

definition usb_clear_stall_feature ::
  "'e platform \<Rightarrow> 'e con_world \<Rightarrow> int \<Rightarrow> (int \<times> bytes \<times> 'e con_world) option" where
  "usb_clear_stall_feature pf w ep =
     control_msg pf w USB_RECIP_ENDPOINT USB_REQ_CLEAR_FEATURE USB_FEATURE_HALT ep 0 []"

definition usb_ptp_get_device_status ::
  "'e platform \<Rightarrow> 'e con_world \<Rightarrow> bytes \<Rightarrow> (int \<times> bytes \<times> 'e con_world) option" where
  "usb_ptp_get_device_status pf w devstatus =
     control_msg pf w (USB_DP_DTH OR USB_TYPE_CLASS OR USB_RECIP_INTERFACE) USB_REQ_GET_DEVICE_STATUS 0 0 4 devstatus"

definition usb_ptp_device_reset :: "'e platform \<Rightarrow> 'e con_world \<Rightarrow> (int \<times> bytes \<times> 'e con_world) option" where
  "usb_ptp_device_reset pf w =
     control_msg pf w (USB_TYPE_CLASS OR USB_RECIP_INTERFACE) USB_REQ_DEVICE_RESET 0 0 0 []"

text \<open>\<open>uint16_t devstatus[2] = {0,0}\<close>, and its second element.\<close>

definition devstatus0 :: bytes where "devstatus0 = [0, 0, 0, 0]"

definition devstatus1 :: "bytes \<Rightarrow> u16" where "devstatus1 m = host16 (take 2 (drop 2 m))"

section \<open>Opening and closing a USB device\<close>

text \<open>What \<open>init_ptp_usb\<close> and \<open>init_ptp_tcp\<close> set first. Of the function pointers they set, those of the
  transport are \<open>usb_tr\<close> and \<open>tcp_tr\<close>.\<close>

definition reset_counters :: "'e con_world PTPParams \<Rightarrow> 'e con_world PTPParams" where
  "reset_counters p = upd_cs (\<lambda>c. c \<lparr> write_count := 0, read_count := 0 \<rparr>) p"

text \<open>The packet size is that of the first endpoint.\<close>

definition init_ptp_usb ::
  "'e platform \<Rightarrow> 'e con_world PTPParams \<Rightarrow> usb_dev \<Rightarrow> (bool \<times> 'e con_world PTPParams) option" where
  "init_ptp_usb pf p dev = do {
     let p = init_params p;
     let (h, e) = usb_open (host pf) dev (env (con p));
     let p = upd_env (\<lambda>_. e) p;
     case h of None \<Rightarrow> Some (False, p)
     | Some _ \<Rightarrow> do {
         let p = reset_counters (upd_cs (\<lambda>c. c \<lparr> usb_handle := h \<rparr>) p);
         i \<leftarrow> usb_config dev;
         let p = upd_env (usb_set_configuration (host pf) h (bConfigurationValue i)) p;
         let p = upd_env (usb_claim_interface (host pf) h (bInterfaceNumber i)) p;
         (case usb_endpoints i of [] \<Rightarrow> None
          | ep # _ \<Rightarrow>
              let n = (ucast (wMaxPacketSize ep) :: u32) in
              Some (True, p \<lparr> max_packet_size := if n = 0 then 512 else n \<rparr>))
       }
   }"

text \<open>The handle stays in the state of the connection.\<close>

definition close_usb :: "'e platform \<Rightarrow> 'e con_world \<Rightarrow> usb_dev \<Rightarrow> 'e con_world option" where
  "close_usb pf w dev = do {
     i \<leftarrow> usb_config dev;
     let h = usb_handle (cs w);
     let e = usb_release_interface (host pf) h (bInterfaceNumber i) (env w);
     let e = (if usb_reset_on_close pf then usb_reset (host pf) h e else e);
     Some (w \<lparr> env := usb_close (host pf) h e \<rparr>)
   }"

definition close_camera_usb ::
  "'e platform \<Rightarrow> 'e con_world PTPParams \<Rightarrow> 'e con_world PTPParams option" where
  "close_camera_usb pf p = do {
     let (dev, e) = find_device_by_path pf (con_bus (cs (con p))) (con_dev (cs (con p))) (env (con p));
     let p = upd_env (\<lambda>_. e) p;
     case dev of None \<Rightarrow> Some p
     | Some dev \<Rightarrow> do {
         (ret, p) \<leftarrow> ptp_closesession (usb_session pf) p;
         w \<leftarrow> close_usb pf (con p) dev;
         Some (p \<lparr> con := w \<rparr>)
       }
   }"

text \<open>Closing over TCP ends the session if there is one, then closes whatever is open.\<close>

definition close_socks :: "'e platform \<Rightarrow> 'e con_world \<Rightarrow> 'e con_world" where
  "close_socks pf w =
     (let w = (case cmd_sock (cs w) of None \<Rightarrow> w
               | s \<Rightarrow> w \<lparr> env := sockutil_close (tcp pf) s (env w), cs := (cs w) \<lparr> cmd_sock := None \<rparr> \<rparr>);
          w = (case event_sock (cs w) of None \<Rightarrow> w
               | s \<Rightarrow> w \<lparr> env := sockutil_close (tcp pf) s (env w), cs := (cs w) \<lparr> event_sock := None \<rparr> \<rparr>)
      in case con_ai (cs w) of None \<Rightarrow> w
         | Some ai \<Rightarrow> w \<lparr> env := freeaddrinfo (tcp pf) ai (env w),
                          cs := (cs w) \<lparr> con_ai := None, con_ai_con := None \<rparr> \<rparr>)"

definition close_camera_tcp ::
  "'e platform \<Rightarrow> 'e con_world PTPParams \<Rightarrow> 'e con_world PTPParams option" where
  "close_camera_tcp pf p = do {
     (ret, p) \<leftarrow> (if connected (cs (con p)) then ptp_closesession (tcp_session pf) p else Some (PTP_RC_OK, p));
     Some (p \<lparr> con := close_socks pf (con p) \<rparr>)
   }"

definition close_camera ::
  "'e platform \<Rightarrow> 'e con_world PTPParams \<Rightarrow> 'e con_world PTPParams option" where
  "close_camera pf p =
     (if con_type (cs (con p)) = PTP_CON_USB then close_camera_usb pf p else close_camera_tcp pf p)"

text \<open>The second attempt of \<open>open_camera_dev_usb\<close>, after the device was reset.\<close>

definition reopen_camera_dev_usb ::
  "'e platform \<Rightarrow> usb_dev \<Rightarrow> 'e con_world PTPParams \<Rightarrow> (bool \<times> 'e con_world PTPParams) option" where
  "reopen_camera_dev_usb pf dev p = do {
     (r, m, w) \<leftarrow> usb_ptp_device_reset pf (con p);
     (r, m, w) \<leftarrow> usb_ptp_get_device_status pf w devstatus0;
     w \<leftarrow> close_usb pf w dev;
     let p = p \<lparr> con := w \<rparr>;
     i \<leftarrow> usb_config dev;
     (ok, p) \<leftarrow> init_ptp_usb pf (upd_cs (find_endpoints i) p) dev;
     if \<not> ok then Some (False, p)
     else do {
       (ret, p) \<leftarrow> ptp_opensession (usb_session pf) p 1;
       Some (ret = PTP_RC_OK, p)
     }
   }"

definition open_camera_dev_usb ::
  "'e platform \<Rightarrow> usb_dev option \<Rightarrow> 'e con_world PTPParams \<Rightarrow> (bool \<times> 'e con_world PTPParams) option" where
  "open_camera_dev_usb pf dev p =
     (case dev of None \<Rightarrow> Some (False, p)
      | Some dev \<Rightarrow> do {
          i \<leftarrow> usb_config dev;
          (ok, p) \<leftarrow> init_ptp_usb pf (upd_cs (find_endpoints i) p) dev;
          if \<not> ok then Some (False, p)
          else do {
            (ret, p) \<leftarrow> ptp_opensession (usb_session pf) p 1;
            (ok, p) \<leftarrow> (if ret \<noteq> PTP_RC_OK then reopen_camera_dev_usb pf dev p else Some (True, p));
            if \<not> ok then Some (False, p)
            else do {
              (ret, di, p) \<leftarrow> ptp_getdeviceinfo (usb_session pf) p (deviceinfo p);
              let p = p \<lparr> deviceinfo := di \<rparr>;
              if ret \<noteq> PTP_RC_OK then do { p \<leftarrow> close_camera pf p; Some (False, p) }
              else Some (True, upd_cs (\<lambda>c. c \<lparr> connected := True \<rparr>) p)
            }
          }
        })"

section \<open>The handshake over TCP\<close>

definition my_guid :: bytes where
  "my_guid = [0x00, 0x00, 0x00, 0x00, 0x00, 0x00, 0x00, 0x00, 0xde, 0xad, 0xbe, 0xef, 0x12, 0x34, 0x56, 0x78]"

definition my_name :: bytes where
  "my_name = [0x77, 0x00, 0x68, 0x00, 0x65, 0x00, 0x65, 0x00, 0x00, 0x00]"

text \<open>The packets of the handshake are in the byte order of the host. \<open>ip_field pkt i\<close> is the integer at
  offset \<open>i\<close>.\<close>

definition ip_field :: "bytes \<Rightarrow> nat \<Rightarrow> u32 option" where
  "ip_field pkt i = map_option host32 (ldn pkt i 4)"

definition init_cmd_packet :: bytes where
  "init_cmd_packet =
     mem32 (of_nat (length my_guid + length my_name + 12)) @ mem32 PTPIP_TYPE_INIT_CMD @
     my_guid @ my_name @ mem32 0x00010000"

definition init_event_packet :: "u32 \<Rightarrow> bytes" where
  "init_event_packet n = mem32 12 @ mem32 PTPIP_TYPE_INIT_EVENT @ mem32 n"

text \<open>A failed \<open>socket\<close> is reported only; \<open>connect\<close> then gets an invalid socket.\<close>

definition init_event_channel_tcp ::
  "'e platform \<Rightarrow> 'e con_world \<Rightarrow> (bool \<times> 'e con_world) option" where
  "init_event_channel_tcp pf w = do {
     ai \<leftarrow> con_ai_con (cs w);
     let (s, e) = socket (tcp pf) ai (env w);
     let (r, e) = sock_connect (tcp pf) s ai e;
     let w = w \<lparr> env := e \<rparr>;
     if r = - 1 then Some (False, w)
     else do {
       let w = w \<lparr> cs := (cs w) \<lparr> event_sock := s \<rparr> \<rparr>;
       let (r, e) = send (tcp_sockets (tcp pf)) s (init_event_packet (connection_id (cs w))) (env w);
       let w = w \<lparr> env := e \<rparr>;
       if r = - 1 then Some (False, w)
       else do {
         let (r, bs, e) = recv (tcp_sockets (tcp pf)) s sizeof_PTPIPContainer (env w);
         let w = w \<lparr> env := e \<rparr>;
         pkt \<leftarrow> blit (replicate sizeof_PTPIPContainer 0) 0 bs;
         len \<leftarrow> ip_field pkt 0;
         type \<leftarrow> ip_field pkt 4;
         Some (8 \<le> r \<and> len = word_of_int r \<and> type = PTPIP_TYPE_INIT_EVENT_ACK, w)
       }
     }
   }"

text \<open>The first address of the list to which a connection succeeds: the socket and the address, or
  none. \<open>Inl\<close> if no socket could be made.\<close>

fun connect_first ::
  "'e platform \<Rightarrow> addrinfo list \<Rightarrow> 'e \<Rightarrow> ('e + nat option \<times> addrinfo option \<times> 'e)" where
  "connect_first pf [] e = Inr (None, None, e)" |
  "connect_first pf (ai # ais) e =
     (let (s, e) = socket (tcp pf) ai e in
      if s = None then Inl e
      else let (r, e) = sock_connect (tcp pf) s ai e in
        if r = - 1 then connect_first pf ais (sockutil_close (tcp pf) s e)
        else Inr (s, Some ai, e))"

text \<open>From the command channel on: the request, its answer, the event channel and the session.\<close>

definition init_session_tcp ::
  "'e platform \<Rightarrow> 'e con_world PTPParams \<Rightarrow> (bool \<times> 'e con_world PTPParams) option" where
  "init_session_tcp pf p = do {
     let net = tcp_sockets (tcp pf);
     let (ret, w) = ptp_tcp_write_func net init_cmd_packet (con p);
     let p = p \<lparr> con := w \<rparr>;
     if ret \<noteq> PTP_RC_OK then Some (False, p)
     else do {
       (r, pkt, w) \<leftarrow> ptp_tcp_read_func net (replicate sizeof_PTPIPContainer 0) 0 (of_nat sizeof_PTPIPContainer) (con p);
       let p = p \<lparr> con := w \<rparr>;
       len \<leftarrow> ip_field pkt 0;
       type \<leftarrow> ip_field pkt 4;
       if r < 0 \<or> len < 34 \<or> type \<noteq> PTPIP_TYPE_INIT_CMD_ACK then Some (False, p)
       else do {
         n \<leftarrow> ip_field pkt 8;
         guid \<leftarrow> ldn pkt 12 16;
         let p = upd_cs (\<lambda>c. c \<lparr> connection_id := n, cam_guid := guid \<rparr>) p;
         (ok, w) \<leftarrow> init_event_channel_tcp pf (con p);
         let p = p \<lparr> con := w \<rparr>;
         if \<not> ok then Some (False, p)
         else do {
           (ret, p) \<leftarrow> ptp_opensession (tcp_session pf) p 1;
           if ret \<noteq> PTP_RC_OK then Some (False, p)
           else do {
             (ret, di, p) \<leftarrow> ptp_getdeviceinfo (tcp_session pf) (upd_cs (\<lambda>c. c \<lparr> connected := True \<rparr>) p) (deviceinfo p);
             Some (ret = PTP_RC_OK, p \<lparr> deviceinfo := di \<rparr>)
           }
         }
       }
     }
   }"

definition init_ptp_tcp ::
  "'e platform \<Rightarrow> 'e con_world PTPParams \<Rightarrow> (bool \<times> 'e con_world PTPParams) option" where
  "init_ptp_tcp pf p =
     (let p = reset_counters (init_params p);
          c = cs (con p);
          (r, ais, e) = getaddrinfo (tcp pf) (con_host c) (con_port c) (env (con p));
          p = upd_env (\<lambda>_. e) p
      in if r \<noteq> 0 then Some (False, p)
         else case connect_first pf ais e of
           Inl e \<Rightarrow> Some (False, upd_env (\<lambda>_. freeaddrinfo (tcp pf) ais e) p)
         | Inr (s, ai, e) \<Rightarrow>
             init_session_tcp pf (upd_cs (\<lambda>c. c \<lparr> con_ai := if ais = [] then None else Some ais, con_ai_con := ai, cmd_sock := s \<rparr>)
               (upd_env (\<lambda>_. e) p)))"

section \<open>The methods that connect and disconnect\<close>

definition connect_cam_usb :: "'e platform \<Rightarrow> 'e con_world PTPParams \<Rightarrow> (unit, 'e con_world) lua_call" where
  "connect_cam_usb pf p =
     (let (dev, e) = find_device_by_path pf (con_bus (cs (con p))) (con_dev (cs (con p))) (env (con p));
          p = upd_env (\<lambda>_. e) p
      in if dev = None then api_throw_error ''connect_no_dev'' ''no matching device'' p
         else do {
           (ok, p) \<leftarrow> open_camera_dev_usb pf dev p;
           if ok then Some (Inr (), p)
           else api_throw_error ''connect_fail'' ''connection failed'' (upd_cs (\<lambda>c. c \<lparr> connected := False \<rparr>) p)
         })"

definition connect_cam_tcp :: "'e platform \<Rightarrow> 'e con_world PTPParams \<Rightarrow> (unit, 'e con_world) lua_call" where
  "connect_cam_tcp pf p = do {
     (ok, p) \<leftarrow> init_ptp_tcp pf p;
     if ok then Some (Inr (), p)
     else do {
       p \<leftarrow> close_camera_tcp pf p;
       api_throw_error ''connect_fail'' ''connection failed'' (upd_cs (\<lambda>c. c \<lparr> connected := False \<rparr>) p)
     }
   }"

definition chdk_connect :: "'e platform \<Rightarrow> 'e con_world PTPParams \<Rightarrow> (unit, 'e con_world) lua_call" where
  "chdk_connect pf p =
     (if connected (cs (con p)) then api_throw_error ''connect_connected'' ''connection already connected'' p
      else if con_type (cs (con p)) = PTP_CON_USB then connect_cam_usb pf p
      else connect_cam_tcp pf p)"

definition close_connection :: "'e platform \<Rightarrow> 'e con_world PTPParams \<Rightarrow> 'e con_world PTPParams option" where
  "close_connection pf p = do {
     p \<leftarrow> (if connected (cs (con p)) then close_camera pf p else Some p);
     Some (upd_cs (\<lambda>c. c \<lparr> connected := False \<rparr>) p)
   }"

definition chdk_disconnect :: "'e platform \<Rightarrow> 'e con_world PTPParams \<Rightarrow> (unit, 'e con_world) lua_call" where
  "chdk_disconnect pf p = do { p \<leftarrow> close_connection pf p; Some (Inr (), p) }"

definition check_connection_status_usb ::
  "'e platform \<Rightarrow> 'e con_world \<Rightarrow> (bool \<times> 'e con_world) option" where
  "check_connection_status_usb pf w =
     (if \<not> connected (cs w) then Some (False, w)
      else do {
        (r, m, w) \<leftarrow> usb_ptp_get_device_status pf w devstatus0;
        Some (0 \<le> r \<and> devstatus1 m = 0x2001, w)
      })"

definition check_connection_status_tcp :: "'e con_world \<Rightarrow> (bool \<times> 'e con_world) option" where
  "check_connection_status_tcp w = Some (True, w)"

definition chdk_is_connected :: "'e platform \<Rightarrow> 'e con_world PTPParams \<Rightarrow> (bool, 'e con_world) lua_call" where
  "chdk_is_connected pf p = do {
     p \<leftarrow> (if connected (cs (con p)) then do {
         (ok, w) \<leftarrow> (if con_type (cs (con p)) = PTP_CON_USB then check_connection_status_usb pf (con p)
                     else check_connection_status_tcp (con p));
         Some (upd_cs (\<lambda>c. c \<lparr> connected := ok \<rparr>) (p \<lparr> con := w \<rparr>))
       } else Some p);
     Some (Inr (connected (cs (con p))), p)
   }"

text \<open>The object is freed afterwards.\<close>

definition chdk_connection_gc :: "'e platform \<Rightarrow> 'e con_world PTPParams \<Rightarrow> 'e con_world PTPParams option" where
  "chdk_connection_gc pf p = (if connected (cs (con p)) then close_camera pf p else Some p)"

section \<open>Resetting a device\<close>

text \<open>One endpoint of \<open>reset_device\<close>: \<open>status\<close> is not initialised the first time, and looked at whether it
  was read or not.\<close>

definition reset_pipe :: "'e platform \<Rightarrow> 'e con_world \<Rightarrow> int \<Rightarrow> bytes \<Rightarrow> 'e con_world option" where
  "reset_pipe pf w ep status = do {
     (r, status, w) \<leftarrow> usb_get_endpoint_status pf w ep status;
     if host16 status \<noteq> 0 then do { (r, m, w) \<leftarrow> usb_clear_stall_feature pf w ep; Some w } else Some w
   }"

definition clear_pipe :: "'e platform \<Rightarrow> 'e con_world \<Rightarrow> int \<Rightarrow> 'e con_world option" where
  "clear_pipe pf w ep = do {
     (r, status, w) \<leftarrow> usb_get_endpoint_status pf w ep [0, 0];
     if 0 \<le> r \<and> host16 status \<noteq> 0 then do { (r, m, w) \<leftarrow> usb_clear_stall_feature pf w ep; Some w } else Some w
   }"

definition clear_stall :: "'e platform \<Rightarrow> 'e con_world \<Rightarrow> 'e con_world option" where
  "clear_stall pf w = do { w \<leftarrow> clear_pipe pf w (inep (cs w)); clear_pipe pf w (outep (cs w)) }"

text \<open>\<open>p\<close> has the local variables \<open>params\<close> and \<open>ptp_cs\<close>, which are not initialised.\<close>

definition reset_device :: "'e platform \<Rightarrow> 'e con_world PTPParams \<Rightarrow> usb_dev option \<Rightarrow> 'e option" where
  "reset_device pf p dev =
     (case dev of None \<Rightarrow> Some (env (con p))
      | Some dev \<Rightarrow> do {
          i \<leftarrow> usb_config dev;
          (ok, p) \<leftarrow> init_ptp_usb pf (upd_cs (find_endpoints i) p) dev;
          if \<not> ok then Some (env (con p))
          else do {
            (r, m, w) \<leftarrow> usb_ptp_get_device_status pf (con p) devstatus0;
            w \<leftarrow> reset_pipe pf w (inep (cs w)) (locals pf 2);
            w \<leftarrow> reset_pipe pf w (outep (cs w)) [0, 0];
            w \<leftarrow> reset_pipe pf w (intep (cs w)) [0, 0];
            (r, m, w) \<leftarrow> usb_ptp_get_device_status pf w m;
            (r, m', w) \<leftarrow> usb_ptp_device_reset pf w;
            (r, m, w) \<leftarrow> usb_ptp_get_device_status pf w m;
            w \<leftarrow> close_usb pf w dev;
            Some (env w)
          }
        })"

section \<open>Connection objects\<close>

text \<open>
  \<open>chdk.connection\<close> makes the objects of connections and remembers them by a key made of the two parts of
  their address. A table argument has up to four strings; the weak table of the connections and the
  objects of Lua are \<open>con_list\<close> and \<open>objects\<close>.
\<close>

record devspec =
  spec_bus :: "bytes option"
  spec_dev :: "bytes option"
  spec_host :: "bytes option"
  spec_port :: "bytes option"

record con_objects =
  con_list :: "bytes \<Rightarrow> nat option"
  objects :: "nat \<Rightarrow> PTP_CON_STATE PTPParams option"
  next_object :: nat

definition USB_TIMEOUT :: int where "USB_TIMEOUT = 5000"
definition LIBUSB_PATH_MAX :: nat where "LIBUSB_PATH_MAX = 4096 + 1"

definition str :: "string \<Rightarrow> bytes" where "str s = map of_char s"

definition PTPIP_PORT_STR :: bytes where "PTPIP_PORT_STR = str ''15740''"

definition usb_key :: "bytes \<Rightarrow> bytes \<Rightarrow> bytes" where "usb_key bus dev = str ''usb:'' @ bus @ str ''/'' @ dev"
definition tcp_key :: "bytes \<Rightarrow> bytes \<Rightarrow> bytes" where "tcp_key h port = str ''tcp:'' @ h @ str '':'' @ port"

text \<open>Both or none.\<close>

definition get_lua_devspec_usb :: "devspec option \<Rightarrow> (bytes \<times> bytes) option" where
  "get_lua_devspec_usb spec =
     (case spec of None \<Rightarrow> None
      | Some d \<Rightarrow> (case (spec_bus d, spec_dev d) of (Some bus, Some dev) \<Rightarrow> Some (bus, dev) | _ \<Rightarrow> None))"

text \<open>The key and the state of a new object for an argument, or the error.\<close>

definition usb_con_state :: "bytes \<Rightarrow> bytes \<Rightarrow> PTP_CON_STATE" where
  "usb_con_state bus dev =
     zero_con_state \<lparr> con_dev := dev, con_bus := bus, timeout := USB_TIMEOUT, con_type := PTP_CON_USB \<rparr>"

definition tcp_con_state :: "bytes \<Rightarrow> bytes \<Rightarrow> PTP_CON_STATE" where
  "tcp_con_state h port =
     zero_con_state \<lparr> con_host := h, con_port := port, cmd_sock := None, event_sock := None,
                      timeout := USB_TIMEOUT, con_type := PTP_CON_TCP \<rparr>"

definition connection_spec :: "devspec option \<Rightarrow> lua_error + bytes \<times> PTP_CON_STATE" where
  "connection_spec spec =
     (let usb = (case spec of None \<Rightarrow> Some (str ''dummy'', str ''dummy'') | Some _ \<Rightarrow> get_lua_devspec_usb spec);
          h = spec \<bind> spec_host; port = spec \<bind> spec_port
      in if h \<noteq> None \<or> port \<noteq> None then
           (if usb \<noteq> None then Inl (Lua_Error ''cannot specify dev or bus with PTP/IP'')
            else case h of None \<Rightarrow> Inl (Lua_Error ''missing host'')
            | Some h \<Rightarrow>
                let port = (case port of None \<Rightarrow> PTPIP_PORT_STR | Some s \<Rightarrow> s) in
                if length h \<ge> LIBUSB_PATH_MAX \<or> length port \<ge> LIBUSB_PATH_MAX
                then Inl (Lua_Error ''invalid PTP/IP spec'')
                else Inr (tcp_key h port, tcp_con_state h port))
         else case usb of None \<Rightarrow> Inl (Lua_Error ''invalid device spec'')
         | Some (bus, dev) \<Rightarrow>
             if length dev \<ge> LIBUSB_PATH_MAX \<or> length bus \<ge> LIBUSB_PATH_MAX
             then Inl (Lua_Error ''invalid device spec'')
             else Inr (usb_key bus dev, usb_con_state bus dev))"

definition chdk_connection :: "devspec option \<Rightarrow> con_objects \<Rightarrow> (lua_error + nat) \<times> con_objects" where
  "chdk_connection spec st =
     (case connection_spec spec of
        Inl err \<Rightarrow> (Inl err, st)
      | Inr (key, c) \<Rightarrow>
          (case con_list st key of
             Some i \<Rightarrow> (Inr i, st)
           | None \<Rightarrow>
               let i = next_object st in
               (Inr i, st \<lparr> con_list := (con_list st)(key := Some i),
                             objects := (objects st)(i := Some (zero_params c)),
                             next_object := Suc i \<rparr>)))"

end
