(* ===== verification/Frame.thy ===== *)
theory Frame
  imports Ptp_Chdk
begin

text \<open>
  What the transports leave alone: every operation reads and writes the device only through
  \<open>read_func\<close> and \<open>write_func\<close>, so a property of the connection that these two keep is kept by
  every transfer and every transaction. The contract of the two functions is the locale
  \<open>world_frame\<close>, that of the functions of a transport is \<open>transport_frame\<close>; the first gives the second,
  for both transports.
\<close>

section \<open>Properties of defined results\<close>

definition post :: "('r \<Rightarrow> bool) \<Rightarrow> 'r option \<Rightarrow> bool" where
  "post P c \<longleftrightarrow> (\<forall>r. c = Some r \<longrightarrow> P r)"

lemma post_simps [simp]: "post P (Some r) = P r" "post P None"
  by (simp_all add: post_def)

lemma post_if: "(b \<Longrightarrow> post P c) \<Longrightarrow> (\<not> b \<Longrightarrow> post P d) \<Longrightarrow> post P (if b then c else d)"
  by simp

lemma post_case:
  "(x = None \<Longrightarrow> post P c) \<Longrightarrow> (\<And>y. x = Some y \<Longrightarrow> post P (f y)) \<Longrightarrow> post P (case x of None \<Rightarrow> c | Some y \<Rightarrow> f y)"
  by (cases x) simp_all

lemma post_bind: "post Q c \<Longrightarrow> (\<And>r. Q r \<Longrightarrow> post P (f r)) \<Longrightarrow> post P (c \<bind> f)"
  by (cases c) simp_all

lemma post_pure: "(\<And>r. post P (f r)) \<Longrightarrow> post P (c \<bind> f)"
  by (cases c) simp_all

lemma post_mono2: "post (\<lambda>(a, b). P a b) c \<Longrightarrow> (\<And>a b. P a b \<Longrightarrow> Q a b) \<Longrightarrow> post (\<lambda>(a, b). Q a b) c"
  by (auto simp: post_def)

lemma postD: "post P c \<Longrightarrow> c = Some r \<Longrightarrow> P r"
  by (simp add: post_def)

text \<open>Memory accesses do not touch the device.\<close>

lemmas post_mem =
  post_pure [where c = "dtoh16ap bo m i" for bo m i] post_pure [where c = "dtoh32ap bo m i" for bo m i]
  post_pure [where c = c for c :: "bytes option"] post_pure [where c = "strlen bs" for bs]
  post_pure [where c = "ldh16 m i" for m i] post_pure [where c = "ldh64 m i" for m i]
  post_pure [where c = "map_option f x" for f x]
  post_pure [where c = "ptp_transport_read_from_buffer b n m i" for b n m i]
  post_pure [where c = "on_ok ret d f x" for ret d f x]
  post_pure [where c = "ptp_pack_OI bo oi" for bo oi] post_pure [where c = "ptp_pack_DPV bo v t" for bo v t]

section \<open>Reading and writing\<close>

locale world_frame =
  fixes io :: "'w ptp_io" and I :: "'w \<Rightarrow> bool"
  assumes read_keeps: "I w \<Longrightarrow> read_func io m off n w = Some (r, m', w') \<Longrightarrow> I w'"
    and write_keeps: "I w \<Longrightarrow> I (snd (write_func io bs w))"
begin

text \<open>The property of the results of a transfer: their last component is the connection.\<close>

abbreviation kept2 :: "'a \<times> 'w PTPParams \<Rightarrow> bool" where
  "kept2 r \<equiv> (case r of (_, p) \<Rightarrow> I (con p))"

abbreviation kept3 :: "'a \<times> 'b \<times> 'w PTPParams \<Rightarrow> bool" where
  "kept3 r \<equiv> (case r of (_, _, p) \<Rightarrow> I (con p))"

lemma post_read: "I w \<Longrightarrow> (\<And>r m' w'. I w' \<Longrightarrow> post P (f (r, m', w'))) \<Longrightarrow> post P (read_func io m off n w \<bind> f)"
  by (rule post_bind [where Q = "\<lambda>(r, m', w'). I w'"]) (auto simp: post_def intro: read_keeps)

lemma read_to_buffer_loop_keeps: "I w \<Longrightarrow> post (\<lambda>(_, _, _, w). I w) (read_to_buffer_loop io k d tot w)"
proof -
  let ?P = "\<lambda>io' k d tot w r. io' = io \<longrightarrow> I w \<longrightarrow> (case r of (_, _, _, w) \<Rightarrow> I w)"
  have "?P io k d tot w r" if "read_to_buffer_loop io k d tot w = Some r" for r
  proof (rule read_to_buffer_loop.raw_induct [where P = ?P, OF _ that], intro impI)
    fix f and io' :: "'w ptp_io" and k d tot w r
    assume IH: "\<And>io' k d tot w r. f io' k d tot w = Some r \<Longrightarrow> ?P io' k d tot w r"
      and step: "do {
         (rsize, d, w) \<leftarrow> read_func io' d tot (word_of_int (int PTP_PACKET_BUFFER_SIZE - int tot)) w;
         if rsize < 0 then Some (False, d, tot, w)
         else if int (tot + nat rsize) < k then f io' k d (tot + nat rsize) w
         else Some (True, d, tot + nat rsize, w) } = Some r" and "io' = io" "I w"
    then have "post (\<lambda>(_, _, _, w). I w) (f io k' d' tot' w')" if "I w'" for k' d' tot' w'
      using that by (auto simp: post_def)
    then have "post (\<lambda>(_, _, _, w). I w) (Some r)"
      using step [symmetric] \<open>I w\<close> unfolding \<open>io' = io\<close> by (auto intro!: post_read)
    then show "case r of (_, _, _, w) \<Rightarrow> I w" by simp
  qed
  then show "I w \<Longrightarrow> ?thesis" by (auto simp: post_def)
qed

lemma read_to_buffer_keeps: "I (con p) \<Longrightarrow> post kept2 (ptp_transport_read_to_buffer io p k)"
  unfolding ptp_transport_read_to_buffer_def Let_def
  by (auto intro!: post_if post_bind [OF read_to_buffer_loop_keeps])

lemma control_read_keeps: "I (con p) \<Longrightarrow> post kept3 (ptp_control_read_buffered io p sz m dst)"
  unfolding ptp_control_read_buffered_def Let_def
  by (auto intro!: post_if post_mem post_bind [OF read_to_buffer_keeps])

section \<open>USB\<close>

lemma usb_bulk_loop_keeps: "I w \<Longrightarrow> post (\<lambda>(_, _, _, w). I w) (usb_bulk_loop io k m dst tot w)"
proof -
  let ?P = "\<lambda>io' k m dst tot w r. io' = io \<longrightarrow> I w \<longrightarrow> (case r of (_, _, _, w) \<Rightarrow> I w)"
  have "?P io k m dst tot w r" if "usb_bulk_loop io k m dst tot w = Some r" for r
  proof (rule usb_bulk_loop.raw_induct [where P = ?P, OF _ that], intro impI)
    fix f and io' :: "'w ptp_io" and k m dst tot w r
    assume IH: "\<And>io' k m dst tot w r. f io' k m dst tot w = Some r \<Longrightarrow> ?P io' k m dst tot w r"
      and step: "(if tot < k then do {
          (rlen, m, w) \<leftarrow> read_func io' m (dst + nat tot) (word_of_int (k - tot)) w;
          if rlen < 0 then Some (False, m, tot, w) else f io' k m dst (tot + rlen) w
        } else Some (True, m, tot, w)) = Some r" and "io' = io" "I w"
    then have "post (\<lambda>(_, _, _, w). I w) (f io k m' dst tot' w')" if "I w'" for m' tot' w'
      using that by (auto simp: post_def)
    then have "post (\<lambda>(_, _, _, w). I w) (Some r)"
      using step [symmetric] \<open>I w\<close> unfolding \<open>io' = io\<close> by (auto intro!: post_read)
    then show "case r of (_, _, _, w) \<Rightarrow> I w" by simp
  qed
  then show "I w \<Longrightarrow> ?thesis" by (auto simp: post_def)
qed

lemma usb_read_data_keeps: "I (con p) \<Longrightarrow> post kept3 (ptp_usb_read_data io p sz m dst)"
  unfolding ptp_usb_read_data_def Let_def
  by (auto intro!: post_if post_mem post_bind [OF usb_bulk_loop_keeps] post_bind [OF read_to_buffer_keeps])

lemma usb_read_control_keeps: "I (con p) \<Longrightarrow> post kept3 (ptp_usb_read_control io p pkt)"
  unfolding ptp_usb_read_control_def
  by (auto intro!: post_if post_mem post_bind [OF control_read_keeps] control_read_keeps)

lemma usb_write_keeps: "I (con p) \<Longrightarrow> kept2 (usb_write io p bs)"
  using write_keeps [of "con p" bs] by (simp add: usb_write_def split_beta)

lemma usb_write_con: "usb_write io p bs = (r, q) \<Longrightarrow> I (con p) \<Longrightarrow> I (con q)"
  using usb_write_keeps [of p bs] by simp

lemma usb_sendreq_keeps: "I (con p) \<Longrightarrow> post kept2 (ptp_usb_sendreq io p req)"
  unfolding ptp_usb_sendreq_def Let_def
  by (auto intro!: post_mem intro: usb_write_con)

lemma usb_senddata_keeps: "I (con p) \<Longrightarrow> post kept2 (ptp_usb_senddata io p ptp data sz)"
  unfolding ptp_usb_senddata_def Let_def
  by (auto intro!: post_mem post_if post_bind [where Q = kept2] write_keeps split: prod.split)
    (metis usb_write_con)+

lemma usb_handler_loop_keeps: "I (con p) \<Longrightarrow> post kept3 (usb_handler_loop io hnd tot block ret n buf h p)"
proof -
  let ?P = "\<lambda>io' hnd tot block ret n buf h p r. io' = io \<longrightarrow> I (con p) \<longrightarrow> kept3 r"
  have "?P io hnd tot block ret n buf h p r" if "usb_handler_loop io hnd tot block ret n buf h p = Some r" for r
  proof (rule usb_handler_loop.raw_induct [where P = ?P, OF _ that], intro impI)
    fix f and io' :: "'w ptp_io" and hnd tot block ret n buf h p r
    assume IH: "\<And>io' hnd tot block ret n buf h p r. f io' hnd tot block ret n buf h p = Some r \<Longrightarrow>
        ?P io' hnd tot block ret n buf h p r"
      and step: "(if n > 0 then do {
          let read_size = (if n > block then block else n);
          (ret, buf, p) \<leftarrow> ptp_usb_read_data io' p read_size buf 0;
          if ret \<noteq> PTP_RC_OK then Some (ret, h, p)
          else (let n = n - read_size; (ret, h) = hnd read_size buf tot h in
            if ret \<noteq> PTP_RC_OK then Some (ret, h, p) else f io' hnd tot block ret n buf h p)
        } else Some (ret, h, p)) = Some r" and "io' = io" "I (con p)"
    then have "post kept3 (f io hnd' tot' block' ret' n' buf' h' p')" if "I (con p')" for hnd' tot' block' ret' n' buf' h' p'
      using that by (auto simp: post_def)
    then have "post kept3 (Some r)"
      using step [symmetric] \<open>I (con p)\<close> unfolding \<open>io' = io\<close> Let_def
      by (auto intro!: post_bind [OF usb_read_data_keeps] split: prod.split)
    then show "kept3 r" by simp
  qed
  then show "I (con p) \<Longrightarrow> ?thesis" by (auto simp: post_def)
qed

lemma usb_getdata_keeps: "I (con p) \<Longrightarrow> post kept3 (ptp_usb_getdata io p ptp gd)"
  unfolding ptp_usb_getdata_def Let_def
  by (auto intro!: post_if post_case post_mem post_bind [OF usb_read_control_keeps] post_bind [OF usb_handler_loop_keeps]
      post_bind [OF usb_read_data_keeps])

lemma usb_getresp_keeps: "I (con p) \<Longrightarrow> post kept3 (ptp_usb_getresp io p resp)"
  unfolding ptp_usb_getresp_def Let_def
  by (auto intro!: post_if post_mem post_bind [OF usb_read_control_keeps])

section \<open>TCP\<close>

lemma tcp_read_loop_keeps: "I w \<Longrightarrow> post (\<lambda>(_, _, w). I w) (tcp_read_loop io sz m dst tot w)"
proof -
  let ?P = "\<lambda>io' sz m dst tot w r. io' = io \<longrightarrow> I w \<longrightarrow> (case r of (_, _, w) \<Rightarrow> I w)"
  have "?P io sz m dst tot w r" if "tcp_read_loop io sz m dst tot w = Some r" for r
  proof (rule tcp_read_loop.raw_induct [where P = ?P, OF _ that], intro impI)
    fix f and io' :: "'w ptp_io" and sz m dst tot w r
    assume IH: "\<And>io' sz m dst tot w r. f io' sz m dst tot w = Some r \<Longrightarrow> ?P io' sz m dst tot w r"
      and step: "(if word_of_int tot < sz then do {
          (rlen, m, w) \<leftarrow> read_func io' m (dst + nat tot) (sz - word_of_int tot) w;
          if rlen < 0 then Some (PTP_ERROR_IO, m, w)
          else if \<not> int_ok (tot + rlen) then None
          else f io' sz m dst (tot + rlen) w
        } else Some (PTP_RC_OK, m, w)) = Some r" and "io' = io" "I w"
    then have "post (\<lambda>(_, _, w). I w) (f io sz m' dst tot' w')" if "I w'" for m' tot' w'
      using that by (auto simp: post_def)
    then have "post (\<lambda>(_, _, w). I w) (Some r)"
      using step [symmetric] \<open>I w\<close> unfolding \<open>io' = io\<close> by (auto intro!: post_read)
    then show "case r of (_, _, w) \<Rightarrow> I w" by simp
  qed
  then show "I w \<Longrightarrow> ?thesis" by (auto simp: post_def)
qed

lemma tcp_read_data_keeps: "I (con p) \<Longrightarrow> post kept3 (ptp_tcp_read_data io p sz m dst)"
  unfolding ptp_tcp_read_data_def Let_def
  by (auto intro!: post_mem post_bind [OF tcp_read_loop_keeps])

lemma tcp_read_control_keeps: "I (con p) \<Longrightarrow> post kept3 (ptp_tcp_read_control io p pkt)"
  unfolding ptp_tcp_read_control_def
  by (auto intro!: post_if post_mem post_bind [OF control_read_keeps] control_read_keeps)

lemma write_ret_keeps: "I (con p) \<Longrightarrow> kept2 (write_ret io p bs)"
  using write_keeps [of "con p" bs] by (simp add: write_ret_def split_beta)

lemma write_ret_con: "write_ret io p bs = (r, q) \<Longrightarrow> I (con p) \<Longrightarrow> I (con q)"
  using write_ret_keeps [of p bs] by simp

lemma tcp_sendreq_keeps: "I (con p) \<Longrightarrow> post kept2 (ptp_tcp_sendreq io p req)"
  unfolding ptp_tcp_sendreq_def Let_def
  by (auto intro!: post_mem intro: write_ret_con)

lemma tcp_senddata_keeps: "I (con p) \<Longrightarrow> post kept2 (ptp_tcp_senddata io p ptp data sz)"
  unfolding ptp_tcp_senddata_def Let_def
  by (auto intro!: post_mem split: prod.split) (metis write_ret_con)

lemma tcp_getresp_keeps: "I (con p) \<Longrightarrow> post kept3 (ptp_tcp_getresp io p resp)"
  unfolding ptp_tcp_getresp_def Let_def
  by (auto intro!: post_if post_mem post_bind [OF tcp_read_control_keeps])

lemma tcp_data_header_keeps: "I (con p) \<Longrightarrow> post (\<lambda>(_, _, _, _, p). I (con p)) (tcp_data_header io p pkt)"
  unfolding tcp_data_header_def
  by (auto intro!: post_if post_mem post_bind [OF tcp_read_control_keeps])

lemma tcp_block_loop_keeps:
  "I (con p) \<Longrightarrow> post (\<lambda>(_, _, _, _, _, p). I (con p)) (tcp_block_loop io hnd tot block n k (buf, br, tr, h, p))"
proof -
  let ?Q = "\<lambda>(_, _, _, _, _, p). I (con p)"
  let ?P = "\<lambda>io' hnd tot block n k st r. io' = io \<longrightarrow> (case st of (_, _, _, _, p) \<Rightarrow> I (con p)) \<longrightarrow> ?Q r"
  have "?P io hnd tot block n k st r" if "tcp_block_loop io hnd tot block n k st = Some r" for st r
  proof (rule tcp_block_loop.raw_induct [where P = ?P, OF _ that], intro impI)
    fix f and io' :: "'w ptp_io" and hnd tot block n k st r
    assume IH: "\<And>io' hnd tot block n k st r. f io' hnd tot block n k st = Some r \<Longrightarrow> ?P io' hnd tot block n k st r"
      and step: "(case st of (buf, br, tr, h, p) \<Rightarrow>
        if k < n then do {
          let block_left = block - br;
          let pkt_left = n - k;
          let read_size = (if block_left < pkt_left then block_left else pkt_left);
          (ret, buf, p) \<leftarrow> ptp_tcp_read_data io' p read_size buf (unat br);
          if ret \<noteq> PTP_RC_OK then Some (ret, buf, br, tr, h, p)
          else do {
            let k = k + read_size;
            let br = br + read_size;
            let tr = tr + ucast read_size;
            if br = block then
              (let (ret, h) = hnd block buf tot h in
               if ret \<noteq> PTP_RC_OK then Some (ret, buf, br, tr, h, p)
               else f io' hnd tot block n k (buf, 0, tr, h, p))
            else f io' hnd tot block n k (buf, br, tr, h, p)
          }
        } else Some (PTP_RC_OK, buf, br, tr, h, p)) = Some r" and io: "io' = io" and i: "case st of (_, _, _, _, p) \<Rightarrow> I (con p)"
    have rec: "post ?Q (f io hnd' tot' block' n' k' (buf', br', tr', h', p'))" if "I (con p')" for hnd' tot' block' n' k' buf' br' tr' h' p'
      using IH that by (force simp: post_def)
    obtain buf br tr h p where st: "st = (buf, br, tr, h, p)" by (metis prod_cases5)
    have "post ?Q (Some r)"
      using i unfolding step [symmetric] io st Let_def
      by (auto intro!: post_if rec post_bind [OF tcp_read_data_keeps] split: prod.split)
    then show "?Q r" by simp
  qed
  then show "I (con p) \<Longrightarrow> ?thesis" by (auto simp: post_def)
qed

lemma tcp_handler_loop_keeps:
  "I (con p) \<Longrightarrow> post (\<lambda>(_, _, _, _, _, _, _, p). I (con p)) (tcp_handler_loop io hnd tot block ge pkt (buf, br, tr, h, p))"
proof -
  let ?Q = "\<lambda>(_, _, _, _, _, _, _, p). I (con p)"
  let ?P = "\<lambda>io' hnd tot block ge pkt st r. io' = io \<longrightarrow> (case st of (_, _, _, _, p) \<Rightarrow> I (con p)) \<longrightarrow> ?Q r"
  have "?P io hnd tot block ge pkt st r" if "tcp_handler_loop io hnd tot block ge pkt st = Some r" for st r
  proof (rule tcp_handler_loop.raw_induct [where P = ?P, OF _ that], intro impI)
    fix f and io' :: "'w ptp_io" and hnd tot block ge pkt st r
    assume IH: "\<And>io' hnd tot block ge pkt st r. f io' hnd tot block ge pkt st = Some r \<Longrightarrow> ?P io' hnd tot block ge pkt st r"
      and step: "(case st of (buf, br, tr, h, p) \<Rightarrow> do {
          (ret, is_end, n, pkt, p) \<leftarrow> tcp_data_header io' p pkt;
          if ret \<noteq> PTP_RC_OK then Some (ret, ge, pkt, buf, br, tr, h, p)
          else do {
            (ret, buf, br, tr, h, p) \<leftarrow> tcp_block_loop io' hnd tot block n 0 (buf, br, tr, h, p);
            if ret \<noteq> PTP_RC_OK \<or> \<not> tr < tot then Some (ret, ge \<or> is_end, pkt, buf, br, tr, h, p)
            else f io' hnd tot block (ge \<or> is_end) pkt (buf, br, tr, h, p)
          }
        }) = Some r" and io: "io' = io" and i: "case st of (_, _, _, _, p) \<Rightarrow> I (con p)"
    have rec: "post ?Q (f io hnd' tot' block' ge' pkt' (buf', br', tr', h', p'))" if "I (con p')" for hnd' tot' block' ge' pkt' buf' br' tr' h' p'
      using IH that by (force simp: post_def)
    obtain buf br tr h p where st: "st = (buf, br, tr, h, p)" by (metis prod_cases5)
    have "post ?Q (Some r)"
      using i unfolding step [symmetric] io st
      by (auto intro!: post_if rec post_bind [OF tcp_data_header_keeps] post_bind [OF tcp_block_loop_keeps])
    then show "?Q r" by simp
  qed
  then show "I (con p) \<Longrightarrow> ?thesis" by (auto simp: post_def)
qed

lemma tcp_memory_loop_keeps:
  "I (con p) \<Longrightarrow> post (\<lambda>(_, _, _, _, _, _, p). I (con p)) (tcp_memory_loop io tot ge pkt (m, off, tr, p))"
proof -
  let ?Q = "\<lambda>(_, _, _, _, _, _, p). I (con p)"
  let ?P = "\<lambda>io' tot ge pkt st r. io' = io \<longrightarrow> (case st of (_, _, _, p) \<Rightarrow> I (con p)) \<longrightarrow> ?Q r"
  have "?P io tot ge pkt st r" if "tcp_memory_loop io tot ge pkt st = Some r" for st r
  proof (rule tcp_memory_loop.raw_induct [where P = ?P, OF _ that], intro impI)
    fix f and io' :: "'w ptp_io" and tot ge pkt st r
    assume IH: "\<And>io' tot ge pkt st r. f io' tot ge pkt st = Some r \<Longrightarrow> ?P io' tot ge pkt st r"
      and step: "(case st of (m, off, tr, p) \<Rightarrow> do {
          (ret, is_end, n, pkt, p) \<leftarrow> tcp_data_header io' p pkt;
          if ret \<noteq> PTP_RC_OK then Some (ret, ge, pkt, m, off, tr, p)
          else do {
            (ret, m, p) \<leftarrow> ptp_tcp_read_data io' p n m off;
            if ret \<noteq> PTP_RC_OK then Some (ret, ge \<or> is_end, pkt, m, off, tr, p)
            else do {
              let off = off + unat n;
              let tr = tr + ucast n;
              if tr < tot then f io' tot (ge \<or> is_end) pkt (m, off, tr, p)
              else Some (PTP_RC_OK, ge \<or> is_end, pkt, m, off, tr, p)
            }
          }
        }) = Some r" and io: "io' = io" and i: "case st of (_, _, _, p) \<Rightarrow> I (con p)"
    have rec: "post ?Q (f io tot' ge' pkt' (m', off', tr', p'))" if "I (con p')" for tot' ge' pkt' m' off' tr' p'
      using IH that by (force simp: post_def)
    obtain m off tr p where st: "st = (m, off, tr, p)" by (metis prod_cases4)
    have "post ?Q (Some r)"
      using i unfolding step [symmetric] io st Let_def
      by (auto intro!: post_if rec post_bind [OF tcp_data_header_keeps] post_bind [OF tcp_read_data_keeps])
    then show "?Q r" by simp
  qed
  then show "I (con p) \<Longrightarrow> ?thesis" by (auto simp: post_def)
qed

lemma tcp_read_end_keeps: "I (con p) \<Longrightarrow> post kept2 (tcp_read_end io p ge pkt)"
  unfolding tcp_read_end_def
  by (auto intro!: post_if post_mem post_bind [OF tcp_read_control_keeps])

lemma tcp_getdata_keeps: "I (con p) \<Longrightarrow> post kept3 (ptp_tcp_getdata io p ptp gd)"
  unfolding ptp_tcp_getdata_def Let_def
  by (auto intro!: post_if post_case post_mem post_bind [OF tcp_read_control_keeps] post_bind [OF tcp_read_end_keeps]
      post_bind [OF tcp_handler_loop_keeps] post_bind [OF tcp_memory_loop_keeps] split: prod.split)

end

section \<open>Transactions\<close>

locale transport_frame =
  fixes tr :: "('w, 'f) transport" and I :: "'w \<Rightarrow> bool"
  assumes sendreq_keeps: "I (con p) \<Longrightarrow> post (\<lambda>(_, p). I (con p)) (sendreq_func tr p ptp)"
    and senddata_keeps: "I (con p) \<Longrightarrow> post (\<lambda>(_, p). I (con p)) (senddata_func tr p ptp bs n)"
    and getresp_keeps: "I (con p) \<Longrightarrow> post (\<lambda>(_, _, p). I (con p)) (getresp_func tr p ptp)"
    and getdata_keeps: "I (con p) \<Longrightarrow> post (\<lambda>(_, _, p). I (con p)) (getdata_func tr p ptp gd)"
    and getdata_file_keeps: "I (con p) \<Longrightarrow> post (\<lambda>(_, _, p). I (con p)) (getdata_file_func tr p ptp gf)"
begin

lemma transaction_keeps: "I (con p) \<Longrightarrow> post (\<lambda>(_, _, _, p). I (con p)) (ptp_transaction tr p ptp flags n data)"
  unfolding ptp_transaction_def Let_def
  by (auto intro!: post_if post_bind [OF sendreq_keeps] post_bind [OF getresp_keeps]
      post_bind [where Q = "\<lambda>(_, _, p). I (con p)"] post_bind [OF senddata_keeps] post_bind [OF getdata_keeps] getresp_keeps)

lemma getdata_transaction_keeps:
  "I (con p) \<Longrightarrow> post (\<lambda>(_, _, _, p). I (con p)) (ptp_getdata_transaction tr p ptp gf)"
  unfolding ptp_getdata_transaction_def Let_def
  by (auto intro!: post_if post_bind [OF sendreq_keeps] post_bind [OF getresp_keeps] post_bind [OF getdata_file_keeps])

lemmas post_transaction = post_bind [OF transaction_keeps] post_bind [OF getdata_transaction_keeps]

lemma getdeviceinfo_keeps: "I (con p) \<Longrightarrow> post (\<lambda>(_, _, p). I (con p)) (ptp_getdeviceinfo tr p info)"
  unfolding ptp_getdeviceinfo_def Let_def by (auto intro!: post_if post_case post_mem post_transaction)

lemma opensession_keeps: "I (con p) \<Longrightarrow> post (\<lambda>(_, p). I (con p)) (ptp_opensession tr p session)"
  unfolding ptp_opensession_def Let_def by (auto intro!: post_if post_case post_mem post_transaction)

lemma closesession_keeps: "I (con p) \<Longrightarrow> post (\<lambda>(_, p). I (con p)) (ptp_closesession tr p)"
  unfolding ptp_closesession_def Let_def by (auto intro!: post_if post_case post_mem post_transaction)

lemma getstorageids_keeps: "I (con p) \<Longrightarrow> post (\<lambda>(_, _, p). I (con p)) (ptp_getstorageids tr p ids)"
  unfolding ptp_getstorageids_def Let_def by (auto intro!: post_if post_case post_mem post_transaction)

lemma getstorageinfo_keeps: "I (con p) \<Longrightarrow> post (\<lambda>(_, _, p). I (con p)) (ptp_getstorageinfo tr p sid si)"
  unfolding ptp_getstorageinfo_def Let_def by (auto intro!: post_if post_case post_mem post_transaction)

lemma getobjecthandles_keeps: "I (con p) \<Longrightarrow> post (\<lambda>(_, _, p). I (con p)) (ptp_getobjecthandles tr p st ofc assoc oh)"
  unfolding ptp_getobjecthandles_def Let_def by (auto intro!: post_if post_case post_mem post_transaction)

lemma getobjectinfo_keeps: "I (con p) \<Longrightarrow> post (\<lambda>(_, _, p). I (con p)) (ptp_getobjectinfo mkt tr p h oi)"
  unfolding ptp_getobjectinfo_def Let_def by (auto intro!: post_if post_case post_mem post_transaction)

lemma getobject_keeps: "I (con p) \<Longrightarrow> post (\<lambda>(_, _, p). I (con p)) (ptp_getobject tr p h ob)"
  unfolding ptp_getobject_def Let_def by (auto intro!: post_if post_case post_mem post_transaction)

lemma sendobjectinfo_keeps: "I (con p) \<Longrightarrow> post (\<lambda>(_, _, _, _, p). I (con p)) (ptp_sendobjectinfo tr p st ph oi)"
  unfolding ptp_sendobjectinfo_def Let_def by (auto intro!: post_if post_case post_mem post_transaction)

lemma sendobject_keeps: "I (con p) \<Longrightarrow> post (\<lambda>(_, p). I (con p)) (ptp_sendobject tr p ob n)"
  unfolding ptp_sendobject_def Let_def by (auto intro!: post_if post_case post_mem post_transaction)

lemma chdk_get_memory_keeps: "I (con p) \<Longrightarrow> post (\<lambda>(_, _, p). I (con p)) (ptp_chdk_get_memory tr p st n fl)"
  unfolding ptp_chdk_get_memory_def Let_def by (auto intro!: post_if post_case post_mem post_transaction)

lemma chdk_upload_keeps: "I (con p) \<Longrightarrow> post (\<lambda>(_, p). I (con p)) (ptp_chdk_upload fs tr p a b)"
  unfolding ptp_chdk_upload_def Let_def by (auto intro!: post_if post_case post_mem post_transaction)

lemma chdk_download_keeps: "I (con p) \<Longrightarrow> post (\<lambda>(_, _, p). I (con p)) (ptp_chdk_download fs tr p a b)"
  unfolding ptp_chdk_download_def Let_def by (auto intro!: post_if post_case post_mem post_transaction)

lemma chdk_rcisready_keeps: "I (con p) \<Longrightarrow> post (\<lambda>(_, _, _, p). I (con p)) (ptp_chdk_rcisready tr p)"
  unfolding ptp_chdk_rcisready_def Let_def by (auto intro!: post_if post_case post_mem post_transaction)

lemma chdk_rcgetchunk_keeps: "I (con p) \<Longrightarrow> post (\<lambda>(_, _, p). I (con p)) (ptp_chdk_rcgetchunk tr p fmt)"
  unfolding ptp_chdk_rcgetchunk_def Let_def by (auto intro!: post_if post_case post_mem post_transaction)

lemma chdk_exec_lua_keeps: "I (con p) \<Longrightarrow> post (\<lambda>(_, _, _, p). I (con p)) (ptp_chdk_exec_lua tr p scr fl)"
  unfolding ptp_chdk_exec_lua_def Let_def by (auto intro!: post_if post_case post_mem post_transaction)

lemma chdk_get_version_keeps: "I (con p) \<Longrightarrow> post (\<lambda>(_, _, _, p). I (con p)) (ptp_chdk_get_version tr p)"
  unfolding ptp_chdk_get_version_def Let_def by (auto intro!: post_if post_case post_mem post_transaction)

lemma chdk_get_script_status_keeps: "I (con p) \<Longrightarrow> post (\<lambda>(_, _, p). I (con p)) (ptp_chdk_get_script_status tr p)"
  unfolding ptp_chdk_get_script_status_def Let_def by (auto intro!: post_if post_case post_mem post_transaction)

lemma chdk_get_script_support_keeps: "I (con p) \<Longrightarrow> post (\<lambda>(_, _, p). I (con p)) (ptp_chdk_get_script_support tr p)"
  unfolding ptp_chdk_get_script_support_def Let_def by (auto intro!: post_if post_case post_mem post_transaction)

lemma chdk_write_script_msg_keeps: "I (con p) \<Longrightarrow> post (\<lambda>(_, _, p). I (con p)) (ptp_chdk_write_script_msg tr p d n sid)"
  unfolding ptp_chdk_write_script_msg_def Let_def by (auto intro!: post_if post_case post_mem post_transaction)

lemma chdk_read_script_msg_keeps: "I (con p) \<Longrightarrow> post (\<lambda>(_, _, p). I (con p)) (ptp_chdk_read_script_msg tr p)"
  unfolding ptp_chdk_read_script_msg_def Let_def by (auto intro!: post_if post_case post_mem post_transaction)

lemma chdk_get_live_data_keeps: "I (con p) \<Longrightarrow> post (\<lambda>(_, _, _, p). I (con p)) (ptp_chdk_get_live_data tr p fl)"
  unfolding ptp_chdk_get_live_data_def Let_def by (auto intro!: post_if post_case post_mem post_transaction)

lemma chdk_call_function_keeps: "I (con p) \<Longrightarrow> post (\<lambda>(_, _, p). I (con p)) (ptp_chdk_call_function tr p args n)"
  unfolding ptp_chdk_call_function_def Let_def by (auto intro!: post_if post_case post_mem post_transaction)

end

sublocale world_frame \<subseteq> usb: transport_frame "usb_transport io" I
  by unfold_locales
    (auto simp: usb_transport_def intro!: usb_sendreq_keeps usb_senddata_keeps usb_getresp_keeps usb_getdata_keeps)

sublocale world_frame \<subseteq> tcp: transport_frame "tcp_transport io" I
  by unfold_locales
    (auto simp: tcp_transport_def intro!: tcp_sendreq_keeps tcp_senddata_keeps tcp_getresp_keeps tcp_getdata_keeps)

end
