(* ===== verification/Con_Life.thy ===== *)
theory Con_Life
  imports Connect Frame Usb_Stream
begin

text \<open>
  What a connection holds: device handles, sockets and address lists. \<open>counted pf\<close> is the platform \<open>pf\<close>,
  whatever its functions do, with the books of what is open kept beside it. The lemmas follow opening
  and closing through \<open>chdkptp.c\<close>; the transfers in between leave the books alone by \<open>world_frame\<close>.
\<close>

section \<open>The books\<close>

record 'e ledger =
  handles :: "nat set"
  socks :: "nat set"
  lists :: nat
  fresh :: nat
  inner :: 'e

definition on_inner :: "('e \<Rightarrow> 'e) \<Rightarrow> 'e ledger \<Rightarrow> 'e ledger" where
  "on_inner f l = l \<lparr> inner := f (inner l) \<rparr>"

definition with_inner :: "('e \<Rightarrow> 'r \<times> 'e) \<Rightarrow> 'e ledger \<Rightarrow> 'r \<times> 'e ledger" where
  "with_inner f l = (let (r, e) = f (inner l) in (r, l \<lparr> inner := e \<rparr>))"

definition with_inner3 :: "('e \<Rightarrow> 'r \<times> 's \<times> 'e) \<Rightarrow> 'e ledger \<Rightarrow> 'r \<times> 's \<times> 'e ledger" where
  "with_inner3 f l = (let (r, s, e) = f (inner l) in (r, s, l \<lparr> inner := e \<rparr>))"

text \<open>A handle or socket that was opened is a new number. An operation on an invalid socket fails.\<close>

definition counted_host :: "'e usb_host \<Rightarrow> 'e ledger usb_host" where
  "counted_host h =
     \<lparr> usb_bulk = \<lparr> usb_bulk_read = (\<lambda>d ep n. with_inner3 (usb_bulk_read (usb_bulk h) d ep n)),
                   usb_bulk_write = (\<lambda>d ep bs. with_inner (usb_bulk_write (usb_bulk h) d ep bs)) \<rparr>,
       usb_find_busses = on_inner (usb_find_busses h),
       usb_find_devices = on_inner (usb_find_devices h),
       usb_get_busses = (\<lambda>l. usb_get_busses h (inner l)),
       usb_open = (\<lambda>dev l. case with_inner (usb_open h dev) l of
                     (None, l) \<Rightarrow> (None, l)
                   | (Some _, l) \<Rightarrow> (Some (fresh l), l \<lparr> fresh := Suc (fresh l), handles := insert (fresh l) (handles l) \<rparr>)),
       usb_set_configuration = (\<lambda>d n. on_inner (usb_set_configuration h d n)),
       usb_claim_interface = (\<lambda>d n. on_inner (usb_claim_interface h d n)),
       usb_release_interface = (\<lambda>d n. on_inner (usb_release_interface h d n)),
       usb_reset = (\<lambda>d. on_inner (usb_reset h d)),
       usb_close = (\<lambda>d l. (on_inner (usb_close h d) l) \<lparr> handles := handles l - set_option d \<rparr>),
       usb_control_msg = (\<lambda>d t r v i n. with_inner3 (usb_control_msg h d t r v i n)) \<rparr>"

definition counted_tcp :: "'e tcp_host \<Rightarrow> 'e ledger tcp_host" where
  "counted_tcp t =
     \<lparr> tcp_sockets = \<lparr> send = (\<lambda>s bs l. if s = None then (- 1, l) else with_inner (send (tcp_sockets t) s bs) l),
                      recv = (\<lambda>s n l. if s = None then (- 1, [], l) else with_inner3 (recv (tcp_sockets t) s n) l) \<rparr>,
       getaddrinfo = (\<lambda>hn pn l. case with_inner3 (getaddrinfo t hn pn) l of (r, ais, l) \<Rightarrow>
                        (r, ais, if r = 0 \<and> ais \<noteq> [] then l \<lparr> lists := Suc (lists l) \<rparr> else l)),
       freeaddrinfo = (\<lambda>ais l. (on_inner (freeaddrinfo t ais) l) \<lparr> lists := lists l - 1 \<rparr>),
       socket = (\<lambda>ai l. case with_inner (socket t ai) l of
                   (None, l) \<Rightarrow> (None, l)
                 | (Some _, l) \<Rightarrow> (Some (fresh l), l \<lparr> fresh := Suc (fresh l), socks := insert (fresh l) (socks l) \<rparr>)),
       sock_connect = (\<lambda>s ai l. if s = None then (- 1, l) else with_inner (sock_connect t s ai) l),
       sockutil_close = (\<lambda>s l. (on_inner (sockutil_close t s) l) \<lparr> socks := socks l - set_option s \<rparr>) \<rparr>"

definition counted :: "'e platform \<Rightarrow> 'e ledger platform" where
  "counted pf =
     \<lparr> host = counted_host (host pf), tcp = counted_tcp (tcp pf), usb_reset_on_close = usb_reset_on_close pf,
       heap = heap pf, locals = locals pf \<rparr>"

section \<open>What transfers leave alone\<close>

definition books :: "'e ledger \<Rightarrow> nat set \<times> nat set \<times> nat" where
  "books l = (handles l, socks l, lists l)"

definition con_static :: "PTP_CON_STATE \<Rightarrow> PTP_CON_STATE" where
  "con_static c = c \<lparr> script_id := 0, write_count := 0, read_count := 0, inep := 0, outep := 0, intep := 0,
                     connection_id := 0, cam_guid := [], con_ai_con := None \<rparr>"

text \<open>The connection \<open>c\<close> in what decides its life, and the books \<open>b\<close>.\<close>

definition kept :: "PTP_CON_STATE \<Rightarrow> nat set \<times> nat set \<times> nat \<Rightarrow> 'e ledger con_world \<Rightarrow> bool" where
  "kept c b w \<longleftrightarrow> con_static (cs w) = con_static c \<and> books (env w) = b"

lemma kept_refl: "kept (cs w) (books (env w)) w"
  by (simp add: kept_def)

lemma con_static_fields:
  assumes "con_static c = con_static d"
  shows "con_type c = con_type d" "connected c = connected d" "usb_handle c = usb_handle d"
    "con_bus c = con_bus d" "con_dev c = con_dev d" "cmd_sock c = cmd_sock d" "event_sock c = event_sock d"
    "con_ai c = con_ai d" "con_host c = con_host d" "con_port c = con_port d"
  using assms by (cases c; cases d; simp add: con_static_def)+

lemma con_static_upd [simp]:
  "con_static (c \<lparr> write_count := n \<rparr>) = con_static c" "con_static (c \<lparr> read_count := n \<rparr>) = con_static c"
  "con_static (c \<lparr> script_id := i \<rparr>) = con_static c" "con_static (c \<lparr> inep := ep \<rparr>) = con_static c"
  "con_static (c \<lparr> outep := ep \<rparr>) = con_static c" "con_static (c \<lparr> intep := ep \<rparr>) = con_static c"
  "con_static (c \<lparr> connection_id := i \<rparr>) = con_static c" "con_static (c \<lparr> cam_guid := g \<rparr>) = con_static c"
  "con_static (c \<lparr> con_ai_con := a \<rparr>) = con_static c" "con_static (con_static c) = con_static c"
  by (simp_all add: con_static_def)

lemma con_static_cong:
  assumes "con_static c = con_static d"
  shows "con_static (c \<lparr> usb_handle := h \<rparr>) = con_static (d \<lparr> usb_handle := h \<rparr>)"
    "con_static (c \<lparr> connected := b \<rparr>) = con_static (d \<lparr> connected := b \<rparr>)"
    "con_static (c \<lparr> cmd_sock := s \<rparr>) = con_static (d \<lparr> cmd_sock := s \<rparr>)"
    "con_static (c \<lparr> event_sock := s \<rparr>) = con_static (d \<lparr> event_sock := s \<rparr>)"
    "con_static (c \<lparr> con_ai := a \<rparr>) = con_static (d \<lparr> con_ai := a \<rparr>)"
  using assms by (cases c; cases d; simp add: con_static_def)+

lemma find_endpoints_static [simp]: "con_static (find_endpoints i c) = con_static c"
proof -
  have "con_static (fold find_endpoint eps c) = con_static c" for eps
    by (induction eps arbitrary: c) (simp_all add: find_endpoint_def Let_def)
  then show ?thesis by (simp add: find_endpoints_def)
qed

lemma inner_simps [simp]:
  "books (on_inner f l) = books l" "books (snd (with_inner g l)) = books l"
  "books (snd (snd (with_inner3 k l))) = books l"
  by (simp_all add: books_def on_inner_def with_inner_def with_inner3_def split_beta)

lemma with_inner_eq: "with_inner g l = (r, l') \<Longrightarrow> books l' = books l"
  using inner_simps(2) [of g l] by simp

lemma with_inner3_eq: "with_inner3 g l = (r, s, l') \<Longrightarrow> books l' = books l"
  using inner_simps(3) [of g l] by simp

lemma bulk_read_kept:
  "kept c b w \<Longrightarrow> bulk_read_retry (usb_bulk (counted_host h)) d ep m off n (env w) = Some (r, m', e) \<Longrightarrow>
   kept c b (w \<lparr> env := e \<rparr>)"
  by (auto simp: bulk_read_retry_def counted_host_def kept_def Let_def split: prod.splits bind_splits if_splits
      dest!: with_inner3_eq)

lemma usb_read_loop_kept:
  "kept c b w \<Longrightarrow> usb_read_loop (usb_bulk (counted_host h)) m off tr rb rs w = Some (r, rs', m', w') \<Longrightarrow> kept c b w'"
proof (induction "usb_bulk (counted_host h)" m off tr rb rs w rule: usb_read_loop.induct)
  case (1 m off tr rb rs w)
  let ?tr = "if rb > PTPCAM_USB_URB then PTPCAM_USB_URB else rb"
  obtain res m1 e where b: "bulk_read_retry (usb_bulk (counted_host h)) (usb_handle (cs w)) (inep (cs w)) m (off + nat tr) (nat ?tr) (env w) =
      Some (res, m1, e)"
    using 1(3) by (subst (asm) usb_read_loop.simps) (auto simp: Let_def split: option.splits)
  note k = bulk_read_kept [OF 1(2) b]
  then have k': "kept c b (w \<lparr> env := e, cs := (cs (w \<lparr> env := e \<rparr>)) \<lparr> read_count := n \<rparr> \<rparr>)" for n
    by (simp add: kept_def)
  show ?case
    using 1(3) b k k' 1(1) [OF refl refl b refl refl refl]
    by (subst (asm) usb_read_loop.simps) (auto simp: Let_def split: if_splits)
qed

lemma usb_write_kept: "kept c b w \<Longrightarrow> kept c b (snd (ptp_usb_write_func (usb_bulk (counted_host h)) bs w))"
  by (auto simp: ptp_usb_write_func_def counted_host_def kept_def Let_def split: prod.split dest: with_inner_eq)

interpretation usb_books: world_frame "usb_io mall stk (usb_bulk (counted_host h))" "kept c b"
  by unfold_locales
    (auto simp: usb_io_def ptp_usb_read_func_def usb_write_kept split: bind_splits if_splits prod.splits
      elim: usb_read_loop_kept)

lemma tcp_read_kept:
  "kept c b w \<Longrightarrow> ptp_tcp_read_func (tcp_sockets (counted_tcp t)) m off n w = Some (r, m', w') \<Longrightarrow> kept c b w'"
  by (auto simp: ptp_tcp_read_func_def counted_tcp_def kept_def Let_def split: prod.splits bind_splits if_splits
      dest!: with_inner3_eq)

lemma tcp_write_kept: "kept c b w \<Longrightarrow> kept c b (snd (ptp_tcp_write_func (tcp_sockets (counted_tcp t)) bs w))"
  by (auto simp: ptp_tcp_write_func_def counted_tcp_def kept_def Let_def split: prod.split dest: with_inner_eq)

interpretation tcp_books: world_frame "tcp_io mall stk (tcp_sockets (counted_tcp t))" "kept c b"
  by unfold_locales (auto simp: tcp_io_def tcp_write_kept elim: tcp_read_kept)

lemma counted_tr:
  "usb_tr (counted pf) = usb_transport (usb_io (heap pf) (locals pf) (usb_bulk (counted_host (host pf))))"
  "tcp_tr (counted pf) = tcp_transport (tcp_io (heap pf) (locals pf) (tcp_sockets (counted_tcp (tcp pf))))"
  by (simp_all add: usb_tr_def tcp_tr_def counted_def)

interpretation usb_life: transport_frame "usb_tr (counted pf)" "kept c b"
  unfolding counted_tr by unfold_locales

interpretation tcp_life: transport_frame "tcp_tr (counted pf)" "kept c b"
  unfolding counted_tr by unfold_locales

text \<open>The same as relations between the parameters before and after.\<close>

definition same_life :: "'e ledger con_world PTPParams \<Rightarrow> 'e ledger con_world PTPParams \<Rightarrow> bool" where
  "same_life p p' \<longleftrightarrow> kept (cs (con p)) (books (env (con p))) (con p')"

lemma same_life_simps [simp]: "same_life p (q \<lparr> deviceinfo := di \<rparr>) = same_life p q"
  by (simp add: same_life_def)

lemma same_life_kept: "same_life p p' \<Longrightarrow> kept c b (con p) \<Longrightarrow> kept c b (con p')"
  by (simp add: same_life_def kept_def)

lemma usb_session_same:
  "post (\<lambda>(_, p'). same_life p p') (ptp_opensession (usb_session (counted pf)) p n)"
  "post (\<lambda>(_, p'). same_life p p') (ptp_closesession (usb_session (counted pf)) p)"
  "post (\<lambda>(_, _, p'). same_life p p') (ptp_getdeviceinfo (usb_session (counted pf)) p info)"
  unfolding same_life_def
  by (rule usb_life.opensession_keeps usb_life.closesession_keeps usb_life.getdeviceinfo_keeps, rule kept_refl)+

lemma tcp_session_same:
  "post (\<lambda>(_, p'). same_life p p') (ptp_opensession (tcp_session (counted pf)) p n)"
  "post (\<lambda>(_, p'). same_life p p') (ptp_closesession (tcp_session (counted pf)) p)"
  "post (\<lambda>(_, _, p'). same_life p p') (ptp_getdeviceinfo (tcp_session (counted pf)) p info)"
  unfolding same_life_def
  by (rule tcp_life.opensession_keeps tcp_life.closesession_keeps tcp_life.getdeviceinfo_keeps, rule kept_refl)+

section \<open>USB\<close>

lemma get_busses_books: "get_busses (counted pf) l = (bs, l') \<Longrightarrow> books l' = books l"
  by (auto simp: get_busses_def counted_def counted_host_def Let_def)

lemma find_device_books: "find_device_by_path (counted pf) bus dev l = (d, l') \<Longrightarrow> books l' = books l"
  by (auto simp: find_device_by_path_def split: prod.splits dest: get_busses_books)

lemma control_msg_kept: "kept c b w \<Longrightarrow> post (\<lambda>(_, _, w). kept c b w) (control_msg (counted pf) w t r v i n m)"
  by (auto simp: control_msg_def counted_def counted_host_def kept_def Let_def split: prod.split intro!: post_mem
      dest: with_inner3_eq)

lemma usb_open_books:
  "usb_open (counted_host h) dev l = (d, l') \<Longrightarrow> books l = (H, S, L) \<Longrightarrow>
   books l' = (H \<union> set_option d, S, L)"
  by (auto simp: counted_host_def with_inner_def books_def split: prod.splits option.splits)

lemma init_ptp_usb_kept:
  assumes "kept c (H, S, L) (con p)"
  shows "post (\<lambda>(ok, p'). if ok then \<exists>h. kept (c \<lparr> usb_handle := Some h \<rparr>) (insert h H, S, L) (con p')
      else kept c (H, S, L) (con p')) (init_ptp_usb (counted pf) p dev)"
proof -
  obtain d l where o: "usb_open (host (counted pf)) dev (env (con p)) = (d, l)" by fastforce
  then have l: "books l = (H \<union> set_option d, S, L)"
    using assms by (auto simp: counted_def kept_def dest: usb_open_books)
  show ?thesis
  proof (cases d)
    case None
    then show ?thesis using assms o l by (simp add: init_ptp_usb_def init_params_def kept_def)
  next
    case (Some h)
    have "kept (c \<lparr> usb_handle := Some h \<rparr>) (insert h H, S, L) (con p')"
      if "init_ptp_usb (counted pf) p dev = Some (ok, p')" for ok p'
      using that assms o l Some
      by (auto simp: init_ptp_usb_def init_params_def reset_counters_def kept_def Let_def counted_def counted_host_def
          intro: con_static_cong split: bind_splits list.splits)
    moreover have "ok" if "init_ptp_usb (counted pf) p dev = Some (ok, p')" for ok p'
      using that o Some by (auto simp: init_ptp_usb_def init_params_def Let_def split: bind_splits list.splits)
    ultimately show ?thesis by (fastforce simp: post_def)
  qed
qed

lemma close_usb_kept:
  "kept c (H, S, L) w \<Longrightarrow> post (kept c (H - set_option (usb_handle c), S, L)) (close_usb (counted pf) w dev)"
  by (auto simp: close_usb_def counted_def counted_host_def kept_def books_def on_inner_def Let_def post_def
      split: bind_splits dest: con_static_fields(3))

lemma keptI: "kept c b w \<Longrightarrow> con_static c = con_static d \<Longrightarrow> kept d b w"
  by (simp add: kept_def)

text \<open>Closing releases the handle if the device is found on its bus.\<close>

definition present :: "'e platform \<Rightarrow> 'e con_world PTPParams \<Rightarrow> bool" where
  "present pf p \<longleftrightarrow> fst (find_device_by_path pf (con_bus (cs (con p))) (con_dev (cs (con p))) (env (con p))) \<noteq> None"

lemma close_camera_usb_kept:
  assumes k: "kept c (H, S, L) (con p)"
  shows "post (\<lambda>p'. kept c (if present (counted pf) p then H - set_option (usb_handle c) else H, S, L) (con p'))
    (close_camera_usb (counted pf) p)"
proof -
  obtain d l where f: "find_device_by_path (counted pf) (con_bus (cs (con p))) (con_dev (cs (con p))) (env (con p)) = (d, l)"
    by fastforce
  have k': "kept c (H, S, L) (con (upd_env (\<lambda>_. l) p))"
    using k find_device_books [OF f] by (simp add: kept_def)
  show ?thesis
  proof (cases d)
    case None
    then show ?thesis using k' f by (simp add: close_camera_usb_def present_def)
  next
    case (Some dev)
    have "post (\<lambda>p'. kept c (H - set_option (usb_handle c), S, L) (con p')) (close_camera_usb (counted pf) p)"
      unfolding close_camera_usb_def f Let_def prod.case Some option.case
      by (auto intro!: post_bind [OF usb_session_same(2)] post_bind [OF close_usb_kept] same_life_kept [OF _ k'])
    then show ?thesis using f Some by (simp add: present_def)
  qed
qed

lemma reopen_kept:
  assumes k: "kept c (H, S, L) (con p)" and h: "usb_handle c = Some h0"
  shows "post (\<lambda>(ok, p'). (\<exists>h. kept (c \<lparr> usb_handle := Some h \<rparr>) (insert h (H - {h0}), S, L) (con p')) \<or>
      (\<not> ok \<and> kept c (H - {h0}, S, L) (con p'))) (reopen_camera_dev_usb (counted pf) dev p)"
proof -
  have init: "post (\<lambda>(ok, p'). if ok then \<exists>h. kept (c \<lparr> usb_handle := Some h \<rparr>) (insert h (H - {h0}), S, L) (con p')
      else kept c (H - {h0}, S, L) (con p')) (init_ptp_usb (counted pf) (upd_cs (find_endpoints i) (p \<lparr> con := w \<rparr>)) dev)"
    if "kept c (H - {h0}, S, L) w" for i w
    using that by (intro init_ptp_usb_kept) (simp add: kept_def)
  show ?thesis
    unfolding reopen_camera_dev_usb_def usb_ptp_device_reset_def usb_ptp_get_device_status_def Let_def
    apply (rule post_bind [OF control_msg_kept [OF k]], clarsimp simp only: prod.case)
    apply (rule post_bind [OF control_msg_kept], assumption, clarsimp simp only: prod.case)
    apply (rule post_bind [OF close_usb_kept], assumption)
    apply (rule post_pure)
    apply (rule post_bind [OF init], simp add: h)
    by (auto split: if_splits intro!: post_bind [OF usb_session_same(1)]) (metis same_life_kept)+
qed

lemma open_camera_kept:
  assumes k: "kept c ({}, S, L) (con p)" and t: "con_type c = PTP_CON_USB"
  shows "post (\<lambda>(ok, p').
      if ok then \<exists>h. kept (c \<lparr> usb_handle := Some h, connected := True \<rparr>) ({h}, S, L) (con p')
      else \<exists>d H. kept (c \<lparr> usb_handle := d \<rparr>) (H, S, L) (con p') \<and> H \<subseteq> set_option d)
    (open_camera_dev_usb (counted pf) dev p)"
proof (cases dev)
  case None
  then show ?thesis using k by (auto simp: open_camera_dev_usb_def intro!: exI [of _ "usb_handle c"] exI [of _ "{}"])
next
  case (Some d)
  have init: "post (\<lambda>(ok, p'). if ok then \<exists>h. kept (c \<lparr> usb_handle := Some h \<rparr>) (insert h {}, S, L) (con p')
      else kept c ({}, S, L) (con p')) (init_ptp_usb (counted pf) (upd_cs (find_endpoints i) p) d)" for i
    using k by (intro init_ptp_usb_kept) (simp add: kept_def)
  let ?open = "\<lambda>p. \<exists>h. kept (c \<lparr> usb_handle := Some h \<rparr>) ({h}, S, L) (con p)"
  let ?shut = "\<lambda>p. \<exists>d H. kept (c \<lparr> usb_handle := d \<rparr>) (H, S, L) (con p) \<and> H \<subseteq> set_option d"
  have closed: "?shut p" if "?open p \<or> kept c ({}, S, L) (con p)" for p
    using that
  proof
    assume "kept c ({}, S, L) (con p)"
    then show ?thesis by (intro exI [of _ "usb_handle c"] exI [of _ "{}"]) (simp add: kept_def)
  qed auto
  have reopen: "post (\<lambda>(ok, p). if ok then ?open p else ?shut p)
      (if ret \<noteq> PTP_RC_OK then reopen_camera_dev_usb (counted pf) d p else Some (True, p))"
    if op: "?open p" for ret and p :: "'a ledger con_world PTPParams"
  proof -
    obtain h where "kept (c \<lparr> usb_handle := Some h \<rparr>) ({h}, S, L) (con p)" using op by blast
    then have "post (\<lambda>(ok, p). ?open p \<or> \<not> ok \<and> ?shut p) (reopen_camera_dev_usb (counted pf) d p)"
      by (intro post_mono2 [OF reopen_kept [of "c \<lparr> usb_handle := Some h \<rparr>" "{h}" S L p h pf d]])
        (auto intro!: exI [of _ "Some h"])
    then have "post (\<lambda>(ok, p). if ok then ?open p else ?shut p) (reopen_camera_dev_usb (counted pf) d p)"
      by (rule post_mono2) (metis closed)
    then show ?thesis using op by simp
  qed
  have info: "post (\<lambda>(ok, p'). if ok then \<exists>h. kept (c \<lparr> usb_handle := Some h, connected := True \<rparr>) ({h}, S, L) (con p') else ?shut p')
      (do {
         (ret, di, p) \<leftarrow> ptp_getdeviceinfo (usb_session (counted pf)) p (deviceinfo p);
         let p = p \<lparr> deviceinfo := di \<rparr>;
         if ret \<noteq> PTP_RC_OK then do { p \<leftarrow> close_camera (counted pf) p; Some (False, p) }
         else Some (True, upd_cs (\<lambda>c. c \<lparr> connected := True \<rparr>) p)
       })" if op: "?open p" for p :: "'a ledger con_world PTPParams"
  proof -
    obtain h where "kept (c \<lparr> usb_handle := Some h \<rparr>) ({h}, S, L) (con p)" using op by blast
    note h = same_life_kept [OF _ this]
    have close: "post ?shut (close_camera (counted pf) p')" if "kept (c \<lparr> usb_handle := Some h \<rparr>) ({h}, S, L) (con p')" for p'
    proof -
      have "close_camera (counted pf) p' = close_camera_usb (counted pf) p'"
        using that t by (auto simp: close_camera_def kept_def dest: con_static_fields(1))
      then show ?thesis
        using close_camera_usb_kept [OF that, of pf] by (auto simp: post_def split: if_splits intro!: exI [of _ "Some h"])
    qed
    have conn: "kept (c \<lparr> usb_handle := Some h, connected := True \<rparr>) ({h}, S, L) (w \<lparr> cs := (cs w) \<lparr> connected := True \<rparr> \<rparr>)"
      if "kept (c \<lparr> usb_handle := Some h \<rparr>) ({h}, S, L) w" for w
      using that con_static_cong(2) [of "cs w" "c \<lparr> usb_handle := Some h \<rparr>" True] by (simp add: kept_def)
    show ?thesis
      unfolding Let_def
      by (auto intro!: post_bind [OF usb_session_same(3)] post_if post_bind [OF close] h) (blast | metis conn h)+
  qed
  have rest: "post (\<lambda>(ok, p'). if ok then \<exists>h. kept (c \<lparr> usb_handle := Some h, connected := True \<rparr>) ({h}, S, L) (con p') else ?shut p')
      (if \<not> ok then Some (False, p)
       else do {
         (ret, di, p) \<leftarrow> ptp_getdeviceinfo (usb_session (counted pf)) p (deviceinfo p);
         let p = p \<lparr> deviceinfo := di \<rparr>;
         if ret \<noteq> PTP_RC_OK then do { p \<leftarrow> close_camera (counted pf) p; Some (False, p) }
         else Some (True, upd_cs (\<lambda>c. c \<lparr> connected := True \<rparr>) p)
       })" if "if ok then ?open p else ?shut p" for ok and p :: "'a ledger con_world PTPParams"
    using that info [of p] by (cases ok) simp_all
  have session: "post (\<lambda>(ok, p'). if ok then \<exists>h. kept (c \<lparr> usb_handle := Some h, connected := True \<rparr>) ({h}, S, L) (con p') else ?shut p')
      (if \<not> ok then Some (False, p)
       else do {
         (ret, p) \<leftarrow> ptp_opensession (usb_session (counted pf)) p 1;
         (ok, p) \<leftarrow> (if ret \<noteq> PTP_RC_OK then reopen_camera_dev_usb (counted pf) d p else Some (True, p));
         if \<not> ok then Some (False, p)
         else do {
           (ret, di, p) \<leftarrow> ptp_getdeviceinfo (usb_session (counted pf)) p (deviceinfo p);
           let p = p \<lparr> deviceinfo := di \<rparr>;
           if ret \<noteq> PTP_RC_OK then do { p \<leftarrow> close_camera (counted pf) p; Some (False, p) }
           else Some (True, upd_cs (\<lambda>c. c \<lparr> connected := True \<rparr>) p)
         }
       })"
    if k: "if ok then ?open p else kept c ({}, S, L) (con p)" for ok and p :: "'a ledger con_world PTPParams"
  proof (cases ok)
    case False
    then show ?thesis using k closed [of p] by simp
  next
    case True
    then obtain h where h: "kept (c \<lparr> usb_handle := Some h \<rparr>) ({h}, S, L) (con p)" using k by auto
    have "?open p'" if sl: "same_life p p'" for p' using same_life_kept [OF sl h] by blast
    then have "post (\<lambda>(_, p). ?open p) (ptp_opensession (usb_session (counted pf)) p 1)"
      by (intro post_mono2 [OF usb_session_same(1)])
    then show ?thesis
      using True
      by (auto simp only: prod.case split_paired_all not_True_eq_False if_False elim!: post_bind
          intro!: post_bind [OF reopen] rest)
  qed
  show ?thesis
    unfolding open_camera_dev_usb_def Some option.case
    by (auto simp only: prod.case split_paired_all intro!: post_pure post_bind [OF init] session)
qed

text \<open>Connecting: success with one open handle, which the state holds; failure with none, or with one
  that nothing will close.\<close>

lemma connected_upd: "kept c b w \<Longrightarrow> kept (c \<lparr> connected := x \<rparr>) b (w \<lparr> cs := (cs w) \<lparr> connected := x \<rparr> \<rparr>)"
  using con_static_cong(2) [of "cs w" c x] by (simp add: kept_def)

lemma same_connected: "\<not> connected c \<Longrightarrow> c \<lparr> connected := False \<rparr> = c"
  by (cases c) simp

lemma connect_usb_kept:
  assumes k: "kept c ({}, S, L) (con p)" and t: "con_type c = PTP_CON_USB" and n: "\<not> connected c"
  shows "post (\<lambda>(r, p').
      case r of Inr _ \<Rightarrow> \<exists>h. kept (c \<lparr> usb_handle := Some h, connected := True \<rparr>) ({h}, S, L) (con p')
      | Inl e \<Rightarrow> \<exists>d H. kept (c \<lparr> usb_handle := d \<rparr>) (H, S, L) (con p') \<and> H \<subseteq> set_option d)
    (connect_cam_usb (counted pf) p)"
proof -
  obtain d l where f: "find_device_by_path (counted pf) (con_bus (cs (con p))) (con_dev (cs (con p))) (env (con p)) = (d, l)"
    by fastforce
  have k': "kept c ({}, S, L) (con (upd_env (\<lambda>_. l) p))"
    using k find_device_books [OF f] by (simp add: kept_def)
  have none: "\<exists>d H. kept (c \<lparr> usb_handle := d \<rparr>) (H, S, L) (con (upd_env (\<lambda>_. l) p)) \<and> H \<subseteq> set_option d"
    using k' by (intro exI [of _ "usb_handle c"] exI [of _ "{}"]) simp
  have fail: "kept (c \<lparr> usb_handle := d \<rparr>) b (w \<lparr> cs := (cs w) \<lparr> connected := False \<rparr> \<rparr>)"
    if "kept (c \<lparr> usb_handle := d \<rparr>) b w" for d b and w :: "'a ledger con_world"
    using connected_upd [OF that, of False] n by (simp add: same_connected)
  show ?thesis
    unfolding connect_cam_usb_def f Let_def prod.case
    using none fail
    by (auto simp: api_throw_error_def intro!: post_if post_bind [OF open_camera_kept [OF k' t]] split: if_splits; blast)
qed

section \<open>TCP\<close>

lemma socket_books:
  "socket (counted_tcp t) ai l = (s, l') \<Longrightarrow> books l = (H, S, L) \<Longrightarrow> books l' = (H, S \<union> set_option s, L)"
  by (auto simp: counted_tcp_def with_inner_def books_def split: prod.splits option.splits)

lemma sock_connect_books: "sock_connect (counted_tcp t) s ai l = (r, l') \<Longrightarrow> books l' = books l"
  by (auto simp: counted_tcp_def split: if_splits dest: with_inner_eq)

lemma sockutil_close_books:
  "books l = (H, S, L) \<Longrightarrow> books (sockutil_close (counted_tcp t) s l) = (H, S - set_option s, L)"
  by (auto simp: counted_tcp_def books_def on_inner_def)

lemma connect_first_books:
  assumes "books l = (H, {}, L)"
  shows "case connect_first (counted pf) ais l of
      Inl l' \<Rightarrow> books l' = (H, {}, L) \<and> ais \<noteq> []
    | Inr (s, ai, l') \<Rightarrow> books l' = (H, set_option s, L) \<and> (s \<noteq> None \<longrightarrow> ais \<noteq> [])"
  using assms
proof (induction ais arbitrary: l)
  case (Cons ai ais)
  obtain s l1 where s: "socket (counted_tcp (tcp pf)) ai l = (s, l1)" by fastforce
  obtain r l2 where r: "sock_connect (counted_tcp (tcp pf)) s ai l1 = (r, l2)" by fastforce
  have b1: "books l1 = (H, set_option s, L)" using socket_books [OF s Cons.prems] by simp
  have b2: "books l2 = (H, set_option s, L)" using sock_connect_books [OF r] b1 by simp
  have b3: "books (sockutil_close (counted_tcp (tcp pf)) s l2) = (H, {}, L)"
    using sockutil_close_books [OF b2] by simp
  show ?case using s r b1 b2 Cons.IH [OF b3]
    by (auto simp: counted_def split: sum.splits prod.splits)
qed simp

lemma init_event_kept:
  assumes "kept c (H, {s}, L) w"
  shows "post (\<lambda>(ok, w').
      if ok then \<exists>t. kept (c \<lparr> event_sock := Some t \<rparr>) (H, {s, t}, L) w'
      else \<exists>t ev S. kept (c \<lparr> event_sock := ev \<rparr>) (H, S, L) w' \<and> S \<subseteq> {s, t} \<union> set_option ev)
    (init_event_channel_tcp (counted pf) w)"
proof (cases "con_ai_con (cs w)")
  case None
  then show ?thesis by (simp add: init_event_channel_tcp_def)
next
  case (Some ai)
  obtain t l1 where s: "socket (tcp (counted pf)) ai (env w) = (t, l1)" by fastforce
  obtain r l2 where r: "sock_connect (tcp (counted pf)) t ai l1 = (r, l2)" by fastforce
  have b2: "books l2 = (H, {s} \<union> set_option t, L)"
    using socket_books [of "tcp pf" ai "env w" t l1 H "{s}" L] sock_connect_books [of "tcp pf" t ai l1 r l2] s r assms(1)
    by (simp add: counted_def kept_def)
  have t: "t \<noteq> None" if "r \<noteq> - 1" using that r by (auto simp: counted_def counted_tcp_def split: if_splits)
  show ?thesis
  proof (cases "r = - 1")
    case True
    have "kept (c \<lparr> event_sock := event_sock c \<rparr>) (H, {s} \<union> set_option t, L) (w \<lparr> env := l2 \<rparr>)"
      using assms b2 by (simp add: kept_def)
    moreover have "{s} \<union> set_option t \<subseteq> {s, the t} \<union> set_option (event_sock c)" by (cases t) auto
    ultimately have "\<exists>t ev S. kept (c \<lparr> event_sock := ev \<rparr>) (H, S, L) (w \<lparr> env := l2 \<rparr>) \<and> S \<subseteq> {s, t} \<union> set_option ev"
      by blast
    then show ?thesis using Some s r True by (simp add: init_event_channel_tcp_def)
  next
    case False
    then obtain t' where t': "t = Some t'" using t by blast
    let ?w = "w \<lparr> env := l2, cs := (cs w) \<lparr> event_sock := t \<rparr> \<rparr>"
    have k: "kept (c \<lparr> event_sock := Some t' \<rparr>) (H, {s, t'}, L) ?w"
      using assms b2 con_static_cong(4) [of "cs w" c t] by (simp add: kept_def t' insert_commute)
    have shut: "\<exists>t ev S. kept (c \<lparr> event_sock := ev \<rparr>) (H, S, L) w' \<and> S \<subseteq> {s, t} \<union> set_option ev"
      if "kept (c \<lparr> event_sock := Some t' \<rparr>) (H, {s, t'}, L) w'" for w' :: "'a ledger con_world"
      using that by (intro exI [of _ t'] exI [of _ "Some t'"] exI [of _ "{s, t'}"]) simp
    have io: "kept (c \<lparr> event_sock := Some t' \<rparr>) (H, {s, t'}, L) (v \<lparr> env := l \<rparr>)"
      if "kept (c \<lparr> event_sock := Some t' \<rparr>) (H, {s, t'}, L) v" and "books l = books (env v)"
      for v :: "'a ledger con_world" and l using that by (simp add: kept_def)
    obtain r3 l3 where w3: "send (tcp_sockets (tcp (counted pf))) t (init_event_packet (connection_id (cs ?w))) l2 = (r3, l3)"
      by fastforce
    have k3: "kept (c \<lparr> event_sock := Some t' \<rparr>) (H, {s, t'}, L) (?w \<lparr> env := l3 \<rparr>)"
      using w3 t' by (intro io [OF k]) (auto simp: counted_def counted_tcp_def dest: with_inner_eq)
    obtain r4 bs l4 where w4: "recv (tcp_sockets (tcp (counted pf))) t sizeof_PTPIPContainer l3 = (r4, bs, l4)"
      by (metis prod_cases3)
    have k4: "kept (c \<lparr> event_sock := Some t' \<rparr>) (H, {s, t'}, L) (?w \<lparr> env := l3, env := l4 \<rparr>)"
      using w4 t' by (intro io [OF k3]) (auto simp: counted_def counted_tcp_def dest: with_inner3_eq)
    show ?thesis
      using Some s r False w3 w4 shut [OF k3, simplified] shut [OF k4, simplified] k4 [simplified]
      by (simp add: init_event_channel_tcp_def ip_field_def Let_def)
        (intro conjI impI post_mem; simp; blast)
  qed
qed

lemma close_socks_kept:
  assumes "kept c (H, S, L) w"
  shows "kept (c \<lparr> cmd_sock := None, event_sock := None, con_ai := None \<rparr>)
    (H, S - set_option (cmd_sock c) - set_option (event_sock c), if con_ai c = None then L else L - 1)
    (close_socks (counted pf) w)"
proof -
  have cmd: "kept (c \<lparr> cmd_sock := None \<rparr>) (H, S - set_option (cmd_sock c), L)
      (case cmd_sock (cs w) of None \<Rightarrow> w
       | s \<Rightarrow> w \<lparr> env := sockutil_close (tcp (counted pf)) s (env w), cs := (cs w) \<lparr> cmd_sock := None \<rparr> \<rparr>)"
    if "kept c (H, S, L) w" for c S and w :: "'a ledger con_world"
    using that con_static_fields(6) [of "cs w" c] con_static_cong(3) [of "cs w" c None]
      sockutil_close_books [of "env w" H S L "tcp pf" "cmd_sock c"]
    by (cases "cmd_sock c"; cases c) (simp_all add: kept_def counted_def)
  have event: "kept (c \<lparr> event_sock := None \<rparr>) (H, S - set_option (event_sock c), L)
      (case event_sock (cs w) of None \<Rightarrow> w
       | s \<Rightarrow> w \<lparr> env := sockutil_close (tcp (counted pf)) s (env w), cs := (cs w) \<lparr> event_sock := None \<rparr> \<rparr>)"
    if "kept c (H, S, L) w" for c S and w :: "'a ledger con_world"
    using that con_static_fields(7) [of "cs w" c] con_static_cong(4) [of "cs w" c None]
      sockutil_close_books [of "env w" H S L "tcp pf" "event_sock c"]
    by (cases "event_sock c"; cases c) (simp_all add: kept_def counted_def)
  have ai: "kept (c \<lparr> con_ai := None \<rparr>) (H, S, if con_ai c = None then L else L - 1)
      (case con_ai (cs w) of None \<Rightarrow> w
       | Some ai \<Rightarrow> w \<lparr> env := freeaddrinfo (tcp (counted pf)) ai (env w),
                     cs := (cs w) \<lparr> con_ai := None, con_ai_con := None \<rparr> \<rparr>)"
    if "kept c (H, S, L) w" for c S and w :: "'a ledger con_world"
    using that con_static_fields(8) [of "cs w" c] con_static_cong(5) [of "cs w" c None]
    by (cases "con_ai c"; cases c) (simp_all add: kept_def counted_def counted_tcp_def books_def on_inner_def)
  show ?thesis
    using ai [OF event [OF cmd [OF assms]]]
    unfolding close_socks_def Let_def by simp
qed

text \<open>The session over a command socket \<open>s\<close>: in success both sockets are open and known; in failure
  there may be one more.\<close>

definition tcp_shut :: "PTP_CON_STATE \<Rightarrow> nat set \<Rightarrow> nat set \<Rightarrow> nat \<Rightarrow> 'e ledger con_world \<Rightarrow> bool" where
  "tcp_shut c H K L w \<longleftrightarrow>
     (\<exists>t ev x S. kept (c \<lparr> event_sock := ev, connected := x \<rparr>) (H, S, L) w \<and> S \<subseteq> K \<union> {t} \<union> set_option ev)"

definition tcp_open :: "PTP_CON_STATE \<Rightarrow> nat set \<Rightarrow> nat set \<Rightarrow> nat \<Rightarrow> 'e ledger con_world \<Rightarrow> bool" where
  "tcp_open c H K L w \<longleftrightarrow>
     (\<exists>t. kept (c \<lparr> event_sock := Some t, connected := True \<rparr>) (H, insert t K, L) w)"

lemma tcp_shutI: "kept c (H, S, L) w \<Longrightarrow> S \<subseteq> K \<Longrightarrow> tcp_shut c H K L w"
  unfolding tcp_shut_def
  by (intro exI [of _ 0] exI [of _ "event_sock c"] exI [of _ "connected c"] exI [of _ S]) auto

lemma tcp_shut_open: "tcp_open c H K L w \<Longrightarrow> tcp_shut c H K L w"
  unfolding tcp_shut_def tcp_open_def by blast

definition tcp_result :: "PTP_CON_STATE \<Rightarrow> nat set \<Rightarrow> nat set \<Rightarrow> nat \<Rightarrow> bool \<times> 'e ledger con_world PTPParams \<Rightarrow> bool" where
  "tcp_result c H K L r = (if fst r then tcp_open c H K L (con (snd r)) else tcp_shut c H K L (con (snd r)))"

lemma tcp_resultI [intro]:
  "(ok \<Longrightarrow> tcp_open c H K L (con p)) \<Longrightarrow> (\<not> ok \<Longrightarrow> tcp_shut c H K L (con p)) \<Longrightarrow> tcp_result c H K L (ok, p)"
  by (simp add: tcp_result_def)

lemma init_session_kept:
  assumes k: "kept c (H, set_option (cmd_sock c), L) (con p)" and n: "\<not> connected c"
  shows "post (tcp_result c H (set_option (cmd_sock c)) L) (init_session_tcp (counted pf) p)"
proof -
  let ?K = "set_option (cmd_sock c)"
  let ?net = "tcp_sockets (counted_tcp (tcp pf))"
  have net: "tcp_sockets (tcp (counted pf)) = ?net" by (simp add: counted_def)
  obtain ret w where wr: "ptp_tcp_write_func ?net init_cmd_packet (con p) = (ret, w)" by fastforce
  have kw: "kept c (H, ?K, L) w" using tcp_write_kept [OF k, of "tcp pf" init_cmd_packet] wr by simp
  have s: "cmd_sock (cs (con p)) = cmd_sock c" using k by (auto simp: kept_def dest: con_static_fields(6))
  have some: "cmd_sock c \<noteq> None" if "ret = PTP_RC_OK"
    using that wr s by (auto simp: ptp_tcp_write_func_def counted_tcp_def split: if_splits prod.splits)
  have session: "post (tcp_result c H ?K L)
      (do {
         (ret, p) \<leftarrow> ptp_opensession (tcp_session (counted pf)) p 1;
         if ret \<noteq> PTP_RC_OK then Some (False, p)
         else do {
           (ret, di, p) \<leftarrow> ptp_getdeviceinfo (tcp_session (counted pf)) (upd_cs (\<lambda>c. c \<lparr> connected := True \<rparr>) p) (deviceinfo p);
           Some (ret = PTP_RC_OK, p \<lparr> deviceinfo := di \<rparr>)
         }
       })" (is "?S p") if kt: "kept (c \<lparr> event_sock := Some t \<rparr>) (H, insert t ?K, L) (con p)" for t and p :: "'a ledger con_world PTPParams"
  proof -
    have shut: "tcp_shut c H ?K L (con p')" if "same_life p p'" for p'
      using same_life_kept [OF that kt] n unfolding tcp_shut_def
      by (intro exI [of _ t] exI [of _ "Some t"] exI [of _ "connected c"] exI [of _ "insert t ?K"]) (cases c, auto)
    have op: "tcp_open c H ?K L (con p'')" if "same_life p p'" "same_life (upd_cs (\<lambda>c. c \<lparr> connected := True \<rparr>) p') p''" for p' p''
      using same_life_kept [OF that(2), of "c \<lparr> event_sock := Some t, connected := True \<rparr>" "(H, insert t ?K, L)"]
        connected_upd [OF same_life_kept [OF that(1) kt], of True] unfolding tcp_open_def by auto
    show ?thesis
      by (auto intro!: post_if post_bind [OF tcp_session_same(1)] post_bind [OF tcp_session_same(3)] tcp_resultI)
        (rule shut, assumption | rule op, assumption, assumption | rule tcp_shut_open, rule op, assumption, assumption)+
  qed
  show ?thesis
  proof (cases "ret = PTP_RC_OK")
    case False
    then show ?thesis using wr net tcp_shutI [OF kw] by (simp add: init_session_tcp_def tcp_result_def)
  next
    case True
    then obtain s where s: "cmd_sock c = Some s" using some by blast
    have read: "post (\<lambda>(_, _, w'). kept c (H, ?K, L) w') (ptp_tcp_read_func ?net m 0 n w)" for m n
      using tcp_read_kept [OF kw] by (auto simp: post_def)
    have event: "post (\<lambda>(ok, w'). if ok then \<exists>t. kept (c \<lparr> event_sock := Some t \<rparr>) (H, insert t ?K, L) w'
        else tcp_shut c H ?K L w') (init_event_channel_tcp (counted pf) w')" if "kept c (H, ?K, L) w'" for w'
    proof (rule post_mono2 [OF init_event_kept [of c H s L w' pf]])
      show "kept c (H, {s}, L) w'" using that s by simp
      fix ok w'
      assume a: "if ok then \<exists>t. kept (c \<lparr> event_sock := Some t \<rparr>) (H, {s, t}, L) w'
        else \<exists>t ev S. kept (c \<lparr> event_sock := ev \<rparr>) (H, S, L) w' \<and> S \<subseteq> {s, t} \<union> set_option ev"
      have e: "c \<lparr> event_sock := ev, connected := connected c \<rparr> = c \<lparr> event_sock := ev \<rparr>" for ev by (cases c) simp
      have shut: "tcp_shut c H ?K L w'"
        if "kept (c \<lparr> event_sock := ev \<rparr>) (H, S, L) w' \<and> S \<subseteq> {s, t} \<union> set_option ev" for t ev S
        using that s e [of ev] unfolding tcp_shut_def
        by (intro exI [of _ t] exI [of _ ev] exI [of _ "connected c"] exI [of _ S]) auto
      then show "if ok then \<exists>t. kept (c \<lparr> event_sock := Some t \<rparr>) (H, insert t ?K, L) w' else tcp_shut c H ?K L w'"
        using a s shut by (cases ok) (simp_all add: insert_commute, blast)
    qed
    have session': "\<exists>t. kept (c \<lparr> event_sock := Some t \<rparr>) (H, insert t ?K, L) (con p) \<Longrightarrow> ?S p" for p
      using session by blast
    have upd: "kept c (H, ?K, L) (w \<lparr> cs := (cs w) \<lparr> connection_id := i, cam_guid := g \<rparr> \<rparr>)"
      if "kept c (H, ?K, L) w" for i g and w :: "'a ledger con_world" using that by (simp add: kept_def)
    show ?thesis
      unfolding init_session_tcp_def Let_def net wr prod.case
      using True s kw tcp_shutI [of c H "{s}" L _ "{s}"]
      by (simp, intro post_bind [OF read] post_pure [where c = "ip_field m i" for m i])
        (auto simp: tcp_result_def intro!: post_if post_mem post_pure [where c = "ip_field m i" for m i]
          upd [unfolded s, simplified option.set] post_bind [OF event [unfolded s, simplified option.set]]
          session' [unfolded s, simplified option.set])
  qed
qed

text \<open>The whole of \<open>init_ptp_tcp\<close>, from a state without sockets. Its outcome: the address list \<open>ai\<close> and the
  command socket \<open>s\<close> it has set, and what \<open>tcp_result\<close> says of the rest.\<close>

lemma close_camera_tcp_kept:
  assumes "kept c (H, S, L) (con p)"
  shows "post (\<lambda>p'. kept (c \<lparr> cmd_sock := None, event_sock := None, con_ai := None \<rparr>)
      (H, S - set_option (cmd_sock c) - set_option (event_sock c), if con_ai c = None then L else L - 1) (con p'))
    (close_camera_tcp (counted pf) p)"
proof -
  have close: "kept (c \<lparr> cmd_sock := None, event_sock := None, con_ai := None \<rparr>)
      (H, S - set_option (cmd_sock c) - set_option (event_sock c), if con_ai c = None then L else L - 1)
      (close_socks (counted pf) (con p'))" if "same_life p p'" for p'
    by (rule close_socks_kept [OF same_life_kept [OF that assms]])
  have "same_life p p" by (simp add: same_life_def kept_refl)
  then show ?thesis
    unfolding close_camera_tcp_def
    by (cases "connected (cs (con p))") (auto intro!: post_bind [OF tcp_session_same(2)] dest!: close)
qed

lemma init_session_sock:
  "post (\<lambda>(ok, p'). ok \<longrightarrow> cmd_sock (cs (con p)) \<noteq> None) (init_session_tcp (counted pf) p)"
proof (cases "cmd_sock (cs (con p)) = None")
  case True
  then have "fst (ptp_tcp_write_func (tcp_sockets (tcp (counted pf))) init_cmd_packet (con p)) = PTP_ERROR_IO"
    by (simp add: ptp_tcp_write_func_def counted_def counted_tcp_def)
  then show ?thesis
    by (cases "ptp_tcp_write_func (tcp_sockets (tcp (counted pf))) init_cmd_packet (con p)")
      (simp add: init_session_tcp_def Let_def)
qed (auto simp: post_def)

lemma getaddrinfo_books:
  assumes "getaddrinfo (tcp (counted pf)) hn pn l = (r, ais, l')" and "books l = (H, S, L)"
  shows "books l' = (H, S, if r = 0 \<and> ais \<noteq> [] then Suc L else L)"
  using assms by (auto simp: counted_def counted_tcp_def books_def with_inner3_def split: prod.splits if_splits)

lemma init_ptp_tcp_kept:
  assumes k: "kept c (H, {}, 0) (con p)" and n: "\<not> connected c" "cmd_sock c = None" "event_sock c = None" "con_ai c = None"
  shows "post (\<lambda>(ok, p'). \<exists>s ai. let c' = c \<lparr> con_ai := ai, cmd_sock := s \<rparr>; L = (if ai = None then 0 else 1) in
      tcp_result c' H (set_option s) L (ok, p') \<and> (ok \<longrightarrow> s \<noteq> None \<and> ai \<noteq> None)) (init_ptp_tcp (counted pf) p)"
proof -
  let ?P = "\<lambda>(ok, p'). \<exists>s ai. let c' = c \<lparr> con_ai := ai, cmd_sock := s \<rparr>; L = (if ai = None then 0 else 1) in
      tcp_result c' H (set_option s) L (ok, p') \<and> (ok \<longrightarrow> s \<noteq> None \<and> ai \<noteq> None)"
  define p1 where "p1 = reset_counters (init_params p)"
  have k1: "kept c (H, {}, 0) (con p1)" using k by (simp add: p1_def reset_counters_def init_params_def kept_def)
  have c: "c \<lparr> con_ai := None, cmd_sock := None \<rparr> = c" using n by (cases c) simp
  have none: "?P (False, q)" if "kept c (H, {}, 0) (con q)" for q :: "'a ledger con_world PTPParams"
    using tcp_shutI [OF that, of "{}"] c
    by (auto simp: tcp_result_def intro!: exI [of _ "None :: nat option"] exI [of _ "None :: addrinfo list option"])
  obtain r ais l where g: "getaddrinfo (tcp (counted pf)) (con_host (cs (con p1))) (con_port (cs (con p1))) (env (con p1)) = (r, ais, l)"
    by (metis prod_cases3)
  have bl: "books l = (H, {}, if r = 0 \<and> ais \<noteq> [] then 1 else 0)"
    using getaddrinfo_books [OF g, of H "{}" 0] k1 by (simp add: kept_def)
  show ?thesis
  proof (cases "r = 0")
    case False
    then have "kept c (H, {}, 0) (con (upd_env (\<lambda>_. l) p1))" using k1 bl by (simp add: kept_def)
    then show ?thesis using g False none by (simp add: init_ptp_tcp_def p1_def [symmetric] Let_def del: split_paired_Ex)
  next
    case True
    show ?thesis
    proof (cases "connect_first (counted pf) ais l")
      case (Inl l')
      have "books l' = (H, {}, if ais = [] then 0 else 1)" "ais \<noteq> []"
        using connect_first_books [OF bl, where pf = pf and ais = ais] Inl True by simp_all
      then have "books (freeaddrinfo (tcp (counted pf)) ais l') = (H, {}, 0)"
        by (simp add: counted_def counted_tcp_def books_def on_inner_def)
      then have "kept c (H, {}, 0) (con (upd_env (\<lambda>_. freeaddrinfo (tcp (counted pf)) ais l') p1))"
        using k1 by (simp add: kept_def)
      then show ?thesis using g True Inl none
        by (simp add: init_ptp_tcp_def p1_def [symmetric] Let_def del: split_paired_Ex)
    next
      case (Inr x)
      obtain s ai l' where x: "x = (s, ai, l')" by (metis prod_cases3)
      let ?ai = "if ais = [] then None else Some ais"
      let ?L = "if ?ai = None then 0 else 1 :: nat"
      let ?c = "c \<lparr> con_ai := ?ai, cmd_sock := s \<rparr>"
      let ?p = "upd_cs (\<lambda>c. c \<lparr> con_ai := ?ai, con_ai_con := ai, cmd_sock := s \<rparr>) (upd_env (\<lambda>_. l') (upd_env (\<lambda>_. l) p1))"
      have b': "books l' = (H, set_option s, ?L)" "s \<noteq> None \<longrightarrow> ais \<noteq> []"
        using connect_first_books [OF bl, where pf = pf and ais = ais] Inr x True by simp_all
      have e: "init_ptp_tcp (counted pf) p = init_session_tcp (counted pf) ?p"
        using g True Inr x by (simp add: init_ptp_tcp_def p1_def [symmetric] Let_def)
      have "kept ?c (H, set_option (cmd_sock ?c), ?L) (con ?p)"
        using k1 b' con_static_cong(3) [OF con_static_cong(5) [of "cs (con p1)" c ?ai], of s]
        by (simp add: kept_def con_static_def)
      then have "post (tcp_result ?c H (set_option s) ?L) (init_session_tcp (counted pf) ?p)"
        using init_session_kept [of ?c H ?L ?p pf] n by simp
      moreover have "post (\<lambda>(ok, p'). ok \<longrightarrow> s \<noteq> None) (init_session_tcp (counted pf) ?p)"
        using init_session_sock [of ?p pf] by simp
      ultimately show ?thesis
        unfolding e Let_def using b'(2)
        by (auto simp only: post_def prod.case intro!: exI [of _ s] exI [of _ ?ai] split: prod.split) simp_all
    qed
  qed
qed

lemma connect_tcp_kept:
  assumes k: "kept c (H, {}, 0) (con p)" and n: "\<not> connected c" "cmd_sock c = None" "event_sock c = None" "con_ai c = None"
  shows "post (\<lambda>(r, p').
      case r of Inr _ \<Rightarrow> \<exists>s t ai. kept (c \<lparr> con_ai := Some ai, cmd_sock := Some s, event_sock := Some t, connected := True \<rparr>)
          (H, {t, s}, 1) (con p')
      | Inl e \<Rightarrow> \<exists>t S. kept c (H, S, 0) (con p') \<and> S \<subseteq> {t})
    (connect_cam_tcp (counted pf) p)"
proof -
  have ok: "\<exists>s t ai. kept (c \<lparr> con_ai := Some ai, cmd_sock := Some s, event_sock := Some t, connected := True \<rparr>)
      (H, {t, s}, 1) (con p')"
    if r: "let c' = c \<lparr> con_ai := ai, cmd_sock := s \<rparr>; L = (if ai = None then 0 else 1) in
      tcp_result c' H (set_option s) L (True, p') \<and> (True \<longrightarrow> s \<noteq> None \<and> ai \<noteq> None)" for s ai p'
  proof -
    obtain t s' a where s: "s = Some s'" "ai = Some a"
      and "kept (c \<lparr> con_ai := ai, cmd_sock := s, event_sock := Some t, connected := True \<rparr>) (H, insert t (set_option s), 1) (con p')"
      using r by (auto simp: tcp_result_def tcp_open_def)
    then have "kept (c \<lparr> con_ai := Some a, cmd_sock := Some s', event_sock := Some t, connected := True \<rparr>) (H, {t, s'}, 1) (con p')"
      by simp
    then show ?thesis by (intro exI)
  qed
  have fail: "\<exists>t S. kept c (H, S, 0) (con (upd_cs (\<lambda>c. c \<lparr> connected := False \<rparr>) p'')) \<and> S \<subseteq> {t}"
    if r: "let c' = c \<lparr> con_ai := ai, cmd_sock := s \<rparr>; L = (if ai = None then 0 else 1) in
      tcp_result c' H (set_option s) L (False, p') \<and> (False \<longrightarrow> s \<noteq> None \<and> ai \<noteq> None)"
      and p'': "close_camera_tcp (counted pf) p' = Some p''" for s ai p' p''
  proof -
    let ?L = "if ai = None then 0 else 1 :: nat"
    obtain t ev x S where k: "kept (c \<lparr> con_ai := ai, cmd_sock := s, event_sock := ev, connected := x \<rparr>) (H, S, ?L) (con p')"
      and S: "S \<subseteq> set_option s \<union> {t} \<union> set_option ev"
      using r by (auto simp: tcp_result_def tcp_shut_def Let_def)
    from postD [OF close_camera_tcp_kept [OF k] p'']
    have "kept (c \<lparr> connected := x \<rparr>) (H, S - set_option s - set_option ev, 0) (con p'')"
      using n by (cases c) (simp split: if_splits)
    then have "kept c (H, S - set_option s - set_option ev, 0) (con (upd_cs (\<lambda>c. c \<lparr> connected := False \<rparr>) p''))"
      using connected_upd [of "c \<lparr> connected := x \<rparr>" _ _ False] n(1) by (simp add: same_connected)
    then show ?thesis using S by blast
  qed
  have rest: "post (\<lambda>(r, p').
      case r of Inr _ \<Rightarrow> \<exists>s t ai. kept (c \<lparr> con_ai := Some ai, cmd_sock := Some s, event_sock := Some t, connected := True \<rparr>)
          (H, {t, s}, 1) (con p')
      | Inl e \<Rightarrow> \<exists>t S. kept c (H, S, 0) (con p') \<and> S \<subseteq> {t})
      (if done' then Some (Inr (), p') else do {
         p \<leftarrow> close_camera_tcp (counted pf) p';
         Some (Inl e, upd_cs (\<lambda>c. c \<lparr> connected := False \<rparr>) p) })"
    if r: "\<exists>s ai. let c' = c \<lparr> con_ai := ai, cmd_sock := s \<rparr>; L = (if ai = None then 0 else 1) in
      tcp_result c' H (set_option s) L (done', p') \<and> (done' \<longrightarrow> s \<noteq> None \<and> ai \<noteq> None)" for done' p' e
  proof (cases done')
    case True
    with r obtain s ai where "let c' = c \<lparr> con_ai := ai, cmd_sock := s \<rparr>; L = (if ai = None then 0 else 1) in
      tcp_result c' H (set_option s) L (True, p') \<and> (True \<longrightarrow> s \<noteq> None \<and> ai \<noteq> None)" by auto
    from ok [OF this] show ?thesis using True by simp
  next
    case False
    show ?thesis
    proof (cases "close_camera_tcp (counted pf) p'")
      case (Some p'')
      from r False obtain s ai where "let c' = c \<lparr> con_ai := ai, cmd_sock := s \<rparr>; L = (if ai = None then 0 else 1) in
        tcp_result c' H (set_option s) L (False, p') \<and> (False \<longrightarrow> s \<noteq> None \<and> ai \<noteq> None)" by auto
      from fail [OF this Some] show ?thesis using Some False by simp
    qed (simp add: False)
  qed
  show ?thesis
    unfolding connect_cam_tcp_def api_throw_error_def
    by (auto simp only: prod.case split_paired_all intro!: post_bind [OF init_ptp_tcp_kept [OF assms]] rest)
qed

section \<open>The life of a connection\<close>

text \<open>
  A connection that is not connected holds nothing. One that is holds exactly its device handle, or its
  two sockets and its address list.
\<close>

definition life_ok :: "PTP_CON_STATE \<Rightarrow> nat set \<times> nat set \<times> nat \<Rightarrow> bool" where
  "life_ok c b =
     (case b of (H, S, L) \<Rightarrow>
        if con_type c = PTP_CON_USB then
          S = {} \<and> L = 0 \<and> (if connected c then \<exists>h. usb_handle c = Some h \<and> H = {h} else H = {})
        else
          H = {} \<and> (if connected c then \<exists>s t ai. cmd_sock c = Some s \<and> event_sock c = Some t \<and> con_ai c = Some ai \<and>
                      S = {s, t} \<and> L = 1
                    else cmd_sock c = None \<and> event_sock c = None \<and> con_ai c = None \<and> S = {} \<and> L = 0))"

abbreviation con_inv :: "'e ledger con_world PTPParams \<Rightarrow> bool" where
  "con_inv p \<equiv> life_ok (cs (con p)) (books (env (con p)))"

lemma kept_life: "kept c b (con p) \<Longrightarrow> con_inv p = life_ok c b"
  using con_static_fields [of "cs (con p)" c] by (simp add: kept_def life_ok_def)

lemma same_life_inv: "same_life p p' \<Longrightarrow> con_inv p \<Longrightarrow> con_inv p'"
  using kept_life unfolding same_life_def by blast

text \<open>What a script can do with a connection while its device stays in place: connect, disconnect, ask
  whether it is connected and be told so, and transactions, of which all other methods are made.\<close>

inductive life_step :: "'e platform \<Rightarrow> 'e ledger con_world PTPParams \<Rightarrow> 'e ledger con_world PTPParams \<Rightarrow> bool"
  for pf where
  life_connect: "chdk_connect (counted pf) p = Some (Inr (), p') \<Longrightarrow> life_step pf p p'"
| life_refuse: "chdk_connect (counted pf) p = Some (Inl (Api_Error err), p') \<Longrightarrow>
    err_etype err \<noteq> Some ''connect_fail'' \<Longrightarrow> life_step pf p p'"
| life_disconnect: "chdk_disconnect (counted pf) p = Some (Inr (), p') \<Longrightarrow>
    con_type (cs (con p)) = PTP_CON_USB \<longrightarrow> present (counted pf) p \<Longrightarrow> life_step pf p p'"
| life_check: "chdk_is_connected (counted pf) p = Some (Inr b, p') \<Longrightarrow> b \<or> \<not> connected (cs (con p)) \<Longrightarrow> life_step pf p p'"
| life_usb: "ptp_transaction (usb_session (counted pf)) p ptp flags n data = Some (r, ptp', data', p') \<Longrightarrow> life_step pf p p'"
| life_tcp: "ptp_transaction (tcp_session (counted pf)) p ptp flags n data = Some (r, ptp', data', p') \<Longrightarrow> life_step pf p p'"

inductive life_reachable :: "'e platform \<Rightarrow> 'e ledger con_world PTPParams \<Rightarrow> bool" for pf where
  life_new: "connection_spec spec = Inr (key, c) \<Longrightarrow>
    life_reachable pf (zero_params \<lparr> cs = c, env = \<lparr> handles = {}, socks = {}, lists = 0, fresh = n, inner = e \<rparr> \<rparr>)"
| life_next: "life_reachable pf p \<Longrightarrow> life_step pf p p' \<Longrightarrow> life_reachable pf p'"

lemma connection_spec_state:
  "connection_spec spec = Inr (key, c) \<Longrightarrow> (\<exists>bus dev. c = usb_con_state bus dev) \<or> (\<exists>h port. c = tcp_con_state h port)"
  by (auto simp: connection_spec_def Let_def split: option.splits if_splits prod.splits)

lemma new_con_inv:
  assumes "connection_spec spec = Inr (key, c)"
  shows "con_inv (zero_params \<lparr> cs = c, env = \<lparr> handles = {}, socks = {}, lists = 0, fresh = n, inner = e \<rparr> \<rparr>)"
  using connection_spec_state [OF assms]
  by (auto simp: life_ok_def books_def zero_params_def usb_con_state_def tcp_con_state_def PTP_CON_USB_def PTP_CON_TCP_def
      zero_con_state_def)

text \<open>Connecting from such a state.\<close>

lemma connect_life:
  assumes i: "con_inv p" and n: "\<not> connected (cs (con p))" and c: "chdk_connect (counted pf) p = Some (r, p')"
  shows "case r of Inr _ \<Rightarrow> connected (cs (con p')) \<and> con_inv p'
    | Inl _ \<Rightarrow> \<not> connected (cs (con p')) \<and> lists (env (con p')) = 0 \<and>
        (\<exists>x. handles (env (con p')) \<subseteq> {x} \<and> socks (env (con p')) = {} \<or> handles (env (con p')) = {} \<and> socks (env (con p')) \<subseteq> {x})"
proof (cases "con_type (cs (con p)) = PTP_CON_USB")
  case True
  let ?c = "cs (con p)"
  have k: "kept ?c ({}, {}, 0) (con p)"
    using i n True kept_refl [of "con p"] by (auto simp: life_ok_def split: prod.splits)
  have u: "connect_cam_usb (counted pf) p = Some (r, p')" using c n True by (simp add: chdk_connect_def)
  note r = postD [OF connect_usb_kept [OF k True n] u]
  show ?thesis
  proof (cases r)
    case (Inr x)
    with r obtain h where h: "kept (?c \<lparr> usb_handle := Some h, connected := True \<rparr>) ({h}, {}, 0) (con p')" by auto
    show ?thesis using kept_life [OF h] h True Inr
      by (auto simp: life_ok_def kept_def dest: con_static_fields)
  next
    case (Inl x)
    with r obtain d H where h: "kept (?c \<lparr> usb_handle := d \<rparr>) (H, {}, 0) (con p')" "H \<subseteq> set_option d" by auto
    then have "\<not> connected (cs (con p'))" using n by (auto simp: kept_def dest: con_static_fields)
    then show ?thesis using h Inl by (cases d) (auto simp: kept_def books_def)
  qed
next
  case False
  let ?c = "cs (con p)"
  have k: "kept ?c ({}, {}, 0) (con p)" and s: "cmd_sock ?c = None" "event_sock ?c = None" "con_ai ?c = None"
    using i n False kept_refl [of "con p"] by (auto simp: life_ok_def split: prod.splits)
  have u: "connect_cam_tcp (counted pf) p = Some (r, p')" using c n False by (simp add: chdk_connect_def)
  note r = postD [OF connect_tcp_kept [OF k n s] u]
  show ?thesis
  proof (cases r)
    case (Inr x)
    with r obtain s t ai where h: "kept (?c \<lparr> con_ai := Some ai, cmd_sock := Some s, event_sock := Some t, connected := True \<rparr>)
        ({}, {t, s}, 1) (con p')" by auto
    show ?thesis using kept_life [OF h] h False Inr
      by (auto simp: life_ok_def kept_def dest: con_static_fields)
  next
    case (Inl x)
    with r obtain t S where h: "kept ?c ({}, S, 0) (con p')" "S \<subseteq> {t}" by auto
    then have "\<not> connected (cs (con p'))" using n by (auto simp: kept_def dest: con_static_fields)
    then show ?thesis using h Inl by (auto simp: kept_def books_def)
  qed
qed

lemma refuse_life:
  assumes "chdk_connect (counted pf) p = Some (Inl (Api_Error err), p')" and "err_etype err \<noteq> Some ''connect_fail''"
  shows "same_life p p'"
proof (cases "connected (cs (con p))")
  case True
  then show ?thesis using assms by (simp add: chdk_connect_def api_throw_error_def same_life_def kept_refl)
next
  case False
  then show ?thesis using assms
    by (auto simp: chdk_connect_def connect_cam_usb_def connect_cam_tcp_def api_throw_error_def push_api_error_misc_def
        same_life_def kept_def Let_def split: if_splits prod.splits bind_splits dest: find_device_books)
qed

lemma disconnect_life:
  assumes i: "con_inv p" and d: "chdk_disconnect (counted pf) p = Some (r, p')"
    and pr: "con_type (cs (con p)) = PTP_CON_USB \<longrightarrow> present (counted pf) p"
  shows "con_inv p' \<and> \<not> connected (cs (con p'))"
proof -
  let ?c = "cs (con p)"
  obtain q where q: "(if connected ?c then close_camera (counted pf) p else Some p) = Some q"
    and p': "p' = upd_cs (\<lambda>c. c \<lparr> connected := False \<rparr>) q"
    using d by (auto simp: chdk_disconnect_def close_connection_def split: bind_splits)
  have goal: "con_inv p' \<and> \<not> connected (cs (con p'))"
    if "kept c' b (con q)" and "life_ok (c' \<lparr> connected := False \<rparr>) b" for c' b
    using kept_life [of "c' \<lparr> connected := False \<rparr>" b p'] connected_upd [OF that(1), of False] that(2) by (simp add: p')
  obtain H S L where b: "books (env (con p)) = (H, S, L)" by (metis prod_cases3)
  have k: "kept ?c (H, S, L) (con p)" using kept_refl [of "con p"] b by simp
  show ?thesis
  proof (cases "connected ?c")
    case False
    then have "q = p" using q by simp
    then show ?thesis using goal [of ?c "(H, S, L)"] k i b False by (simp add: same_connected)
  next
    case con: True
    show ?thesis
    proof (cases "con_type ?c = PTP_CON_USB")
      case True
      with i b con obtain h where h: "usb_handle ?c = Some h" "H = {h}" "S = {}" "L = 0"
        by (auto simp: life_ok_def)
      have "close_camera_usb (counted pf) p = Some q" using q con True by (simp add: close_camera_def)
      from postD [OF close_camera_usb_kept [OF k] this]
      have "kept ?c ({}, {}, 0) (con q)" using True pr h by simp
      then show ?thesis by (rule goal) (simp add: life_ok_def True)
    next
      case False
      with i b con obtain s t ai where h: "cmd_sock ?c = Some s" "event_sock ?c = Some t" "con_ai ?c = Some ai"
        "H = {}" "S = {s, t}" "L = 1" by (auto simp: life_ok_def)
      have "close_camera_tcp (counted pf) p = Some q" using q con False by (simp add: close_camera_def)
      from postD [OF close_camera_tcp_kept [OF k] this]
      have "kept (?c \<lparr> cmd_sock := None, event_sock := None, con_ai := None \<rparr>) ({}, {s, t} - {s} - {t}, 0) (con q)"
        using h by simp
      note k2 = this
      have e: "{s, t} - {s} - {t} = {}" by blast
      note k2 [unfolded e]
      then show ?thesis by (rule goal) (simp add: life_ok_def False)
    qed
  qed
qed

lemma check_life:
  assumes i: "con_inv p" and d: "chdk_is_connected (counted pf) p = Some (Inr b, p')" and b: "b \<or> \<not> connected (cs (con p))"
  shows "con_inv p'"
proof (cases "connected (cs (con p))")
  case False
  then show ?thesis using d i by (simp add: chdk_is_connected_def)
next
  case True
  let ?x = "if con_type (cs (con p)) = PTP_CON_USB then check_connection_status_usb (counted pf) (con p)
       else check_connection_status_tcp (con p)"
  have "chdk_is_connected (counted pf) p = ?x \<bind> (\<lambda>(ok, w). Some (Inr ok, upd_cs (\<lambda>c. c \<lparr> connected := ok \<rparr>) (p \<lparr> con := w \<rparr>)))"
    unfolding chdk_is_connected_def if_P [OF True] by (cases ?x) (simp_all only: bind.simps prod.case split_paired_all, simp)
  then obtain ok w where w: "?x = Some (ok, w)" and p': "p' = upd_cs (\<lambda>c. c \<lparr> connected := ok \<rparr>) (p \<lparr> con := w \<rparr>)" and "b = ok"
    using d by (cases ?x) auto
  then have ok: "ok" using b True by simp
  have "post (\<lambda>(_, w). kept (cs (con p)) (books (env (con p))) w) ?x"
  proof (rule post_if)
    show "post (\<lambda>(_, w). kept (cs (con p)) (books (env (con p))) w) (check_connection_status_usb (counted pf) (con p))"
      unfolding check_connection_status_usb_def usb_ptp_get_device_status_def
      by (auto intro!: post_if post_bind [OF control_msg_kept [OF kept_refl]] simp: kept_refl)
  qed (simp add: check_connection_status_tcp_def kept_refl)
  from postD [OF this w] have k: "kept (cs (con p)) (books (env (con p))) w" by simp
  have "(cs (con p)) \<lparr> connected := True \<rparr> = cs (con p)" using True by (cases "cs (con p)") simp
  then have "kept (cs (con p)) (books (env (con p))) (con p')"
    using connected_upd [OF k, of True] ok by (simp add: p')
  then show ?thesis using i kept_life by blast
qed

text \<open>C4: In every run of a script in which a connection is made over USB or TCP, used and closed in any
  order, the device stays in place and connecting does not fail half-way, a connection that is not connected
  holds no device handle, no socket and no address list, and one that is connected holds exactly its own.\<close>

theorem connection_lifecycle:
  assumes "life_reachable pf p"
  shows "con_inv p"
  using assms
proof (induction rule: life_reachable.induct)
  case (life_new spec key c n e)
  then show ?case by (rule new_con_inv)
next
  case (life_next p p')
  from life_next.hyps(2) show ?case
  proof cases
    case life_connect
    show ?thesis
    proof (cases "connected (cs (con p))")
      case True
      with life_connect show ?thesis by (simp add: chdk_connect_def api_throw_error_def)
    next
      case False
      from connect_life [OF life_next.IH False life_connect] show ?thesis by simp
    qed
  next
    case (life_refuse err)
    then show ?thesis using refuse_life same_life_inv life_next.IH by blast
  next
    case life_disconnect
    then show ?thesis using disconnect_life life_next.IH by blast
  next
    case (life_check b)
    then show ?thesis using check_life life_next.IH by blast
  next
    case (life_usb ptp flags n data r ptp' data')
    then have "same_life p p'"
      unfolding same_life_def using postD [OF usb_life.transaction_keeps [OF kept_refl] life_usb] by simp
    then show ?thesis using same_life_inv life_next.IH by blast
  next
    case (life_tcp ptp flags n data r ptp' data')
    then have "same_life p p'"
      unfolding same_life_def using postD [OF tcp_life.transaction_keeps [OF kept_refl] life_tcp] by simp
    then show ?thesis using same_life_inv life_next.IH by blast
  qed
qed

text \<open>C7: Whatever the device or the peer does, a connect that succeeds leaves the connection with exactly
  the handle or the two sockets and the address list it holds; one that fails leaves it disconnected, with
  no address list and at most one handle or socket that nothing will close any more.\<close>

theorem connect_outcome:
  assumes "con_inv p" and "\<not> connected (cs (con p))" and "chdk_connect (counted pf) p = Some (r, p')"
  shows "case r of Inr _ \<Rightarrow> connected (cs (con p')) \<and> con_inv p'
    | Inl _ \<Rightarrow> \<not> connected (cs (con p')) \<and> lists (env (con p')) = 0 \<and>
        (\<exists>x. handles (env (con p')) \<subseteq> {x} \<and> socks (env (con p')) = {} \<or> handles (env (con p')) = {} \<and> socks (env (con p')) \<subseteq> {x})"
  using assms by (rule connect_life)

text \<open>C31: The handle of a USB connection is lost in two ways: when \<open>is_connected\<close> finds that the device does
  not answer as expected it clears the flag without closing, and after that neither \<open>disconnect\<close> nor the
  garbage collector does anything; and when \<open>disconnect\<close> no longer finds the device it returns without
  closing and clears the flag.\<close>

theorem lost_device_leaks:
  assumes usb: "con_type (cs (con p)) = PTP_CON_USB" and con: "connected (cs (con p))"
  shows "(usb_ptp_get_device_status (counted pf) (con p) devstatus0 = Some (r, m, w) \<and> \<not> (0 \<le> r \<and> devstatus1 m = 0x2001) \<longrightarrow>
      (\<exists>p'. chdk_is_connected (counted pf) p = Some (Inr False, p') \<and> handles (env (con p')) = handles (env (con p)) \<and>
        chdk_disconnect (counted pf) p' = Some (Inr (), p') \<and> chdk_connection_gc (counted pf) p' = Some p')) \<and>
    (\<not> present (counted pf) p \<longrightarrow>
      (\<exists>p'. chdk_disconnect (counted pf) p = Some (Inr (), p') \<and> handles (env (con p')) = handles (env (con p)) \<and>
        \<not> connected (cs (con p')) \<and> chdk_connection_gc (counted pf) p' = Some p'))"
proof (intro conjI impI)
  assume s: "usb_ptp_get_device_status (counted pf) (con p) devstatus0 = Some (r, m, w) \<and> \<not> (0 \<le> r \<and> devstatus1 m = 0x2001)"
  let ?p = "upd_cs (\<lambda>c. c \<lparr> connected := False \<rparr>) (p \<lparr> con := w \<rparr>)"
  have "kept (cs (con p)) (books (env (con p))) w"
    using postD [OF control_msg_kept [OF kept_refl]] s unfolding usb_ptp_get_device_status_def by blast
  then have "handles (env w) = handles (env (con p))" by (simp add: kept_def books_def)
  moreover have "chdk_is_connected (counted pf) p = Some (Inr False, ?p)"
    using s usb con by (simp add: chdk_is_connected_def check_connection_status_usb_def)
  moreover have "chdk_disconnect (counted pf) ?p = Some (Inr (), ?p)" "chdk_connection_gc (counted pf) ?p = Some ?p"
    by (simp_all add: chdk_disconnect_def close_connection_def chdk_connection_gc_def)
  ultimately show "\<exists>p'. chdk_is_connected (counted pf) p = Some (Inr False, p') \<and> handles (env (con p')) = handles (env (con p)) \<and>
      chdk_disconnect (counted pf) p' = Some (Inr (), p') \<and> chdk_connection_gc (counted pf) p' = Some p'"
    by (intro exI [of _ ?p]) simp
next
  assume n: "\<not> present (counted pf) p"
  obtain l where f: "find_device_by_path (counted pf) (con_bus (cs (con p))) (con_dev (cs (con p))) (env (con p)) = (None, l)"
    using n by (cases "find_device_by_path (counted pf) (con_bus (cs (con p))) (con_dev (cs (con p))) (env (con p))")
      (simp add: present_def)
  let ?p = "upd_cs (\<lambda>c. c \<lparr> connected := False \<rparr>) (upd_env (\<lambda>_. l) p)"
  have "chdk_disconnect (counted pf) p = Some (Inr (), ?p)"
    using f usb con by (simp add: chdk_disconnect_def close_connection_def close_camera_def close_camera_usb_def)
  moreover have "handles l = handles (env (con p))" using find_device_books [OF f] by (simp add: books_def)
  moreover have "chdk_connection_gc (counted pf) ?p = Some ?p" by (simp add: chdk_connection_gc_def)
  ultimately show "\<exists>p'. chdk_disconnect (counted pf) p = Some (Inr (), p') \<and> handles (env (con p')) = handles (env (con p)) \<and>
      \<not> connected (cs (con p')) \<and> chdk_connection_gc (counted pf) p' = Some p'"
    by (intro exI [of _ ?p]) simp
qed

section \<open>Examples\<close>

text \<open>A camera on bus \<open>1\<close> that has stopped working: it is on the bus if the world says so, can be opened,
  and answers nothing.\<close>

definition example_dev :: usb_dev where
  "example_dev =
     \<lparr> dev_dirname = str ''1'', dev_filename = str ''2'', idVendor = 0x04a9, idProduct = 1,
       usb_config = Some \<lparr> bConfigurationValue = 1, bNumInterfaces = 1, bInterfaceClass = 6, bInterfaceNumber = 0,
         usb_endpoints = [\<lparr> bmAttributes = 2, bEndpointAddress = 0x81, wMaxPacketSize = 512 \<rparr>,
                          \<lparr> bmAttributes = 2, bEndpointAddress = 0x02, wMaxPacketSize = 512 \<rparr>] \<rparr> \<rparr>"

definition example_host :: "bool usb_host" where
  "example_host =
     \<lparr> usb_bulk = \<lparr> usb_bulk_read = (\<lambda>h ep n e. (- 1, [], e)), usb_bulk_write = (\<lambda>h ep bs e. (- 1, e)) \<rparr>,
       usb_find_busses = id, usb_find_devices = id,
       usb_get_busses = (\<lambda>b. [(str ''1'', if b then [example_dev] else [])]),
       usb_open = (\<lambda>dev e. (Some 0, e)), usb_set_configuration = (\<lambda>h n e. e), usb_claim_interface = (\<lambda>h n e. e),
       usb_release_interface = (\<lambda>h n e. e), usb_reset = (\<lambda>h e. e), usb_close = (\<lambda>h e. e),
       usb_control_msg = (\<lambda>h t r v i n e. (- 1, [], e)) \<rparr>"

definition example_tcp :: "bool tcp_host" where
  "example_tcp =
     \<lparr> tcp_sockets = \<lparr> send = (\<lambda>s bs e. (- 1, e)), recv = (\<lambda>s n e. (- 1, [], e)) \<rparr>,
       getaddrinfo = (\<lambda>hn pn e. (1, [], e)), freeaddrinfo = (\<lambda>ai e. e), socket = (\<lambda>ai e. (None, e)),
       sock_connect = (\<lambda>s ai e. (- 1, e)), sockutil_close = (\<lambda>s e. e) \<rparr>"

definition example_pf :: "bool platform" where
  "example_pf =
     \<lparr> host = example_host, tcp = example_tcp, usb_reset_on_close = False,
       heap = (\<lambda>n. Some (replicate n 0)), locals = (\<lambda>n. replicate n 0) \<rparr>"

definition example_object :: "bool \<Rightarrow> bool ledger con_world PTPParams" where
  "example_object b =
     zero_params \<lparr> cs = usb_con_state (str ''1'') (str ''2''),
                   env = \<lparr> handles = {}, socks = {}, lists = 0, fresh = 7, inner = b \<rparr> \<rparr>"

definition example_connected :: "bool ledger con_world PTPParams" where
  "example_connected =
     zero_params \<lparr> cs = (usb_con_state (str ''1'') (str ''2'')) \<lparr> connected := True, usb_handle := Some 7 \<rparr>,
                   env = \<lparr> handles = {7}, socks = {}, lists = 0, fresh = 8, inner = False \<rparr> \<rparr>"

text \<open>A session is not opened when writes fail.\<close>

lemma opensession_dead:
  assumes "\<And>bs w. fst (write_func io bs w) \<noteq> PTP_RC_OK"
  shows "\<exists>bs. ptp_opensession (usb_transport io) p n =
    Some (PTP_ERROR_IO, p \<lparr> transaction_id := 1, con := snd (write_func io bs (con p)), session_id := n \<rparr>)"
  using assms
  by (simp add: ptp_opensession_def transaction_nodata usb_transport_def usb_sendreq_eq usb_write_def split_beta
      PTP_CNT_INIT_def numbered_def) blast

lemma example_session:
  "ptp_opensession (usb_session (counted example_pf)) p n = Some (PTP_ERROR_IO, p \<lparr> transaction_id := 1, session_id := n \<rparr>)"
proof -
  have w: "write_func (usb_io (heap (counted example_pf)) (locals (counted example_pf)) (usb_bulk (host (counted example_pf)))) bs v =
      (PTP_ERROR_IO, v)" for bs v
    by (simp add: usb_io_def ptp_usb_write_func_def counted_def counted_host_def example_pf_def example_host_def with_inner_def)
  show ?thesis
    using opensession_dead [of "usb_io (heap (counted example_pf)) (locals (counted example_pf)) (usb_bulk (host (counted example_pf)))" p n]
    by (simp add: w usb_tr_def)
qed

lemma example_host_fields [simp]:
  "usb_open (host (counted example_pf)) dev l = (Some (fresh l), l \<lparr> fresh := Suc (fresh l), handles := insert (fresh l) (handles l) \<rparr>)"
  "usb_close (host (counted example_pf)) d l = l \<lparr> handles := handles l - set_option d \<rparr>"
  "usb_set_configuration (host (counted example_pf)) d n l = l" "usb_claim_interface (host (counted example_pf)) d n l = l"
  "usb_release_interface (host (counted example_pf)) d n l = l" "\<not> usb_reset_on_close (counted example_pf)"
  "usb_control_msg (host (counted example_pf)) d t r v i k l = (- 1, [], l)"
  by (cases l; simp add: counted_def counted_host_def example_pf_def example_host_def with_inner_def with_inner3_def on_inner_def)+

lemma example_find [simp]:
  "find_device_by_path (counted example_pf) (str ''1'') (str ''2'') l = (if inner l then Some example_dev else None, l)"
  by (cases l) (simp add: counted_def counted_host_def example_pf_def example_host_def on_inner_def example_dev_def
      find_device_by_path_def get_busses_def USB_IS_PTP_def USB_CLASS_PTP_def)

lemmas example_defs = example_dev_def example_object_def example_connected_def
  usb_con_state_def zero_con_state_def zero_params_def PTP_CON_USB_def

lemma example_refused:
  "map_option (\<lambda>(r, p). (r, usb_handle (cs (con p)), handles (env (con p)))) (chdk_connect (counted example_pf) (example_object True)) =
    Some (Inl (Api_Error (push_api_error_misc ''connect_fail'' (Some ''connection failed'') False)), Some 8, {8})"
  by (simp add: chdk_connect_def connect_cam_usb_def open_camera_dev_usb_def init_ptp_usb_def reopen_camera_dev_usb_def
      usb_ptp_device_reset_def usb_ptp_get_device_status_def control_msg_def close_usb_def reset_counters_def init_params_def
      api_throw_error_def devstatus0_def blit_def Let_def example_session example_defs)

theorem connect_outcome_witness:
  "\<exists>e p'. chdk_connect (counted example_pf) (example_object True) = Some (Inl e, p') \<and>
    \<not> connected (cs (con p')) \<and> lists (env (con p')) = 0 \<and> handles (env (con p')) = {8}"
proof -
  obtain e p' where p': "chdk_connect (counted example_pf) (example_object True) = Some (Inl e, p')"
    "handles (env (con p')) = {8}"
    using example_refused by auto
  have i: "con_inv (example_object True)" "\<not> connected (cs (con (example_object True)))"
    by (simp_all add: example_defs life_ok_def books_def)
  show ?thesis using connect_outcome [OF i p'(1)] p' by auto
qed

theorem lost_device_leaks_witness:
  "(\<exists>p'. chdk_is_connected (counted example_pf) example_connected = Some (Inr False, p') \<and> handles (env (con p')) = {7} \<and>
      chdk_disconnect (counted example_pf) p' = Some (Inr (), p')) \<and>
   (\<exists>p'. chdk_disconnect (counted example_pf) example_connected = Some (Inr (), p') \<and> handles (env (con p')) = {7} \<and>
      \<not> connected (cs (con p')))"
proof -
  have h: "con_type (cs (con example_connected)) = PTP_CON_USB" "connected (cs (con example_connected))"
    "handles (env (con example_connected)) = {7}" "\<not> present (counted example_pf) example_connected"
    by (simp_all add: example_defs present_def)
  have s: "usb_ptp_get_device_status (counted example_pf) (con example_connected) devstatus0 = Some (- 1, devstatus0, con example_connected)"
    by (simp add: usb_ptp_get_device_status_def control_msg_def blit_def example_defs)
  show ?thesis using lost_device_leaks [OF h(1,2), of example_pf "- 1" devstatus0 "con example_connected"] h(3,4) s by auto
qed

text \<open>The device is gone: connecting is refused, and the connection, closed by the script, holds nothing.\<close>

theorem connection_lifecycle_witness:
  "\<exists>p1 p2. chdk_connect (counted example_pf) (example_object False) =
      Some (Inl (Api_Error (push_api_error_misc ''connect_no_dev'' (Some ''no matching device'') False)), p1) \<and>
    chdk_is_connected (counted example_pf) p1 = Some (Inr False, p2) \<and> con_inv p2"
proof -
  have new: "life_reachable example_pf (example_object False)"
    using life_new [of "Some \<lparr> spec_bus = Some (str ''1''), spec_dev = Some (str ''2''), spec_host = None, spec_port = None \<rparr>"
        "usb_key (str ''1'') (str ''2'')" "usb_con_state (str ''1'') (str ''2'')" example_pf 7 False]
    by (simp add: example_object_def connection_spec_def get_lua_devspec_usb_def LIBUSB_PATH_MAX_def str_def)
  have c: "chdk_connect (counted example_pf) (example_object False) =
      Some (Inl (Api_Error (push_api_error_misc ''connect_no_dev'' (Some ''no matching device'') False)), example_object False)"
    by (simp add: chdk_connect_def connect_cam_usb_def api_throw_error_def example_defs)
  have d: "chdk_is_connected (counted example_pf) (example_object False) = Some (Inr False, example_object False)"
    by (simp add: chdk_is_connected_def example_defs)
  have "life_reachable example_pf (example_object False)"
    by (rule life_next [OF life_next [OF new life_refuse [OF c]] life_check [OF d]])
      (simp_all add: push_api_error_misc_def example_defs)
  then show ?thesis using c d connection_lifecycle by blast
qed

end
