(* ===== verification/Con_Objects.thy ===== *)
theory Con_Objects
  imports Con_Life
begin

text \<open>
  The connection objects of \<open>chdk.connection\<close>: the weak table by which an address always gives the same
  object, and the keys under which it finds them.
\<close>

section \<open>Addresses\<close>

definition key_of :: "PTP_CON_STATE \<Rightarrow> bytes" where
  "key_of c = (if con_type c = PTP_CON_USB then usb_key (con_bus c) (con_dev c) else tcp_key (con_host c) (con_port c))"

lemma key_of_new: "connection_spec spec = Inr (key, c) \<Longrightarrow> key_of c = key"
  by (auto simp: connection_spec_def key_of_def usb_con_state_def tcp_con_state_def PTP_CON_USB_def PTP_CON_TCP_def Let_def
      split: option.splits if_splits prod.splits)

text \<open>The key is shorter than the array that \<open>sprintf\<close> writes it to, and so are its parts.\<close>

lemma key_length:
  assumes "connection_spec spec = Inr (key, c)"
  shows "length key < LIBUSB_PATH_MAX * 2 + 4"
  using assms
  by (auto simp: connection_spec_def usb_key_def tcp_key_def str_def PTPIP_PORT_STR_def Let_def
      split: option.splits if_splits prod.splits)

text \<open>No operation on a connection changes its key.\<close>

lemma kept_key: "kept c b w \<Longrightarrow> key_of (cs w) = key_of c"
  using con_static_fields [of "cs w" c] by (simp add: kept_def key_of_def)

lemma key_of_upd [simp]:
  "key_of (c \<lparr> usb_handle := h \<rparr>) = key_of c" "key_of (c \<lparr> connected := b \<rparr>) = key_of c"
  "key_of (c \<lparr> cmd_sock := s \<rparr>) = key_of c" "key_of (c \<lparr> event_sock := s \<rparr>) = key_of c"
  "key_of (c \<lparr> con_ai := ai \<rparr>) = key_of c" "key_of (c \<lparr> script_id := i \<rparr>) = key_of c"
  by (simp_all add: key_of_def)

lemma connect_key:
  assumes "con_inv p" and "chdk_connect (counted pf) p = Some (r, p')"
  shows "key_of (cs (con p')) = key_of (cs (con p))"
proof (cases "connected (cs (con p))")
  case True
  then show ?thesis using assms(2) by (simp add: chdk_connect_def api_throw_error_def)
next
  case n: False
  show ?thesis
  proof (cases "con_type (cs (con p)) = PTP_CON_USB")
    case True
    let ?c = "cs (con p)"
    have k: "kept ?c ({}, {}, 0) (con p)"
      using assms(1) n True kept_refl [of "con p"] by (auto simp: life_ok_def split: prod.splits)
    have u: "connect_cam_usb (counted pf) p = Some (r, p')" using assms(2) n True by (simp add: chdk_connect_def)
    show ?thesis using postD [OF connect_usb_kept [OF k True n] u] by (cases r) (auto dest: kept_key)
  next
    case False
    let ?c = "cs (con p)"
    have k: "kept ?c ({}, {}, 0) (con p)" and s: "cmd_sock ?c = None" "event_sock ?c = None" "con_ai ?c = None"
      using assms(1) n False kept_refl [of "con p"] by (auto simp: life_ok_def split: prod.splits)
    have u: "connect_cam_tcp (counted pf) p = Some (r, p')" using assms(2) n False by (simp add: chdk_connect_def)
    show ?thesis using postD [OF connect_tcp_kept [OF k n s] u] by (cases r) (auto dest: kept_key)
  qed
qed

text \<open>Two addresses with the same key: the slash does not separate bus and device.\<close>

lemma usb_key_ambiguous:
  "usb_key (str ''1/2'') (str ''3'') = usb_key (str ''1'') (str ''2/3'')"
  by (simp add: usb_key_def str_def)

section \<open>The table of connections\<close>

text \<open>The garbage collector removes an object and, the table being weak, its entry.\<close>

definition collect_object :: "nat \<Rightarrow> con_objects \<Rightarrow> con_objects" where
  "collect_object i st =
     st \<lparr> objects := (objects st)(i := None),
          con_list := (\<lambda>k. if con_list st k = Some i then None else con_list st k) \<rparr>"

inductive objects_step :: "con_objects \<Rightarrow> con_objects \<Rightarrow> bool" where
  objects_new: "chdk_connection spec st = (r, st') \<Longrightarrow> objects_step st st'"
| objects_method: "objects st i = Some q \<Longrightarrow> key_of (con q') = key_of (con q) \<Longrightarrow>
    objects_step st (st \<lparr> objects := (objects st)(i := Some q') \<rparr>)"
| objects_collect: "objects_step st (collect_object i st)"

inductive objects_reachable :: "con_objects \<Rightarrow> bool" where
  objects_init: "objects_reachable \<lparr> con_list = (\<lambda>_. None), objects = (\<lambda>_. None), next_object = n \<rparr>"
| objects_next: "objects_reachable st \<Longrightarrow> objects_step st st' \<Longrightarrow> objects_reachable st'"

definition objects_ok :: "con_objects \<Rightarrow> bool" where
  "objects_ok st \<longleftrightarrow>
     (\<forall>i q. objects st i = Some q \<longrightarrow> con_list st (key_of (con q)) = Some i \<and> i < next_object st) \<and>
     (\<forall>k i. con_list st k = Some i \<longrightarrow> (\<exists>q. objects st i = Some q \<and> key_of (con q) = k))"

lemma objects_okI:
  assumes "\<And>i q. objects st i = Some q \<Longrightarrow> con_list st (key_of (con q)) = Some i \<and> i < next_object st"
    and "\<And>k i. con_list st k = Some i \<Longrightarrow> \<exists>q. objects st i = Some q \<and> key_of (con q) = k"
  shows "objects_ok st"
  using assms by (auto simp: objects_ok_def)

lemma objects_okD:
  assumes "objects_ok st"
  shows "objects st i = Some q \<Longrightarrow> con_list st (key_of (con q)) = Some i"
    and "objects st i = Some q \<Longrightarrow> i < next_object st"
    and "con_list st k = Some i \<Longrightarrow> \<exists>q. objects st i = Some q \<and> key_of (con q) = k"
  using assms by (auto simp: objects_ok_def)

lemma con_zero_params [simp]: "con (zero_params w) = w"
  by (simp add: zero_params_def)

lemma chdk_connection_ok:
  assumes "objects_ok st" and "chdk_connection spec st = (r, st')"
  shows "objects_ok st'"
proof (cases "connection_spec spec")
  case (Inl err)
  then show ?thesis using assms by (simp add: chdk_connection_def)
next
  case (Inr x)
  obtain key c where x: "x = (key, c)" by fastforce
  note key = key_of_new [OF Inr [unfolded x]]
  have free: "objects st (next_object st) = None"
    using objects_okD(2) [OF assms(1), of "next_object st"] by (cases "objects st (next_object st)") auto
  show ?thesis
  proof (cases "con_list st key")
    case (Some i)
    then show ?thesis using assms Inr x by (simp add: chdk_connection_def)
  next
    case None
    have other: "key_of (con q) \<noteq> key" if "objects st i = Some q" for i q
      using objects_okD(1) [OF assms(1) that] None by auto
    have fresh: "con_list st k \<noteq> Some (next_object st)" for k
      using objects_okD(3) [OF assms(1), of k "next_object st"] free by auto
    obtain q0 where "objects st' = (objects st)(next_object st \<mapsto> q0)" and "key_of (con q0) = key"
      and "con_list st' = (con_list st)(key \<mapsto> next_object st)" and "next_object st' = Suc (next_object st)"
      using assms(2) Inr x key None by (auto simp: chdk_connection_def Let_def)
    note new = this
    show ?thesis
    proof (rule objects_okI)
      fix i q assume q: "objects st' i = Some q"
      show "con_list st' (key_of (con q)) = Some i \<and> i < next_object st'"
      proof (cases "i = next_object st")
        case True
        with q new show ?thesis by simp
      next
        case False
        with q new have "objects st i = Some q" by simp
        with new other objects_okD(1,2) [OF assms(1)] show ?thesis by (simp add: less_SucI)
      qed
    next
      fix k i assume "con_list st' k = Some i"
      then show "\<exists>q. objects st' i = Some q \<and> key_of (con q) = k"
        using new fresh [of k] objects_okD(3) [OF assms(1), of k i] by (cases "k = key") auto
    qed
  qed
qed

lemma objects_reachable_ok: "objects_reachable st \<Longrightarrow> objects_ok st"
proof (induction rule: objects_reachable.induct)
  case (objects_init n)
  then show ?case by (simp add: objects_ok_def)
next
  case (objects_next st st')
  from objects_next.hyps(2) show ?case
  proof cases
    case (objects_new spec r)
    then show ?thesis using chdk_connection_ok objects_next.IH by blast
  next
    case (objects_method i q q')
    note ok = objects_okD [OF objects_next.IH]
    show ?thesis
    proof (rule objects_okI)
      fix j r assume "objects st' j = Some r"
      then show "con_list st' (key_of (con r)) = Some j \<and> j < next_object st'"
        using objects_method ok(1,2) by (cases "j = i") auto
    next
      fix k j assume "con_list st' k = Some j"
      then show "\<exists>r. objects st' j = Some r \<and> key_of (con r) = k"
        using objects_method ok(3) [of k j] by (cases "j = i") auto
    qed
  next
    case (objects_collect i)
    then show ?thesis using objects_next.IH by (auto simp: objects_ok_def collect_object_def)
  qed
qed

text \<open>C8: At every moment of a run, an address that is accepted gives the one object with its key: asking for
  it again gives the same object and makes nothing new, the objects there were are untouched, and the key
  fits the array it is written to.\<close>

theorem connection_object_unique:
  assumes "objects_reachable st" and "connection_spec spec = Inr (key, c)"
  shows "\<exists>i q st'. chdk_connection spec st = (Inr i, st') \<and> objects st' i = Some q \<and> key_of (con q) = key \<and>
    chdk_connection spec st' = (Inr i, st') \<and> (\<forall>j r. objects st' j = Some r \<and> key_of (con r) = key \<longrightarrow> j = i) \<and>
    (\<forall>j r. objects st j = Some r \<longrightarrow> objects st' j = Some r) \<and> length key < LIBUSB_PATH_MAX * 2 + 4"
proof -
  have ok: "objects_ok st" using assms(1) by (rule objects_reachable_ok)
  obtain r st' where c: "chdk_connection spec st = (r, st')" by fastforce
  have ok': "objects_ok st'" using ok c by (rule chdk_connection_ok)
  obtain i where i: "r = Inr i" "con_list st' key = Some i"
    using c assms(2) by (auto simp: chdk_connection_def Let_def split: option.splits)
  obtain q where q: "objects st' i = Some q" "key_of (con q) = key"
    using objects_okD(3) [OF ok' i(2)] by blast
  have again: "chdk_connection spec st' = (Inr i, st')" using assms(2) i(2) by (simp add: chdk_connection_def)
  have one: "\<forall>j r. objects st' j = Some r \<and> key_of (con r) = key \<longrightarrow> j = i"
    using objects_okD(1) [OF ok'] i(2) by fastforce
  have old: "\<forall>j r. objects st j = Some r \<longrightarrow> objects st' j = Some r"
    using c assms(2) objects_okD(2) [OF ok, of "next_object st"]
    by (auto simp: chdk_connection_def Let_def split: option.splits)
  show ?thesis using c i q again one old key_length [OF assms(2)] by blast
qed

theorem connection_object_unique_witness:
  "\<exists>i st'. chdk_connection (Some \<lparr> spec_bus = Some (str ''1''), spec_dev = Some (str ''2''), spec_host = None, spec_port = None \<rparr>)
      \<lparr> con_list = (\<lambda>_. None), objects = (\<lambda>_. None), next_object = 5 \<rparr> = (Inr i, st') \<and>
    chdk_connection (Some \<lparr> spec_bus = Some (str ''1''), spec_dev = Some (str ''2''), spec_host = None, spec_port = None \<rparr>) st' = (Inr i, st')"
proof -
  have s: "connection_spec (Some \<lparr> spec_bus = Some (str ''1''), spec_dev = Some (str ''2''), spec_host = None, spec_port = None \<rparr>) =
      Inr (usb_key (str ''1'') (str ''2''), usb_con_state (str ''1'') (str ''2''))"
    by (simp add: connection_spec_def get_lua_devspec_usb_def LIBUSB_PATH_MAX_def str_def)
  show ?thesis using connection_object_unique [OF objects_init s, of 5] by blast
qed

end
