(* ===== verification/Lua_Api.thy ===== *)
theory Lua_Api
  imports Con_Life Lbuf
begin

text \<open>
  The methods of a connection object (\<open>chdkptp.c\<close>, from \<open>chdk_camera_api_version\<close> to
  \<open>chdk_ptp_send_object\<close>). A method gets the transport of the connection and its arguments, returns
  its results or throws, and gives the connection afterwards. Numbers from a script are integers; a
  conversion to \<open>unsigned\<close> that C leaves undefined has no result.
\<close>

section \<open>Values for scripts\<close>

text \<open>The values a method returns: plain ones, a buffer, an array of numbers, a table.\<close>

datatype lua_data = Val lua_value | Buf lBuf | Arr "int list" | Table "(string \<times> lua_data) list"

abbreviation Num :: "int \<Rightarrow> lua_data" where "Num n \<equiv> Val (LNum n)"
abbreviation Str :: "string \<Rightarrow> lua_data" where "Str s \<equiv> Val (LStr (str s))"

text \<open>\<open>lua_pushstring\<close> of a C string, which may be null.\<close>

definition pushstring :: "bytes option \<Rightarrow> lua_data" where
  "pushstring s = (case s of None \<Rightarrow> Val LNil | Some bs \<Rightarrow> Val (LStr bs))"

text \<open>\<open>CHDK_ENSURE_CONNECTED\<close>.\<close>

definition CHDK_ENSURE_CONNECTED :: "'e con_world PTPParams \<Rightarrow> ('r, 'e con_world) lua_call \<Rightarrow> ('r, 'e con_world) lua_call" where
  "CHDK_ENSURE_CONNECTED p k =
     (if \<not> connected (cs (con p)) then Some (Inl (Api_Error (push_api_error_ptp PTP_ERROR_NOT_CONNECTED)), p) else k)"

text \<open>An array of the first \<open>n\<close> elements; \<open>count\<close> is an \<open>int\<close>.\<close>

definition lu_pusharray_raw_u32 :: "u32 \<Rightarrow> u32 list \<Rightarrow> lua_data option" where
  "lu_pusharray_raw_u32 count values =
     (if nat (sint count) \<le> length values then Some (Arr (map uint (take (nat (sint count)) values))) else None)"

definition lu_pusharray_raw_u16 :: "u32 \<Rightarrow> u16 list \<Rightarrow> lua_data option" where
  "lu_pusharray_raw_u16 count values =
     (if nat (sint count) \<le> length values then Some (Arr (map uint (take (nat (sint count)) values))) else None)"

section \<open>Versions and scripts\<close>

definition PTP_CHDK_VERSION_MAJOR :: int where "PTP_CHDK_VERSION_MAJOR = 2"
definition PTP_CHDK_VERSION_MINOR :: int where "PTP_CHDK_VERSION_MINOR = 9"

definition chdk_host_api_version :: lua_data where
  "chdk_host_api_version =
     Table [(''MAJOR'', Num PTP_CHDK_VERSION_MAJOR), (''MINOR'', Num PTP_CHDK_VERSION_MINOR)]"

definition chdk_camera_api_version ::
  "('e con_world, 'f) transport \<Rightarrow> 'e con_world PTPParams \<Rightarrow> (lua_data list, 'e con_world) lua_call" where
  "chdk_camera_api_version tr p = CHDK_ENSURE_CONNECTED p (do {
     (ret, major, minor, p) \<leftarrow> ptp_chdk_get_version tr p;
     api_check_ptp_throw ret p (Some (Inr [Num (sint major), Num (sint minor)], p))
   })"

definition PTP_CHDK_S_ERRTYPE_NONE :: u32 where "PTP_CHDK_S_ERRTYPE_NONE = 0"
definition PTP_CHDK_S_ERRTYPE_COMPILE :: u32 where "PTP_CHDK_S_ERRTYPE_COMPILE = 1"
definition PTP_CHDK_S_ERR_SCRIPTRUNNING :: u32 where "PTP_CHDK_S_ERR_SCRIPTRUNNING = 0x1000"

text \<open>The script id is stored whatever the outcome.\<close>

definition chdk_execlua ::
  "('e con_world, 'f) transport \<Rightarrow> 'e con_world PTPParams \<Rightarrow> bytes \<Rightarrow> u32 \<Rightarrow> (lua_data list, 'e con_world) lua_call" where
  "chdk_execlua tr p code flags = CHDK_ENSURE_CONNECTED p (do {
     (ret, sid, status, p) \<leftarrow> ptp_chdk_exec_lua tr p code flags;
     let p = upd_cs (\<lambda>c. c \<lparr> script_id := sid \<rparr>) p;
     api_check_ptp_throw ret p
       (if status = PTP_CHDK_S_ERRTYPE_NONE then Some (Inr [], p)
        else if status = PTP_CHDK_S_ERRTYPE_COMPILE then api_throw_error ''execlua_compile'' ''compile error'' p
        else if status = PTP_CHDK_S_ERR_SCRIPTRUNNING
        then api_throw_error ''execlua_scriptrun'' ''a script is already running'' p
        else api_throw_error_critical ''unknown'' ''unknown error'' p)
   })"

definition chdk_get_script_id :: "'e con_world PTPParams \<Rightarrow> (lua_data list, 'e con_world) lua_call" where
  "chdk_get_script_id p =
     (let i = script_id (cs (con p)) in
      Some (Inr [if i \<noteq> 0 then Num (sint i) else Val (LBool False)], p))"

definition chdk_script_support ::
  "('e con_world, 'f) transport \<Rightarrow> 'e con_world PTPParams \<Rightarrow> (lua_data list, 'e con_world) lua_call" where
  "chdk_script_support tr p = CHDK_ENSURE_CONNECTED p (do {
     (ret, status, p) \<leftarrow> ptp_chdk_get_script_support tr p;
     api_check_ptp_throw ret p (Some (Inr [Num (uint status)], p))
   })"

definition PTP_CHDK_SCRIPT_STATUS_RUN :: u32 where "PTP_CHDK_SCRIPT_STATUS_RUN = 1"
definition PTP_CHDK_SCRIPT_STATUS_MSG :: u32 where "PTP_CHDK_SCRIPT_STATUS_MSG = 2"

definition chdk_script_status ::
  "('e con_world, 'f) transport \<Rightarrow> 'e con_world PTPParams \<Rightarrow> (lua_data list, 'e con_world) lua_call" where
  "chdk_script_status tr p = CHDK_ENSURE_CONNECTED p (do {
     (ret, status, p) \<leftarrow> ptp_chdk_get_script_status tr p;
     api_check_ptp_throw ret p
       (Some (Inr [Table [(''run'', Val (LBool (status AND PTP_CHDK_SCRIPT_STATUS_RUN \<noteq> 0))),
                          (''msg'', Val (LBool (status AND PTP_CHDK_SCRIPT_STATUS_MSG \<noteq> 0)))]], p))
   })"

section \<open>Messages\<close>

text \<open>The constants of \<open>ptp_chdk_script_msg_type\<close> and \<open>ptp_chdk_script_data_type\<close>.\<close>

definition PTP_CHDK_S_MSGTYPE_ERR :: u32 where "PTP_CHDK_S_MSGTYPE_ERR = 1"
definition PTP_CHDK_S_MSGTYPE_RET :: u32 where "PTP_CHDK_S_MSGTYPE_RET = 2"
definition PTP_CHDK_S_MSGTYPE_USER :: u32 where "PTP_CHDK_S_MSGTYPE_USER = 3"

definition PTP_CHDK_TYPE_UNSUPPORTED :: u32 where "PTP_CHDK_TYPE_UNSUPPORTED = 0"
definition PTP_CHDK_TYPE_BOOLEAN :: u32 where "PTP_CHDK_TYPE_BOOLEAN = 2"
definition PTP_CHDK_TYPE_INTEGER :: u32 where "PTP_CHDK_TYPE_INTEGER = 3"
definition PTP_CHDK_TYPE_STRING :: u32 where "PTP_CHDK_TYPE_STRING = 4"
definition PTP_CHDK_TYPE_TABLE :: u32 where "PTP_CHDK_TYPE_TABLE = 5"

definition name_in :: "string list \<Rightarrow> string \<Rightarrow> u32 \<Rightarrow> string" where
  "name_in names other n = (if unat n \<ge> length names then other else names ! unat n)"

definition script_msg_type_to_name :: "u32 \<Rightarrow> string" where
  "script_msg_type_to_name = name_in [''none'', ''error'', ''return'', ''user''] ''unknown_msg_type''"

definition script_msg_data_type_to_name :: "u32 \<Rightarrow> string" where
  "script_msg_data_type_to_name =
     name_in [''unsupported'', ''nil'', ''boolean'', ''integer'', ''string'', ''table''] ''unknown_msg_subtype''"

definition script_msg_error_type_to_name :: "u32 \<Rightarrow> string" where
  "script_msg_error_type_to_name = name_in [''none'', ''compile'', ''runtime''] ''unknown_error_subtype''"

text \<open>\<open>*(int *)msg->data\<close>\<close>

definition msg_int :: "ptp_chdk_script_msg \<Rightarrow> u32 option" where
  "msg_int msg = map_option host32 (ldn (msg_data msg) 0 4)"

text \<open>The fields \<open>subtype\<close> and \<open>value\<close>.\<close>

definition msg_value :: "ptp_chdk_script_msg \<Rightarrow> (string \<times> lua_data) list option" where
  "msg_value msg =
     (let t = msg_type msg; s = msg_subtype msg in
      if t = PTP_CHDK_S_MSGTYPE_RET \<or> t = PTP_CHDK_S_MSGTYPE_USER then
        (let sub = (''subtype'', Str (script_msg_data_type_to_name s)) in
         if s = PTP_CHDK_TYPE_UNSUPPORTED \<or> s = PTP_CHDK_TYPE_STRING \<or> s = PTP_CHDK_TYPE_TABLE then do {
           bs \<leftarrow> ldn (msg_data msg) 0 (unat (msg_size msg));
           Some [sub, (''value'', Val (LStr bs))]
         }
         else if s = PTP_CHDK_TYPE_BOOLEAN then do {
           n \<leftarrow> msg_int msg; Some [sub, (''value'', Val (LBool (n \<noteq> 0)))] }
         else if s = PTP_CHDK_TYPE_INTEGER then do {
           n \<leftarrow> msg_int msg; Some [sub, (''value'', Num (sint n))] }
         else Some [sub])
      else if t = PTP_CHDK_S_MSGTYPE_ERR then do {
        bs \<leftarrow> ldn (msg_data msg) 0 (unat (msg_size msg));
        Some [(''subtype'', Str (script_msg_error_type_to_name s)), (''value'', Val (LStr bs))]
      }
      else Some [])"

definition chdk_read_msg ::
  "('e con_world, 'f) transport \<Rightarrow> 'e con_world PTPParams \<Rightarrow> (lua_data list, 'e con_world) lua_call" where
  "chdk_read_msg tr p = CHDK_ENSURE_CONNECTED p (do {
     (ret, msg, p) \<leftarrow> ptp_chdk_read_script_msg tr p;
     api_check_ptp_throw ret p (do {
       msg \<leftarrow> msg;
       fields \<leftarrow> msg_value msg;
       Some (Inr [Table ([(''script_id'', Num (uint (msg_script_id msg))),
                          (''type'', Str (script_msg_type_to_name (msg_type msg)))] @ fields)], p)
     })
   })"

text \<open>The target is the last script by default. A missing or empty string is an error.\<close>

definition chdk_write_msg ::
  "('e con_world, 'f) transport \<Rightarrow> 'e con_world PTPParams \<Rightarrow> bytes option \<Rightarrow> u32 option \<Rightarrow>
   (lua_data list, 'e con_world) lua_call" where
  "chdk_write_msg tr p s target = CHDK_ENSURE_CONNECTED p
     (let target = (case target of None \<Rightarrow> script_id (cs (con p)) | Some n \<Rightarrow> n) in
      case s of
        None \<Rightarrow> api_throw_error_critical ''bad_arg'' ''invalid data'' p
      | Some bs \<Rightarrow>
          if bs = [] then api_throw_error_critical ''bad_arg'' ''invalid data'' p
          else do {
            (ret, status, p) \<leftarrow> ptp_chdk_write_script_msg tr p bs (of_nat (length bs)) target;
            api_check_ptp_throw ret p
              (if status = 0 then Some (Inr [], p)
               else if status = 1 then api_throw_error ''msg_notrun'' ''no script running'' p
               else if status = 2 then api_throw_error ''msg_full'' ''message queue full'' p
               else if status = 3 then api_throw_error ''msg_badid'' ''bad script id'' p
               else api_throw_error_critical ''internal_error'' ''unexpected status code'' p)
          })"

section \<open>Files, remote capture, memory\<close>

definition chdk_upload ::
  "'f stdio \<Rightarrow> ('e con_world, 'f) transport \<Rightarrow> 'e con_world PTPParams \<Rightarrow> bytes \<Rightarrow> bytes \<Rightarrow> (lua_data list, 'e con_world) lua_call" where
  "chdk_upload io tr p src dst = CHDK_ENSURE_CONNECTED p (do {
     (ret, p) \<leftarrow> ptp_chdk_upload io tr p src dst;
     api_check_ptp_throw ret p (Some (Inr [], p))
   })"

text \<open>With the file that was written.\<close>

definition chdk_download ::
  "'f stdio \<Rightarrow> ('e con_world, 'f) transport \<Rightarrow> 'e con_world PTPParams \<Rightarrow> bytes \<Rightarrow> bytes \<Rightarrow>
   ((lua_error + lua_data list) \<times> 'e con_world PTPParams \<times> 'f option) option" where
  "chdk_download io tr p src dst =
     (if \<not> connected (cs (con p)) then Some (Inl (Api_Error (push_api_error_ptp PTP_ERROR_NOT_CONNECTED)), p, None)
      else do {
        (ret, f, p) \<leftarrow> ptp_chdk_download io tr p src dst;
        (r, p) \<leftarrow> api_check_ptp_throw ret p (Some (Inr [], p));
        Some (r, p, f)
      })"

definition chdk_capture_ready ::
  "('e con_world, 'f) transport \<Rightarrow> 'e con_world PTPParams \<Rightarrow> (lua_data list, 'e con_world) lua_call" where
  "chdk_capture_ready tr p = CHDK_ENSURE_CONNECTED p (do {
     (ret, isready, imgnum, p) \<leftarrow> ptp_chdk_rcisready tr p;
     api_check_ptp_throw ret p (Some (Inr [Num (sint isready), Num (sint imgnum)], p))
   })"

text \<open>The buffer owns what was received, \<open>rc_size\<close> is its length whatever the size of that. A null
  pointer is an object of no bytes.\<close>

definition bytes_at :: "bytes option \<Rightarrow> bytes" where
  "bytes_at data = (case data of None \<Rightarrow> [] | Some bs \<Rightarrow> bs)"

definition chdk_capture_get_chunk ::
  "('e con_world, 'f) transport \<Rightarrow> 'e con_world PTPParams \<Rightarrow> int \<Rightarrow> (lua_data list, 'e con_world) lua_call" where
  "chdk_capture_get_chunk tr p fmt = CHDK_ENSURE_CONNECTED p (do {
     fmt \<leftarrow> number_u32 fmt;
     (ret, chunk, p) \<leftarrow> ptp_chdk_rcgetchunk tr p fmt;
     api_check_ptp_throw ret p
       (Some (Inr [Table ([(''size'', Num (uint (rc_size chunk)))] @
                          (if rc_offset chunk \<noteq> - 1 then [(''offset'', Num (uint (rc_offset chunk)))] else []) @
                          [(''last'', Val (LBool (rc_last chunk))),
                           (''data'', Buf (lbuf_create (bytes_at (rc_data chunk)) (rc_size chunk) LBUF_FL_FREE))])], p))
   })"

text \<open>The conversion of a number to \<open>int\<close>.\<close>

definition number_i32 :: "int \<Rightarrow> u32 option" where
  "number_i32 n = (if - (2 ^ 31) \<le> n \<and> n < 2 ^ 31 then Some (word_of_int n) else None)"

text \<open>\<open>dest\<close> and \<open>flags\<close> are the optional last arguments. For an unknown \<open>dest\<close> nothing is pushed, and
  the last argument is what the script gets.\<close>

definition chdk_getmem ::
  "('e con_world, 'f) transport \<Rightarrow> 'e con_world PTPParams \<Rightarrow> int \<Rightarrow> int \<Rightarrow> bytes option \<Rightarrow> int option \<Rightarrow>
   (lua_data list, 'e con_world) lua_call" where
  "chdk_getmem tr p addr count dest flags = CHDK_ENSURE_CONNECTED p (do {
     addr \<leftarrow> number_u32 addr;
     n \<leftarrow> number_u32 count;
     let d = (case dest of None \<Rightarrow> str ''string'' | Some s \<Rightarrow> s);
     fl \<leftarrow> number_i32 (case flags of None \<Rightarrow> 0 | Some i \<Rightarrow> i);
     (ret, buf, p) \<leftarrow> ptp_chdk_get_memory tr p addr n fl;
     api_check_ptp_throw ret p
       (if d = str ''string'' then do {
          bs \<leftarrow> (case buf of Block m \<Rightarrow> ldn m 0 (unat n) | _ \<Rightarrow> None);
          Some (Inr [Val (LStr bs)], p)
        }
        else if d = str ''number'' then do {
          bs \<leftarrow> (case buf of Block m \<Rightarrow> ldn m 0 4 | _ \<Rightarrow> None);
          Some (Inr [Num (uint (host32 bs))], p)
        }
        else if d = str ''lbuf'' then
          Some (Inr [Buf (lbuf_create (case buf of Block m \<Rightarrow> m | _ \<Rightarrow> []) n LBUF_FL_FREE)], p)
        else Some (Inr [case flags of Some i \<Rightarrow> Num i | None \<Rightarrow> Val (LStr d)], p))
   })"

definition chdk_setmem :: "'e con_world PTPParams \<Rightarrow> (lua_data list, 'e con_world) lua_call" where
  "chdk_setmem p = api_throw_error ''not_implemented'' ''not implemented yet, use lua poke()'' p"

definition chdk_call_function ::
  "('e con_world, 'f) transport \<Rightarrow> 'e con_world PTPParams \<Rightarrow> int list \<Rightarrow> (lua_data list, 'e con_world) lua_call" where
  "chdk_call_function tr p args = CHDK_ENSURE_CONNECTED p
     (let n = length args in
      if n > 10 \<or> n < 1 then api_throw_error_critical ''bad_arg'' ''invalid number of arguments'' p
      else do {
        args \<leftarrow> those (map number_u32 args);
        (ret, r, p) \<leftarrow> ptp_chdk_call_function tr p (args @ replicate (11 - n) 0) n;
        api_check_ptp_throw ret p (do { r \<leftarrow> r; Some (Inr [Num (sint r)], p) })
      })"

text \<open>\<open>buf\<close> is the buffer to be used again.\<close>

definition chdk_get_live_data ::
  "('e con_world, 'f) transport \<Rightarrow> 'e con_world PTPParams \<Rightarrow> lBuf option \<Rightarrow> int \<Rightarrow> (lua_data list, 'e con_world) lua_call" where
  "chdk_get_live_data tr p buf flags = CHDK_ENSURE_CONNECTED p (do {
     flags \<leftarrow> number_u32 flags;
     (ret, data, n, p) \<leftarrow> ptp_chdk_get_live_data tr p flags;
     api_check_ptp_throw ret p
       (case data of
          None \<Rightarrow> api_throw_error_critical ''internal_error'' ''no data'' p
        | Some bs \<Rightarrow>
            if n = 0 then api_throw_error_critical ''internal_error'' ''zero data size'' p
            else (case buf of
                None \<Rightarrow> Some (Inr [Buf (lbuf_create bs n LBUF_FL_FREE)], p)
              | Some b \<Rightarrow> Some (Inr [Buf (b \<lparr> lb_bytes := bs, lb_len := n, lb_flags := LBUF_FL_FREE \<rparr>)], p)))
   })"

section \<open>The device\<close>

definition push_usb_dev_info :: "usb_dev \<Rightarrow> (string \<times> lua_data) list" where
  "push_usb_dev_info dev =
     [(''bus'', Val (LStr (dev_dirname dev))), (''dev'', Val (LStr (dev_filename dev))),
      (''vendor_id'', Num (uint (idVendor dev))), (''product_id'', Num (uint (idProduct dev)))]"

definition chdk_list_usb_devices :: "'e platform \<Rightarrow> 'e \<Rightarrow> (string \<times> lua_data) list list \<times> 'e" where
  "chdk_list_usb_devices pf e =
     (let (busses, e) = get_busses pf e in
      (map push_usb_dev_info (filter USB_IS_PTP (concat (map snd busses))), e))"

text \<open>For a connection over TCP the union holds no device handle.\<close>

definition chdk_dev_status :: "'e platform \<Rightarrow> 'e con_world PTPParams \<Rightarrow> (lua_data list, 'e con_world) lua_call" where
  "chdk_dev_status pf p =
     (if con_type (cs (con p)) \<noteq> PTP_CON_USB then None
      else do {
        (r, m, w) \<leftarrow> usb_ptp_get_device_status pf (con p) devstatus0;
        Some (Inr [Num r, Num (uint (host16 (take 2 m))), Num (uint (devstatus1 m))], p \<lparr> con := w \<rparr>)
      })"

definition chdk_get_ptp_devinfo :: "'e con_world PTPParams \<Rightarrow> (lua_data list, 'e con_world) lua_call" where
  "chdk_get_ptp_devinfo p = CHDK_ENSURE_CONNECTED p (do {
     let di = deviceinfo p;
     ops \<leftarrow> lu_pusharray_raw_u16 (OperationsSupported_len di) (OperationsSupported di);
     evs \<leftarrow> lu_pusharray_raw_u16 (EventsSupported_len di) (EventsSupported di);
     props \<leftarrow> lu_pusharray_raw_u16 (DevicePropertiesSupported_len di) (DevicePropertiesSupported di);
     capts \<leftarrow> lu_pusharray_raw_u16 (CaptureFormats_len di) (CaptureFormats di);
     imgs \<leftarrow> lu_pusharray_raw_u16 (ImageFormats_len di) (ImageFormats di);
     Some (Inr [Table [(''StandardVersion'', Num (uint (StandardVersion di))),
       (''VendorExtensionID'', Num (uint (VendorExtensionID di))),
       (''VendorExtensionVersion'', Num (uint (VendorExtensionVersion di))),
       (''VendorExtensionDesc'', pushstring (VendorExtensionDesc di)),
       (''FunctionalMode'', Num (uint (FunctionalMode di))),
       (''OperationsSupported'', ops), (''EventsSupported'', evs), (''DevicePropertiesSupported'', props),
       (''CaptureFormats'', capts), (''ImageFormats'', imgs),
       (''model'', pushstring (Model di)), (''manufacturer'', pushstring (Manufacturer di)),
       (''device_version'', pushstring (DeviceVersion di)), (''serial_number'', pushstring (SerialNumber di)),
       (''max_packet_size'', Num (uint (max_packet_size p)))]], p)
   })"

definition chdk_get_con_devinfo :: "'e platform \<Rightarrow> 'e con_world PTPParams \<Rightarrow> (lua_data list, 'e con_world) lua_call" where
  "chdk_get_con_devinfo pf p =
     (let c = cs (con p) in
      if con_type c = PTP_CON_USB then
        (let (dev, e) = find_device_by_path pf (con_bus c) (con_dev c) (env (con p)) in
         Some (Inr [Table ((case dev of Some dev \<Rightarrow> push_usb_dev_info dev
             | None \<Rightarrow> [(''bus'', Val (LStr (con_bus c))), (''dev'', Val (LStr (con_dev c)))]) @
             [(''transport'', Str ''usb'')])], upd_env (\<lambda>_. e) p))
      else
        Some (Inr [Table [(''host'', Val (LStr (con_host c))), (''port'', Val (LStr (con_port c))),
                          (''guid'', Val (LStr (cam_guid c))), (''transport'', Str ''ip'')]], p))"

definition chdk_reset_device :: "'e platform \<Rightarrow> 'e con_world PTPParams \<Rightarrow> devspec option \<Rightarrow> ((lua_error + lua_data list) \<times> 'e) option" where
  "chdk_reset_device pf p spec =
     (let throw = (\<lambda>etype msg. Inl (Api_Error (push_api_error_misc etype (Some msg) False))) in
      case get_lua_devspec_usb spec of
        None \<Rightarrow> Some (throw ''baddev'' ''invalid device spec'', env (con p))
      | Some (bus, dev) \<Rightarrow>
          (case find_device_by_path pf bus dev (env (con p)) of
             (None, e) \<Rightarrow> Some (throw ''nodev'' ''no matching device'', e)
           | (Some d, e) \<Rightarrow> do { e \<leftarrow> reset_device pf (upd_env (\<lambda>_. e) p) (Some d); Some (Inr [], e) }))"

definition chdk_set_usb_reset_on_close :: "bool \<Rightarrow> 'e platform \<Rightarrow> 'e platform" where
  "chdk_set_usb_reset_on_close b pf = pf \<lparr> usb_reset_on_close := b \<rparr>"

definition chdk_get_usb_reset_on_close :: "'e platform \<Rightarrow> lua_data" where
  "chdk_get_usb_reset_on_close pf = Val (LBool (usb_reset_on_close pf))"

definition chdk_reset_counters :: "'e con_world PTPParams \<Rightarrow> (lua_data list, 'e con_world) lua_call" where
  "chdk_reset_counters p = Some (Inr [], reset_counters p)"

definition chdk_get_counters :: "'e con_world PTPParams \<Rightarrow> (lua_data list, 'e con_world) lua_call" where
  "chdk_get_counters p =
     Some (Inr [Table [(''write'', Num (uint (write_count (cs (con p))))), (''read'', Num (uint (read_count (cs (con p)))))]], p)"

section \<open>Standard PTP operations\<close>

text \<open>The local structures these fill in are not initialised; they are arguments.\<close>

definition chdk_ptp_get_storage_ids ::
  "('e con_world, 'f) transport \<Rightarrow> 'e con_world PTPParams \<Rightarrow> PTPStorageIDs \<Rightarrow> (lua_data list, 'e con_world) lua_call" where
  "chdk_ptp_get_storage_ids tr p ids = CHDK_ENSURE_CONNECTED p (do {
     (ret, ids, p) \<leftarrow> ptp_getstorageids tr p ids;
     api_check_ptp_throw ret p (do {
       a \<leftarrow> lu_pusharray_raw_u32 (sids_n ids) (Storage ids);
       Some (Inr [a], p)
     })
   })"

definition null_string :: "bytes option \<Rightarrow> lua_data" where
  "null_string s = (case s of None \<Rightarrow> Str ''(null)'' | Some bs \<Rightarrow> Val (LStr bs))"

definition chdk_ptp_get_storage_info ::
  "('e con_world, 'f) transport \<Rightarrow> 'e con_world PTPParams \<Rightarrow> int \<Rightarrow> PTPStorageInfo \<Rightarrow> (lua_data list, 'e con_world) lua_call" where
  "chdk_ptp_get_storage_info tr p sid si = CHDK_ENSURE_CONNECTED p (do {
     sid \<leftarrow> number_u32 sid;
     (ret, si, p) \<leftarrow> ptp_getstorageinfo tr p sid si;
     api_check_ptp_throw ret p
       (Some (Inr [Table [(''StorageType'', Num (uint (StorageType si))),
          (''FilesystemType'', Num (uint (FilesystemType si))),
          (''AccessCapability'', Num (uint (AccessCapability si))),
          (''MaxCapability'', Num 0), (''FreeSpaceInBytes'', Num 0),
          (''FreeSpaceInImages'', Num (uint (FreeSpaceInImages si))),
          (''StorageDescription'', null_string (StorageDescription si)),
          (''VolumeLabel'', null_string (VolumeLabel si))]], p))
   })"

text \<open>Absent arguments mean all storages, any format, any association.\<close>

definition opt_number :: "int option \<Rightarrow> int \<Rightarrow> u32 option" where
  "opt_number arg def = number_u32 (case arg of None \<Rightarrow> def | Some n \<Rightarrow> n)"

definition chdk_ptp_get_object_handles ::
  "('e con_world, 'f) transport \<Rightarrow> 'e con_world PTPParams \<Rightarrow> int option \<Rightarrow> int option \<Rightarrow> int option \<Rightarrow> PTPObjectHandles \<Rightarrow>
   (lua_data list, 'e con_world) lua_call" where
  "chdk_ptp_get_object_handles tr p sid ofc assoc oh = CHDK_ENSURE_CONNECTED p (do {
     sid \<leftarrow> opt_number sid 0xFFFFFFFF;
     ofc \<leftarrow> opt_number ofc 0;
     assoc \<leftarrow> opt_number assoc 0;
     (ret, oh, p) \<leftarrow> ptp_getobjecthandles tr p sid ofc assoc oh;
     api_check_ptp_throw ret p (do {
       a \<leftarrow> lu_pusharray_raw_u32 (oh_n oh) (Handler oh);
       Some (Inr [a], p)
     })
   })"

definition chdk_ptp_get_object_info ::
  "(tm \<Rightarrow> int \<times> tm) \<Rightarrow> ('e con_world, 'f) transport \<Rightarrow> 'e con_world PTPParams \<Rightarrow> int \<Rightarrow> PTPObjectInfo \<Rightarrow>
   (lua_data list, 'e con_world) lua_call" where
  "chdk_ptp_get_object_info mktime tr p handle oi = CHDK_ENSURE_CONNECTED p (do {
     handle \<leftarrow> number_u32 handle;
     (ret, oi, p) \<leftarrow> ptp_getobjectinfo mktime tr p handle oi;
     api_check_ptp_throw ret p
       (Some (Inr [Table [(''StorageID'', Num (uint (StorageID oi))), (''ObjectFormat'', Num (uint (ObjectFormat oi))),
          (''ProtectionStatus'', Num (uint (ProtectionStatus oi))),
          (''ObjectCompressedSize'', Num (uint (ObjectCompressedSize oi))),
          (''ThumbFormat'', Num (uint (ThumbFormat oi))), (''ThumbCompressedSize'', Num (uint (ThumbCompressedSize oi))),
          (''ThumbPixWidth'', Num (uint (ThumbPixWidth oi))), (''ThumbPixHeight'', Num (uint (ThumbPixHeight oi))),
          (''ImagePixWidth'', Num (uint (ImagePixWidth oi))), (''ImagePixHeight'', Num (uint (ImagePixHeight oi))),
          (''ImageBitDepth'', Num (uint (ImageBitDepth oi))), (''ParentObject'', Num (uint (ParentObject oi))),
          (''AssociationType'', Num (uint (AssociationType oi))), (''AssociationDesc'', Num (uint (AssociationDesc oi))),
          (''SequenceNumber'', Num (uint (SequenceNumber oi))), (''Filename'', null_string (Filename oi)),
          (''CaptureDate'', Num (CaptureDate oi)), (''ModificationDate'', Num (ModificationDate oi))]], p))
   })"

text \<open>The length of the buffer is the argument of the script.\<close>

definition chdk_ptp_get_object ::
  "('e con_world, 'f) transport \<Rightarrow> 'e con_world PTPParams \<Rightarrow> int \<Rightarrow> int \<Rightarrow> (lua_data list, 'e con_world) lua_call" where
  "chdk_ptp_get_object tr p handle n = CHDK_ENSURE_CONNECTED p (do {
     handle \<leftarrow> number_u32 handle;
     n \<leftarrow> number_u32 n;
     (ret, ob, p) \<leftarrow> ptp_getobject tr p handle None;
     api_check_ptp_throw ret p (Some (Inr [Buf (lbuf_create (bytes_at ob) n LBUF_FL_FREE)], p))
   })"

text \<open>
  \<open>lu_table_checknumber\<close> and \<open>lu_table_optnumber\<close> on the numbers of the table, narrowed to the type of the
  field; the messages of Lua about a field that is missing are one message here.
\<close>

definition lu_table_optnumber :: "(string \<Rightarrow> int option) \<Rightarrow> string \<Rightarrow> int \<Rightarrow> int" where
  "lu_table_optnumber t fname d = (case t fname of None \<Rightarrow> d | Some n \<Rightarrow> n)"

definition number_u16 :: "int \<Rightarrow> u16 option" where
  "number_u16 n = (if 0 \<le> n \<and> n < 2 ^ 16 then Some (word_of_int n) else None)"

definition object_info_arg :: "(string \<Rightarrow> int option) \<Rightarrow> bytes \<Rightarrow> PTPObjectInfo \<Rightarrow> PTPObjectInfo option" where
  "object_info_arg t name oi = do {
     let opt = (\<lambda>f. lu_table_optnumber t f 0);
     storage \<leftarrow> number_u32 (opt ''StorageID'');
     objfmt \<leftarrow> t ''ObjectFormat'' \<bind> number_u16;
     prot \<leftarrow> number_u16 (opt ''ProtectionStatus'');
     objsize \<leftarrow> t ''ObjectCompressedSize'' \<bind> number_u32;
     tfmt \<leftarrow> number_u16 (opt ''ThumbFormat'');
     tsize \<leftarrow> number_u32 (opt ''ThumbCompressedSize'');
     tw \<leftarrow> number_u32 (opt ''ThumbPixWidth'');
     th \<leftarrow> number_u32 (opt ''ThumbPixHeight'');
     iw \<leftarrow> number_u32 (opt ''ImagePixWidth'');
     ih \<leftarrow> number_u32 (opt ''ImagePixHeight'');
     depth \<leftarrow> number_u32 (opt ''ImageBitDepth'');
     parent \<leftarrow> number_u32 (opt ''ParentObject'');
     atype \<leftarrow> number_u16 (opt ''AssociationType'');
     adesc \<leftarrow> number_u32 (opt ''AssociationDesc'');
     seq \<leftarrow> number_u32 (opt ''SequenceNumber'');
     Some (oi \<lparr> StorageID := storage, ObjectFormat := objfmt, ProtectionStatus := prot, ObjectCompressedSize := objsize,
                ThumbFormat := tfmt, ThumbCompressedSize := tsize, ThumbPixWidth := tw, ThumbPixHeight := th,
                ImagePixWidth := iw, ImagePixHeight := ih, ImageBitDepth := depth, ParentObject := parent,
                AssociationType := atype, AssociationDesc := adesc, SequenceNumber := seq, Filename := Some name \<rparr>)
   }"

text \<open>\<open>oi\<close> is zero in all its fields; \<open>t\<close> and \<open>name\<close> are the numbers and the file name of the table.\<close>

definition chdk_ptp_send_object_info ::
  "('e con_world, 'f) transport \<Rightarrow> 'e con_world PTPParams \<Rightarrow> PTPObjectInfo \<Rightarrow> (string \<Rightarrow> int option) \<Rightarrow> bytes option \<Rightarrow>
   int option \<Rightarrow> int option \<Rightarrow> (lua_data list, 'e con_world) lua_call" where
  "chdk_ptp_send_object_info tr p oi t name sid parent = CHDK_ENSURE_CONNECTED p (do {
     sid \<leftarrow> opt_number sid 0;
     parent \<leftarrow> opt_number parent 0;
     case (t ''ObjectFormat'', t ''ObjectCompressedSize'', name) of
       (Some _, Some _, Some name) \<Rightarrow> do {
         oi \<leftarrow> object_info_arg t name oi;
         (ret, sid, parent, handle, p) \<leftarrow> ptp_sendobjectinfo tr p sid parent oi;
         api_check_ptp_throw ret p (Some (Inr [Num (uint sid), Num (uint parent), Num (uint handle)], p))
       }
     | _ \<Rightarrow> Some (Inl (Lua_Error ''bad argument''), p)
   })"

text \<open>The object is the bytes of a buffer or a string.\<close>

definition chdk_ptp_send_object ::
  "('e con_world, 'f) transport \<Rightarrow> 'e con_world PTPParams \<Rightarrow> lBuf + bytes \<Rightarrow> (lua_data list, 'e con_world) lua_call" where
  "chdk_ptp_send_object tr p ob = CHDK_ENSURE_CONNECTED p (do {
     let (bs, n) = (case ob of Inl b \<Rightarrow> (lb_bytes b, lb_len b) | Inr s \<Rightarrow> (s, of_nat (length s)));
     (ret, p) \<leftarrow> ptp_sendobject tr p bs n;
     api_check_ptp_throw ret p (Some (Inr [], p))
   })"

end
