(* ===== verification/Lua_Msg.thy ===== *)
theory Lua_Msg
  imports Lua_Api Tcp_Con Usb_Con
begin

text \<open>
  From the camera to the script: what \<open>read_msg\<close> gives to a script for a message of the camera, the same
  over USB and over TCP, and what a script can read of the buffer that \<open>capture_get_chunk\<close> makes.
\<close>

section \<open>The message in the answer of the camera\<close>

text \<open>The camera sends the bytes of the message as data, and type, subtype, script and size as parameters.\<close>

definition script_msg :: "u32 \<Rightarrow> u32 \<Rightarrow> u32 \<Rightarrow> bytes \<Rightarrow> ptp_chdk_script_msg" where
  "script_msg t sub script bs =
     \<lparr> msg_size = of_nat (length bs), msg_script_id = script, msg_type = t, msg_subtype = sub, msg_data = bs @ [0] \<rparr>"

definition msg_params :: "u32 \<Rightarrow> u32 \<Rightarrow> u32 \<Rightarrow> bytes \<Rightarrow> u32 list" where
  "msg_params t sub script bs = [t, sub, script, of_nat (length bs)]"

lemma length_msg_params [simp]: "length (msg_params t sub script bs) \<le> 5"
  by (simp add: msg_params_def)

text \<open>Booleans and integers are sent in four bytes.\<close>

definition msg_complete :: "u32 \<Rightarrow> u32 \<Rightarrow> bytes \<Rightarrow> bool" where
  "msg_complete t sub bs \<longleftrightarrow>
     (t \<in> {PTP_CHDK_S_MSGTYPE_RET, PTP_CHDK_S_MSGTYPE_USER} \<and> sub \<in> {PTP_CHDK_TYPE_BOOLEAN, PTP_CHDK_TYPE_INTEGER}
      \<longrightarrow> 4 \<le> length bs)"

lemma ldn_prefix: "n \<le> length bs \<Longrightarrow> ldn (bs @ xs) 0 n = Some (take n bs)"
  by (simp add: ldn_def)

text \<open>The table that a script is to get: texts as they were sent, four bytes as a boolean or a signed number.\<close>

definition sent_int :: "bytes \<Rightarrow> u32" where "sent_int bs = host32 (take 4 bs)"

definition sent_value :: "u32 \<Rightarrow> bytes \<Rightarrow> (string \<times> lua_data) list" where
  "sent_value sub bs =
     (if sub \<in> {PTP_CHDK_TYPE_UNSUPPORTED, PTP_CHDK_TYPE_STRING, PTP_CHDK_TYPE_TABLE} then [(''value'', Val (LStr bs))]
      else if sub = PTP_CHDK_TYPE_BOOLEAN then [(''value'', Val (LBool (sent_int bs \<noteq> 0)))]
      else if sub = PTP_CHDK_TYPE_INTEGER then [(''value'', Num (sint (sent_int bs)))]
      else [])"

definition msg_table :: "u32 \<Rightarrow> u32 \<Rightarrow> u32 \<Rightarrow> bytes \<Rightarrow> lua_data" where
  "msg_table t sub script bs =
     Table ((''script_id'', Num (uint script)) # (''type'', Str (script_msg_type_to_name t)) #
       (if t \<in> {PTP_CHDK_S_MSGTYPE_RET, PTP_CHDK_S_MSGTYPE_USER}
        then (''subtype'', Str (script_msg_data_type_to_name sub)) # sent_value sub bs
        else if t = PTP_CHDK_S_MSGTYPE_ERR
        then [(''subtype'', Str (script_msg_error_type_to_name sub)), (''value'', Val (LStr bs))]
        else []))"

lemma msg_fields:
  assumes "length bs < 2 ^ 31" and "msg_complete t sub bs"
  shows "\<exists>fields. msg_value (script_msg t sub script bs) = Some fields \<and>
    msg_table t sub script bs = Table ([(''script_id'', Num (uint script)), (''type'', Str (script_msg_type_to_name t))] @ fields)"
proof -
  have n: "unat (of_nat (length bs) :: u32) = length bs" using assms(1) by (subst unat_of_nat_u32) simp_all
  have e: "PTP_CHDK_S_MSGTYPE_ERR \<notin> {PTP_CHDK_S_MSGTYPE_RET, PTP_CHDK_S_MSGTYPE_USER}"
    by (simp add: PTP_CHDK_S_MSGTYPE_ERR_def PTP_CHDK_S_MSGTYPE_RET_def PTP_CHDK_S_MSGTYPE_USER_def)
  show ?thesis
    using assms(2) n e
    by (auto simp: msg_value_def script_msg_def msg_int_def msg_complete_def ldn_prefix msg_table_def sent_value_def
        sent_int_def Let_def)
qed

text \<open>What \<open>ptp_chdk_read_script_msg\<close> makes of the answer, whatever carried it.\<close>

lemma read_script_msg_answer:
  assumes t: "ptp_transaction tr p (chdk_ptp PTP_CHDK_ReadScriptMsg 1) PTP_DP_GETDATA 0 None =
      Some (PTP_RC_OK, response_container s PTP_RC_OK tid (msg_params t sub script bs), Some bs, p')"
    and n: "length bs < 2 ^ 31"
  shows "ptp_chdk_read_script_msg tr p = Some (PTP_RC_OK, Some (script_msg t sub script bs), p')"
proof -
  have u: "unat (of_nat (length bs) :: u32) = length bs" using n by (subst unat_of_nat_u32) simp_all
  have "ldn bs 0 (length bs) = Some bs" using ldn_prefix [of "length bs" bs "[]"] by simp
  then show ?thesis
    using t u by (simp add: ptp_chdk_read_script_msg_def response_container_def param_def msg_params_def script_msg_def)
qed

lemma read_msg_answer:
  assumes "connected (cs (con p))"
    and "ptp_chdk_read_script_msg tr p = Some (PTP_RC_OK, Some (script_msg t sub script bs), p')"
    and "length bs < 2 ^ 31" and "msg_complete t sub bs"
  shows "chdk_read_msg tr p = Some (Inr [msg_table t sub script bs], p')"
proof -
  from msg_fields [OF assms(3,4), of script] obtain fields where
    "msg_value (script_msg t sub script bs) = Some fields"
    "msg_table t sub script bs = Table ([(''script_id'', Num (uint script)), (''type'', Str (script_msg_type_to_name t))] @ fields)"
    by blast
  then show ?thesis
    using assms(1,2)
    by (simp add: chdk_read_msg_def CHDK_ENSURE_CONNECTED_def api_check_ptp_throw_def script_msg_def)
qed


section \<open>Chunks of a remote capture\<close>

lemma whole_string:
  assumes "unat n < 2 ^ 31"
  shows "lbuf_string (lbuf_create bs n fl) None None = (if unat n \<le> length bs then Some (take (unat n) bs) else None)"
proof -
  have u: "uint n = int (unat n)" by (rule uint_nat)
  have z: "n = 0 \<longleftrightarrow> unat n = 0" by (simp add: unat_eq_0)
  have g: "1 \<le> uint n" if "0 < unat n" using that u by linarith
  have s: "s32 (uint n) = int (unat n)" unfolding u
  proof (rule s32_small)
    have "unat n < 2147483648" using assms by simp
    then have "int (unat n) < 2147483648" by linarith
    then show "int (unat n) < 2 ^ 31" by simp
    show "- (2 ^ 31) \<le> int (unat n)" by (rule order_trans [of _ 0]) simp_all
  qed
  have "part (lbuf_create bs n fl) (get_index_arg (lbuf_create bs n fl) None 1) (get_index_arg (lbuf_create bs n fl) None (uint n)) =
      (if unat n = 0 then None else Some (0, unat n))"
    using z u s g by (auto simp: part_def get_index_arg_def luaL_optint_def s32_small lbuf_create_def Let_def)
  then show ?thesis by (simp add: lbuf_string_def lbuf_create_def ldn_def)
qed

text \<open>C30: The buffer of a chunk has the length that the response of the camera states, whatever came as data: a
  script that reads it gets the first bytes of the data when the stated length is at most that of the data,
  and reads outside of the object otherwise. The chunk is the last one when the response says that nothing
  follows, and the packets of the next transaction are left.\<close>

theorem chunk_length_unchecked:
  assumes usb: "connected (cs (con p))" "waiting device_packets q qs p" "device_good ep S (con p)"
    and fmt: "0 \<le> fmt" "fmt < 2 ^ 32"
    and answer: "q # qs = usb_packets zlp (usb_container (byteorder p) PTP_USB_CONTAINER_DATA PTP_OC_CHDK tid bs) @
      usb_response (byteorder p) PTP_RC_OK tid [n, left, off] # rest"
    and sizes: "length bs < 2 ^ 31" "unat n < 2 ^ 31"
    and mall: "\<And>n. \<exists>m. mall n = Some m \<and> length m = n"
  shows "\<exists>fields b p'. chdk_capture_get_chunk (usb_con mall stk :: (usb_device con_world, 'f) transport) p fmt =
      Some (Inr [Table (fields @ [(''last'', Val (LBool (left = 0))), (''data'', Buf b)])], p') \<and>
    lbuf_string b None None = (if unat n \<le> length bs then Some (take (unat n) bs) else None) \<and>
    (lbuf_ok b \<longleftrightarrow> unat n \<le> length bs) \<and> device_packets (con p') = rest"
proof -
  let ?f = "word_of_int fmt :: u32"
  let ?ptp = "chdk_ptp PTP_CHDK_RemoteCaptureGetData 2 \<lparr> Param2 := ?f \<rparr>"
  have c: "Code ?ptp = PTP_OC_CHDK" and np: "unat (Nparam ?ptp) \<le> 5" by (simp_all add: chdk_ptp_def)
  have ps: "length [n, left, off] \<le> 5" by simp
  obtain p' where t: "ptp_transaction (usb_con mall stk :: (usb_device con_world, 'f) transport) p ?ptp PTP_DP_GETDATA 0 None =
      Some (PTP_RC_OK, response_container (session_id p) PTP_RC_OK tid [n, left, off], Some bs, p')"
    "device_packets (con p') = rest"
    using usb_receive_ok [OF usb(2,3) np answer [folded c] sizes(1) ps mall, of stk] by auto
  let ?b = "lbuf_create bs n LBUF_FL_FREE"
  let ?fields = "[(''size'', Num (uint n))] @ (if off \<noteq> - 1 then [(''offset'', Num (uint off))] else [])"
  have f: "number_u32 fmt = Some ?f" using fmt by (simp add: number_u32_def)
  have r: "chdk_capture_get_chunk (usb_con mall stk :: (usb_device con_world, 'f) transport) p fmt =
      Some (Inr [Table (?fields @ [(''last'', Val (LBool (left = 0))), (''data'', Buf ?b)])], p')"
    using usb(1) t(1) f
    by (simp add: chdk_capture_get_chunk_def CHDK_ENSURE_CONNECTED_def api_check_ptp_throw_def ptp_chdk_rcgetchunk_def
        response_container_def param_def bytes_at_def Let_def)
  have "lbuf_ok ?b \<longleftrightarrow> unat n \<le> length bs" by (simp add: lbuf_ok_def lbuf_create_def)
  with r t(2) whole_string [OF sizes(2), of bs LBUF_FL_FREE] show ?thesis by blast
qed

section \<open>Example\<close>

text \<open>A user message of script 3, the string of the two bytes 104 and 105.\<close>

definition example_msg_usb :: "usb_device con_world PTPParams" where
  "example_msg_usb = upd_cs (\<lambda>c. c \<lparr> connected := True \<rparr>)
     (example_usb (usb_packets False (usb_container PTP_DL_LE PTP_USB_CONTAINER_DATA PTP_OC_CHDK 0 [104, 105]) @
       [usb_response PTP_DL_LE PTP_RC_OK 0 (msg_params PTP_CHDK_S_MSGTYPE_USER PTP_CHDK_TYPE_STRING 3 [104, 105])]))"

definition example_msg_tcp :: "peer con_world PTPParams" where
  "example_msg_tcp = upd_cs (\<lambda>c. c \<lparr> connected := True \<rparr>)
     (example_con [ip_start PTP_DL_LE 0 2, ip_payload PTP_DL_LE 0 [[104]] [105] @
       ip_response PTP_DL_LE PTP_RC_OK 0 (msg_params PTP_CHDK_S_MSGTYPE_USER PTP_CHDK_TYPE_STRING 3 [104, 105])] [])"


text \<open>A chunk of two bytes that is said to have nine.\<close>

definition example_chunk :: "usb_device con_world PTPParams" where
  "example_chunk = upd_cs (\<lambda>c. c \<lparr> connected := True \<rparr>)
     (example_usb (usb_packets False (usb_container PTP_DL_LE PTP_USB_CONTAINER_DATA PTP_OC_CHDK 0 [1, 2]) @
       [usb_response PTP_DL_LE PTP_RC_OK 0 [9, 0, - 1]]))"

theorem chunk_length_unchecked_witness:
  "\<exists>fields b p'. chdk_capture_get_chunk (usb_con example_malloc example_stack :: (usb_device con_world, unit) transport)
      example_chunk 1 = Some (Inr [Table (fields @ [(''last'', Val (LBool True)), (''data'', Buf b)])], p') \<and>
    lbuf_string b None None = None"
proof -
  let ?c = "usb_container PTP_DL_LE PTP_USB_CONTAINER_DATA PTP_OC_CHDK 0 [1, 2]"
  let ?r = "usb_response PTP_DL_LE PTP_RC_OK 0 [9, 0, - 1]"
  have "12 \<le> length ?c" by (simp add: usb_container_header)
  then obtain q qs where q: "usb_packets False ?c = q # qs" "q \<noteq> []" "length q \<le> 512" by (rule first_usb_packet)
  have u: "connected (cs (con example_chunk))" "device_good 2 [] (con example_chunk)"
    "waiting device_packets q (qs @ [?r]) example_chunk"
    using q example_usb_sel(5-8) [of "usb_packets False ?c @ [?r]"]
    by (simp_all add: example_chunk_def waiting_def device_good_def device_packets_def)
  have ua: "q # (qs @ [?r]) = usb_packets False (usb_container (byteorder example_chunk) PTP_USB_CONTAINER_DATA PTP_OC_CHDK 0 [1, 2]) @
      usb_response (byteorder example_chunk) PTP_RC_OK 0 [9, 0, - 1] # []"
    using q(1) by (simp add: example_chunk_def)
  have m: "\<exists>m. example_malloc n = Some m \<and> length m = n" for n by (simp add: example_malloc_def)
  show ?thesis using chunk_length_unchecked [OF u(1,3,2) _ _ ua _ _ m, of 1 example_stack] by auto
qed

end
