(* ===== verification/Live_View.thy ===== *)
theory Live_View
  imports Liveframe
begin

text \<open>
  What the conversion of a viewport yields: every pixel of the frame buffer, converted to red, green and
  blue, at its place in the planes of the image and in the packed image made of it.
\<close>

section \<open>Writing pixels to the planes\<close>

type_synonym yuv = "byte \<times> byte \<times> byte"

fun put_pixels :: "yuv list \<Rightarrow> rgb_cursor \<Rightarrow> rgb_cursor option" where
  "put_pixels [] s = Some s"
| "put_pixels ((y, u, v) # ps) s = put_rgb y u v s \<bind> put_pixels ps"

lemma put_pixels_fun:
  "put_pixels [] = Some" "put_pixels ((y, u, v) # ps) = (\<lambda>s. put_rgb y u v s \<bind> put_pixels ps)"
  by (simp_all add: fun_eq_iff)

fun red green blue :: "yuv \<Rightarrow> byte" where
  "red (y, u, v) = yuv_to_r y v"
| "green (y, u, v) = yuv_to_g y u v"
| "blue (y, u, v) = yuv_to_b y u"

lemma put_pixels_append: "put_pixels (ps @ qs) s = put_pixels ps s \<bind> put_pixels qs"
  by (induction ps arbitrary: s) (auto split: bind_split)

lemma ofold_put_pixels:
  assumes "\<And>x s. x \<in> set xs \<Longrightarrow> f x s = put_pixels (g x) s"
  shows "ofold f xs s = put_pixels (concat (map g xs)) s"
  using assms
proof (induction xs arbitrary: s)
  case (Cons x xs)
  have "ofold f (x # xs) s = put_pixels (g x) s \<bind> ofold f xs" using Cons.prems by simp
  also have "\<dots> = put_pixels (g x) s \<bind> put_pixels (concat (map g xs))"
    using Cons by (intro Option.bind_cong) simp_all
  finally show ?case by (simp add: put_pixels_append)
qed simp

text \<open>The planes after the pixels \<open>ps\<close> were written to \<open>r\<close>, \<open>g\<close> and \<open>b\<close>.\<close>

definition plane_byte :: "yuv list \<Rightarrow> bytes \<Rightarrow> nat \<Rightarrow> nat \<Rightarrow> nat \<Rightarrow> nat \<Rightarrow> byte" where
  "plane_byte ps m r g b i =
     (if r \<le> i \<and> i < r + length ps then red (ps ! (i - r))
      else if g \<le> i \<and> i < g + length ps then green (ps ! (i - g))
      else if b \<le> i \<and> i < b + length ps then blue (ps ! (i - b))
      else m ! i)"

lemma put_pixels_planes:
  assumes "r + length ps \<le> g" and "g + length ps \<le> b" and "b + length ps \<le> length m"
  shows "put_pixels ps (m, r, g, b) =
    Some (map (plane_byte ps m r g b) [0..<length m], r + length ps, g + length ps, b + length ps)"
  using assms
proof (induction ps arbitrary: m r g b)
  case Nil
  have "map (plane_byte [] m r g b) [0..<length m] = m"
    by (rule nth_equalityI) (auto simp: plane_byte_def)
  then show ?case by simp
next
  case (Cons p ps)
  obtain y u v where p: "p = (y, u, v)" by (cases p)
  let ?m = "m[r := red p, g := green p, b := blue p]"
  have step: "put_pixels (p # ps) (m, r, g, b) = put_pixels ps (?m, r + 1, g + 1, b + 1)"
    using Cons.prems by (simp add: p st8_in)
  have "put_pixels ps (?m, r + 1, g + 1, b + 1) =
      Some (map (plane_byte ps ?m (r + 1) (g + 1) (b + 1)) [0..<length ?m],
        r + 1 + length ps, g + 1 + length ps, b + 1 + length ps)"
    by (rule Cons.IH) (use Cons.prems in simp_all)
  moreover have "plane_byte ps ?m (r + 1) (g + 1) (b + 1) i = plane_byte (p # ps) m r g b i" for i
    using Cons.prems by (auto simp: plane_byte_def nth_Cons' nth_list_update)
  ultimately show ?case unfolding step by (simp add: fun_eq_iff)
qed

section \<open>The loops\<close>

lemma nth_concat_uniform:
  assumes "\<And>x. x \<in> set xs \<Longrightarrow> length (f x) = w" and "i < length xs" and "j < w"
  shows "concat (map f xs) ! (i * w + j) = f (xs ! i) ! j"
  using assms
proof (induction xs arbitrary: i)
  case (Cons x xs)
  then show ?case by (cases i) (simp_all add: nth_append add.assoc)
qed simp

lemma length_concat_uniform:
  assumes "\<And>x. x \<in> set xs \<Longrightarrow> length (f x) = w"
  shows "length (concat (map f xs)) = length xs * w"
  using assms by (induction xs) simp_all

definition row_pixels :: "(nat \<Rightarrow> yuv list) \<Rightarrow> nat \<Rightarrow> nat \<Rightarrow> nat \<Rightarrow> yuv list" where
  "row_pixels grp sz c p = concat (map (\<lambda>x. grp (p + sz * x)) [0..<c])"

definition frame_pixels :: "(nat \<Rightarrow> yuv list) \<Rightarrow> nat \<Rightarrow> nat \<Rightarrow> nat \<Rightarrow> nat \<Rightarrow> nat \<Rightarrow> yuv list" where
  "frame_pixels grp sz c inc h p =
     concat (map (\<lambda>row. row_pixels grp sz c (p + (h - 1 - row) * inc)) [0..<h])"

lemma row_addr_nat:
  fixes height row_inc :: u32
  assumes "row < unat height" and "(unat height - 1) * unat row_inc < 2 ^ 32"
  shows "row_addr (int p) height row_inc row = int (p + (unat height - 1 - row) * unat row_inc)"
proof -
  let ?h = "unat height" and ?i = "unat row_inc"
  have "1 \<le> height" using assms(1) by (simp add: word_le_nat_alt)
  then have "unat (height - 1) = ?h - unat (1 :: u32)" by (rule unat_sub)
  then have h: "unat (height - 1) = ?h - 1" by (simp only: unat_1)
  have "unat ((height - 1) * row_inc) = unat (height - 1) * ?i"
    by (rule unat_mult_lem [THEN iffD1]) (use assms(2) in \<open>simp only: h\<close>, simp)
  then have u: "uint ((height - 1) * row_inc) = int ((?h - 1) * ?i)" by (simp only: uint_nat h)
  have "?h - 1 = (?h - 1 - row) + row" using assms(1) by linarith
  then have "(?h - 1) * ?i = (?h - 1 - row) * ?i + row * ?i" by (metis add_mult_distrib)
  then show ?thesis unfolding row_addr_def u uint_nat [of row_inc] by (simp del: of_nat_diff)
qed

lemma row_loops_put:
  fixes width height row_inc :: u32
  assumes body: "\<And>q s. q + sz \<le> length src \<Longrightarrow> body (int q) s = put_pixels (grp q) s"
    and w: "unat width = n * c" "0 < n"
    and inc: "(unat height - 1) * unat row_inc < 2 ^ 32" "sz * c \<le> unat row_inc"
    and room: "p + unat height * unat row_inc \<le> length src"
  shows "row_loops (int p) row_inc width height n sz body s =
    put_pixels (frame_pixels grp sz c (unat row_inc) (unat height) p) s"
proof -
  have c: "(unat width + (n - 1)) div n = c"
    using div_mult_self2 [of n "n - 1" c] w by (simp add: add.commute)
  have row: "ofold (\<lambda>x. body (row_addr (int p) height row_inc row + int (sz * x))) [0..<c] s =
      put_pixels (row_pixels grp sz c (p + (unat height - 1 - row) * unat row_inc)) s"
    if "row \<in> set [0..<unat height]" for row s
    unfolding row_pixels_def
  proof (rule ofold_put_pixels)
    fix x s assume x: "x \<in> set [0..<c]"
    let ?k = "unat height - 1 - row"
    have r: "row < unat height" using that by simp
    have "sz * x + sz \<le> sz * c" using x mult_le_mono2 [of "Suc x" c sz] by simp
    moreover have "?k * unat row_inc + unat row_inc \<le> unat height * unat row_inc"
    proof -
      have "Suc ?k \<le> unat height" using r by simp
      from mult_le_mono1 [OF this, of "unat row_inc"] show ?thesis by simp
    qed
    ultimately have "(p + ?k * unat row_inc + sz * x) + sz \<le> length src" using inc(2) room by linarith
    from body [OF this] show "body (row_addr (int p) height row_inc row + int (sz * x)) s =
        put_pixels (grp (p + ?k * unat row_inc + sz * x)) s"
      by (simp add: row_addr_nat [OF r inc(1)])
  qed
  show ?thesis unfolding row_loops_def c frame_pixels_def by (rule ofold_put_pixels) (rule row)
qed

lemma frame_pixels_nth:
  assumes "\<And>q. length (grp q) = k" and "row < h" and "x < c * k"
  shows "frame_pixels grp sz c inc h p ! (row * (c * k) + x) = grp (p + (h - 1 - row) * inc + sz * (x div k)) ! (x mod k)"
proof -
  have k: "0 < k" and xk: "x div k < c" using assms(3) by (cases k; simp add: less_mult_imp_div_less)+
  have l: "length (row_pixels grp sz c q) = c * k" for q
    using length_concat_uniform [of "[0..<c]" "\<lambda>x. grp (q + sz * x)" k] assms(1) by (simp add: row_pixels_def)
  have "frame_pixels grp sz c inc h p ! (row * (c * k) + x) = row_pixels grp sz c (p + (h - 1 - row) * inc) ! x"
    using nth_concat_uniform [of "[0..<h]" "\<lambda>row. row_pixels grp sz c (p + (h - 1 - row) * inc)" "c * k" row x] assms(2,3) l
    by (simp add: frame_pixels_def)
  also have "\<dots> = row_pixels grp sz c (p + (h - 1 - row) * inc) ! (x div k * k + x mod k)" by simp
  also have "\<dots> = grp (p + (h - 1 - row) * inc + sz * (x div k)) ! (x mod k)"
    using nth_concat_uniform [of "[0..<c]" "\<lambda>x. grp (p + (h - 1 - row) * inc + sz * x)" k "x div k" "x mod k"] assms(1) xk k
    by (simp add: row_pixels_def)
  finally show ?thesis .
qed

lemma length_frame_pixels:
  assumes "\<And>q. length (grp q) = k"
  shows "length (frame_pixels grp sz c inc h p) = h * (c * k)"
  using assms length_concat_uniform [of "[0..<c]" "\<lambda>x. grp (_ + sz * x)" k]
  by (simp add: frame_pixels_def row_pixels_def length_concat_uniform)

section \<open>Groups of pixels\<close>

definition yuv_group :: "bytes \<Rightarrow> bool \<Rightarrow> nat \<Rightarrow> yuv list" where
  "yuv_group src skip p =
     (let u = src ! p; v = src ! (p + 2) in
      [(src ! (p + 1), u, v), (src ! (p + 3), u, v)] @
      (if skip then [] else [(src ! (p + 4), u, v), (src ! (p + 5), u, v)]))"

definition yuv2_group :: "bytes \<Rightarrow> byte \<Rightarrow> bool \<Rightarrow> nat \<Rightarrow> yuv list" where
  "yuv2_group src bias skip p =
     (let u = src ! p - bias; v = src ! (p + 2) - bias in
      (src ! (p + 1), u, v) # (if skip then [] else [(src ! (p + 3), u, v)]))"

lemma length_groups:
  "length (yuv_group src skip p) = (if skip then 2 else 4)"
  "length (yuv2_group src bias skip p) = (if skip then 1 else 2)"
  by (simp_all add: yuv_group_def yuv2_group_def Let_def)

lemma yuv_group_nth:
  assumes "i < (if skip then 2 else 4)"
  shows "yuv_group src skip p ! i = (src ! (p + [1, 3, 4, 5] ! i), src ! p - 0, src ! (p + 2) - 0)"
proof -
  have "i = 0 \<or> i = 1 \<or> \<not> skip \<and> i = 2 \<or> \<not> skip \<and> i = 3" using assms by (cases skip) auto
  then show ?thesis by (elim disjE) (simp_all add: yuv_group_def Let_def numeral_eq_Suc)
qed

lemma yuv2_group_nth:
  assumes "i < (if skip then 1 else 2)"
  shows "yuv2_group src bias skip p ! i = (src ! (p + [1, 3, 4, 5] ! i), src ! p - bias, src ! (p + 2) - bias)"
proof -
  have "i = 0 \<or> \<not> skip \<and> i = 1" using assms by (cases skip) auto
  then show ?thesis by (elim disjE) (simp_all add: yuv2_group_def Let_def)
qed

lemma ldi_in: "0 \<le> i \<Longrightarrow> nat i < length m \<Longrightarrow> ldi m i = Some (m ! nat i)"
  by (simp add: ldi_def ld8_in)

lemma ldi_plus:
  assumes "p + 6 \<le> length m"
  shows "ldi m (int p) = Some (m ! p)" "ldi m (int p + 1) = Some (m ! (p + 1))" "ldi m (int p + 2) = Some (m ! (p + 2))"
    "ldi m (int p + 3) = Some (m ! (p + 3))" "ldi m (int p + 4) = Some (m ! (p + 4))" "ldi m (int p + 5) = Some (m ! (p + 5))"
  using assms by (simp_all add: ldi_in nat_add_distrib)

lemma ldi_plus4:
  assumes "p + 4 \<le> length m"
  shows "ldi m (int p) = Some (m ! p)" "ldi m (int p + 1) = Some (m ! (p + 1))" "ldi m (int p + 2) = Some (m ! (p + 2))"
    "ldi m (int p + 3) = Some (m ! (p + 3))"
  using assms by (simp_all add: ldi_in nat_add_distrib)

lemma yuv_pixel_group:
  assumes "p + 6 \<le> length src"
  shows "yuv_pixel src skip (int p) s = put_pixels (yuv_group src skip p) s"
  by (simp add: yuv_pixel_def yuv_group_def Let_def ldi_plus [OF assms] put_pixels_fun)

lemma yuv2_pixel_group:
  assumes "p + 4 \<le> length src"
  shows "yuv2_pixel src bias skip (int p) s = put_pixels (yuv2_group src bias skip p) s"
  by (simp add: yuv2_pixel_def yuv2_group_def Let_def ldi_plus4 [OF assms] put_pixels_fun)

section \<open>The viewport\<close>

text \<open>Pixel \<open>x\<close>, \<open>y\<close> of the viewport, counted from the top: its luminance, and the chrominance it shares with
  the other pixels of its group.\<close>

definition viewport_pixel :: "bytes \<Rightarrow> lv_framebuffer_desc \<Rightarrow> bool \<Rightarrow> nat \<Rightarrow> nat \<Rightarrow> yuv" where
  "viewport_pixel m vp skip x y =
     (let yuv8 = fb_type vp = LV_FB_YUV8;
          k = (if yuv8 then 4 else 2) div (if skip then 2 else 1);
          inc = nat (buffer_width vp) * (if yuv8 then 12 else 16) div 8;
          base = nat (data_start vp) + y * inc + (if yuv8 then 6 else 4) * (x div k);
          bias = (if fb_type vp = LV_FB_YUV8B then 0x80 else 0)
      in (m ! (base + [1, 3, 4, 5] ! (x mod k)), m ! base - bias, m ! (base + 2) - bias))"

text \<open>A viewport that lies in the frame and is divided into whole groups of pixels.\<close>

definition vp_bits :: "lv_framebuffer_desc \<Rightarrow> nat" where
  "vp_bits vp = (if fb_type vp = LV_FB_YUV8 then 12 else 16)"

definition vp_group :: "lv_framebuffer_desc \<Rightarrow> nat" where
  "vp_group vp = (if fb_type vp = LV_FB_YUV8 then 4 else 2)"

definition vp_fits :: "bytes \<Rightarrow> lv_framebuffer_desc \<Rightarrow> bool" where
  "vp_fits m vp \<longleftrightarrow>
     fb_type vp \<in> {LV_FB_YUV8, LV_FB_YUV8B, LV_FB_YUV8C} \<and>
     0 < data_start vp \<and> 0 < visible_height vp \<and> 0 < visible_width vp \<and> visible_width vp \<le> buffer_width vp \<and>
     int (vp_group vp) dvd visible_width vp \<and>
     nat (buffer_width vp) * nat (visible_height vp) * vp_bits vp < 2 ^ 31 \<and>
     nat (data_start vp) + nat (buffer_width vp) * nat (visible_height vp) * vp_bits vp div 8 \<le> length m"

text \<open>These are the viewports that \<open>get_vp_desc\<close> accepts, but for the signs, which it does not check, and
  the groups.\<close>

lemma sdiv_nonneg: "0 \<le> n \<Longrightarrow> 0 < k \<Longrightarrow> n sdiv k = n div (k :: int)"
  by (cases "n = 0") (simp_all add: signed_divide_int_def sgn_if)

lemma check_fb_desc_fits:
  assumes "check_fb_desc desc bits len = Some (Inr d)" and "0 < data_start desc" "0 < visible_height desc" "0 < visible_width desc"
    and "0 < bits"
  shows "d = desc" and "visible_width desc \<le> buffer_width desc"
    and "buffer_width desc * visible_height desc * bits < 2 ^ 31"
    and "data_start desc + buffer_width desc * visible_height desc * bits div 8 \<le> len"
proof -
  from assms(1,2) show "d = desc" and w: "visible_width desc \<le> buffer_width desc"
    by (auto simp: check_fb_desc_def split: bind_splits if_splits)
  let ?n = "buffer_width desc * visible_height desc * bits"
  have n: "?n < 2 ^ 31 \<and> data_start desc + ?n sdiv 8 \<le> len"
    using assms(1,2) by (auto simp: check_fb_desc_def ckint_def split: bind_splits if_splits)
  have "0 \<le> ?n" using w assms(3,4,5) by simp
  then have "?n sdiv 8 = ?n div 8" by (rule sdiv_nonneg) simp
  with n show "?n < 2 ^ 31" "data_start desc + ?n div 8 \<le> len" by simp_all
qed

lemma get_vp_desc_fits:
  assumes "get_vp_desc m len = Some (Inr vp)" and "0 < data_start vp" "0 < visible_height vp" "0 < visible_width vp"
    and "int (vp_group vp) dvd visible_width vp" and "len \<le> int (length m)"
  shows "vp_fits m vp"
proof -
  obtain bits desc where c: "check_fb_desc desc bits len = Some (Inr vp)"
    and t: "fb_type desc = LV_FB_YUV8 \<and> bits = 12 \<or> fb_type desc \<in> {LV_FB_YUV8B, LV_FB_YUV8C} \<and> bits = 16"
    using assms(1) by (auto simp: get_vp_desc_def split: bind_splits sum.splits if_splits)
  have d: "vp = desc" using c by (auto simp: check_fb_desc_def split: bind_splits if_splits)
  have b: "bits = int (vp_bits vp)" and p: "0 < bits" using t by (auto simp: d vp_bits_def fb_types)
  note f = check_fb_desc_fits(2-4) [OF c [folded d] assms(2-4) p]
  let ?b = "nat (buffer_width vp)" and ?h = "nat (visible_height vp)"
  have i: "int (?b * ?h * vp_bits vp) = buffer_width vp * visible_height vp * bits"
    using f(1) assms(3,4) by (simp add: b)
  have "int (?b * ?h * vp_bits vp) < int (2 ^ 31)" using f(2) i by simp
  then have "?b * ?h * vp_bits vp < 2 ^ 31" by (simp only: of_nat_less_iff)
  moreover have "int (nat (data_start vp) + ?b * ?h * vp_bits vp div 8) \<le> int (length m)"
    using f(3) assms(2,6) i by (simp add: zdiv_int)
  then have "nat (data_start vp) + ?b * ?h * vp_bits vp div 8 \<le> length m" by linarith
  ultimately show ?thesis using assms(2-5) f(1) t by (auto simp: vp_fits_def d)
qed

text \<open>The conversion of the viewport writes its pixels, the last row first.\<close>

definition viewport_conv :: "lv_framebuffer_desc \<Rightarrow> bytes \<Rightarrow> bool \<Rightarrow> rgb_cursor \<Rightarrow> rgb_cursor option" where
  "viewport_conv vp m skip =
     (if fb_type vp = LV_FB_YUV8 then yuv_live_to_cd_rgb
      else if fb_type vp = LV_FB_YUV8B then yuvb_live_to_cd_rgb else yuvc_live_to_cd_rgb)
       m (data_start vp) (word_of_int (buffer_width vp)) (word_of_int (visible_width vp))
       (word_of_int (visible_height vp)) skip"

definition out_width :: "lv_framebuffer_desc \<Rightarrow> bool \<Rightarrow> nat" where
  "out_width vp skip = nat (visible_width vp) div (if skip then 2 else 1)"

lemma nat_mult_div_le: "h * (a div 8) \<le> h * a div (8 :: nat)"
proof -
  have "h * (a div 8) * 8 \<le> h * a" by (metis div_times_less_eq_dividend mult.assoc mult_le_mono2)
  then show ?thesis by (simp add: less_eq_div_iff_mult_less_eq)
qed

lemma unat_word_nat: "0 \<le> n \<Longrightarrow> n < 2 ^ 32 \<Longrightarrow> unat (word_of_int n :: u32) = nat n"
  by (simp add: unat_eq_nat_uint uint_word_of_int_eq take_bit_int_eq_self)

lemma viewport_sizes:
  assumes "vp_fits m vp"
  defines "b \<equiv> nat (buffer_width vp)" and "w \<equiv> nat (visible_width vp)" and "h \<equiv> nat (visible_height vp)"
  shows "unat (word_of_int (buffer_width vp) :: u32) = b" "unat (word_of_int (visible_width vp) :: u32) = w"
    and "unat (word_of_int (visible_height vp) :: u32) = h"
    and "0 < w" "w \<le> b" "0 < h" "b * h * vp_bits vp < 2 ^ 31" "w * h * 12 < 2 ^ 31" "vp_group vp dvd w"
    and "nat (data_start vp) + h * (b * vp_bits vp div 8) \<le> length m"
    and "h * (b * vp_bits vp div 8) < 2 ^ 31"
    and "unat (word_of_int (buffer_width vp) * (if fb_type vp = LV_FB_YUV8 then 12 else 16) div 8 :: u32) = b * vp_bits vp div 8"
proof -
  have f: "0 < visible_height vp" "0 < visible_width vp" "visible_width vp \<le> buffer_width vp" "int (vp_group vp) dvd visible_width vp"
    "b * h * vp_bits vp < 2 ^ 31" "nat (data_start vp) + b * h * vp_bits vp div 8 \<le> length m"
    using assms(1) by (simp_all add: vp_fits_def b_def h_def)
  show w: "0 < w" "w \<le> b" and h: "0 < h" and lt: "b * h * vp_bits vp < 2 ^ 31" using f by (simp_all add: w_def b_def h_def)
  have bits: "12 \<le> vp_bits vp" by (simp add: vp_bits_def)
  have "b * 1 * 1 \<le> b * h * vp_bits vp" "1 * h * 1 \<le> b * h * vp_bits vp"
    using w h bits by ((intro mult_le_mono; simp)+)
  then have b: "b < 2 ^ 31" and h31: "h < 2 ^ 31" using lt by (simp_all only: mult_1_right mult_1)
  show bw: "unat (word_of_int (buffer_width vp) :: u32) = b" using f b by (simp add: unat_word_nat b_def)
  show "unat (word_of_int (visible_width vp) :: u32) = w" using f b w by (simp add: unat_word_nat w_def b_def)
  show "unat (word_of_int (visible_height vp) :: u32) = h" using f h31 by (simp add: unat_word_nat h_def)
  have "w * h * 12 \<le> b * h * vp_bits vp" using w bits by (intro mult_le_mono) simp_all
  then show "w * h * 12 < 2 ^ 31" using lt by linarith
  show "vp_group vp dvd w" using f(4) f(2) by (metis w_def nat_dvd_iff int_dvd_int_iff int_nat_eq less_imp_le)
  have "h * (b * vp_bits vp div 8) \<le> b * h * vp_bits vp div 8"
    using nat_mult_div_le [of h "b * vp_bits vp"] by (simp add: ac_simps)
  then show "nat (data_start vp) + h * (b * vp_bits vp div 8) \<le> length m" "h * (b * vp_bits vp div 8) < 2 ^ 31"
    using f(6) lt by linarith+
  have "b * vp_bits vp \<le> b * h * vp_bits vp" using h by simp
  then have "b * vp_bits vp < 2 ^ 31" using lt by (rule le_less_trans)
  then have "b * vp_bits vp < 2 ^ 32" by simp
  moreover have "unat ((if fb_type vp = LV_FB_YUV8 then 12 else 16) :: u32) = vp_bits vp" by (simp add: vp_bits_def)
  ultimately have "unat (word_of_int (buffer_width vp) * (if fb_type vp = LV_FB_YUV8 then 12 else 16) :: u32) = b * vp_bits vp"
    using bw by (subst unat_mult_lem [THEN iffD1]) simp_all
  then show "unat (word_of_int (buffer_width vp) * (if fb_type vp = LV_FB_YUV8 then 12 else 16) div 8 :: u32) = b * vp_bits vp div 8"
    by (simp only: unat_div) simp
qed

lemma viewport_conv_pixels:
  assumes fits: "vp_fits m vp"
  shows "\<exists>ps. (\<forall>s. viewport_conv vp m skip s = put_pixels ps s) \<and>
    length ps = nat (visible_height vp) * out_width vp skip \<and>
    (\<forall>row x. row < nat (visible_height vp) \<and> x < out_width vp skip \<longrightarrow>
       ps ! (row * out_width vp skip + x) = viewport_pixel m vp skip x (nat (visible_height vp) - 1 - row))"
proof -
  let ?h = "nat (visible_height vp)" and ?p = "nat (data_start vp)" and ?n = "vp_group vp"
  let ?inc = "nat (buffer_width vp) * vp_bits vp div 8"
  let ?sz = "if fb_type vp = LV_FB_YUV8 then 6 else 4 :: nat"
  let ?bias = "if fb_type vp = LV_FB_YUV8B then 0x80 else 0 :: byte"
  let ?grp = "if fb_type vp = LV_FB_YUV8 then yuv_group m skip else yuv2_group m ?bias skip"
  let ?k = "?n div (if skip then 2 else 1)"
  note z = viewport_sizes [OF fits]
  obtain c where c: "nat (visible_width vp) = ?n * c" using z(9) by blast
  have p: "int ?p = data_start vp" using fits by (simp add: vp_fits_def)
  have l: "length (?grp q) = ?k" for q by (simp add: length_groups vp_group_def)
  have o: "out_width vp skip = c * ?k" using c by (auto simp: out_width_def vp_group_def)
  have g: "(?h - 1) * ?inc < 2 ^ 32"
  proof -
    have "(?h - 1) * ?inc \<le> ?h * ?inc" by (rule mult_le_mono1) simp
    then have "(?h - 1) * ?inc < 2 ^ 31" using z(11) by (rule le_less_trans)
    then show ?thesis by simp
  qed
  have "?n * c * vp_bits vp \<le> nat (buffer_width vp) * vp_bits vp" using z(5) c by (intro mult_le_mono1) simp
  then have sz: "?sz * c \<le> ?inc" by (auto simp: vp_bits_def vp_group_def)
  let ?ps = "frame_pixels ?grp ?sz c ?inc ?h ?p"
  define ri w32 h32 :: u32 where "ri = word_of_int (buffer_width vp) * (if fb_type vp = LV_FB_YUV8 then 12 else 16) div 8"
    and "w32 = word_of_int (visible_width vp)" and "h32 = word_of_int (visible_height vp)"
  note words = this
  have u: "unat ri = ?inc" "unat w32 = ?n * c" "unat h32 = ?h" using z(12,2,3) c by (simp_all only: words)
  let ?body = "if fb_type vp = LV_FB_YUV8 then yuv_pixel m skip else yuv2_pixel m ?bias skip"
  have "viewport_conv vp m skip s = row_loops (data_start vp) ri w32 h32 ?n ?sz ?body s" for s
    by (cases "fb_type vp = LV_FB_YUV8"; cases "fb_type vp = LV_FB_YUV8B")
      (simp_all only: viewport_conv_def yuv_live_to_cd_rgb_def yuvb_live_to_cd_rgb_def yuvc_live_to_cd_rgb_def words
        vp_group_def if_True if_False simp_thms)
  also have "row_loops (data_start vp) ri w32 h32 ?n ?sz ?body s = put_pixels ?ps s" for s
  proof -
    have "row_loops (int ?p) ri w32 h32 ?n ?sz ?body s = put_pixels (frame_pixels ?grp ?sz c (unat ri) (unat h32) ?p) s"
    proof (rule row_loops_put)
      show "?body (int q) s = put_pixels (?grp q) s" if "q + ?sz \<le> length m" for q s
        using that by (simp add: yuv_pixel_group yuv2_pixel_group split: if_splits)
      show "0 < ?n" by (simp add: vp_group_def)
    qed (use u g sz z(10) in \<open>simp_all only: u\<close>)
    then show ?thesis by (simp only: u p)
  qed
  finally have "viewport_conv vp m skip s = put_pixels ?ps s" for s .
  moreover have "length ?ps = ?h * out_width vp skip" using length_frame_pixels [OF l] o by simp
  moreover have "?ps ! (row * out_width vp skip + x) = viewport_pixel m vp skip x (?h - 1 - row)"
    if "row < ?h \<and> x < out_width vp skip" for row x
  proof -
    have x: "x < c * ?k" and "0 < ?k" using that o by (auto simp: vp_group_def)
    have "?ps ! (row * out_width vp skip + x) = ?grp (?p + (?h - 1 - row) * ?inc + ?sz * (x div ?k)) ! (x mod ?k)"
      unfolding o by (rule frame_pixels_nth [OF l]) (use that x in simp_all)
    also have "\<dots> = viewport_pixel m vp skip x (?h - 1 - row)"
    proof (cases "fb_type vp = LV_FB_YUV8")
      case True
      then have k: "?k = (if skip then 2 else 4)" by (simp add: vp_group_def)
      have "x mod ?k < (if skip then 2 else 4)" unfolding k by simp
      from yuv_group_nth [OF this, of m] show ?thesis
        using True by (simp add: viewport_pixel_def vp_bits_def vp_group_def Let_def fb_types(1,3) cong: if_cong)
    next
      case False
      then have k: "?k = (if skip then 1 else 2)" by (simp add: vp_group_def)
      have "x mod ?k < (if skip then 1 else 2)" unfolding k by simp
      from yuv2_group_nth [OF this, of m] show ?thesis
        using False by (simp add: viewport_pixel_def vp_bits_def vp_group_def Let_def cong: if_cong)
    qed
    finally show ?thesis .
  qed
  ultimately show ?thesis by blast
qed

section \<open>The image\<close>

text \<open>An image whose planes of red, green and blue are in place, and the colours of a pixel of it. The first row
  of an image is the lowest one.\<close>

definition pimg_ok :: "liveimg_pimg_t \<Rightarrow> bool" where
  "pimg_ok im \<longleftrightarrow>
     (let n = unat (pi_width im * pi_height im) in
      pi_r im = Some 0 \<and> pi_g im = Some n \<and> pi_b im = Some (2 * n) \<and>
      (case pi_data im of None \<Rightarrow> False | Some d \<Rightarrow> 3 * n \<le> length d))"

definition pimg_colours :: "liveimg_pimg_t \<Rightarrow> nat \<Rightarrow> nat \<Rightarrow> bytes" where
  "pimg_colours im x row =
     (let n = unat (pi_width im * pi_height im); i = row * unat (pi_width im) + x in
      case pi_data im of None \<Rightarrow> [] | Some d \<Rightarrow> [d ! i, d ! (n + i), d ! (2 * n + i)])"

definition colours :: "yuv \<Rightarrow> bytes" where "colours p = [red p, green p, blue p]"

lemma rgb_planes_ok:
  assumes "pimg_ok im"
  obtains d where "rgb_planes im = Some (d, 0, unat (pi_width im * pi_height im), 2 * unat (pi_width im * pi_height im))"
    and "3 * unat (pi_width im * pi_height im) \<le> length d" and "pi_data im = Some d"
  using assms by (auto simp: pimg_ok_def rgb_planes_def Let_def split: option.splits)

lemma put_pixels_image:
  assumes ok: "pimg_ok im" and n: "length ps = unat (pi_width im * pi_height im)"
  shows "\<exists>d' rgb planes. rgb_planes im = Some planes \<and> put_pixels ps planes = Some (d', rgb) \<and>
    pimg_ok (im \<lparr> pi_data := Some d' \<rparr>) \<and>
    (\<forall>row x. row * unat (pi_width im) + x < length ps \<longrightarrow>
       pimg_colours (im \<lparr> pi_data := Some d' \<rparr>) x row = colours (ps ! (row * unat (pi_width im) + x)))"
proof -
  let ?n = "unat (pi_width im * pi_height im)"
  obtain d where d: "rgb_planes im = Some (d, 0, ?n, 2 * ?n)" "3 * ?n \<le> length d" by (rule rgb_planes_ok [OF ok])
  let ?d = "map (plane_byte ps d 0 ?n (2 * ?n)) [0..<length d]"
  have "put_pixels ps (d, 0, ?n, 2 * ?n) = Some (?d, 0 + length ps, ?n + length ps, 2 * ?n + length ps)"
    by (rule put_pixels_planes) (use n d(2) in simp_all)
  moreover have "pimg_ok (im \<lparr> pi_data := Some ?d \<rparr>)" using ok d(2) by (simp add: pimg_ok_def Let_def)
  moreover have "pimg_colours (im \<lparr> pi_data := Some ?d \<rparr>) x row = colours (ps ! (row * unat (pi_width im) + x))"
    if "row * unat (pi_width im) + x < length ps" for row x
    using that n d(2) by (simp add: pimg_colours_def colours_def plane_byte_def Let_def)
  ultimately show ?thesis using d(1) by blast
qed

text \<open>The size of the image of a viewport.\<close>

lemma out_sizes:
  fixes skip
  assumes "vp_fits m vp"
  defines "vw \<equiv> word_of_int (visible_width vp sdiv (if skip then 2 else 1)) :: u32"
    and "vh \<equiv> word_of_int (visible_height vp) :: u32"
  shows "unat vw = out_width vp skip" and "unat vh = nat (visible_height vp)"
    and "unat (vw * vh) = nat (visible_height vp) * out_width vp skip"
    and "vw * vh \<noteq> 0" and "nat (visible_height vp) * out_width vp skip * 4 < 2 ^ 32"
proof -
  note z = viewport_sizes [OF assms(1)]
  have p: "0 \<le> visible_width vp" using assms(1) by (simp add: vp_fits_def)
  have le: "out_width vp skip \<le> nat (visible_width vp)" by (auto simp: out_width_def)
  have "nat (visible_width vp) * 1 * 1 \<le> nat (visible_width vp) * nat (visible_height vp) * 12"
    using z(6) by (intro mult_le_mono; simp)
  then have lt: "nat (visible_width vp) < 2 ^ 31" using z(8) by (simp only: mult_1_right)
  have "visible_width vp sdiv (if skip then 2 else 1) = int (out_width vp skip)"
    using p by (simp add: sdiv_nonneg out_width_def zdiv_int)
  then show w: "unat vw = out_width vp skip" using le lt by (simp add: vw_def unat_of_nat_u32)
  show h: "unat vh = nat (visible_height vp)" using z(3) by (simp only: vh_def)
  have "nat (visible_height vp) * out_width vp skip * 4 \<le> nat (visible_width vp) * nat (visible_height vp) * 12"
    using le mult_le_mono2 [OF le, of "nat (visible_height vp)"] by (simp add: mult.commute)
  then have "nat (visible_height vp) * out_width vp skip * 4 < 2 ^ 31" using z(8) by (rule le_less_trans)
  then show lt4: "nat (visible_height vp) * out_width vp skip * 4 < 2 ^ 32" by simp
  then have lt1: "out_width vp skip * nat (visible_height vp) < 2 ^ 32" by (simp add: mult.commute)
  then show wh: "unat (vw * vh) = nat (visible_height vp) * out_width vp skip"
    by (subst unat_mult_lem [THEN iffD1]) (simp_all add: w h mult.commute)
  have "2 dvd nat (visible_width vp)" using z(9) by (rule dvd_trans [rotated]) (simp add: vp_group_def)
  then have "0 < out_width vp skip" using z(4) by (auto simp: out_width_def)
  then have "0 < unat (vw * vh)" using wh z(6) by simp
  then show "vw * vh \<noteq> 0" by auto
qed

text \<open>The image written to: the one given, if it has the right number of pixels, or a new one.\<close>

lemma image_ready:
  assumes im: "case im of None \<Rightarrow> True | Some i \<Rightarrow> pimg_ok i" and mall: "\<And>n. \<exists>m. malloc n = Some m \<and> length m = n"
    and nz: "vw * vh \<noteq> 0" and n: "unat (vw * vh) * 4 < 2 ^ 32"
  shows "\<exists>i. (case same_size im (vw * vh) of Some i \<Rightarrow> Some (i \<lparr> pi_width := vw, pi_height := vh \<rparr>)
      | None \<Rightarrow> pimg_init_rgb malloc pimg_create vw vh) = Some i \<and> pimg_ok i \<and> pi_width i = vw \<and> pi_height i = vh"
proof (cases "same_size im (vw * vh)")
  case (Some i)
  then have "im = Some i" "vw * vh = pi_width i * pi_height i"
    by (auto simp: same_size_def split: option.splits if_splits)
  then show ?thesis using Some im by (simp add: pimg_ok_def)
next
  case None
  have "unat (vw * vh * 3) = unat (vw * vh) * 3" using n by (subst unat_mult_lem [THEN iffD1]) simp_all
  moreover obtain d where "malloc (unat (vw * vh) * 3) = Some d" "length d = unat (vw * vh) * 3" using mall by blast
  ultimately show ?thesis using None nz by (simp add: pimg_init_rgb_def pimg_ok_def Let_def)
qed

lemma viewport_image:
  assumes desc: "get_vp_desc (lb_bytes frame) (s32 (uint (lb_len frame))) = Some (Inr vp)"
    and fits: "vp_fits (lb_bytes frame) vp"
    and im: "case im of None \<Rightarrow> True | Some i \<Rightarrow> pimg_ok i" and mall: "\<And>n. \<exists>m. malloc n = Some m \<and> length m = n"
  shows "\<exists>i vw vh. liveimg_get_viewport_pimg malloc im frame skip = Some (Inr (pimg_return im (same_size im (vw * vh)) i)) \<and>
    pimg_ok i \<and> pi_width i = vw \<and> pi_height i = vh \<and>
    unat vw = out_width vp skip \<and> unat vh = nat (visible_height vp) \<and>
    unat (vw * vh) * 4 < 2 ^ 32 \<and> unat (vw * vh) = unat vh * unat vw \<and>
    (\<forall>x < out_width vp skip. \<forall>y < nat (visible_height vp).
       pimg_colours i x (nat (visible_height vp) - 1 - y) = colours (viewport_pixel (lb_bytes frame) vp skip x y))"
proof -
  let ?m = "lb_bytes frame" and ?h = "nat (visible_height vp)" and ?w = "out_width vp skip"
  define vw vh :: u32 where "vw = word_of_int (visible_width vp sdiv (if skip then 2 else 1))"
    and "vh = word_of_int (visible_height vp)"
  note words = this
  note z = out_sizes(1) [OF fits, of skip, folded words] out_sizes(2) [OF fits, folded words]
    out_sizes(3-5) [OF fits, of skip, folded words]
  have n: "unat (vw * vh) * 4 < 2 ^ 32" using z(3,5) by simp
  obtain i where i: "(case same_size im (vw * vh) of Some i \<Rightarrow> Some (i \<lparr> pi_width := vw, pi_height := vh \<rparr>)
      | None \<Rightarrow> pimg_init_rgb malloc pimg_create vw vh) = Some i" "pimg_ok i" "pi_width i = vw" "pi_height i = vh"
    using image_ready [OF im mall z(4) n] by blast
  obtain ps where ps: "\<And>s. viewport_conv vp ?m skip s = put_pixels ps s" "length ps = ?h * ?w"
    "\<And>row x. row < ?h \<Longrightarrow> x < ?w \<Longrightarrow> ps ! (row * ?w + x) = viewport_pixel ?m vp skip x (?h - 1 - row)"
    using viewport_conv_pixels [OF fits, of skip] by blast
  have l: "length ps = unat (pi_width i * pi_height i)" using ps(2) z(3) i(3,4) by simp
  obtain d rgb planes where d: "rgb_planes i = Some planes" "put_pixels ps planes = Some (d, rgb)"
    "pimg_ok (i \<lparr> pi_data := Some d \<rparr>)"
    "\<And>row x. row * unat (pi_width i) + x < length ps \<Longrightarrow>
       pimg_colours (i \<lparr> pi_data := Some d \<rparr>) x row = colours (ps ! (row * unat (pi_width i) + x))"
    using put_pixels_image [OF i(2) l] by blast
  have conv: "(if fb_type vp = LV_FB_YUV8 then yuv_live_to_cd_rgb
      else if fb_type vp = LV_FB_YUV8B then yuvb_live_to_cd_rgb else yuvc_live_to_cd_rgb)
       ?m (data_start vp) (word_of_int (buffer_width vp)) (word_of_int (visible_width vp)) vh skip planes = Some (d, rgb)"
    using ps(1) [of planes] d(2) by (simp only: viewport_conv_def words)
  have ds: "data_start vp \<noteq> 0" using fits by (simp add: vp_fits_def)
  have run: "liveimg_get_viewport_pimg malloc im frame skip =
      Some (Inr (pimg_return im (same_size im (vw * vh)) (i \<lparr> pi_data := Some d \<rparr>)))"
    by (simp only: liveimg_get_viewport_pimg_def desc Let_def Option.bind.simps sum.case words [symmetric] ds z(4) i(1) d(1)
        conv option.case prod.case simp_thms if_False)
  have col: "pimg_colours (i \<lparr> pi_data := Some d \<rparr>) x (?h - 1 - y) = colours (viewport_pixel ?m vp skip x y)"
    if "x < ?w" "y < ?h" for x y
  proof -
    have row: "?h - 1 - y < ?h" "?h - 1 - (?h - 1 - y) = y" using that by simp_all
    have "Suc (?h - 1 - y) * ?w \<le> ?h * ?w" using row(1) by (intro mult_le_mono1) simp
    then have "(?h - 1 - y) * ?w + x < length ps" using that(1) ps(2) by simp
    with d(4) [of "?h - 1 - y" x] ps(3) [OF row(1) that(1)] row(2) show ?thesis by (simp add: i(3) z(1))
  qed
  have "unat (vw * vh) = unat vh * unat vw" using z(1,2,3) by simp
  with run d(3) i(3,4) z(1,2) n col show ?thesis by (intro exI [of _ "i \<lparr> pi_data := Some d \<rparr>"] exI [of _ vw] exI [of _ vh]) simp
qed

section \<open>Packed images\<close>

text \<open>Parts of an object that do not overlap, written one after the other.\<close>

lemma ofold_blits:
  assumes "\<And>e. e \<in> set L \<Longrightarrow> length (v e) = n \<and> a e * n + n \<le> length m" and "inj_on a (set L)"
  shows "\<exists>m'. ofold (\<lambda>e m. blit m (a e * n) (v e)) L m = Some m' \<and> length m' = length m \<and>
    (\<forall>e \<in> set L. ldn m' (a e * n) n = Some (v e))"
  using assms
proof (induction L rule: rev_induct)
  case (snoc z L)
  have "inj_on a (set L)" using snoc.prems(2) by (rule inj_on_subset) auto
  with snoc.IH snoc.prems(1) obtain m1 where m1: "ofold (\<lambda>e m. blit m (a e * n) (v e)) L m = Some m1" "length m1 = length m"
    "\<forall>e \<in> set L. ldn m1 (a e * n) n = Some (v e)" by auto
  have z: "length (v z) = n" "a z * n + n \<le> length m1" using snoc.prems(1) [of z] m1(2) by simp_all
  then obtain m2 where m2: "blit m1 (a z * n) (v z) = Some m2" using blit_exists [of "a z * n" "v z" m1] by auto
  have "ldn m2 (a e * n) n = Some (v e)" if "e \<in> set (L @ [z])" for e
  proof (cases "a e = a z")
    case True
    then have "e = z" using snoc.prems(2) that by (auto simp: inj_on_def)
    then show ?thesis using ldn_blit_same [OF m2] z(1) by simp
  next
    case False
    then have "e \<in> set L" using that by auto
    have "a e * n + n \<le> a z * n \<or> a z * n + n \<le> a e * n"
    proof (cases "a e < a z")
      case True
      then have "Suc (a e) * n \<le> a z * n" by (intro mult_le_mono1) simp
      then show ?thesis by simp
    next
      case False
      with \<open>a e \<noteq> a z\<close> have "Suc (a z) * n \<le> a e * n" by (intro mult_le_mono1) simp
      then show ?thesis by simp
    qed
    with ldn_blit_other [OF m2, of "a e * n" n] z(1) m1(3) \<open>e \<in> set L\<close> show ?thesis by simp
  qed
  then show ?case using m1 m2 blit_length [OF m2] by (simp add: ofold_append)
qed simp

lemma packed_pixel_colours:
  assumes "pimg_ok im" and "row * unat (pi_width im) + x < unat (pi_width im * pi_height im)"
  shows "packed_pixel im False (row * unat (pi_width im) + x) = Some (pimg_colours im x row)"
  using assms rgb_planes_ok [OF assms(1)]
  by (auto simp: packed_pixel_def pimg_colours_def Let_def ld8_in pimg_ok_def rgb_planes_def split: option.splits)

lemma packed_offset:
  fixes h w :: u32
  assumes "k < unat h" and "unat h * unat w * 3 < 2 ^ 32"
  shows "unat ((h - of_nat k - 1) * w * 3) = (unat h - 1 - k) * unat w * 3"
proof -
  let ?n = "unat h - 1 - k"
  have k: "1 + k \<le> unat h" using assms(1) by simp
  have "h - of_nat k - 1 = of_nat (unat h) - of_nat (1 + k)" by simp
  also have "\<dots> = of_nat (unat h - (1 + k))" by (rule of_nat_diff [OF k, symmetric])
  finally have d: "h - of_nat k - 1 = of_nat ?n" by simp
  have "?n * unat w * 3 \<le> unat h * unat w * 3" by (intro mult_le_mono) simp_all
  then have lt: "?n * unat w * 3 < 2 ^ 32" using assms(2) by (rule le_less_trans)
  have "(h - of_nat k - 1) * w * 3 = of_nat (?n * unat w * 3)" by (simp add: d)
  moreover have "unat (of_nat (?n * unat w * 3) :: u32) = ?n * unat w * 3" by (rule unat_of_nat_u32) (use lt in simp)
  ultimately show ?thesis by (simp only:)
qed

lemma pair_eq:
  assumes "x < w" and "x' < w" and "k * w + x = k' * w + (x' :: nat)"
  shows "k = k'" and "x = x'"
proof -
  have "(k * w + x) div w = k" "(k' * w + x') div w = k'" using assms(1,2) by simp_all
  with assms(3) show "k = k'" by simp
  with assms(3) show "x = x'" by simp
qed

lemma packed_image:
  assumes ok: "pimg_ok im" and wh: "unat (pi_width im * pi_height im) = unat (pi_height im) * unat (pi_width im)"
    and n: "unat (pi_width im * pi_height im) * 4 < 2 ^ 32" and mall: "\<And>n. \<exists>m. malloc n = Some m \<and> length m = n"
  shows "\<exists>lb. pimg_to_lbuf_packed_rgb malloc im None = Some (Inr (lb, False)) \<and>
    unat (lb_len lb) = 3 * unat (pi_height im) * unat (pi_width im) \<and> lbuf_ok lb \<and>
    (\<forall>x < unat (pi_width im). \<forall>y < unat (pi_height im).
       ldn (lb_bytes lb) (3 * (y * unat (pi_width im) + x)) 3 = Some (pimg_colours im x (unat (pi_height im) - 1 - y)))"
proof -
  let ?w = "unat (pi_width im)" and ?h = "unat (pi_height im)"
  let ?L = "concat (map (\<lambda>k. map (\<lambda>x. (x, k)) [0..<?w]) [0..<?h])"
  let ?v = "\<lambda>(x, k). pimg_colours im x k" and ?a = "\<lambda>(x, k). (?h - 1 - k) * ?w + x"
  have small: "?h * ?w * 3 < 2 ^ 32" using n wh by linarith
  obtain m where m: "malloc (?h * ?w * 3) = Some m" "length m = ?h * ?w * 3" using mall by blast
  have size: "unat (pi_width im * pi_height im * 3) = ?h * ?w * 3"
    using small by (subst unat_mult_lem [THEN iffD1]) (simp_all add: wh)
  have mem: "(x, k) \<in> set ?L \<longleftrightarrow> x < ?w \<and> k < ?h" for x k by (auto simp: image_iff)
  have at: "(?h - 1 - k) * ?w + x < ?h * ?w" "k * ?w + x < ?h * ?w" if "x < ?w" "k < ?h" for x k
  proof -
    have "Suc (?h - 1 - k) * ?w \<le> ?h * ?w" "Suc k * ?w \<le> ?h * ?w" using that by ((intro mult_le_mono1; simp)+)
    then show "(?h - 1 - k) * ?w + x < ?h * ?w" "k * ?w + x < ?h * ?w" using that(1) by simp_all
  qed
  have v: "length (?v e) = 3 \<and> ?a e * 3 + 3 \<le> length m" if "e \<in> set ?L" for e
  proof -
    obtain x k where e: "e = (x, k)" by (cases e)
    have "length (pimg_colours im x k) = 3"
      using ok by (auto simp: pimg_colours_def pimg_ok_def Let_def split: option.splits)
    moreover have "Suc ((?h - 1 - k) * ?w + x) \<le> ?h * ?w" using at(1) [of x k] that mem [of x k] by (simp add: e)
    from mult_le_mono1 [OF this, of 3] have "((?h - 1 - k) * ?w + x) * 3 + 3 \<le> ?h * ?w * 3" by simp
    ultimately show ?thesis by (simp add: e m(2))
  qed
  have inj: "inj_on ?a (set ?L)"
  proof (rule inj_onI)
    fix e e' assume i: "e \<in> set ?L" "e' \<in> set ?L" "?a e = ?a e'"
    obtain x k x' k' where e: "e = (x, k)" "e' = (x', k')" by (cases e, cases e')
    have b: "x < ?w \<and> k < ?h" "x' < ?w \<and> k' < ?h" using i(1,2) unfolding e mem by simp_all
    have "(?h - 1 - k) * ?w + x = (?h - 1 - k') * ?w + x'" using i(3) e by simp
    from pair_eq [OF b(1) [THEN conjunct1] b(2) [THEN conjunct1] this] have "?h - 1 - k = ?h - 1 - k'" "x = x'" .
    moreover have "k = ?h - 1 - (?h - 1 - k)" "k' = ?h - 1 - (?h - 1 - k')" using b by linarith+
    ultimately show "e = e'" unfolding e by metis
  qed
  obtain d where d: "ofold (\<lambda>e m. blit m (?a e * 3) (?v e)) ?L m = Some d" "length d = length m"
    "\<And>e. e \<in> set ?L \<Longrightarrow> ldn d (?a e * 3) 3 = Some (?v e)"
    using ofold_blits [OF v inj] by blast
  let ?body = "\<lambda>k x data. packed_pixel im False (k * ?w + x) \<bind>
    blit data (unat ((pi_height im - of_nat k - 1) * pi_width im * 3) + x * unat (3 :: u32))"
  have "ofold (\<lambda>k. ofold (?body k) [0..<?w]) [0..<?h] m = ofold (\<lambda>(x, k). ?body k x) ?L m"
    by (rule ofold_nested)
  also have "\<dots> = ofold (\<lambda>e m. blit m (?a e * 3) (?v e)) ?L m"
  proof (rule ofold_cong)
    fix e s assume i: "e \<in> set ?L"
    obtain x k where e: "e = (x, k)" by (cases e)
    have b: "x < ?w" "k < ?h" using i unfolding e mem by simp_all
    have "unat ((pi_height im - of_nat k - 1) * pi_width im * 3) = (?h - 1 - k) * ?w * 3"
      by (rule packed_offset [OF b(2) small])
    moreover have "packed_pixel im False (k * ?w + x) = Some (pimg_colours im x k)"
      using at(2) [OF b] by (intro packed_pixel_colours [OF ok]) (simp only: wh)
    ultimately show "(\<lambda>(x, k). ?body k x) e s = blit s (?a e * 3) (?v e)" by (simp add: e add_mult_distrib)
  qed
  finally have loops: "ofold (\<lambda>k. ofold (?body k) [0..<?w]) [0..<?h] m = Some d" using d(1) by simp
  let ?lb = "lbuf_create d (pi_width im * pi_height im * 3) LBUF_FL_FREE"
  have "pimg_to_lbuf_packed_rgb malloc im None = Some (Inr (?lb, False))"
    using m(1) size loops by (simp add: pimg_to_lbuf_packed_rgb_def pimg_to_packed_def lbuf_create_def Let_def)
  moreover have "ldn (lb_bytes ?lb) (3 * (y * ?w + x)) 3 = Some (pimg_colours im x (?h - 1 - y))"
    if "x < ?w" "y < ?h" for x y
  proof -
    have i: "(x, ?h - 1 - y) \<in> set ?L" unfolding mem using that by linarith
    have y: "?h - 1 - (?h - 1 - y) = y" using that by linarith
    from d(3) [OF i] show ?thesis unfolding prod.case y by (simp only: lbuf_create_def lBuf.simps mult.commute)
  qed
  moreover have "lbuf_ok ?lb" "unat (lb_len ?lb) = 3 * ?h * ?w" using d(2) m(2) size by (simp_all add: lbuf_ok_def lbuf_create_def)
  ultimately show ?thesis by blast
qed

section \<open>From the frame to the image\<close>

text \<open>A frame whose viewport was accepted.\<close>

definition good_viewport :: "lBuf \<Rightarrow> lv_framebuffer_desc \<Rightarrow> bool" where
  "good_viewport frame vp \<longleftrightarrow>
     get_vp_desc (lb_bytes frame) (s32 (uint (lb_len frame))) = Some (Inr vp) \<and>
     lbuf_ok frame \<and> unat (lb_len frame) < 2 ^ 31 \<and>
     0 < data_start vp \<and> 0 < visible_height vp \<and> 0 < visible_width vp \<and> int (vp_group vp) dvd visible_width vp"

lemma good_viewport_fits:
  assumes "good_viewport frame vp"
  shows "get_vp_desc (lb_bytes frame) (s32 (uint (lb_len frame))) = Some (Inr vp)" and "vp_fits (lb_bytes frame) vp"
proof -
  let ?n = "lb_len frame"
  note g = assms [unfolded good_viewport_def]
  have u: "uint ?n = int (unat ?n)" by (rule uint_nat)
  have "int (unat ?n) < int (2 ^ 31)" using g by (simp only: of_nat_less_iff)
  then have "uint ?n < 2 ^ 31" unfolding u by simp
  moreover have "- (2 ^ 31) \<le> uint ?n" by (rule order_trans [of _ 0]) simp_all
  ultimately have "s32 (uint ?n) = uint ?n" by (intro s32_small)
  moreover have "uint ?n \<le> int (length (lb_bytes frame))" using g u by (simp only: lbuf_ok_def of_nat_le_iff)
  ultimately have "s32 (uint ?n) \<le> int (length (lb_bytes frame))" by simp
  then show "vp_fits (lb_bytes frame) vp" using g by (intro get_vp_desc_fits) simp_all
  show "get_vp_desc (lb_bytes frame) (s32 (uint (lb_len frame))) = Some (Inr vp)" using g by simp
qed

text \<open>C15: A viewport that the checks accept, with a size above zero and a width of whole groups of pixels, is
  converted without leaving the frame or the image, in each of the three formats, with and without skipping,
  to a new image or to the one given: the image has the size of the viewport, and its planes hold for each
  pixel, the last row first, the red, green and blue of the luminance and the chrominance that the frame has
  at the place of this pixel.\<close>

theorem viewport_image_correct:
  assumes "good_viewport frame vp"
    and "case im of None \<Rightarrow> True | Some i \<Rightarrow> pimg_ok i" and "\<And>n. \<exists>m. malloc n = Some m \<and> length m = n"
  shows "\<exists>i reused. liveimg_get_viewport_pimg malloc im frame skip = Some (Inr (pimg_return im reused i)) \<and>
    pimg_ok i \<and> unat (pi_width i) = out_width vp skip \<and> unat (pi_height i) = nat (visible_height vp) \<and>
    (\<forall>x < out_width vp skip. \<forall>y < nat (visible_height vp).
       pimg_colours i x (nat (visible_height vp) - 1 - y) = colours (viewport_pixel (lb_bytes frame) vp skip x y))"
proof -
  from viewport_image [OF good_viewport_fits [OF assms(1)] assms(2,3), of skip] obtain i vw vh where
    "liveimg_get_viewport_pimg malloc im frame skip = Some (Inr (pimg_return im (same_size im (vw * vh)) i))"
    "pimg_ok i" "pi_width i = vw" "pi_height i = vh" "unat vw = out_width vp skip" "unat vh = nat (visible_height vp)"
    "\<forall>x < out_width vp skip. \<forall>y < nat (visible_height vp).
       pimg_colours i x (nat (visible_height vp) - 1 - y) = colours (viewport_pixel (lb_bytes frame) vp skip x y)"
    by blast
  then show ?thesis by blast
qed

text \<open>C16: The way of a live view frame to a picture: the viewport of a frame, converted to an image and packed, is
  a buffer with three bytes for each pixel, the first row first, that hold the red, green and blue of the
  pixel of the frame at this place.\<close>

theorem viewport_packed_correct:
  assumes "good_viewport frame vp" and "\<And>n. \<exists>m. malloc n = Some m \<and> length m = n"
  shows "\<exists>i lb. liveimg_get_viewport_pimg malloc None frame skip = Some (Inr (Ret_new i, None)) \<and>
    pimg_to_lbuf_packed_rgb malloc i None = Some (Inr (lb, False)) \<and> lbuf_ok lb \<and>
    unat (lb_len lb) = 3 * nat (visible_height vp) * out_width vp skip \<and>
    (\<forall>x < out_width vp skip. \<forall>y < nat (visible_height vp).
       ldn (lb_bytes lb) (3 * (y * out_width vp skip + x)) 3 = Some (colours (viewport_pixel (lb_bytes frame) vp skip x y)))"
proof -
  have none: "case None of None \<Rightarrow> True | Some i \<Rightarrow> pimg_ok i" by simp
  from viewport_image [OF good_viewport_fits [OF assms(1)] none assms(2), of skip] obtain i vw vh where
    i: "liveimg_get_viewport_pimg malloc None frame skip = Some (Inr (pimg_return None (same_size None (vw * vh)) i))"
    "pimg_ok i" "pi_width i = vw" "pi_height i = vh" "unat vw = out_width vp skip" "unat vh = nat (visible_height vp)"
    "unat (vw * vh) * 4 < 2 ^ 32" "unat (vw * vh) = unat vh * unat vw"
    "\<forall>x < out_width vp skip. \<forall>y < nat (visible_height vp).
       pimg_colours i x (nat (visible_height vp) - 1 - y) = colours (viewport_pixel (lb_bytes frame) vp skip x y)"
    by blast
  have "pimg_return None (same_size None (vw * vh)) i = (Ret_new i, None)" by (simp add: pimg_return_def same_size_def)
  moreover have wh: "unat (pi_width i * pi_height i) = unat (pi_height i) * unat (pi_width i)"
    and n: "unat (pi_width i * pi_height i) * 4 < 2 ^ 32" using i(3,4,7,8) by simp_all
  obtain lb where "pimg_to_lbuf_packed_rgb malloc i None = Some (Inr (lb, False))"
    "unat (lb_len lb) = 3 * unat (pi_height i) * unat (pi_width i)" "lbuf_ok lb"
    "\<forall>x < unat (pi_width i). \<forall>y < unat (pi_height i).
       ldn (lb_bytes lb) (3 * (y * unat (pi_width i) + x)) 3 = Some (pimg_colours i x (unat (pi_height i) - 1 - y))"
    using packed_image [OF i(2) wh n assms(2)] by blast
  ultimately show ?thesis using i(1,9) unfolding i(3,4,5,6) by (intro exI [of _ i] exI [of _ lb]) simp
qed

section \<open>Example\<close>

text \<open>A frame with a viewport of two by two pixels, two bytes for each.\<close>

definition example_frame :: lBuf where
  "example_frame = lbuf_create
     (concat (map mem32 [2, 2, 0, 0, 0, 32, 0, 0]) @ concat (map mem32 [2, 68, 2, 2, 2, 0, 0, 0, 0]) @
      [128, 10, 128, 20, 128, 30, 128, 40]) 76 LBUF_FL_FREE"

definition example_vp :: lv_framebuffer_desc where
  "example_vp = \<lparr> fb_type = 2, data_start = 68, buffer_width = 2, visible_width = 2, visible_height = 2,
     margin_left = 0, margin_top = 0, margin_right = 0, margin_bot = 0 \<rparr>"

lemma example_viewport: "good_viewport example_frame example_vp"
proof -
  have "get_vp_desc (lb_bytes example_frame) 76 = Some (Inr example_vp)"
    by (simp add: get_vp_desc_def get_fb_desc_def check_fb_desc_def lv_proto_compatible_def lv_desc_def header_fields
        fb_types ld_int_def ldn_def example_frame_def example_vp_def lbuf_create_def mem32_def host32_def ckint_def
        sizeof_lv_framebuffer_desc_def sdiv_nonneg)
  moreover have "s32 (uint (lb_len example_frame)) = 76" by (simp add: example_frame_def lbuf_create_def s32_small)
  ultimately show ?thesis
    by (simp add: good_viewport_def example_vp_def vp_group_def fb_types lbuf_ok_def)
      (simp add: example_frame_def lbuf_create_def mem32_def)
qed

definition example_alloc :: "nat \<Rightarrow> bytes option" where "example_alloc n = Some (replicate n 0)"

lemma example_sizes: "out_width example_vp False = 2" "nat (visible_height example_vp) = 2"
  by (simp_all add: out_width_def example_vp_def)

lemma example_alloc: "\<exists>m. example_alloc n = Some m \<and> length m = n"
  by (simp add: example_alloc_def)

theorem viewport_image_correct_witness:
  "\<exists>i reused. liveimg_get_viewport_pimg example_alloc None example_frame False = Some (Inr (pimg_return None reused i)) \<and>
    unat (pi_width i) = 2 \<and> pimg_colours i 1 0 = colours (viewport_pixel (lb_bytes example_frame) example_vp False 1 1)"
proof -
  obtain i reused where
    i: "liveimg_get_viewport_pimg example_alloc None example_frame False = Some (Inr (pimg_return None reused i))"
    "unat (pi_width i) = 2"
    "\<And>x y. x < 2 \<Longrightarrow> y < 2 \<Longrightarrow> pimg_colours i x (2 - 1 - y) = colours (viewport_pixel (lb_bytes example_frame) example_vp False x y)"
    using viewport_image_correct [OF example_viewport _ example_alloc, of None False] unfolding example_sizes by auto
  from i(3) [of 1 1] i(1,2) show ?thesis by auto
qed

theorem viewport_packed_correct_witness:
  "\<exists>i lb. liveimg_get_viewport_pimg example_alloc None example_frame False = Some (Inr (Ret_new i, None)) \<and>
    pimg_to_lbuf_packed_rgb example_alloc i None = Some (Inr (lb, False)) \<and> ldn (lb_bytes lb) 9 3 = Some [40, 40, 40]"
proof -
  have p: "colours (viewport_pixel (lb_bytes example_frame) example_vp False 1 1) = [40, 40, 40]"
    by (simp add: viewport_pixel_def example_frame_def example_vp_def lbuf_create_def fb_types mem32_def colours_def
        yuv_to_r_def yuv_to_g_def yuv_to_b_def clip_yuv_def Let_def)
  obtain i lb where i: "liveimg_get_viewport_pimg example_alloc None example_frame False = Some (Inr (Ret_new i, None))"
    "pimg_to_lbuf_packed_rgb example_alloc i None = Some (Inr (lb, False))"
    "\<And>x y. x < 2 \<Longrightarrow> y < 2 \<Longrightarrow> ldn (lb_bytes lb) (3 * (y * 2 + x)) 3 =
       Some (colours (viewport_pixel (lb_bytes example_frame) example_vp False x y))"
    using viewport_packed_correct [OF example_viewport example_alloc, of False] unfolding example_sizes by auto
  from i(3) [of 1 1] i(1,2) p show ?thesis by auto
qed

end
